(* ===== verification/Prelude.thy ===== *)
theory Prelude
  imports Main "HOL-Library.Multiset" "HOL-Library.Char_ord" "HOL-Library.List_Lexorder"
begin

text \<open>
  Shared ground of the development: the part of the Go language and of its standard library
  that KubeChan's sources use, and the generic lemmas on lists, strings and integers that the
  component theories share.

  \<^item> Go's \<open>int\<close> and \<open>int64\<close> are \<^typ>\<open>int\<close> values kept in range by \<open>wrap64\<close>
    where arithmetic can overflow; \<open>time.Time\<close> is an \<^typ>\<open>int\<close> number of nanoseconds since
    the Unix epoch and \<open>time.Duration\<close> an \<^typ>\<open>int\<close> in the signed 64-bit range.
  \<^item> A Go string is a \<^typ>\<open>string\<close> of bytes. Letter case, white space and quoting are modelled
    on ASCII; the names, kinds, labels and clock times the program handles are ASCII.
  \<^item> A Go map is an association list read with \<open>map_of\<close>; a missing key of a
    \<open>map[string]string\<close> reads as the empty string (\<open>go_idx\<close>).
  \<^item> \<open>sort.Slice\<close> is the stable insertion sort \<open>sort_slice\<close>; that is what Go runs on up
    to twelve elements, and every correct sort returns the same list when the order is total
    on the elements.
\<close>

named_theorems go_std "equations of the Go standard library model"
named_theorems api_rules "what the calls of the Kubernetes client keep and change"
named_theorems keeps "operations that keep an invariant"

type_synonym time = int
type_synonym duration = int
type_synonym str_map = "(string \<times> string) list"
type_synonym namespaced_name = "string \<times> string"

section \<open>64-bit integers and durations\<close>

definition max_int64 :: int where "max_int64 = 9223372036854775807"
definition min_int64 :: int where "min_int64 = - 9223372036854775808"

definition wrap64 :: "int \<Rightarrow> int" where
  "wrap64 x = (x + 9223372036854775808) mod 18446744073709551616 - 9223372036854775808"

definition in_int64 :: "int \<Rightarrow> bool" where
  "in_int64 x \<longleftrightarrow> min_int64 \<le> x \<and> x \<le> max_int64"

lemma wrap64_range: "in_int64 (wrap64 x)"
proof -
  have "0 \<le> (x + 9223372036854775808) mod 18446744073709551616"
    and "(x + 9223372036854775808) mod 18446744073709551616 < 18446744073709551616"
    by simp_all
  then show ?thesis
    unfolding in_int64_def wrap64_def min_int64_def max_int64_def by linarith
qed

lemma wrap64_id [simp]: "in_int64 x \<Longrightarrow> wrap64 x = x"
  unfolding in_int64_def wrap64_def min_int64_def max_int64_def by simp

lemma wrap64_over:
  assumes "max_int64 < x" and "x \<le> max_int64 + 18446744073709551616"
  shows "wrap64 x = x - 18446744073709551616"
proof -
  have "(x + 9223372036854775808) mod 18446744073709551616 = (x + 9223372036854775808 - 18446744073709551616) mod 18446744073709551616"
    by (rule minus_mod_self2 [symmetric])
  also have "\<dots> = x + 9223372036854775808 - 18446744073709551616"
    using assms by (intro mod_pos_pos_trivial) (simp_all add: max_int64_def)
  finally show ?thesis by (simp add: wrap64_def)
qed

lemma wrap64_idem [simp]: "wrap64 (wrap64 x) = wrap64 x"
  by (simp add: wrap64_range)

abbreviation nanosecond :: duration where "nanosecond \<equiv> 1"
abbreviation second :: duration where "second \<equiv> 1000000000"
abbreviation minute :: duration where "minute \<equiv> 60000000000"
abbreviation hour :: duration where "hour \<equiv> 3600000000000"

text \<open>\<open>t.Sub(u)\<close> and \<open>time.Since\<close> saturate at the ends of the duration range.\<close>

definition time_sub :: "time \<Rightarrow> time \<Rightarrow> duration" where
  "time_sub t u = max min_int64 (min max_int64 (t - u))"

lemma time_sub_range: "in_int64 (time_sub t u)"
  by (simp add: in_int64_def time_sub_def min_int64_def max_int64_def)

lemma time_sub_exact: "in_int64 (t - u) \<Longrightarrow> time_sub t u = t - u"
  by (simp add: in_int64_def time_sub_def min_int64_def max_int64_def)

lemma time_sub_mono: "t \<le> t' \<Longrightarrow> time_sub t u \<le> time_sub t' u"
  by (auto simp: time_sub_def)

lemma time_sub_antimono: "u \<le> u' \<Longrightarrow> time_sub t u' \<le> time_sub t u"
  by (auto simp: time_sub_def)

text \<open>
  \<open>metav1.Now()\<close>: the JSON form of a \<open>metav1.Time\<close> has whole seconds, so an instant that
  the program stores in an object and reads back is a whole number of seconds.
\<close>

definition metav1_now :: "time \<Rightarrow> time" where
  "metav1_now now = now div second * second"

lemma metav1_now_le: "metav1_now now \<le> now"
  unfolding metav1_now_def using minus_mod_eq_div_mult [of now second] by simp

lemma metav1_now_gt: "now - second < metav1_now now"
  unfolding metav1_now_def using minus_mod_eq_div_mult [of now second] by simp

text \<open>\<open>Unix()\<close>: whole seconds since the epoch, rounded down.\<close>

definition unix :: "time \<Rightarrow> int" where
  "unix t = t div second"

lemma int_div_less_iff:
  fixes a q n :: int
  assumes q: "0 < q"
  shows "a div q < n \<longleftrightarrow> a < n * q"
proof -
  have a: "a = a div q * q + a mod q" "0 \<le> a mod q" "a mod q < q" using q by simp_all
  show ?thesis
  proof
    assume "a div q < n"
    then have "(a div q + 1) * q \<le> n * q" using q by (intro mult_right_mono) simp_all
    then have "a div q * q + q \<le> n * q" by (simp add: distrib_right)
    with a show "a < n * q" by linarith
  next
    assume less: "a < n * q"
    show "a div q < n"
    proof (rule ccontr)
      assume "\<not> a div q < n"
      then have "n * q \<le> a div q * q" using q by (intro mult_right_mono) simp_all
      with a less show False by linarith
    qed
  qed
qed

text \<open>Go's integer division and remainder truncate towards zero.\<close>

definition go_quot :: "int \<Rightarrow> int \<Rightarrow> int" where
  "go_quot a b = sgn a * sgn b * (\<bar>a\<bar> div \<bar>b\<bar>)"

definition go_rem :: "int \<Rightarrow> int \<Rightarrow> int" where
  "go_rem a b = a - b * go_quot a b"

lemma go_quot_nonneg: "0 \<le> a \<Longrightarrow> 0 < b \<Longrightarrow> go_quot a b = a div b"
  by (cases "a = 0") (auto simp: go_quot_def)

lemma go_rem_nonneg: "0 \<le> a \<Longrightarrow> 0 < b \<Longrightarrow> go_rem a b = a mod b"
  by (simp add: go_rem_def go_quot_nonneg minus_mult_div_eq_mod)

text \<open>\<open>Duration.Round(m)\<close> for a positive \<open>m\<close>, with its overflow guards.\<close>

definition duration_round :: "duration \<Rightarrow> duration \<Rightarrow> duration" where
  "duration_round d m =
     (if m \<le> 0 then d
      else if d < 0 then
        (let r = - go_rem d m in
         if r + r < m then d + r
         else let d1 = wrap64 (d - m + r) in if d1 < d then d1 else min_int64)
      else
        (let r = go_rem d m in
         if r + r < m then d - r
         else let d1 = wrap64 (d + m - r) in if d1 > d then d1 else max_int64))"

section \<open>Strings\<close>

definition char_lower :: "char \<Rightarrow> char" where
  "char_lower c = (if 65 \<le> (of_char c :: nat) \<and> (of_char c :: nat) \<le> 90
     then char_of ((of_char c :: nat) + 32) else c)"

definition to_lower :: "string \<Rightarrow> string" where
  "to_lower s = map char_lower s"

lemma char_lower_idem [simp]: "char_lower (char_lower c) = char_lower c"
proof (cases "65 \<le> (of_char c :: nat) \<and> (of_char c :: nat) \<le> 90")
  case True
  then have "(of_char (char_of ((of_char c :: nat) + 32) :: char) :: nat) = of_char c + 32"
    by (simp add: of_char_mod_256)
  with True show ?thesis by (simp add: char_lower_def)
next
  case False
  then have "char_lower c = c" by (simp only: char_lower_def if_False)
  then show ?thesis by simp
qed

lemma to_lower_idem [simp]: "to_lower (to_lower s) = to_lower s"
  by (simp add: to_lower_def)

lemma length_to_lower [simp]: "length (to_lower s) = length s"
  by (simp add: to_lower_def)

lemma to_lower_append [simp]: "to_lower (s @ t) = to_lower s @ to_lower t"
  by (simp add: to_lower_def)

lemma take_to_lower_append: "n \<le> length s \<Longrightarrow> take n (to_lower (s @ t)) = take n (to_lower s)"
  by (simp add: to_lower_def)

lemma length_clip: "length (if length s > n then take n s else s) \<le> n"
  by simp

definition is_digit :: "char \<Rightarrow> bool" where
  "is_digit c \<longleftrightarrow> 48 \<le> (of_char c :: nat) \<and> (of_char c :: nat) \<le> 57"

text \<open>Digits of a radix up to 36, as \<open>strconv.FormatInt\<close> writes them.\<close>

definition digit_char :: "nat \<Rightarrow> char" where
  "digit_char d = (if d < 10 then char_of (48 + d) else char_of (87 + d))"

definition digit_value :: "char \<Rightarrow> nat" where
  "digit_value c = (if is_digit c then of_char c - 48 else of_char c - 87)"

lemma digit_value_char [simp]: "d < 36 \<Longrightarrow> digit_value (digit_char d) = d"
  by (auto simp: digit_value_def digit_char_def is_digit_def of_char_mod_256)

lemma is_digit_char: "d < 10 \<Longrightarrow> is_digit (digit_char d)"
  by (simp add: is_digit_def digit_char_def of_char_mod_256)

fun radix :: "nat \<Rightarrow> nat \<Rightarrow> string" where
  "radix b n = (if n < b \<or> b < 2 then [digit_char n]
     else radix b (n div b) @ [digit_char (n mod b)])"

declare radix.simps [simp del]

definition format_int :: "nat \<Rightarrow> int \<Rightarrow> string" where
  "format_int b i = (if i < 0 then CHR ''-'' # radix b (nat (- i)) else radix b (nat i))"

abbreviation itoa :: "int \<Rightarrow> string" where "itoa \<equiv> format_int 10"

definition unradix :: "nat \<Rightarrow> string \<Rightarrow> nat" where
  "unradix b s = foldl (\<lambda>a c. a * b + digit_value c) 0 s"

lemma unradix_snoc [simp]: "unradix b (s @ [c]) = unradix b s * b + digit_value c"
  by (simp add: unradix_def)

lemma mod_lt_36:
  assumes "2 \<le> b" and "b \<le> (36::nat)"
  shows "n mod b < 36"
proof -
  from assms have "n mod b < b" by (intro mod_less_divisor) simp
  with assms show ?thesis by linarith
qed

lemma unradix_radix:
  assumes "2 \<le> b" and "b \<le> 36"
  shows "unradix b (radix b n) = n"
  using assms
proof (induction b n rule: radix.induct)
  case (1 b n)
  show ?case
  proof (cases "n < b")
    case True
    with 1 have "digit_value (digit_char n) = n" by simp
    with True show ?thesis by (subst radix.simps) (simp add: unradix_def)
  next
    case False
    with 1 have "unradix b (radix b (n div b)) = n div b" by simp
    moreover have "digit_value (digit_char (n mod b)) = n mod b"
      using mod_lt_36 [OF "1.prems"] by (rule digit_value_char)
    moreover have "radix b n = radix b (n div b) @ [digit_char (n mod b)]"
      using False "1.prems" by (subst radix.simps) simp
    ultimately show ?thesis by (simp only: unradix_snoc div_mult_mod_eq)
  qed
qed

lemma radix_inj:
  assumes "2 \<le> b" and "b \<le> 36" and "radix b m = radix b n"
  shows "m = n"
  using unradix_radix [OF assms(1,2)] assms(3) by metis

lemma radix_nonempty: "radix b n \<noteq> []"
  by (subst radix.simps) simp

lemma digit_char_not_minus: "d < 36 \<Longrightarrow> digit_char d \<noteq> CHR ''-''"
proof
  assume d: "d < 36" and "digit_char d = CHR ''-''"
  then have "digit_value (CHR ''-'') = d" using digit_value_char [OF d] by simp
  then have "d = digit_value (CHR ''-'')" by simp
  also have "\<dots> = 0" by (simp add: digit_value_def is_digit_def)
  finally have "digit_char 0 = CHR ''-''" using \<open>digit_char d = CHR ''-''\<close> by simp
  then have "(of_char (char_of (48 :: nat) :: char) :: nat) = of_char (CHR ''-'')"
    by (simp add: digit_char_def)
  then show False by (simp add: of_char_mod_256)
qed

lemma radix_no_minus:
  assumes "2 \<le> b" and "b \<le> 36"
  shows "CHR ''-'' \<notin> set (radix b n)"
  using assms
proof (induction b n rule: radix.induct)
  case (1 b n)
  show ?case
  proof (cases "n < b")
    case True
    with 1 have "n < 36" by simp
    with True show ?thesis using digit_char_not_minus [of n] by (subst radix.simps) auto
  next
    case False
    have m: "n mod b < 36" using mod_lt_36 [OF "1.prems"] .
    from False 1 have "CHR ''-'' \<notin> set (radix b (n div b))" by simp
    with False "1.prems" show ?thesis using digit_char_not_minus [OF m]
      by (subst radix.simps) auto
  qed
qed

text \<open>Formatting an integer in a radix between 2 and 36 is injective.\<close>

lemma format_int_inj:
  assumes b: "2 \<le> b" "b \<le> 36" and eq: "format_int b i = format_int b j"
  shows "i = j"
proof -
  have no: "radix b m \<noteq> CHR ''-'' # radix b n" for m n
    using radix_no_minus [OF b, of m] by (metis list.set_intros(1))
  show ?thesis
  proof (cases "i < 0"; cases "j < 0")
    assume "i < 0" "j < 0"
    with eq have "nat (- i) = nat (- j)" by (auto simp: format_int_def intro: radix_inj [OF b])
    with \<open>i < 0\<close> \<open>j < 0\<close> show ?thesis by simp
  next
    assume "i < 0" "\<not> j < 0"
    with eq no [of "nat j" "nat (- i)"] show ?thesis by (simp add: format_int_def)
  next
    assume "\<not> i < 0" "j < 0"
    with eq no [of "nat i" "nat (- j)"] show ?thesis by (simp add: format_int_def)
  next
    assume "\<not> i < 0" "\<not> j < 0"
    with eq have "nat i = nat j" by (auto simp: format_int_def intro: radix_inj [OF b])
    with \<open>\<not> i < 0\<close> \<open>\<not> j < 0\<close> show ?thesis by simp
  qed
qed


section \<open>Reading numbers\<close>

definition digits_value :: "string \<Rightarrow> int" where
  "digits_value s = int (unradix 10 s)"

text \<open>
  \<open>strconv.ParseInt(s, 10, 64)\<close> and \<open>strconv.Atoi\<close>: an optional sign, then decimal digits
  only, and a value in range.
\<close>

definition parse_int64 :: "string \<Rightarrow> int option" where
  "parse_int64 s =
     (let (neg, ds) = (case s of [] \<Rightarrow> (False, [])
            | c # cs \<Rightarrow> if c = CHR ''-'' then (True, cs)
                else if c = CHR ''+'' then (False, cs) else (False, s));
          v = (if neg then - digits_value ds else digits_value ds)
      in if ds = [] \<or> \<not> list_all is_digit ds \<or> \<not> in_int64 v then None else Some v)"

lemma parse_int64_range: "parse_int64 s = Some v \<Longrightarrow> in_int64 v"
  by (auto simp: parse_int64_def Let_def split: if_splits prod.splits)

text \<open>
  \<open>fmt.Sscanf(s, "%d", &n)\<close>: leading white space is skipped (a newline is an error), then an
  optional sign and at least one digit are read; what follows the digits is not looked at.
\<close>

definition is_blank :: "char \<Rightarrow> bool" where
  "is_blank c \<longleftrightarrow> c = CHR '' '' \<or> c = CHR 0x09 \<or> c = CHR 0x0B \<or> c = CHR 0x0C \<or> c = CHR 0x0D"

fun skip_space :: "string \<Rightarrow> string option" where
  "skip_space [] = Some []"
| "skip_space (c # cs) = (if c = CHR 0x0A then None
     else if is_blank c then skip_space cs else Some (c # cs))"

definition scan_d :: "string \<Rightarrow> int option" where
  "scan_d s = (case skip_space s of None \<Rightarrow> None
     | Some t \<Rightarrow>
        (let (sign, rest) = (case t of [] \<Rightarrow> ([], [])
               | c # cs \<Rightarrow> if c = CHR ''-'' \<or> c = CHR ''+'' then ([c], cs) else ([], t))
         in parse_int64 (sign @ takeWhile is_digit rest)))"

text \<open>\<open>strings.SplitN(s, sep, 2)\<close> for a one-byte separator.\<close>

definition split_first :: "char \<Rightarrow> string \<Rightarrow> string list" where
  "split_first sep s = (if sep \<in> set s
     then [takeWhile (\<lambda>c. c \<noteq> sep) s, tl (dropWhile (\<lambda>c. c \<noteq> sep) s)] else [s])"

text \<open>\<open>strings.Split(s, sep)\<close> for a one-byte separator.\<close>

fun split_all :: "char \<Rightarrow> string \<Rightarrow> string list" where
  "split_all sep [] = [[]]"
| "split_all sep (c # cs) = (if c = sep then [] # split_all sep cs
     else (case split_all sep cs of [] \<Rightarrow> [[c]] | w # ws \<Rightarrow> (c # w) # ws))"

lemma split_all_nonempty: "split_all sep s \<noteq> []"
  by (cases s) (auto split: list.splits)

lemma sep_split:
  assumes "sep \<notin> set a" and "sep \<notin> set b" and "a @ sep # r = b @ sep # s"
  shows "a = b" and "r = s"
proof -
  have "takeWhile (\<lambda>c. c \<noteq> sep) (a @ sep # r) = a" "takeWhile (\<lambda>c. c \<noteq> sep) (b @ sep # s) = b"
    using assms(1,2) by (auto simp: takeWhile_append intro!: takeWhile_eq_all_conv [THEN iffD2])
  with assms(3) show "a = b" by metis
  with assms(3) show "r = s" by simp
qed

fun join :: "string \<Rightarrow> string list \<Rightarrow> string" where
  "join sep [] = []"
| "join sep [s] = s"
| "join sep (s # t # ts) = s @ sep @ join sep (t # ts)"

lemma join_split_all: "join [sep] (split_all sep s) = s"
proof (induction s)
  case (Cons c cs)
  then show ?case
    by (cases "split_all sep cs"; cases "tl (split_all sep cs)")
      (auto simp: split_all_nonempty)
qed simp

section \<open>Writing values: \<open>fmt.Sprintf\<close>\<close>

definition hex2 :: "nat \<Rightarrow> string" where
  "hex2 n = [digit_char (n div 16), digit_char (n mod 16)]"

text \<open>\<open>%q\<close>: a double-quoted Go string; bytes above 127 belong to printable runes.\<close>

definition quote_char :: "char \<Rightarrow> string" where
  "quote_char c =
     (if c = CHR 0x22 \<or> c = CHR 0x5C then [CHR 0x5C, c]
      else if c = CHR 0x07 then [CHR 0x5C, CHR ''a'']
      else if c = CHR 0x08 then [CHR 0x5C, CHR ''b'']
      else if c = CHR 0x0C then [CHR 0x5C, CHR ''f'']
      else if c = CHR 0x0A then [CHR 0x5C, CHR ''n'']
      else if c = CHR 0x0D then [CHR 0x5C, CHR ''r'']
      else if c = CHR 0x09 then [CHR 0x5C, CHR ''t'']
      else if c = CHR 0x0B then [CHR 0x5C, CHR ''v'']
      else if (of_char c :: nat) < 32 \<or> c = CHR 0x7F
        then [CHR 0x5C, CHR ''x''] @ hex2 (of_char c)
      else [c])"

definition quote :: "string \<Rightarrow> string" where
  "quote s = [CHR 0x22] @ concat (map quote_char s) @ [CHR 0x22]"

text \<open>
  \<open>Duration.String()\<close>: hours, minutes and seconds with a fraction, or one of the smaller units
  below a second. The micro sign is the two bytes of its UTF-8 encoding.
\<close>

fun frac_digits :: "nat \<Rightarrow> nat \<Rightarrow> string" where
  "frac_digits 0 v = []"
| "frac_digits (Suc k) v = frac_digits k (v div 10) @ [digit_char (v mod 10)]"

definition fmt_frac :: "nat \<Rightarrow> nat \<Rightarrow> string" where
  "fmt_frac prec v =
     (let ds = rev (dropWhile (\<lambda>c. c = CHR ''0'') (rev (frac_digits prec v)))
      in if ds = [] then [] else CHR ''.'' # ds)"

definition duration_string :: "duration \<Rightarrow> string" where
  "duration_string d =
     (let u = nat \<bar>d\<bar>;
          body = (if u = 0 then ''0s''
            else if u < 1000 then radix 10 u @ ''ns''
            else if u < 1000000 then radix 10 (u div 1000) @ fmt_frac 3 (u mod 1000) @ [CHR 0xC2, CHR 0xB5] @ ''s''
            else if u < 1000000000 then radix 10 (u div 1000000) @ fmt_frac 6 (u mod 1000000) @ ''ms''
            else (let sec = u div 1000000000; frac = fmt_frac 9 (u mod 1000000000);
                      m = sec div 60; h = m div 60
                  in (if h > 0 then radix 10 h @ ''h'' else []) @
                     (if m > 0 then radix 10 (m mod 60) @ ''m'' else []) @
                     radix 10 (sec mod 60) @ frac @ ''s''))
      in if d < 0 then CHR ''-'' # body else body)"

section \<open>Maps, lists and sorting\<close>

text \<open>
  The order in which Go ranges over a map: a function of the place in the program and of the keys, of which
  the language promises only that it visits each key once.
\<close>

type_synonym range_order = "string list \<Rightarrow> string list \<Rightarrow> string list"

definition permuting :: "range_order \<Rightarrow> bool" where
  "permuting ord \<longleftrightarrow> (\<forall>tag ks. mset (ord tag ks) = mset ks)"

lemma permuting_set: "permuting ord \<Longrightarrow> set (ord tag ks) = set ks"
  unfolding permuting_def by (metis mset_eq_setD)

definition go_idx :: "str_map \<Rightarrow> string \<Rightarrow> string" where
  "go_idx m k = (case map_of m k of None \<Rightarrow> [] | Some v \<Rightarrow> v)"

text \<open>Storing into a Go map: an existing entry keeps its place, a new key goes last.\<close>

fun map_put :: "'k \<Rightarrow> 'v \<Rightarrow> ('k \<times> 'v) list \<Rightarrow> ('k \<times> 'v) list" where
  "map_put k v [] = [(k, v)]"
| "map_put k v ((k', v') # m) = (if k = k' then (k, v) # m else (k', v') # map_put k v m)"

lemma map_of_map_put [simp]: "map_of (map_put k v m) = (map_of m)(k \<mapsto> v)"
  by (induction m) auto

lemma keys_map_put [simp]: "fst ` set (map_put k v m) = insert k (fst ` set m)"
proof (induction m)
  case (Cons e m)
  then show ?case by (cases e) (simp add: insert_commute)
qed simp

lemma set_map_put_subset: "set (map_put k v m) \<subseteq> insert (k, v) (set m)"
  by (induction m) (auto split: if_splits)

lemma distinct_map_put [simp]: "distinct (map fst (map_put k v m)) = distinct (map fst m)"
proof (induction m)
  case (Cons e m)
  then show ?case by (cases e) simp
qed simp

lemma map_put_distinct_iff: "distinct (map fst m) \<Longrightarrow> map_of m k = Some v \<longleftrightarrow> (k, v) \<in> set m"
  by (simp add: map_of_eq_Some_iff)

definition contains_string :: "string list \<Rightarrow> string \<Rightarrow> bool" where
  "contains_string slice s = list_ex (\<lambda>v. v = s) slice"

lemma contains_string_iff [simp]: "contains_string slice s \<longleftrightarrow> s \<in> set slice"
  by (auto simp: contains_string_def list_ex_iff)

text \<open>
  The insertion sort of \<open>sort.Slice\<close>: the sorted prefix is kept in reverse, and the next
  element moves left past every element it is less than.
\<close>

fun ins_left :: "('a \<Rightarrow> 'a \<Rightarrow> bool) \<Rightarrow> 'a \<Rightarrow> 'a list \<Rightarrow> 'a list" where
  "ins_left lt x [] = [x]"
| "ins_left lt x (y # ys) = (if lt x y then y # ins_left lt x ys else x # y # ys)"

definition sort_slice :: "('a \<Rightarrow> 'a \<Rightarrow> bool) \<Rightarrow> 'a list \<Rightarrow> 'a list" where
  "sort_slice lt xs = rev (foldl (\<lambda>acc x. ins_left lt x acc) [] xs)"

lemma mset_ins_left [simp]: "mset (ins_left lt x ys) = add_mset x (mset ys)"
  by (induction ys) auto

lemma mset_foldl_ins_left:
  "mset (foldl (\<lambda>acc x. ins_left lt x acc) acc xs) = mset acc + mset xs"
  by (induction xs arbitrary: acc) auto

lemma mset_sort_slice [simp]: "mset (sort_slice lt xs) = mset xs"
  by (simp add: sort_slice_def mset_foldl_ins_left)

lemma set_sort_slice [simp]: "set (sort_slice lt xs) = set xs"
  by (metis mset_sort_slice set_mset_mset)

lemma length_sort_slice [simp]: "length (sort_slice lt xs) = length xs"
  by (metis mset_sort_slice size_mset)

lemma distinct_sort_slice [simp]: "distinct (sort_slice lt xs) = distinct xs"
  by (metis distinct_count_atmost_1 mset_sort_slice set_sort_slice mset_eq_imp_distinct_iff)

lemma sort_slice_Nil_iff [simp]: "sort_slice lt xs = [] \<longleftrightarrow> xs = []"
  by (metis length_0_conv length_sort_slice)

text \<open>
  For a strict weak order (asymmetric, with a transitive complement) the result is sorted: no
  element is less than one before it.
\<close>

definition strict_weak :: "('a \<Rightarrow> 'a \<Rightarrow> bool) \<Rightarrow> bool" where
  "strict_weak lt \<longleftrightarrow> (\<forall>x y. lt x y \<longrightarrow> \<not> lt y x) \<and>
     (\<forall>x y z. \<not> lt x y \<longrightarrow> \<not> lt y z \<longrightarrow> \<not> lt x z)"

lemma strict_weak_asym: "strict_weak lt \<Longrightarrow> lt x y \<Longrightarrow> \<not> lt y x"
  unfolding strict_weak_def by blast

lemma strict_weak_trans: "strict_weak lt \<Longrightarrow> \<not> lt x y \<Longrightarrow> \<not> lt y z \<Longrightarrow> \<not> lt x z"
  unfolding strict_weak_def by blast

lemma sorted_ins_left:
  assumes "strict_weak lt" and "sorted_wrt (\<lambda>a b. \<not> lt a b) ys"
  shows "sorted_wrt (\<lambda>a b. \<not> lt a b) (ins_left lt x ys)"
  using assms(2)
proof (induction ys)
  case (Cons y ys)
  have set: "set (ins_left lt x ys) = insert x (set ys)"
    by (metis mset_ins_left set_mset_add_mset_insert set_mset_mset)
  show ?case
  proof (cases "lt x y")
    case True
    then have "\<not> lt y x" using assms(1) by (blast dest: strict_weak_asym)
    with True Cons set show ?thesis by auto
  next
    case False
    have "\<not> lt x z" if "z \<in> set ys" for z
      using Cons.prems that strict_weak_trans [OF assms(1) False] by auto
    with False Cons.prems show ?thesis by auto
  qed
qed simp

lemma sorted_sort_slice:
  assumes "strict_weak lt"
  shows "sorted_wrt (\<lambda>a b. \<not> lt b a) (sort_slice lt xs)"
proof -
  have "sorted_wrt (\<lambda>a b. \<not> lt a b) (foldl (\<lambda>acc x. ins_left lt x acc) acc xs)"
    if "sorted_wrt (\<lambda>a b. \<not> lt a b) acc" for acc
    using that by (induction xs arbitrary: acc) (auto intro: sorted_ins_left [OF assms])
  from this [of "[]"] show ?thesis by (simp add: sort_slice_def sorted_wrt_rev)
qed

lemma hd_sort_slice_least:
  assumes "strict_weak lt" and "sort_slice lt xs = y # ys" and "x \<in> set xs"
  shows "\<not> lt x y"
proof -
  have "x \<in> set (y # ys)" using assms(2,3) by (metis set_sort_slice)
  moreover have "sorted_wrt (\<lambda>a b. \<not> lt b a) (y # ys)"
    using sorted_sort_slice [OF assms(1), of xs] assms(2) by simp
  ultimately show ?thesis using assms(1) by (auto dest: strict_weak_asym)
qed

text \<open>Sorting by a key with pairwise different values has one result.\<close>

lemma strict_weak_key: "strict_weak (\<lambda>a b. (k a :: 'b::linorder) < k b)"
  by (auto simp: strict_weak_def)

lemma sort_slice_key_unique:
  fixes k :: "'a \<Rightarrow> 'b::linorder"
  assumes "inj_on k (set xs)"
  shows "sort_slice (\<lambda>a b. k a < k b) xs = sort_key k xs"
proof (rule sym, rule properties_for_sort_key)
  let ?ys = "sort_slice (\<lambda>a b. k a < k b) xs"
  show "mset ?ys = mset xs" by simp
  show "sorted (map k ?ys)"
    using sorted_sort_slice [OF strict_weak_key [of k], of xs]
    by (simp add: sorted_map not_less sorted_wrt_map)
  fix x assume "x \<in> set ?ys"
  then have x: "x \<in> set xs" by simp
  have same: "filter (\<lambda>y. k x = k y) zs = filter (\<lambda>y. y = x) zs" if "set zs = set xs" for zs
    using assms x that by (intro filter_cong) (auto dest: inj_onD)
  have "filter (\<lambda>y. y = x) zs = replicate (count (mset zs) x) x" for zs :: "'a list"
    by (induction zs) auto
  then show "filter (\<lambda>y. k x = k y) ?ys = filter (\<lambda>y. k x = k y) xs"
    by (simp add: same)
qed

section \<open>Errors\<close>

text \<open>
  Go errors as values. The Kubernetes client reports a missing object, a name already taken, or
  some other failure; \<open>fmt.Errorf\<close> with \<open>%w\<close> wraps an error, and \<open>IsNotFound\<close> looks
  through the wrapping. A run-time panic is a value too.
\<close>

datatype go_error =
    NotFound
  | AlreadyExists
  | ApiFailure string
  | Errorf string
  | Wrapf string go_error
  | Panicked string

fun is_not_found :: "go_error \<Rightarrow> bool" where
  "is_not_found NotFound = True"
| "is_not_found (Wrapf _ e) = is_not_found e"
| "is_not_found _ = False"

fun is_already_exists :: "go_error \<Rightarrow> bool" where
  "is_already_exists AlreadyExists = True"
| "is_already_exists (Wrapf _ e) = is_already_exists e"
| "is_already_exists _ = False"

fun panics :: "go_error \<Rightarrow> bool" where
  "panics (Panicked _) = True"
| "panics (Wrapf _ e) = panics e"
| "panics _ = False"

text \<open>\<open>client.IgnoreNotFound\<close>: \<open>None\<close> is the nil error.\<close>

definition ignore_not_found :: "go_error \<Rightarrow> go_error option" where
  "ignore_not_found e = (if is_not_found e then None else Some e)"

lemma ignore_not_found_None [simp]: "ignore_not_found e = None \<longleftrightarrow> is_not_found e"
  by (simp add: ignore_not_found_def)

end
