(* ===== verification/Debounce.thy ===== *)
theory Debounce
  imports Prelude
begin

text \<open>
  The key-based debouncer of \<open>cluster-watcher/debounce/debouncer.go\<close>. A \<open>time.AfterFunc\<close> timer
  is a cell of a heap: armed until it expires or is stopped; once expired its goroutine has been
  started and waits for the mutex (\<open>Fired\<close>); the callback then removes the map entry of its key
  and starts the function (\<open>Done\<close>). \<open>Debounce\<close>, \<open>Cancel\<close> and the locked part of the callback
  run under the mutex and are atomic steps; expiry is a step of the Go runtime. The step relation
  \<open>db_step\<close> interleaves them freely, \<open>db_atomic\<close> lets a callback run as soon as its timer
  expires.

  Shown: the map always points at live timers of their key; no timer runs twice; with prompt
  callbacks the debouncer implements the abstract pending map (one entry per key, replaced by
  \<open>Debounce\<close> and removed by \<open>Cancel\<close>), and \<open>Cancel\<close> leaves nothing that could still run; with
  delayed callbacks it does not: a late callback removes the entry of its successor, which
  \<open>Cancel\<close> then cannot find.
\<close>

section \<open>Timers and operations\<close>

datatype timer_state = Armed | Fired | Stopped | Done

record 'f timer =
  tm_key :: string
  tm_fn :: 'f
  tm_deadline :: time
  tm_state :: timer_state

record 'f debouncer =
  db_timers :: "string \<rightharpoonup> nat"
  db_heap :: "'f timer list"
  db_runs :: "'f list"

definition New :: "'f debouncer" where
  "New = \<lparr>db_timers = Map.empty, db_heap = [], db_runs = []\<rparr>"

definition set_state :: "nat \<Rightarrow> timer_state \<Rightarrow> 'f timer list \<Rightarrow> 'f timer list" where
  "set_state i s h = (if i < length h then h[i := (h ! i)\<lparr>tm_state := s\<rparr>] else h)"

text \<open>\<open>t.Stop()\<close> prevents an armed timer from firing and does nothing to any other.\<close>

definition timer_stop :: "nat \<Rightarrow> 'f timer list \<Rightarrow> 'f timer list" where
  "timer_stop i h = (if i < length h \<and> tm_state (h ! i) = Armed then set_state i Stopped h else h)"

text \<open>
  \<open>if t, ok := d.timers[key]; ok { t.Stop() }\<close>, as both operations do. Below, \<open>w\<close> is the value \<open>d.window()\<close> returned and \<open>now\<close> the instant at which the timer is armed.
\<close>

definition stop_current :: "string \<Rightarrow> 'f debouncer \<Rightarrow> 'f timer list" where
  "stop_current key d = (case db_timers d key of
     Some t \<Rightarrow> timer_stop t (db_heap d) | None \<Rightarrow> db_heap d)"

definition Debounce :: "duration \<Rightarrow> time \<Rightarrow> string \<Rightarrow> 'f \<Rightarrow> 'f debouncer \<Rightarrow> 'f debouncer" where
  "Debounce w now key fn d =
     (let h = stop_current key d
      in d\<lparr>db_heap := h @ [\<lparr>tm_key = key, tm_fn = fn, tm_deadline = now + w, tm_state = Armed\<rparr>],
           db_timers := (db_timers d)(key \<mapsto> length h)\<rparr>)"

definition Cancel :: "string \<Rightarrow> 'f debouncer \<Rightarrow> 'f debouncer" where
  "Cancel key d = (case db_timers d key of
     Some t \<Rightarrow> d\<lparr>db_heap := stop_current key d, db_timers := (db_timers d)(key := None)\<rparr>
   | None \<Rightarrow> d)"

text \<open>The runtime expires an armed timer whose deadline has passed.\<close>

definition expire :: "nat \<Rightarrow> 'f debouncer \<Rightarrow> 'f debouncer" where
  "expire i d = d\<lparr>db_heap := set_state i Fired (db_heap d)\<rparr>"

text \<open>The body of the \<open>AfterFunc\<close> callback: lock, delete the key, unlock, run the function.\<close>

definition callback :: "nat \<Rightarrow> 'f debouncer \<Rightarrow> 'f debouncer" where
  "callback i d = d\<lparr>db_timers := (db_timers d)(tm_key (db_heap d ! i) := None),
     db_heap := set_state i Done (db_heap d),
     db_runs := db_runs d @ [tm_fn (db_heap d ! i)]\<rparr>"

definition timer_is :: "'f debouncer \<Rightarrow> nat \<Rightarrow> timer_state \<Rightarrow> bool" where
  "timer_is d i s \<longleftrightarrow> i < length (db_heap d) \<and> tm_state (db_heap d ! i) = s"

inductive db_step :: "'f debouncer \<Rightarrow> 'f debouncer \<Rightarrow> bool" where
  step_debounce: "db_step d (Debounce w now key fn d)"
| step_cancel: "db_step d (Cancel key d)"
| step_expire: "timer_is d i Armed \<Longrightarrow> db_step d (expire i d)"
| step_callback: "timer_is d i Fired \<Longrightarrow> db_step d (callback i d)"

inductive db_reach :: "'f debouncer \<Rightarrow> bool" where
  reach_new: "db_reach New"
| reach_step: "db_reach d \<Longrightarrow> db_step d d' \<Longrightarrow> db_reach d'"

text \<open>Prompt callbacks: expiry and callback are one step.\<close>

inductive db_atomic :: "'f debouncer \<Rightarrow> bool" where
  atomic_new: "db_atomic New"
| atomic_debounce: "db_atomic d \<Longrightarrow> db_atomic (Debounce w now key fn d)"
| atomic_cancel: "db_atomic d \<Longrightarrow> db_atomic (Cancel key d)"
| atomic_fire: "db_atomic d \<Longrightarrow> timer_is d i Armed \<Longrightarrow> db_atomic (callback i (expire i d))"

inductive_cases db_step_elim: "db_step d d'"

section \<open>Invariants\<close>

lemma length_set_state [simp]: "length (set_state i s h) = length h"
  by (simp add: set_state_def)

lemma length_timer_stop [simp]: "length (timer_stop i h) = length h"
  by (simp add: timer_stop_def)

lemma nth_set_state:
  "j < length h \<Longrightarrow> set_state i s h ! j = (if j = i then (h ! j)\<lparr>tm_state := s\<rparr> else h ! j)"
  by (simp add: set_state_def)

lemma nth_timer_stop:
  "j < length h \<Longrightarrow> timer_stop i h ! j =
     (if j = i \<and> tm_state (h ! j) = Armed then (h ! j)\<lparr>tm_state := Stopped\<rparr> else h ! j)"
  by (auto simp: timer_stop_def nth_set_state)

lemma timer_stop_frame [simp]:
  "j < length h \<Longrightarrow> tm_key (timer_stop i h ! j) = tm_key (h ! j)"
  "j < length h \<Longrightarrow> tm_fn (timer_stop i h ! j) = tm_fn (h ! j)"
  "j < length h \<Longrightarrow> tm_deadline (timer_stop i h ! j) = tm_deadline (h ! j)"
  by (simp_all add: nth_timer_stop)

lemma set_state_frame [simp]:
  "j < length h \<Longrightarrow> tm_key (set_state i s h ! j) = tm_key (h ! j)"
  "j < length h \<Longrightarrow> tm_fn (set_state i s h ! j) = tm_fn (h ! j)"
  "j < length h \<Longrightarrow> tm_deadline (set_state i s h ! j) = tm_deadline (h ! j)"
  by (simp_all add: nth_set_state)

definition live :: "timer_state \<Rightarrow> bool" where
  "live s \<longleftrightarrow> s = Armed \<or> s = Fired"

text \<open>The entries of the map are live timers of their key.\<close>

definition map_live :: "'f debouncer \<Rightarrow> bool" where
  "map_live d \<longleftrightarrow> (\<forall>k i. db_timers d k = Some i \<longrightarrow>
     i < length (db_heap d) \<and> tm_key (db_heap d ! i) = k \<and> live (tm_state (db_heap d ! i)))"

lemma map_liveD:
  assumes "map_live d" and "db_timers d k = Some i"
  shows "i < length (db_heap d)" and "tm_key (db_heap d ! i) = k" and "live (tm_state (db_heap d ! i))"
  using assms by (auto simp: map_live_def)

lemma map_live_inj: "map_live d \<Longrightarrow> db_timers d k = Some i \<Longrightarrow> db_timers d k' = Some i \<Longrightarrow> k = k'"
  by (auto simp: map_live_def)

lemma length_stop_current [simp]: "length (stop_current key d) = length (db_heap d)"
  by (simp add: stop_current_def split: option.splits)

lemma stop_current_other:
  assumes "map_live d" and "k \<noteq> key" and "db_timers d k = Some i"
  shows "stop_current key d ! i = db_heap d ! i"
  using map_liveD(1) [OF assms(1,3)] map_live_inj [OF assms(1,3)] assms(2)
  by (auto simp: stop_current_def nth_timer_stop split: option.splits)

lemma map_live_Debounce [keeps]:
  assumes "map_live d" shows "map_live (Debounce w now key fn d)"
  unfolding map_live_def
proof (intro allI impI)
  fix k i assume i: "db_timers (Debounce w now key fn d) k = Some i"
  show "i < length (db_heap (Debounce w now key fn d)) \<and>
    tm_key (db_heap (Debounce w now key fn d) ! i) = k \<and>
    live (tm_state (db_heap (Debounce w now key fn d) ! i))"
  proof (cases "k = key")
    case True
    with i show ?thesis by (auto simp: Debounce_def Let_def live_def nth_append)
  next
    case False
    with i have "db_timers d k = Some i" by (simp add: Debounce_def Let_def)
    with map_liveD [OF assms this] stop_current_other [OF assms False] show ?thesis
      by (simp add: Debounce_def Let_def nth_append)
  qed
qed

lemma map_live_Cancel [keeps]:
  assumes "map_live d" shows "map_live (Cancel key d)"
proof (cases "db_timers d key")
  case (Some t)
  show ?thesis
    unfolding map_live_def
  proof (intro allI impI)
    fix k i assume i: "db_timers (Cancel key d) k = Some i"
    with Some have "k \<noteq> key" and ki: "db_timers d k = Some i"
      by (auto simp: Cancel_def split: if_splits)
    then have "i \<noteq> t" using map_live_inj [OF assms] Some by blast
    with map_liveD [OF assms ki] Some
    show "i < length (db_heap (Cancel key d)) \<and> tm_key (db_heap (Cancel key d) ! i) = k \<and>
      live (tm_state (db_heap (Cancel key d) ! i))"
      by (simp add: Cancel_def stop_current_def nth_timer_stop)
  qed
qed (use assms in \<open>simp add: Cancel_def\<close>)

lemma map_live_expire [keeps]: "map_live d \<Longrightarrow> map_live (expire i d)"
  by (auto simp: map_live_def expire_def nth_set_state live_def)

lemma map_live_callback [keeps]: "map_live d \<Longrightarrow> map_live (callback i d)"
  by (auto simp: map_live_def callback_def nth_set_state live_def split: if_splits)

lemma map_live_step: "db_step d d' \<Longrightarrow> map_live d \<Longrightarrow> map_live d'"
  by (auto elim!: db_step_elim intro: keeps)

lemma reach_map_live: "db_reach d \<Longrightarrow> map_live d"
proof (induction rule: db_reach.induct)
  case reach_new
  show ?case by (simp add: map_live_def New_def)
qed (rule map_live_step)

text \<open>The functions of the timers whose callback has run, with multiplicity.\<close>

definition done_fns :: "'f timer list \<Rightarrow> 'f multiset" where
  "done_fns h = mset (map tm_fn (filter (\<lambda>t. tm_state t = Done) h))"

definition runs_match :: "'f debouncer \<Rightarrow> bool" where
  "runs_match d \<longleftrightarrow> mset (db_runs d) = done_fns (db_heap d)"

lemma done_fns_append [simp]: "done_fns (h @ h') = done_fns h + done_fns h'"
  by (simp add: done_fns_def)

lemma done_fns_armed [simp]: "tm_state t = Armed \<Longrightarrow> done_fns [t] = {#}"
  by (simp add: done_fns_def)

lemma done_fns_update:
  assumes "i < length h" and "tm_state (h ! i) \<noteq> Done"
  shows "done_fns (h[i := t]) = done_fns [t] + done_fns h"
proof -
  have h: "h = take i h @ h ! i # drop (Suc i) h" using assms(1) by (rule id_take_nth_drop)
  have "done_fns h = done_fns (take i h) + done_fns (drop (Suc i) h)"
    using assms(2) by (subst h) (simp add: done_fns_def)
  moreover have "done_fns (h[i := t]) = done_fns (take i h) + (done_fns [t] + done_fns (drop (Suc i) h))"
    using assms(1) by (simp add: upd_conv_take_nth_drop done_fns_def)
  ultimately show ?thesis by simp
qed

lemma done_fns_set_state:
  assumes "i < length h" and "tm_state (h ! i) \<noteq> Done"
  shows "done_fns (set_state i s h) = (if s = Done then add_mset (tm_fn (h ! i)) (done_fns h) else done_fns h)"
proof -
  have "done_fns [(h ! i)\<lparr>tm_state := s\<rparr>] = (if s = Done then {#tm_fn (h ! i)#} else {#})"
    by (simp add: done_fns_def)
  with assms show ?thesis by (simp add: set_state_def done_fns_update)
qed

lemma done_fns_stop_current [simp]: "done_fns (stop_current key d) = done_fns (db_heap d)"
  by (simp add: stop_current_def timer_stop_def done_fns_set_state split: option.splits)

lemma runs_match_step:
  assumes "db_step d d'" and "runs_match d"
  shows "runs_match d'"
  using assms(1)
proof cases
  case (step_debounce w now key fn)
  with assms(2) show ?thesis by (simp add: runs_match_def Debounce_def Let_def)
next
  case (step_cancel key)
  with assms(2) show ?thesis by (simp add: runs_match_def Cancel_def split: option.splits)
next
  case (step_expire i)
  with assms(2) show ?thesis
    by (simp add: runs_match_def expire_def timer_is_def done_fns_set_state)
next
  case (step_callback i)
  with assms(2) show ?thesis
    by (simp add: runs_match_def callback_def timer_is_def done_fns_set_state)
qed

lemma reach_runs_match: "db_reach d \<Longrightarrow> runs_match d"
proof (induction rule: db_reach.induct)
  case reach_new
  show ?case by (simp add: runs_match_def done_fns_def New_def)
next
  case (reach_step d d')
  then show ?case using runs_match_step by blast
qed

section \<open>The contract the reconcilers rely on\<close>

text \<open>
  The abstract debouncer is a map from keys to the pending function and its deadline.
\<close>

definition pending :: "'f debouncer \<Rightarrow> string \<rightharpoonup> 'f \<times> time" where
  "pending d k = map_option (\<lambda>i. (tm_fn (db_heap d ! i), tm_deadline (db_heap d ! i))) (db_timers d k)"

locale debounce_contract =
  fixes debounce :: "duration \<Rightarrow> time \<Rightarrow> string \<Rightarrow> 'f \<Rightarrow> 's \<Rightarrow> 's"
    and cancel :: "string \<Rightarrow> 's \<Rightarrow> 's"
    and pend :: "'s \<Rightarrow> string \<rightharpoonup> 'f \<times> time"
    and invar :: "'s \<Rightarrow> bool"
  assumes pend_debounce: "invar s \<Longrightarrow> pend (debounce w now k f s) = (pend s)(k \<mapsto> (f, now + w))"
    and pend_cancel: "invar s \<Longrightarrow> pend (cancel k s) = (pend s)(k := None)"
    and invar_debounce: "invar s \<Longrightarrow> invar (debounce w now k f s)"
    and invar_cancel: "invar s \<Longrightarrow> invar (cancel k s)"
begin

lemma last_call_wins:
  "invar s \<Longrightarrow> pend (debounce w' now' k g (debounce w now k f s)) = (pend s)(k \<mapsto> (g, now' + w'))"
  by (simp add: pend_debounce invar_debounce)

lemma invar_cancel_all: "invar s \<Longrightarrow> invar (fold cancel ks s)"
  by (induction ks arbitrary: s) (simp_all add: invar_cancel)

lemma pend_cancel_all:
  "invar s \<Longrightarrow> pend (fold cancel ks s) k = (if k \<in> set ks then None else pend s k)"
  by (induction ks arbitrary: s) (simp_all add: pend_cancel invar_cancel)

end

lemma stop_current_frame:
  assumes "i < length (db_heap d)"
  shows "tm_fn (stop_current key d ! i) = tm_fn (db_heap d ! i)"
    and "tm_deadline (stop_current key d ! i) = tm_deadline (db_heap d ! i)"
    and "tm_key (stop_current key d ! i) = tm_key (db_heap d ! i)"
  using assms by (simp_all add: stop_current_def split: option.splits)

lemma pending_Debounce:
  assumes "map_live d"
  shows "pending (Debounce w now k f d) = (pending d)(k \<mapsto> (f, now + w))"
proof
  fix k' show "pending (Debounce w now k f d) k' = ((pending d)(k \<mapsto> (f, now + w))) k'"
    by (cases "db_timers d k'")
      (auto simp: pending_def Debounce_def Let_def nth_append stop_current_frame
        dest: map_liveD(1) [OF assms])
qed

lemma pending_Cancel:
  assumes "map_live d"
  shows "pending (Cancel k d) = (pending d)(k := None)"
proof
  fix k' show "pending (Cancel k d) k' = ((pending d)(k := None)) k'"
    by (cases "db_timers d k'")
      (auto simp: pending_def Cancel_def stop_current_frame dest: map_liveD(1) [OF assms]
        split: option.splits)
qed

interpretation debouncer: debounce_contract Debounce Cancel pending map_live
  by unfold_locales (simp_all add: pending_Debounce pending_Cancel keeps)

section \<open>Prompt callbacks\<close>

text \<open>Every timer that can still run is armed and is the one its key maps to.\<close>

definition synced :: "'f debouncer \<Rightarrow> bool" where
  "synced d \<longleftrightarrow> map_live d \<and> (\<forall>i < length (db_heap d). live (tm_state (db_heap d ! i)) \<longrightarrow>
     tm_state (db_heap d ! i) = Armed \<and> db_timers d (tm_key (db_heap d ! i)) = Some i)"

lemma syncedD:
  assumes "synced d" and "i < length (db_heap d)" and "live (tm_state (db_heap d ! i))"
  shows "tm_state (db_heap d ! i) = Armed" and "db_timers d (tm_key (db_heap d ! i)) = Some i"
  using assms by (auto simp: synced_def)

text \<open>Stopping the current timer of a key leaves no live timer of that key.\<close>

lemma stop_current_live:
  assumes "synced d" and "i < length (db_heap d)" and "live (tm_state (stop_current key d ! i))"
  shows "tm_key (db_heap d ! i) \<noteq> key" and "stop_current key d ! i = db_heap d ! i"
proof -
  have "live (tm_state (db_heap d ! i))"
    using assms(2,3)
    by (auto simp: stop_current_def nth_timer_stop live_def split: option.splits if_splits)
  note i = syncedD [OF assms(1,2) this]
  show "tm_key (db_heap d ! i) \<noteq> key"
  proof
    assume "tm_key (db_heap d ! i) = key"
    with i assms(2,3) show False by (simp add: stop_current_def nth_timer_stop live_def)
  qed
  with i show "stop_current key d ! i = db_heap d ! i"
    using assms(1,2) by (auto simp: stop_current_def nth_timer_stop synced_def dest: map_liveD(2) split: option.splits)
qed

lemma synced_Debounce: "synced d \<Longrightarrow> synced (Debounce w now key fn d)"
proof -
  assume d: "synced d"
  then have "map_live (Debounce w now key fn d)" by (simp add: synced_def keeps)
  moreover have "tm_state (db_heap (Debounce w now key fn d) ! i) = Armed \<and>
      db_timers (Debounce w now key fn d) (tm_key (db_heap (Debounce w now key fn d) ! i)) = Some i"
    if i: "i < length (db_heap (Debounce w now key fn d))"
      and l: "live (tm_state (db_heap (Debounce w now key fn d) ! i))" for i
  proof (cases "i < length (db_heap d)")
    case True
    with l have l': "live (tm_state (stop_current key d ! i))"
      by (simp add: Debounce_def Let_def nth_append)
    note st = stop_current_live [OF d True l']
    with l' have "live (tm_state (db_heap d ! i))" by simp
    with syncedD [OF d True this] st True show ?thesis
      by (simp add: Debounce_def Let_def nth_append)
  next
    case False
    with i have "i = length (db_heap d)" by (simp add: Debounce_def Let_def)
    then show ?thesis by (simp add: Debounce_def Let_def nth_append)
  qed
  ultimately show ?thesis by (simp add: synced_def)
qed

lemma synced_Cancel: "synced d \<Longrightarrow> synced (Cancel key d)"
proof -
  assume d: "synced d"
  then have "map_live (Cancel key d)" by (simp add: synced_def keeps)
  moreover have "tm_state (db_heap (Cancel key d) ! i) = Armed \<and>
      db_timers (Cancel key d) (tm_key (db_heap (Cancel key d) ! i)) = Some i"
    if i: "i < length (db_heap (Cancel key d))"
      and l: "live (tm_state (db_heap (Cancel key d) ! i))" for i
  proof (cases "db_timers d key")
    case None
    with d i l show ?thesis by (simp add: Cancel_def synced_def)
  next
    case (Some t)
    with i l have i': "i < length (db_heap d)" and l': "live (tm_state (stop_current key d ! i))"
      by (simp_all add: Cancel_def)
    note st = stop_current_live [OF d i' l']
    with l' have "live (tm_state (db_heap d ! i))" by simp
    with syncedD [OF d i' this] st Some show ?thesis by (simp add: Cancel_def)
  qed
  ultimately show ?thesis by (simp add: synced_def)
qed

lemma callback_expire:
  "i < length (db_heap d) \<Longrightarrow> callback i (expire i d) =
     d\<lparr>db_timers := (db_timers d)(tm_key (db_heap d ! i) := None),
       db_heap := set_state i Done (db_heap d), db_runs := db_runs d @ [tm_fn (db_heap d ! i)]\<rparr>"
  by (simp add: callback_def expire_def set_state_def)

lemma synced_fire: "synced d \<Longrightarrow> timer_is d i Armed \<Longrightarrow> synced (callback i (expire i d))"
proof -
  assume d: "synced d" and i: "timer_is d i Armed"
  then have "map_live (callback i (expire i d))" by (simp add: synced_def keeps)
  moreover have "tm_state (set_state i Done (db_heap d) ! j) = Armed \<and>
      ((db_timers d)(tm_key (db_heap d ! i) := None)) (tm_key (db_heap d ! j)) = Some j"
    if j: "j < length (db_heap d)" and l: "live (tm_state (set_state i Done (db_heap d) ! j))" for j
  proof -
    from j l have ji: "j \<noteq> i" and "live (tm_state (db_heap d ! j))"
      by (auto simp: nth_set_state live_def split: if_splits)
    with syncedD [OF d j] syncedD [OF d, of i] i j show ?thesis
      by (auto simp: nth_set_state timer_is_def live_def)
  qed
  ultimately show ?thesis using i by (simp add: synced_def callback_expire timer_is_def)
qed

lemma atomic_synced: "db_atomic d \<Longrightarrow> synced d"
proof (induction rule: db_atomic.induct)
  case atomic_new
  show ?case by (simp add: synced_def map_live_def New_def)
qed (blast intro: synced_Debounce synced_Cancel synced_fire)+

lemma atomic_reach: "db_atomic d \<Longrightarrow> db_reach d"
proof (induction rule: db_atomic.induct)
  case (atomic_fire d i)
  have "timer_is (expire i d) i Fired"
    using atomic_fire.hyps(2) by (simp add: timer_is_def expire_def nth_set_state)
  with atomic_fire show ?case by (meson reach_step step_callback step_expire)
qed (auto intro: db_reach.intros db_step.intros)


section \<open>Properties\<close>

text \<open>
  C5. Whatever the interleaving of calls, expiries and callbacks, the function of a call to
  \<open>Debounce\<close> runs at most once (the runs are among the functions handed in, with multiplicity), and
  an entry of the map is a timer of that key that has been neither stopped nor run.
\<close>

theorem debounce_runs_at_most_once:
  assumes "db_reach d"
  shows "mset (db_runs d) \<subseteq># mset (map tm_fn (db_heap d)) \<and>
    (db_timers d k = Some i \<longrightarrow> tm_key (db_heap d ! i) = k \<and> (timer_is d i Armed \<or> timer_is d i Fired))"
proof -
  have "mset (db_runs d) = done_fns (db_heap d)"
    using reach_runs_match [OF assms] by (simp add: runs_match_def)
  also have "\<dots> \<subseteq># mset (map tm_fn (db_heap d))"
    by (simp add: done_fns_def image_mset_subseteq_mono mset_filter)
  finally have "mset (db_runs d) \<subseteq># mset (map tm_fn (db_heap d))" .
  moreover have "tm_key (db_heap d ! i) = k \<and> (timer_is d i Armed \<or> timer_is d i Fired)" if "db_timers d k = Some i"
    using map_liveD [OF reach_map_live [OF assms] that] by (auto simp: timer_is_def live_def)
  ultimately show ?thesis by blast
qed

theorem debounce_runs_at_most_once_witness:
  "mset (db_runs (Debounce 30 0 ''k'' (7::nat) New)) \<subseteq># mset (map tm_fn (db_heap (Debounce 30 0 ''k'' (7::nat) New)))
   \<and> tm_key (db_heap (Debounce 30 0 ''k'' (7::nat) New) ! 0) = ''k''"
proof -
  have r: "db_reach (Debounce 30 0 ''k'' (7::nat) New)"
    by (rule reach_step [OF reach_new step_debounce])
  have "db_timers (Debounce 30 0 ''k'' (7::nat) New) ''k'' = Some 0"
    by (simp add: Debounce_def Let_def stop_current_def New_def)
  with debounce_runs_at_most_once [OF r] show ?thesis by blast
qed

text \<open>
  C4. With prompt callbacks the debouncer refines the abstract pending map: \<open>Debounce\<close> replaces
  the entry of its key by the new function and a fresh deadline, \<open>Cancel\<close> removes it, and a timer
  that expires is the pending entry of its key, which is removed as its function runs.
\<close>

theorem debounce_refines_pending:
  assumes "db_atomic d"
  shows "pending (Debounce w now k f d) = (pending d)(k \<mapsto> (f, now + w)) \<and>
    pending (Cancel k d) = (pending d)(k := None) \<and>
    (timer_is d i Armed \<longrightarrow>
       pending d (tm_key (db_heap d ! i)) = Some (tm_fn (db_heap d ! i), tm_deadline (db_heap d ! i)) \<and>
       pending (callback i (expire i d)) = (pending d)(tm_key (db_heap d ! i) := None) \<and>
       db_runs (callback i (expire i d)) = db_runs d @ [tm_fn (db_heap d ! i)])"
proof -
  have s: "synced d" and ml: "map_live d"
    using atomic_synced [OF assms] by (simp_all add: synced_def)
  have "pending (callback i (expire i d)) = (pending d)(tm_key (db_heap d ! i) := None)"
    if i: "timer_is d i Armed"
  proof
    fix k' show "pending (callback i (expire i d)) k' = ((pending d)(tm_key (db_heap d ! i) := None)) k'"
      using i by (cases "db_timers d k'")
        (auto simp: pending_def callback_expire timer_is_def dest: map_liveD(1) [OF ml])
  qed
  then show ?thesis
    using syncedD(2) [OF s] debouncer.pend_debounce [OF ml] debouncer.pend_cancel [OF ml]
    by (auto simp: pending_def timer_is_def live_def callback_expire)
qed

theorem debounce_refines_pending_witness:
  "timer_is (Debounce 30 0 ''k'' (7::nat) New) 0 Armed \<and>
   pending (Debounce 5 10 ''k'' (8::nat) (Debounce 30 0 ''k'' 7 New)) ''k'' = Some (8, 15) \<and>
   db_runs (callback 0 (expire 0 (Debounce 30 0 ''k'' (7::nat) New))) = [7]"
proof -
  let ?d = "Debounce 30 0 ''k'' (7::nat) New"
  have a: "db_atomic ?d" by (rule atomic_debounce [OF atomic_new])
  have t: "timer_is ?d 0 Armed"
    by (simp add: timer_is_def Debounce_def Let_def stop_current_def New_def)
  note r = debounce_refines_pending [OF a, of 5 10 "''k''" 8 0]
  have "pending (Debounce 5 10 ''k'' 8 ?d) ''k'' = Some (8, 15)" using r by simp
  moreover have "db_runs (callback 0 (expire 0 ?d)) = db_runs ?d @ [tm_fn (db_heap ?d ! 0)]"
    using r t by blast
  moreover have "db_runs ?d @ [tm_fn (db_heap ?d ! 0)] = [7]"
    by (simp add: Debounce_def Let_def stop_current_def New_def)
  ultimately show ?thesis using t by simp
qed

text \<open>
  With prompt callbacks, after \<open>Cancel\<close> no timer of the key is left that could still run, and
  after \<open>Debounce\<close> exactly the new one is: rapid calls are coalesced into one execution.
\<close>

theorem cancel_leaves_nothing_pending:
  assumes "db_atomic d"
  shows "{i. tm_key (db_heap (Cancel k d) ! i) = k \<and> (timer_is (Cancel k d) i Armed \<or> timer_is (Cancel k d) i Fired)} = {} \<and>
    {i. tm_key (db_heap (Debounce w now k f d) ! i) = k \<and>
           (timer_is (Debounce w now k f d) i Armed \<or> timer_is (Debounce w now k f d) i Fired)} = {length (db_heap d)}"
proof -
  have s: "synced d" by (rule atomic_synced [OF assms])
  have sc: "synced (Cancel k d)" "db_timers (Cancel k d) k = None"
    using synced_Cancel [OF s] by (auto simp: Cancel_def split: option.splits)
  have cancelled: "{i. tm_key (db_heap (Cancel k d) ! i) = k \<and> (timer_is (Cancel k d) i Armed \<or> timer_is (Cancel k d) i Fired)} = {}"
    using syncedD(2) [OF sc(1)] sc(2) by (fastforce simp: timer_is_def live_def)
  have sd: "synced (Debounce w now k f d)" "db_timers (Debounce w now k f d) k = Some (length (db_heap d))"
    using synced_Debounce [OF s] by (auto simp: Debounce_def Let_def)
  have "timer_is (Debounce w now k f d) (length (db_heap d)) Armed"
    "tm_key (db_heap (Debounce w now k f d) ! length (db_heap d)) = k"
    by (simp_all add: timer_is_def Debounce_def Let_def nth_append)
  then have "{i. tm_key (db_heap (Debounce w now k f d) ! i) = k \<and>
      (timer_is (Debounce w now k f d) i Armed \<or> timer_is (Debounce w now k f d) i Fired)} = {length (db_heap d)}"
    using syncedD(2) [OF sd(1)] sd(2) by (fastforce simp: timer_is_def live_def)
  with cancelled show ?thesis by blast
qed

theorem cancel_leaves_nothing_pending_witness:
  "{i. tm_key (db_heap (Cancel ''k'' (Debounce 30 0 ''k'' (7::nat) New)) ! i) = ''k'' \<and>
     (timer_is (Cancel ''k'' (Debounce 30 0 ''k'' (7::nat) New)) i Armed \<or>
      timer_is (Cancel ''k'' (Debounce 30 0 ''k'' (7::nat) New)) i Fired)} = {}"
  by (rule conjunct1 [OF cancel_leaves_nothing_pending [OF atomic_debounce [OF atomic_new]]])

text \<open>
  With a delayed callback \<open>Cancel\<close> is not enough. The timer of a first call has expired but
  its callback has not taken the mutex when a second call arms a new timer; the late callback then
  deletes the map entry of that new timer, \<open>Cancel\<close> finds nothing to stop, and the function of the
  second call runs after it was cancelled.
\<close>

theorem cancel_misses_timer_after_late_callback:
  "\<exists>d :: nat debouncer. db_reach d \<and> timer_is (Cancel ''k'' d) 1 Armed \<and>
     tm_key (db_heap (Cancel ''k'' d) ! 1) = ''k'' \<and> 8 \<notin> set (db_runs (Cancel ''k'' d)) \<and>
     db_reach (callback 1 (expire 1 (Cancel ''k'' d))) \<and>
     8 \<in> set (db_runs (callback 1 (expire 1 (Cancel ''k'' d))))"
proof -
  let ?d1 = "Debounce 30 0 ''k'' (7::nat) New"
  let ?d2 = "expire 0 ?d1"
  let ?d3 = "Debounce 30 30 ''k'' 8 ?d2"
  let ?d4 = "callback 0 ?d3"
  let ?d5 = "Cancel ''k'' ?d4"
  note ev = timer_is_def Debounce_def Let_def stop_current_def New_def expire_def set_state_def
    timer_stop_def callback_def Cancel_def
  have r1: "db_reach ?d1" by (rule reach_step [OF reach_new step_debounce])
  have r2: "db_reach ?d2" by (rule reach_step [OF r1 step_expire]) (simp add: ev)
  have r3: "db_reach ?d3" by (rule reach_step [OF r2 step_debounce])
  have r4: "db_reach ?d4" by (rule reach_step [OF r3 step_callback]) (simp add: ev)
  have r5: "db_reach ?d5" by (rule reach_step [OF r4 step_cancel])
  have a: "timer_is ?d5 1 Armed" by (simp add: ev)
  have r6: "db_reach (expire 1 ?d5)" by (rule reach_step [OF r5 step_expire [OF a]])
  have r7: "db_reach (callback 1 (expire 1 ?d5))"
    by (rule reach_step [OF r6 step_callback]) (simp add: ev)
  have "tm_key (db_heap ?d5 ! 1) = ''k''" "8 \<notin> set (db_runs ?d5)"
    "8 \<in> set (db_runs (callback 1 (expire 1 ?d5)))"
    by (simp_all add: ev)
  with r4 a r7 show ?thesis by blast
qed


end
