(* ===== verification/Api_Types.thy ===== *)
theory Api_Types
  imports Prelude
begin

text \<open>
  The data the services exchange: the custom resources of \<open>api/v1alpha1\<close> (ProblemCase, Incident,
  DiagnosticRun, KubechanExclusionRule, KubeChanState), with every field of the Go structs, and
  the Kubernetes objects the services read, with the fields the code looks at. Enumerations are
  Go strings with named constants, and so they are here: an object whose status was never
  written has the empty string as its state, which is none of the constants.
\<close>

section \<open>Object metadata\<close>

record owner_reference =
  or_apiVersion :: string
  or_kind :: string
  or_name :: string
  or_controller :: "bool option"

record object_meta =
  om_kind :: string
  om_name :: string
  om_generateName :: string
  om_namespace :: string
  om_labels :: str_map
  om_annotations :: str_map
  om_owners :: "owner_reference list"
  om_creation :: time

definition empty_meta :: object_meta where
  "empty_meta = \<lparr>om_kind = [], om_name = [], om_generateName = [], om_namespace = [],
     om_labels = [], om_annotations = [], om_owners = [], om_creation = 0\<rparr>"

definition meta_key :: "object_meta \<Rightarrow> namespaced_name" where
  "meta_key m = (om_namespace m, om_name m)"

section \<open>ProblemCase\<close>

type_synonym problem_case_severity = string
type_synonym problem_case_state = string

definition SeverityCritical :: problem_case_severity where "SeverityCritical = ''critical''"
definition SeverityHigh :: problem_case_severity where "SeverityHigh = ''high''"
definition SeverityMedium :: problem_case_severity where "SeverityMedium = ''medium''"
definition SeverityLow :: problem_case_severity where "SeverityLow = ''low''"

definition severities :: "problem_case_severity list" where
  "severities = [SeverityCritical, SeverityHigh, SeverityMedium, SeverityLow]"

definition ProblemCaseStateOpen :: problem_case_state where
  "ProblemCaseStateOpen = ''open''"
definition ProblemCaseStateInvestigating :: problem_case_state where
  "ProblemCaseStateInvestigating = ''investigating''"
definition ProblemCaseStateResolved :: problem_case_state where
  "ProblemCaseStateResolved = ''resolved''"

record resource_ref =
  rr_namespace :: string
  rr_kind :: string
  rr_name :: string
  rr_apiGroup :: string
  rr_evidenceSlices :: "string list"

text \<open>\<open>v1alpha1.ResourceRef{Namespace, Kind, Name}\<close> with the other fields at their zero value.\<close>

definition mk_ref :: "string \<Rightarrow> string \<Rightarrow> string \<Rightarrow> resource_ref" where
  "mk_ref ns kind name = \<lparr>rr_namespace = ns, rr_kind = kind, rr_name = name,
     rr_apiGroup = [], rr_evidenceSlices = []\<rparr>"

lemma mk_ref_sel [simp]:
  "rr_namespace (mk_ref ns kind name) = ns" "rr_kind (mk_ref ns kind name) = kind"
  "rr_name (mk_ref ns kind name) = name" "rr_apiGroup (mk_ref ns kind name) = []"
  "rr_evidenceSlices (mk_ref ns kind name) = []"
  by (simp_all add: mk_ref_def)

record problem_case_spec =
  pcs_affectedResource :: resource_ref
  pcs_detector :: string
  pcs_severity :: problem_case_severity
  pcs_symptoms :: "string list"
  pcs_relatedResources :: "resource_ref list"

record problem_case_status =
  pct_state :: problem_case_state
  pct_firstSeen :: "time option"
  pct_lastSeen :: "time option"
  pct_resolvedAt :: "time option"
  pct_latestDiagnosticRunRef :: string
  pct_latestAnalysisResultRef :: string

record problem_case =
  pc_meta :: object_meta
  pc_spec :: problem_case_spec
  pc_status :: problem_case_status

definition empty_pc_status :: problem_case_status where
  "empty_pc_status = \<lparr>pct_state = [], pct_firstSeen = None, pct_lastSeen = None,
     pct_resolvedAt = None, pct_latestDiagnosticRunRef = [], pct_latestAnalysisResultRef = []\<rparr>"

abbreviation pc_name :: "problem_case \<Rightarrow> string" where "pc_name pc \<equiv> om_name (pc_meta pc)"
abbreviation pc_namespace :: "problem_case \<Rightarrow> string" where
  "pc_namespace pc \<equiv> om_namespace (pc_meta pc)"
abbreviation pc_state :: "problem_case \<Rightarrow> problem_case_state" where
  "pc_state pc \<equiv> pct_state (pc_status pc)"

definition pc_resolved :: "problem_case \<Rightarrow> bool" where
  "pc_resolved pc \<longleftrightarrow> pc_state pc = ProblemCaseStateResolved"

section \<open>Incident\<close>

type_synonym incident_state = string

definition IncidentStateOpen :: incident_state where "IncidentStateOpen = ''open''"
definition IncidentStateResolved :: incident_state where "IncidentStateResolved = ''resolved''"

record incident_spec =
  ins_rootResource :: resource_ref
  ins_problemCases :: "string list"
  ins_source :: string
  ins_userMessage :: string
  ins_relatedResources :: "resource_ref list"
  ins_falsePositive :: bool

record incident_status =
  int_state :: incident_state
  int_openedAt :: "time option"
  int_resolvedAt :: "time option"
  int_activeProblemCases :: int
  int_occurrenceCount :: int
  int_lastOccurrenceAt :: "time option"

record incident =
  inc_meta :: object_meta
  inc_spec :: incident_spec
  inc_status :: incident_status

definition empty_incident_status :: incident_status where
  "empty_incident_status = \<lparr>int_state = [], int_openedAt = None, int_resolvedAt = None,
     int_activeProblemCases = 0, int_occurrenceCount = 0, int_lastOccurrenceAt = None\<rparr>"

abbreviation inc_name :: "incident \<Rightarrow> string" where "inc_name inc \<equiv> om_name (inc_meta inc)"
abbreviation inc_namespace :: "incident \<Rightarrow> string" where
  "inc_namespace inc \<equiv> om_namespace (inc_meta inc)"
abbreviation inc_state :: "incident \<Rightarrow> incident_state" where
  "inc_state inc \<equiv> int_state (inc_status inc)"
abbreviation inc_members :: "incident \<Rightarrow> string list" where
  "inc_members inc \<equiv> ins_problemCases (inc_spec inc)"

definition inc_resolved :: "incident \<Rightarrow> bool" where
  "inc_resolved inc \<longleftrightarrow> inc_state inc = IncidentStateResolved"

section \<open>KubechanExclusionRule\<close>

record exclusion_selector =
  xs_namespace :: string
  xs_kinds :: "string list"
  xs_matchLabels :: str_map

record exclusion_period =
  xp_start :: string
  xp_end :: string
  xp_days :: "string list"

record exclusion_time_window =
  xw_timezone :: string
  xw_periods :: "exclusion_period list"

record exclusion_rule_spec =
  xr_description :: string
  xr_enabled :: bool
  xr_namespace :: string
  xr_detectors :: "string list"
  xr_targetResources :: "resource_ref list"
  xr_selector :: "exclusion_selector option"
  xr_timeWindow :: "exclusion_time_window option"

record exclusion_rule_status =
  xt_lastMatchedAt :: "time option"
  xt_suppressedCount :: int

record exclusion_rule =
  rule_meta :: object_meta
  rule_spec :: exclusion_rule_spec
  rule_status :: exclusion_rule_status

abbreviation rule_name :: "exclusion_rule \<Rightarrow> string" where
  "rule_name r \<equiv> om_name (rule_meta r)"

section \<open>KubeChanState\<close>

type_synonym mood_level = int

definition MoodCalm :: mood_level where "MoodCalm = 0"
definition MoodIrritated :: mood_level where "MoodIrritated = 1"
definition MoodRage :: mood_level where "MoodRage = 2"

record kubechan_state_status =
  ks_moodLevel :: mood_level
  ks_openIncidentCount :: int
  ks_pokeCount :: int
  ks_pokeExpiresAt :: "time option"
  ks_updatedAt :: "time option"

record kubechan_state =
  kcs_meta :: object_meta
  kcs_status :: kubechan_state_status

definition empty_kubechan_status :: kubechan_state_status where
  "empty_kubechan_status = \<lparr>ks_moodLevel = 0, ks_openIncidentCount = 0, ks_pokeCount = 0,
     ks_pokeExpiresAt = None, ks_updatedAt = None\<rparr>"

section \<open>DiagnosticRun\<close>

definition DiagnosticRunStatePending :: string where "DiagnosticRunStatePending = ''pending''"
definition DiagnosticRunStateRunning :: string where "DiagnosticRunStateRunning = ''running''"
definition DiagnosticRunStateCompleted :: string where
  "DiagnosticRunStateCompleted = ''completed''"
definition DiagnosticRunStateFailed :: string where "DiagnosticRunStateFailed = ''failed''"

definition DiagnosticRunAnalysisStateInProgress :: string where "DiagnosticRunAnalysisStateInProgress = ''in_progress''"
definition DiagnosticRunAnalysisStateCompleted :: string where "DiagnosticRunAnalysisStateCompleted = ''completed''"
definition DiagnosticRunAnalysisStateFailed :: string where "DiagnosticRunAnalysisStateFailed = ''failed''"

lemmas analysis_state_consts = DiagnosticRunAnalysisStateInProgress_def DiagnosticRunAnalysisStateCompleted_def
  DiagnosticRunAnalysisStateFailed_def

record redaction_summary =
  rs_patternsApplied :: int
  rs_redactedFields :: "string list"

record log_truncation_info =
  lt_truncated :: bool
  lt_originalBytes :: int
  lt_truncatedBytes :: int

record diagnostic_run_spec =
  drs_incidentRef :: string
  drs_problemCaseRef :: string
  drs_requestedAt :: "time option"

record diagnostic_run_status =
  drt_state :: string
  drt_collectedAt :: "time option"
  drt_collectorVersion :: string
  drt_evidenceRef :: string
  drt_collectionErrors :: "string list"
  drt_redactionSummary :: "redaction_summary option"
  drt_logTruncationInfo :: "log_truncation_info option"
  drt_analysisState :: string
  drt_analysisResultRef :: string

record diagnostic_run =
  dr_meta :: object_meta
  dr_spec :: diagnostic_run_spec
  dr_status :: diagnostic_run_status

section \<open>Kubernetes objects the services read\<close>

record container_status =
  cs_name :: string
  cs_image :: string
  cs_restartCount :: int
  cs_waitingReason :: "string option"

record pod =
  pod_meta :: object_meta
  pod_phase :: string
  pod_containerStatuses :: "container_status list"
  pod_initContainerStatuses :: "container_status list"

record deployment_condition =
  dc_type :: string
  dc_status :: string
  dc_lastTransitionTime :: time

record deployment =
  dep_meta :: object_meta
  dep_replicas :: "int option"
  dep_templateLabels :: str_map
  dep_availableReplicas :: int
  dep_unavailableReplicas :: int
  dep_readyReplicas :: int
  dep_conditions :: "deployment_condition list"

text \<open>A StatefulSet or DaemonSet, of which only the name and the template labels are read.\<close>

record template_owner =
  to_meta :: object_meta
  to_templateLabels :: str_map

record service =
  svc_meta :: object_meta
  svc_type :: string
  svc_clusterIP :: string
  svc_selector :: str_map

text \<open>An EndpointSlice: for each endpoint its \<open>conditions.ready\<close>, a nil pointer as \<open>None\<close>.\<close>

record endpoint_slice =
  es_meta :: object_meta
  es_ready :: "bool option list"

text \<open>The dynamic type behind a \<open>client.Object\<close> interface value.\<close>

datatype client_object =
    PodObj pod
  | DeploymentObj deployment
  | ServiceObj service
  | NodeObj object_meta
  | RuleObj exclusion_rule

fun object_meta_of :: "client_object \<Rightarrow> object_meta" where
  "object_meta_of (PodObj p) = pod_meta p"
| "object_meta_of (DeploymentObj d) = dep_meta d"
| "object_meta_of (ServiceObj s) = svc_meta s"
| "object_meta_of (NodeObj m) = m"
| "object_meta_of (RuleObj r) = rule_meta r"

abbreviation get_namespace :: "client_object \<Rightarrow> string" where
  "get_namespace obj \<equiv> om_namespace (object_meta_of obj)"
abbreviation get_name :: "client_object \<Rightarrow> string" where
  "get_name obj \<equiv> om_name (object_meta_of obj)"
abbreviation get_labels :: "client_object \<Rightarrow> str_map" where
  "get_labels obj \<equiv> om_labels (object_meta_of obj)"
abbreviation get_kind :: "client_object \<Rightarrow> string" where
  "get_kind obj \<equiv> om_kind (object_meta_of obj)"

lemmas state_consts =
  ProblemCaseStateOpen_def ProblemCaseStateInvestigating_def ProblemCaseStateResolved_def
  IncidentStateOpen_def IncidentStateResolved_def

lemmas severity_consts =
  SeverityCritical_def SeverityHigh_def SeverityMedium_def SeverityLow_def

end
