(* ===== verification/Api_Client.thy ===== *)
theory Api_Client
  imports Api_Types
begin

text \<open>
  The Kubernetes client as a parameter. The services reach the cluster only through
  controller-runtime's \<open>client.Client\<close>, which is not part of the repository; the model takes it
  as an argument of every definition that uses it: a record with one typed client per kind, whose
  reads look at a world state \<open>'w\<close> and whose writes return a new one. Every call may fail.

  \<open>faithful_client\<close> states what the code relies on, as documented for the Kubernetes API: a
  successful Get returns the stored object and a NotFound error means there is none; a List
  returns exactly the objects of the namespace with the given labels; Create stores a new object
  under a free name; a merge patch against the stored object stores the patched object, the main
  endpoint leaving the status alone and the status endpoint everything else; a failed write and a
  write to another kind change nothing. It is a hypothesis of the properties that need it.

  \<open>mem_client\<close> is an in-memory client of the kind the repository's tests use; it satisfies
  \<open>faithful_client\<close> and evaluates, so the witnesses run the handlers against it.
\<close>

section \<open>Typed clients\<close>

record ('w, 'o) kind_client =
  api_get :: "string \<Rightarrow> string \<Rightarrow> 'w \<Rightarrow> go_error + 'o"
  api_list :: "string \<Rightarrow> str_map \<Rightarrow> 'w \<Rightarrow> go_error + 'o list"
  api_create :: "'o \<Rightarrow> 'w \<Rightarrow> (go_error + 'o) \<times> 'w"
  api_patch :: "'o \<Rightarrow> 'o \<Rightarrow> 'w \<Rightarrow> (go_error + 'o) \<times> 'w"
  api_status_patch :: "'o \<Rightarrow> 'o \<Rightarrow> 'w \<Rightarrow> (go_error + 'o) \<times> 'w"

text \<open>
  \<open>c_unstructured\<close> reads the metadata of an object by group, version and kind. A patch takes the
  base of \<open>client.MergeFrom\<close> and the modified object.
\<close>

record 'w client =
  c_problemCases :: "('w, problem_case) kind_client"
  c_incidents :: "('w, incident) kind_client"
  c_rules :: "('w, exclusion_rule) kind_client"
  c_states :: "('w, kubechan_state) kind_client"
  c_pods :: "('w, pod) kind_client"
  c_deployments :: "('w, deployment) kind_client"
  c_services :: "('w, service) kind_client"
  c_nodes :: "('w, object_meta) kind_client"
  c_statefulSets :: "('w, template_owner) kind_client"
  c_daemonSets :: "('w, template_owner) kind_client"
  c_endpointSlices :: "('w, endpoint_slice) kind_client"
  c_unstructured :: "string \<times> string \<times> string \<Rightarrow> string \<Rightarrow> string \<Rightarrow> 'w \<Rightarrow> go_error + object_meta"

text \<open>\<open>client.MatchingLabels\<close> and \<open>labels.SelectorFromSet\<close>: every pair is on the object.\<close>

definition selector_matches :: "str_map \<Rightarrow> str_map \<Rightarrow> bool" where
  "selector_matches sel labels = list_all (\<lambda>(k, v). map_of labels k = Some v) sel"

section \<open>What the code relies on\<close>

type_synonym 'o table = "namespaced_name \<rightharpoonup> 'o"

text \<open>
  Laws of one typed client, over a view \<open>view\<close> of the world to a store whose table of
  this kind is read by \<open>sel\<close> and updated by \<open>upd\<close>. \<open>rest\<close> is the object without its status,
  \<open>sent\<close> what Create keeps of the object it is given, and \<open>dflt\<close> the object with the
  defaults the server may fill in when it writes a status.
\<close>

definition law_keyed :: "('o \<Rightarrow> object_meta) \<Rightarrow> ('w \<Rightarrow> 'o table) \<Rightarrow> bool" where
  "law_keyed meta tab \<longleftrightarrow> (\<forall>w k x. tab w k = Some x \<longrightarrow> meta_key (meta x) = k)"

definition law_get :: "('w, 'o) kind_client \<Rightarrow> ('w \<Rightarrow> 'o table) \<Rightarrow> bool" where
  "law_get c tab \<longleftrightarrow> (\<forall>w ns n x. api_get c ns n w = Inr x \<longrightarrow> tab w (ns, n) = Some x) \<and>
     (\<forall>w ns n e. api_get c ns n w = Inl e \<longrightarrow> is_not_found e \<longrightarrow> tab w (ns, n) = None)"

definition law_list ::
  "('w, 'o) kind_client \<Rightarrow> ('o \<Rightarrow> object_meta) \<Rightarrow> ('w \<Rightarrow> 'o table) \<Rightarrow> bool" where
  "law_list c meta tab \<longleftrightarrow> (\<forall>w ns ls xs. api_list c ns ls w = Inr xs \<longrightarrow>
     distinct (map (\<lambda>x. meta_key (meta x)) xs) \<and>
     set xs = {x. tab w (meta_key (meta x)) = Some x \<and>
       (ns = [] \<or> om_namespace (meta x) = ns) \<and> selector_matches ls (om_labels (meta x))})"

definition law_create ::
  "('w, 'o) kind_client \<Rightarrow> ('o \<Rightarrow> object_meta) \<Rightarrow> ('o \<Rightarrow> 'p) \<Rightarrow> ('w \<Rightarrow> 'st) \<Rightarrow>
   ('st \<Rightarrow> 'o table) \<Rightarrow> (('o table \<Rightarrow> 'o table) \<Rightarrow> 'st \<Rightarrow> 'st) \<Rightarrow> bool" where
  "law_create c meta sent view sel upd \<longleftrightarrow> (\<forall>w x x' w'. api_create c x w = (Inr x', w') \<longrightarrow>
     sel (view w) (meta_key (meta x')) = None \<and>
     om_namespace (meta x') = om_namespace (meta x) \<and>
     (om_name (meta x) \<noteq> [] \<longrightarrow> om_name (meta x') = om_name (meta x)) \<and>
     om_labels (meta x') = om_labels (meta x) \<and> sent x' = sent x \<and>
     view w' = upd (\<lambda>m. m(meta_key (meta x') \<mapsto> x')) (view w))"

definition law_patch ::
  "('w, 'o) kind_client \<Rightarrow> ('o \<Rightarrow> object_meta) \<Rightarrow> ('o \<Rightarrow> 's) \<Rightarrow> ('w \<Rightarrow> 'st) \<Rightarrow>
   ('st \<Rightarrow> 'o table) \<Rightarrow> (('o table \<Rightarrow> 'o table) \<Rightarrow> 'st \<Rightarrow> 'st) \<Rightarrow> bool" where
  "law_patch c meta status view sel upd \<longleftrightarrow> (\<forall>w b x x' w'. api_patch c b x w = (Inr x', w') \<longrightarrow>
     sel (view w) (meta_key (meta b)) = Some b \<longrightarrow> meta_key (meta x) = meta_key (meta b) \<longrightarrow>
     status x = status b \<longrightarrow>
     x' = x \<and> view w' = upd (\<lambda>m. m(meta_key (meta b) \<mapsto> x)) (view w))"

definition law_status_patch ::
  "('w, 'o) kind_client \<Rightarrow> ('o \<Rightarrow> object_meta) \<Rightarrow> ('o \<Rightarrow> 'r) \<Rightarrow> ('o \<Rightarrow> 'o) \<Rightarrow> ('w \<Rightarrow> 'st) \<Rightarrow>
   ('st \<Rightarrow> 'o table) \<Rightarrow> (('o table \<Rightarrow> 'o table) \<Rightarrow> 'st \<Rightarrow> 'st) \<Rightarrow> bool" where
  "law_status_patch c meta rest dflt view sel upd \<longleftrightarrow>
     (\<forall>w b x x' w'. api_status_patch c b x w = (Inr x', w') \<longrightarrow>
        sel (view w) (meta_key (meta b)) = Some b \<longrightarrow> meta x = meta b \<longrightarrow> rest x = rest b \<longrightarrow>
        (x' = x \<or> x' = dflt x) \<and> view w' = upd (\<lambda>m. m(meta_key (meta b) \<mapsto> x')) (view w))"

text \<open>A patch of an object that is not there fails.\<close>

definition law_missing ::
  "('w, 'o) kind_client \<Rightarrow> ('o \<Rightarrow> object_meta) \<Rightarrow> ('w \<Rightarrow> 'o table) \<Rightarrow> bool" where
  "law_missing c meta tab \<longleftrightarrow>
     (\<forall>w b x x' w'. api_patch c b x w = (Inr x', w') \<longrightarrow> tab w (meta_key (meta b)) \<noteq> None) \<and>
     (\<forall>w b x x' w'. api_status_patch c b x w = (Inr x', w') \<longrightarrow> tab w (meta_key (meta b)) \<noteq> None)"

definition law_fail :: "('w, 'o) kind_client \<Rightarrow> ('w \<Rightarrow> 'st) \<Rightarrow> bool" where
  "law_fail c view \<longleftrightarrow>
     (\<forall>w x e w'. api_create c x w = (Inl e, w') \<longrightarrow> view w' = view w) \<and>
     (\<forall>w b x e w'. api_patch c b x w = (Inl e, w') \<longrightarrow> view w' = view w) \<and>
     (\<forall>w b x e w'. api_status_patch c b x w = (Inl e, w') \<longrightarrow> view w' = view w)"

definition kind_laws ::
  "('w, 'o) kind_client \<Rightarrow> ('o \<Rightarrow> object_meta) \<Rightarrow> ('o \<Rightarrow> 'r) \<Rightarrow> ('o \<Rightarrow> 's) \<Rightarrow> ('o \<Rightarrow> 'p) \<Rightarrow>
   ('o \<Rightarrow> 'o) \<Rightarrow> ('w \<Rightarrow> 'st) \<Rightarrow> ('st \<Rightarrow> 'o table) \<Rightarrow> (('o table \<Rightarrow> 'o table) \<Rightarrow> 'st \<Rightarrow> 'st) \<Rightarrow> bool"
  where
  "kind_laws c meta rest status sent dflt view sel upd \<longleftrightarrow>
     law_keyed meta (\<lambda>w. sel (view w)) \<and> law_get c (\<lambda>w. sel (view w)) \<and>
     law_list c meta (\<lambda>w. sel (view w)) \<and> law_create c meta sent view sel upd \<and>
     law_patch c meta status view sel upd \<and> law_status_patch c meta rest dflt view sel upd \<and>
     law_missing c meta (\<lambda>w. sel (view w)) \<and> law_fail c view"

record store =
  st_problemCases :: "problem_case table"
  st_incidents :: "incident table"
  st_rules :: "exclusion_rule table"
  st_states :: "kubechan_state table"

text \<open>The CRD default of \<open>status.state\<close>, for a status without one.\<close>

definition pc_dflt :: "problem_case \<Rightarrow> problem_case" where
  "pc_dflt pc = (if pc_state pc = []
     then pc\<lparr>pc_status := (pc_status pc)\<lparr>pct_state := ProblemCaseStateOpen\<rparr>\<rparr> else pc)"

definition inc_dflt :: "incident \<Rightarrow> incident" where
  "inc_dflt inc = (if inc_state inc = []
     then inc\<lparr>inc_status := (inc_status inc)\<lparr>int_state := IncidentStateOpen\<rparr>\<rparr> else inc)"

text \<open>What Create keeps of an Incident: \<open>spec.source\<close> may be filled in with \<open>auto\<close>.\<close>

definition inc_sent :: "incident \<Rightarrow> resource_ref \<times> string list \<times> bool" where
  "inc_sent inc = (ins_rootResource (inc_spec inc), ins_problemCases (inc_spec inc),
     ins_source (inc_spec inc) = ''manual'')"

definition faithful_client :: "'w client \<Rightarrow> ('w \<Rightarrow> store) \<Rightarrow> bool" where
  "faithful_client c view \<longleftrightarrow>
     kind_laws (c_problemCases c) pc_meta pc_spec pc_status pc_spec pc_dflt
       view st_problemCases st_problemCases_update \<and>
     kind_laws (c_incidents c) inc_meta inc_spec inc_status inc_sent inc_dflt
       view st_incidents st_incidents_update \<and>
     kind_laws (c_rules c) rule_meta rule_spec rule_status rule_spec (\<lambda>x. x)
       view st_rules st_rules_update \<and>
     kind_laws (c_states c) kcs_meta (\<lambda>_. ()) kcs_status (\<lambda>_. ()) (\<lambda>x. x)
       view st_states st_states_update"

lemma kind_laws_keyed:
  "kind_laws c meta rest status sent dflt view sel upd \<Longrightarrow> sel (view w) k = Some x \<Longrightarrow>
   meta_key (meta x) = k"
  by (cases k) (simp add: kind_laws_def law_keyed_def)

lemma kind_laws_get:
  "kind_laws c meta rest status sent dflt view sel upd \<Longrightarrow> api_get c ns n w = Inr x \<Longrightarrow>
   sel (view w) (ns, n) = Some x"
  by (simp add: kind_laws_def law_get_def)

lemma kind_laws_get_missing:
  "kind_laws c meta rest status sent dflt view sel upd \<Longrightarrow> api_get c ns n w = Inl e \<Longrightarrow>
   is_not_found e \<Longrightarrow> sel (view w) (ns, n) = None"
  by (simp add: kind_laws_def law_get_def)

lemma kind_laws_list:
  assumes "kind_laws c meta rest status sent dflt view sel upd"
    and "api_list c ns ls w = Inr xs"
  shows "set xs = {x. sel (view w) (meta_key (meta x)) = Some x \<and>
    (ns = [] \<or> om_namespace (meta x) = ns) \<and> selector_matches ls (om_labels (meta x))}"
  using assms by (simp add: kind_laws_def law_list_def)

lemma kind_laws_create:
  assumes "kind_laws c meta rest status sent dflt view sel upd"
    and "api_create c x w = (Inr x', w')"
  shows "sel (view w) (meta_key (meta x')) = None"
    and "om_namespace (meta x') = om_namespace (meta x)"
    and "om_name (meta x) \<noteq> [] \<Longrightarrow> om_name (meta x') = om_name (meta x)"
    and "om_labels (meta x') = om_labels (meta x)"
    and "sent x' = sent x"
    and "view w' = upd (\<lambda>m. m(meta_key (meta x') \<mapsto> x')) (view w)"
  using assms by (auto simp: kind_laws_def law_create_def)

lemma kind_laws_patch:
  assumes "kind_laws c meta rest status sent dflt view sel upd"
    and "api_patch c b x w = (Inr x', w')" and "sel (view w) (meta_key (meta b)) = Some b"
    and "meta_key (meta x) = meta_key (meta b)" and "status x = status b"
  shows "x' = x" and "view w' = upd (\<lambda>m. m(meta_key (meta b) \<mapsto> x)) (view w)"
  using assms by (auto simp: kind_laws_def law_patch_def)

lemma kind_laws_status_patch_any:
  assumes "kind_laws c meta rest status sent dflt view sel upd"
    and "api_status_patch c b x w = (Inr x', w')" and "sel (view w) (meta_key (meta b)) = Some b"
    and "meta x = meta b" and "rest x = rest b"
  shows "x' = x \<or> x' = dflt x" and "view w' = upd (\<lambda>m. m(meta_key (meta b) \<mapsto> x')) (view w)"
  using assms unfolding kind_laws_def law_status_patch_def by blast+

lemma kind_laws_status_patch:
  assumes "kind_laws c meta rest status sent dflt view sel upd"
    and "api_status_patch c b x w = (Inr x', w')" and "sel (view w) (meta_key (meta b)) = Some b"
    and "meta x = meta b" and "rest x = rest b" and "dflt x = x"
  shows "x' = x" and "view w' = upd (\<lambda>m. m(meta_key (meta b) \<mapsto> x)) (view w)"
  using kind_laws_status_patch_any [OF assms(1-5)] assms(6) by auto

lemma kind_laws_fail:
  assumes "kind_laws c meta rest status sent dflt view sel upd"
  shows "api_create c x w = (Inl e, w') \<Longrightarrow> view w' = view w"
    and "api_patch c b x w = (Inl e, w') \<Longrightarrow> view w' = view w"
    and "api_status_patch c b x w = (Inl e, w') \<Longrightarrow> view w' = view w"
  using assms by (auto simp: kind_laws_def law_fail_def)

lemma kind_laws_missing:
  assumes "kind_laws c meta rest status sent dflt view sel upd" and "sel (view w) (meta_key (meta b)) = None"
  shows "api_patch c b x w \<noteq> (Inr x', w')" and "api_status_patch c b x w \<noteq> (Inr x', w')"
  using assms unfolding kind_laws_def law_missing_def by blast+

text \<open>The outcomes of a write to a stored object, for case analysis.\<close>

lemma patch_outcome:
  assumes "kind_laws c meta rest status sent dflt view sel upd"
    and "sel (view w) (meta_key (meta b)) = Some b"
    and "meta_key (meta x) = meta_key (meta b)" and "status x = status b"
  obtains e w' where "api_patch c b x w = (Inl e, w')" and "view w' = view w"
  | w' where "api_patch c b x w = (Inr x, w')" and "view w' = upd (\<lambda>m. m(meta_key (meta b) \<mapsto> x)) (view w)"
proof -
  obtain r w' where eq: "api_patch c b x w = (r, w')" by fastforce
  show thesis
  proof (cases r)
    case (Inl e)
    with eq that(1) kind_laws_fail(2) [OF assms(1)] show thesis by blast
  next
    case (Inr x')
    with eq that(2) kind_laws_patch [OF assms(1) _ assms(2-4)] show thesis by blast
  qed
qed

lemma status_patch_outcome:
  assumes "kind_laws c meta rest status sent dflt view sel upd"
    and "sel (view w) (meta_key (meta b)) = Some b" and "meta x = meta b" and "rest x = rest b"
  obtains e w' where "api_status_patch c b x w = (Inl e, w')" and "view w' = view w"
  | x' w' where "api_status_patch c b x w = (Inr x', w')" and "x' = x \<or> x' = dflt x"
      and "view w' = upd (\<lambda>m. m(meta_key (meta b) \<mapsto> x')) (view w)"
proof -
  obtain r w' where eq: "api_status_patch c b x w = (r, w')" by fastforce
  show thesis
  proof (cases r)
    case (Inl e)
    with eq that(1) kind_laws_fail(3) [OF assms(1)] show thesis by blast
  next
    case (Inr x')
    with eq that(2) kind_laws_status_patch_any [OF assms(1) _ assms(2-4)] show thesis by blast
  qed
qed

lemma create_outcome:
  assumes "kind_laws c meta rest status sent dflt view sel upd"
  obtains e w' where "api_create c x w = (Inl e, w')" and "view w' = view w"
  | x' w' where "api_create c x w = (Inr x', w')" and "sel (view w) (meta_key (meta x')) = None"
      and "om_namespace (meta x') = om_namespace (meta x)"
      and "om_name (meta x) \<noteq> [] \<Longrightarrow> om_name (meta x') = om_name (meta x)"
      and "om_labels (meta x') = om_labels (meta x)" and "sent x' = sent x"
      and "view w' = upd (\<lambda>m. m(meta_key (meta x') \<mapsto> x')) (view w)"
proof -
  obtain r w' where eq: "api_create c x w = (r, w')" by fastforce
  show thesis
  proof (cases r)
    case (Inl e)
    with eq that(1) kind_laws_fail(1) [OF assms(1)] show thesis by blast
  next
    case (Inr x')
    with eq have e: "api_create c x w = (Inr x', w')" by simp
    from that(2) [OF e kind_laws_create [OF assms(1) e]] show thesis by blast
  qed
qed

lemma dflt_sel [simp]:
  "pc_meta (pc_dflt pc) = pc_meta pc" "pc_spec (pc_dflt pc) = pc_spec pc"
  "inc_meta (inc_dflt inc) = inc_meta inc" "inc_spec (inc_dflt inc) = inc_spec inc"
  by (simp_all add: pc_dflt_def inc_dflt_def)

lemma dflt_resolved [simp]:
  "pc_resolved (pc_dflt pc) = pc_resolved pc" "inc_resolved (inc_dflt inc) = inc_resolved inc"
  by (simp_all add: pc_dflt_def inc_dflt_def pc_resolved_def inc_resolved_def state_consts)

lemma dflt_status [simp]:
  "int_activeProblemCases (inc_status (inc_dflt inc)) = int_activeProblemCases (inc_status inc)"
  "int_resolvedAt (inc_status (inc_dflt inc)) = int_resolvedAt (inc_status inc)"
  by (simp_all add: inc_dflt_def)

lemma dflt_id [simp]:
  "pc_state pc \<noteq> [] \<Longrightarrow> pc_dflt pc = pc" "inc_state inc \<noteq> [] \<Longrightarrow> inc_dflt inc = inc"
  by (simp_all add: pc_dflt_def inc_dflt_def)

lemma faithful_pc: "faithful_client c view \<Longrightarrow>
  kind_laws (c_problemCases c) pc_meta pc_spec pc_status pc_spec pc_dflt
    view st_problemCases st_problemCases_update"
  by (simp add: faithful_client_def)

lemma faithful_inc: "faithful_client c view \<Longrightarrow>
  kind_laws (c_incidents c) inc_meta inc_spec inc_status inc_sent inc_dflt
    view st_incidents st_incidents_update"
  by (simp add: faithful_client_def)

lemma faithful_rule: "faithful_client c view \<Longrightarrow>
  kind_laws (c_rules c) rule_meta rule_spec rule_status rule_spec (\<lambda>x. x)
    view st_rules st_rules_update"
  by (simp add: faithful_client_def)

lemma faithful_state: "faithful_client c view \<Longrightarrow>
  kind_laws (c_states c) kcs_meta (\<lambda>_. ()) kcs_status (\<lambda>_. ()) (\<lambda>x. x)
    view st_states st_states_update"
  by (simp add: faithful_client_def)

section \<open>Discovery\<close>

text \<open>
  The discovery client: the error of its construction or the resources by group and version, and
  \<open>schema.ParseGroupVersion\<close>. A resource of the dynamic client is named by group, version and resource.
\<close>

record api_resource =
  ap_name :: string
  ap_kind :: string
  ap_namespaced :: bool
  ap_verbs :: "string list"

type_synonym resource_lists = "(string \<times> api_resource list) list"

record discovery =
  di_lists :: "go_error + resource_lists"
  di_parse :: "string \<Rightarrow> go_error + string \<times> string"

record gvr =
  gv_group :: string
  gv_version :: string
  gv_resource :: string

end
