(* ===== verification/Mem_Client.thy ===== *)
theory Mem_Client
  imports Api_Client
begin

text \<open>
  An in-memory Kubernetes client, after the fake client the repository's tests are written
  against: a table of objects per kind, names generated from the size of the table, and the status
  served by its own endpoint. It satisfies \<open>faithful_client\<close>, which shows that the hypothesis of
  the properties can hold, and it evaluates, so that witnesses can run the handlers.
\<close>

section \<open>Tables\<close>

definition tab_find :: "('o \<Rightarrow> object_meta) \<Rightarrow> 'o list \<Rightarrow> 'o table" where
  "tab_find meta t k = find (\<lambda>x. meta_key (meta x) = k) t"

fun tab_uniq :: "('o \<Rightarrow> object_meta) \<Rightarrow> 'o list \<Rightarrow> 'o list" where
  "tab_uniq meta [] = []"
| "tab_uniq meta (x # t) =
     x # filter (\<lambda>y. meta_key (meta y) \<noteq> meta_key (meta x)) (tab_uniq meta t)"

definition tab_put :: "('o \<Rightarrow> object_meta) \<Rightarrow> 'o \<Rightarrow> 'o list \<Rightarrow> 'o list" where
  "tab_put meta x t = map (\<lambda>y. if meta_key (meta y) = meta_key (meta x) then x else y) t"

lemma tab_find_key: "tab_find meta t k = Some x \<Longrightarrow> meta_key (meta x) = k"
  by (auto simp: tab_find_def find_Some_iff)

lemma tab_find_snoc_at:
  "tab_find meta (t @ [x]) k = (case tab_find meta t k of Some y \<Rightarrow> Some y
     | None \<Rightarrow> if meta_key (meta x) = k then Some x else None)"
  by (induction t) (simp_all add: tab_find_def)

lemma tab_find_put_at:
  "tab_find meta (tab_put meta x t) k = (if meta_key (meta x) = k
     then map_option (\<lambda>_. x) (tab_find meta t k) else tab_find meta t k)"
  by (induction t) (auto simp: tab_find_def tab_put_def)

lemma tab_find_snoc:
  "tab_find meta t (meta_key (meta x)) = None \<Longrightarrow>
   tab_find meta (t @ [x]) = (tab_find meta t)(meta_key (meta x) \<mapsto> x)"
  by (rule ext) (simp add: tab_find_snoc_at split: option.splits)

lemma tab_find_put:
  "tab_find meta t (meta_key (meta x)) = Some y \<Longrightarrow>
   tab_find meta (tab_put meta x t) = (tab_find meta t)(meta_key (meta x) \<mapsto> x)"
  by (rule ext) (simp add: tab_find_put_at)

lemma set_tab_uniq:
  "x \<in> set (tab_uniq meta t) \<longleftrightarrow> tab_find meta t (meta_key (meta x)) = Some x"
  by (induction t) (auto simp: tab_find_def)

lemma distinct_tab_uniq: "distinct (map (\<lambda>x. meta_key (meta x)) (tab_uniq meta t))"
  by (induction t) (auto simp: distinct_map filter_map intro: inj_on_subset)

section \<open>One kind\<close>

definition named :: "('o \<Rightarrow> object_meta) \<Rightarrow> ((object_meta \<Rightarrow> object_meta) \<Rightarrow> 'o \<Rightarrow> 'o) \<Rightarrow> nat \<Rightarrow> 'o \<Rightarrow> 'o"
  where
  "named meta set_meta n x = (if om_name (meta x) = []
     then set_meta (\<lambda>m. m\<lparr>om_name := om_generateName m @ radix 10 n\<rparr>) x else x)"

definition mem_kind ::
  "('o \<Rightarrow> object_meta) \<Rightarrow> ((object_meta \<Rightarrow> object_meta) \<Rightarrow> 'o \<Rightarrow> 'o) \<Rightarrow> ('o \<Rightarrow> 'o) \<Rightarrow>
   ('o \<Rightarrow> 'o \<Rightarrow> 'o) \<Rightarrow> ('w \<Rightarrow> 'o list) \<Rightarrow> (('o list \<Rightarrow> 'o list) \<Rightarrow> 'w \<Rightarrow> 'w) \<Rightarrow> ('w, 'o) kind_client"
  where
  "mem_kind meta set_meta clear with_status tab upd_tab =
     \<lparr>api_get = (\<lambda>ns n w. case tab_find meta (tab w) (ns, n) of None \<Rightarrow> Inl NotFound | Some x \<Rightarrow> Inr x),
      api_list = (\<lambda>ns ls w. Inr (filter (\<lambda>x. (ns = [] \<or> om_namespace (meta x) = ns) \<and>
        selector_matches ls (om_labels (meta x))) (tab_uniq meta (tab w)))),
      api_create = (\<lambda>x w. let x' = clear (named meta set_meta (length (tab w)) x) in
        case tab_find meta (tab w) (meta_key (meta x')) of Some _ \<Rightarrow> (Inl AlreadyExists, w)
        | None \<Rightarrow> (Inr x', upd_tab (\<lambda>t. t @ [x']) w)),
      api_patch = (\<lambda>b x w. case tab_find meta (tab w) (meta_key (meta b)) of None \<Rightarrow> (Inl NotFound, w)
        | Some y \<Rightarrow> let x' = with_status x y in (Inr x', upd_tab (tab_put meta x') w)),
      api_status_patch = (\<lambda>b x w. case tab_find meta (tab w) (meta_key (meta b)) of
          None \<Rightarrow> (Inl NotFound, w)
        | Some y \<Rightarrow> let x' = with_status y x in (Inr x', upd_tab (tab_put meta x') w))\<rparr>"

lemma mem_kind_laws:
  assumes set_meta: "\<And>f x. meta (set_meta f x) = f (meta x)" "\<And>f x. sent (set_meta f x) = sent x"
    and clear: "\<And>x. meta (clear x) = meta x" "\<And>x. sent (clear x) = sent x"
    and ws: "\<And>x y. status x = status y \<Longrightarrow> with_status x y = x"
      "\<And>x y. meta x = meta y \<Longrightarrow> rest x = rest y \<Longrightarrow> with_status y x = x"
      "\<And>x y. meta (with_status x y) = meta x"
    and view: "\<And>w. sel (view w) = tab_find meta (tab w)"
      "\<And>f w. view (upd_tab f w) = upd (\<lambda>_. tab_find meta (f (tab w))) (view w)"
    and lens: "\<And>f s. upd f s = upd (\<lambda>_. f (sel s)) s"
  shows "kind_laws (mem_kind meta set_meta clear with_status tab upd_tab) meta rest status sent
    dflt view sel upd"
proof -
  let ?c = "mem_kind meta set_meta clear with_status tab upd_tab"
  have "law_keyed meta (\<lambda>w. sel (view w))"
    by (auto simp: law_keyed_def view dest: tab_find_key)
  moreover have "law_get ?c (\<lambda>w. sel (view w))"
    by (auto simp: law_get_def mem_kind_def view split: option.splits)
  moreover have "law_list ?c meta (\<lambda>w. sel (view w))"
    by (auto simp: law_list_def mem_kind_def view set_tab_uniq distinct_map_filter distinct_tab_uniq)
  moreover have "law_create ?c meta sent view sel upd"
    unfolding law_create_def
    by (auto simp: mem_kind_def view set_meta clear named_def Let_def tab_find_snoc
        lens [of "\<lambda>m. m(_ \<mapsto> _)"] split: option.splits)
  moreover have "law_patch ?c meta status view sel upd"
    unfolding law_patch_def
    by (auto simp: mem_kind_def view Let_def ws tab_find_put
        lens [of "\<lambda>m. m(_ \<mapsto> _)"] split: option.splits)
  moreover have "law_status_patch ?c meta rest dflt view sel upd"
    unfolding law_status_patch_def
    by (auto simp: mem_kind_def view Let_def ws tab_find_put
        lens [of "\<lambda>m. m(_ \<mapsto> _)"] split: option.splits)
  moreover have "law_missing ?c meta (\<lambda>w. sel (view w))"
    unfolding law_missing_def by (auto simp: mem_kind_def view Let_def split: option.splits)
  moreover have "law_fail ?c view"
    unfolding law_fail_def by (auto simp: mem_kind_def Let_def split: option.splits)
  ultimately show ?thesis by (simp add: kind_laws_def)
qed

section \<open>All kinds\<close>

record mem =
  m_problemCases :: "problem_case list"
  m_incidents :: "incident list"
  m_rules :: "exclusion_rule list"
  m_states :: "kubechan_state list"
  m_pods :: "pod list"
  m_deployments :: "deployment list"
  m_services :: "service list"
  m_nodes :: "object_meta list"
  m_statefulSets :: "template_owner list"
  m_daemonSets :: "template_owner list"
  m_endpointSlices :: "endpoint_slice list"
  m_others :: "object_meta list"
  m_runs :: "diagnostic_run list"

definition empty_mem :: mem where
  "empty_mem = \<lparr>m_problemCases = [], m_incidents = [], m_rules = [], m_states = [], m_pods = [],
     m_deployments = [], m_services = [], m_nodes = [], m_statefulSets = [], m_daemonSets = [],
     m_endpointSlices = [], m_others = [], m_runs = []\<rparr>"

definition mem_client :: "mem client" where
  "mem_client = \<lparr>
     c_problemCases = mem_kind pc_meta pc_meta_update (pc_status_update (\<lambda>_. empty_pc_status))
       (\<lambda>x y. x\<lparr>pc_status := pc_status y\<rparr>) m_problemCases m_problemCases_update,
     c_incidents = mem_kind inc_meta inc_meta_update (inc_status_update (\<lambda>_. empty_incident_status))
       (\<lambda>x y. x\<lparr>inc_status := inc_status y\<rparr>) m_incidents m_incidents_update,
     c_rules = mem_kind rule_meta rule_meta_update id
       (\<lambda>x y. x\<lparr>rule_status := rule_status y\<rparr>) m_rules m_rules_update,
     c_states = mem_kind kcs_meta kcs_meta_update (kcs_status_update (\<lambda>_. empty_kubechan_status))
       (\<lambda>x y. x\<lparr>kcs_status := kcs_status y\<rparr>) m_states m_states_update,
     c_pods = mem_kind pod_meta pod_meta_update id (\<lambda>x y. x) m_pods m_pods_update,
     c_deployments = mem_kind dep_meta dep_meta_update id (\<lambda>x y. x) m_deployments m_deployments_update,
     c_services = mem_kind svc_meta svc_meta_update id (\<lambda>x y. x) m_services m_services_update,
     c_nodes = mem_kind id (\<lambda>f. f) id (\<lambda>x y. x) m_nodes m_nodes_update,
     c_statefulSets = mem_kind to_meta to_meta_update id (\<lambda>x y. x) m_statefulSets m_statefulSets_update,
     c_daemonSets = mem_kind to_meta to_meta_update id (\<lambda>x y. x) m_daemonSets m_daemonSets_update,
     c_endpointSlices = mem_kind es_meta es_meta_update id (\<lambda>x y. x) m_endpointSlices m_endpointSlices_update,
     c_unstructured = (\<lambda>(g, v, k) ns n w.
       case find (\<lambda>m. om_kind m = k \<and> om_namespace m = ns \<and> om_name m = n)
         (m_others w @ map pod_meta (m_pods w) @ map dep_meta (m_deployments w)) of
         None \<Rightarrow> Inl NotFound | Some m \<Rightarrow> Inr m)\<rparr>"

definition mem_runs :: "(mem, diagnostic_run) kind_client" where
  "mem_runs = mem_kind dr_meta dr_meta_update id (\<lambda>x y. x\<lparr>dr_status := dr_status y\<rparr>) m_runs m_runs_update"

definition mem_view :: "mem \<Rightarrow> store" where
  "mem_view w = \<lparr>st_problemCases = tab_find pc_meta (m_problemCases w),
     st_incidents = tab_find inc_meta (m_incidents w), st_rules = tab_find rule_meta (m_rules w),
     st_states = tab_find kcs_meta (m_states w)\<rparr>"

theorem mem_client_faithful: "faithful_client mem_client mem_view"
  unfolding faithful_client_def mem_client_def kind_client.simps client.simps
  by (intro conjI mem_kind_laws) (simp_all add: mem_view_def inc_sent_def)

text \<open>The laws of the DiagnosticRun client, over a view of the table of runs alone.\<close>

definition run_laws :: "('w, diagnostic_run) kind_client \<Rightarrow> ('w \<Rightarrow> diagnostic_run table) \<Rightarrow> bool" where
  "run_laws c view \<longleftrightarrow> kind_laws c dr_meta dr_spec dr_status dr_spec (\<lambda>x. x) view (\<lambda>t. t) (\<lambda>f. f)"

lemma mem_runs_laws: "run_laws mem_runs (\<lambda>w. tab_find dr_meta (m_runs w))"
  unfolding run_laws_def mem_runs_def by (rule mem_kind_laws) simp_all

lemmas mem_eval = mem_runs_def mem_client_def mem_kind_def tab_find_def tab_put_def named_def meta_key_def
  selector_matches_def mem_view_def empty_mem_def empty_meta_def

end
