(* ===== verification/Exclusion.thy ===== *)
theory Exclusion
  imports Mem_Client
begin

text \<open>
  The exclusion rules of \<open>cluster-watcher/exclusion/matcher.go\<close>: whether an enabled rule of the
  control namespace suppresses a detector for an object at an instant, and the book-keeping on the
  rule that did. The time zone database is a parameter: \<open>tz name\<close> is \<open>None\<close> for a name that
  \<open>time.LoadLocation\<close> refuses and otherwise the offset from UTC, in seconds, at a Unix second.
\<close>

section \<open>Local time\<close>

type_synonym location = "int \<Rightarrow> int"
type_synonym tz_database = "string \<Rightarrow> location option"

definition day_names :: "string list" where
  "day_names = [''Sun'', ''Mon'', ''Tue'', ''Wed'', ''Thu'', ''Fri'', ''Sat'']"

text \<open>Seconds on the wall clock of a location; the epoch was a Thursday.\<close>

definition local_secs :: "location \<Rightarrow> time \<Rightarrow> int" where
  "local_secs loc t = unix t + loc (unix t)"

definition day_name :: "int \<Rightarrow> string" where
  "day_name secs = day_names ! nat ((secs div 86400 + 4) mod 7)"

definition minute_of_day :: "int \<Rightarrow> int" where
  "minute_of_day secs = (secs mod 86400) div 3600 * 60 + (secs mod 3600) div 60"

lemma minute_of_day_range: "0 \<le> minute_of_day s" "minute_of_day s < 1440"
proof -
  have "0 \<le> (s mod 86400) div 3600" "(s mod 86400) div 3600 < 24"
    "0 \<le> (s mod 3600) div 60" "(s mod 3600) div 60 < 60"
    by (simp_all add: div_less_iff_less_mult pos_imp_zdiv_nonneg_iff)
  then show "0 \<le> minute_of_day s" "minute_of_day s < 1440" by (simp_all add: minute_of_day_def)
qed

lemma minute_of_day_div: "minute_of_day s = (s mod 86400) div 60"
proof -
  have "s mod 3600 = (s mod 86400) mod 3600" by (simp add: mod_mod_cancel)
  then have "minute_of_day s = (s mod 86400) div 3600 * 60 + ((s mod 86400) mod 3600) div 60"
    by (simp add: minute_of_day_def)
  also have "\<dots> = (s mod 86400) div 60"
    using zdiv_zmult2_eq [of 60 "s mod 86400" 60] zmod_zmult2_eq [of 60 "s mod 86400" 60]
    by simp
  finally show ?thesis .
qed

section \<open>Matching\<close>

definition matchesResource :: "exclusion_rule_spec \<Rightarrow> client_object \<Rightarrow> bool" where
  "matchesResource spec obj =
     (if list_ex (\<lambda>ref. rr_kind ref = get_kind obj \<and> rr_name ref = get_name obj \<and>
           (rr_namespace ref = [] \<or> rr_namespace ref = get_namespace obj)) (xr_targetResources spec)
      then True
      else (case xr_selector spec of
          None \<Rightarrow> False
        | Some sel \<Rightarrow>
            if xs_namespace sel \<noteq> [] \<and> xs_namespace sel \<noteq> get_namespace obj then False
            else if xs_kinds sel \<noteq> [] \<and> \<not> contains_string (xs_kinds sel) (get_kind obj) then False
            else list_all (\<lambda>(k, v). go_idx (get_labels obj) k = v) (xs_matchLabels sel)))"

definition matchesDetector :: "string list \<Rightarrow> string \<Rightarrow> bool" where
  "matchesDetector detectors detectorName =
     (if detectors = [] then True else contains_string detectors detectorName)"

text \<open>The local function \<open>hhmm\<close>; the error is only tested.\<close>

definition hhmm :: "string \<Rightarrow> int option" where
  "hhmm s = (case split_first (CHR '':'') s of
     [a, b] \<Rightarrow> (case scan_d a of None \<Rightarrow> None
       | Some h \<Rightarrow> (case scan_d b of None \<Rightarrow> None
           | Some m \<Rightarrow> Some (wrap64 (wrap64 (h * 60) + m))))
   | _ \<Rightarrow> None)"

definition period_active :: "string \<Rightarrow> int \<Rightarrow> exclusion_period \<Rightarrow> bool" where
  "period_active dayName nowMins p =
     (if \<not> contains_string (xp_days p) dayName then False
      else (case hhmm (xp_start p) of None \<Rightarrow> False
        | Some startMins \<Rightarrow> (case hhmm (xp_end p) of None \<Rightarrow> False
            | Some endMins \<Rightarrow>
                if endMins \<ge> startMins then nowMins \<ge> startMins \<and> nowMins < endMins
                else nowMins \<ge> startMins \<or> nowMins < endMins)))"

definition inTimeWindow :: "tz_database \<Rightarrow> exclusion_time_window \<Rightarrow> time \<Rightarrow> go_error + bool" where
  "inTimeWindow tz tw now = (case tz (xw_timezone tw) of
     None \<Rightarrow> Inl (Errorf (''invalid timezone '' @ quote (xw_timezone tw)))
   | Some loc \<Rightarrow>
       (let secs = local_secs loc now
        in Inr (list_ex (period_active (day_name secs) (minute_of_day secs)) (xw_periods tw))))"

text \<open>The body of the loop of \<open>IsExcluded\<close>: whether the rule is the one that suppresses.\<close>

definition rule_suppresses ::
  "tz_database \<Rightarrow> client_object \<Rightarrow> string \<Rightarrow> time \<Rightarrow> exclusion_rule \<Rightarrow> bool" where
  "rule_suppresses tz obj detectorName now rule =
     (if \<not> xr_enabled (rule_spec rule) then False
      else if xr_namespace (rule_spec rule) \<noteq> [] \<and> xr_namespace (rule_spec rule) \<noteq> get_namespace obj then False
      else if \<not> matchesResource (rule_spec rule) obj then False
      else if \<not> matchesDetector (xr_detectors (rule_spec rule)) detectorName then False
      else (case xr_timeWindow (rule_spec rule) of
          None \<Rightarrow> True
        | Some tw \<Rightarrow> (case inTimeWindow tz tw now of Inl err \<Rightarrow> False | Inr active \<Rightarrow> active)))"

text \<open>The result is the name of the rule, \<open>None\<close> for \<open>(false, "", nil)\<close>.\<close>

definition IsExcluded ::
  "tz_database \<Rightarrow> 'w client \<Rightarrow> string \<Rightarrow> client_object \<Rightarrow> string \<Rightarrow> time \<Rightarrow> 'w \<Rightarrow>
   go_error + string option" where
  "IsExcluded tz c controlNS obj detectorName now w = (case api_list (c_rules c) controlNS [] w of
     Inl err \<Rightarrow> Inl (Wrapf ''listing KubechanExclusionRules'' err)
   | Inr rules \<Rightarrow>
       Inr (map_option rule_name (find (rule_suppresses tz obj detectorName now) rules)))"

definition PatchMatchedStatus ::
  "'w client \<Rightarrow> exclusion_rule \<Rightarrow> time \<Rightarrow> 'w \<Rightarrow> go_error option \<times> 'w" where
  "PatchMatchedStatus c rule now w =
     (let rule' = rule\<lparr>rule_status := \<lparr>xt_lastMatchedAt = Some (metav1_now now),
            xt_suppressedCount = wrap64 (xt_suppressedCount (rule_status rule) + 1)\<rparr>\<rparr>
      in case api_status_patch (c_rules c) rule rule' w of
           (Inl err, w') \<Rightarrow> (Some (Wrapf (''patching ExclusionRule '' @ rule_name rule @ '' status'') err), w')
         | (Inr _, w') \<Rightarrow> (None, w'))"

text \<open>\<open>Inr None\<close> is the nil rule with a nil error.\<close>

definition GetRule :: "'w client \<Rightarrow> string \<Rightarrow> string \<Rightarrow> 'w \<Rightarrow> go_error + exclusion_rule option" where
  "GetRule c controlNS name w = (case api_get (c_rules c) controlNS name w of
     Inl err \<Rightarrow> (case ignore_not_found err of None \<Rightarrow> Inr None | Some e \<Rightarrow> Inl e)
   | Inr rule \<Rightarrow> Inr (Some rule))"

section \<open>Reading clock times\<close>

text \<open>A clock time as the rules write it: two digits, a colon, two digits.\<close>

definition clock_string :: "nat \<Rightarrow> nat \<Rightarrow> string" where
  "clock_string h m = [digit_char (h div 10), digit_char (h mod 10), CHR '':'',
     digit_char (m div 10), digit_char (m mod 10)]"

lemma is_digit_plain:
  assumes "is_digit c"
  shows "c \<noteq> CHR '':''" and "c \<noteq> CHR ''-''" and "c \<noteq> CHR ''+''" and "c \<noteq> CHR 0x0A" and "\<not> is_blank c"
  using assms by (auto simp: is_digit_def is_blank_def)

lemma scan_two_digits:
  assumes "a < 10" and "b < 10"
  shows "scan_d [digit_char a, digit_char b] = Some (int (a * 10 + b))"
proof -
  have "unradix 10 [digit_char a, digit_char b] = a * 10 + b"
    using assms by (simp add: unradix_def)
  then have v: "digits_value [digit_char a, digit_char b] = int (a * 10 + b)"
    by (simp only: digits_value_def)
  have "in_int64 (int (a * 10 + b))"
    using assms by (simp add: in_int64_def min_int64_def max_int64_def)
  then show ?thesis
    using is_digit_char [OF assms(1)] is_digit_char [OF assms(2)] is_digit_plain v
    by (simp add: scan_d_def parse_int64_def Let_def)
qed

lemma hhmm_clock_string:
  assumes "h < 100" and "m < 100"
  shows "hhmm (clock_string h m) = Some (int (h * 60 + m))"
proof -
  have d: "h div 10 < 10" "h mod 10 < 10" "m div 10 < 10" "m mod 10 < 10"
    using assms by simp_all
  have "split_first (CHR '':'') (clock_string h m) =
      [[digit_char (h div 10), digit_char (h mod 10)], [digit_char (m div 10), digit_char (m mod 10)]]"
    using is_digit_plain(1) [OF is_digit_char [OF d(1)]] is_digit_plain(1) [OF is_digit_char [OF d(2)]]
    by (simp add: split_first_def clock_string_def)
  moreover have "wrap64 (wrap64 (int h * 60) + int m) = int h * 60 + int m"
    using assms by (simp add: in_int64_def min_int64_def max_int64_def)
  ultimately show ?thesis
    by (simp add: hhmm_def scan_two_digits [OF d(1,2)] scan_two_digits [OF d(3,4)]
        flip: of_nat_mult of_nat_add)
qed

lemma PatchMatchedStatus_frame:
  assumes "faithful_client c view" and "st_rules (view w) (meta_key (rule_meta rule)) = Some rule"
  shows "st_problemCases (view (snd (PatchMatchedStatus c rule now w))) = st_problemCases (view w)"
    and "st_incidents (view (snd (PatchMatchedStatus c rule now w))) = st_incidents (view w)"
    and "st_states (view (snd (PatchMatchedStatus c rule now w))) = st_states (view w)"
  using faithful_rule [OF assms(1)] assms(2)
  by (rule status_patch_outcome [where x = "rule\<lparr>rule_status := \<lparr>xt_lastMatchedAt = Some (metav1_now now),
        xt_suppressedCount = wrap64 (xt_suppressedCount (rule_status rule) + 1)\<rparr>\<rparr>"];
      simp add: PatchMatchedStatus_def Let_def)+

section \<open>Properties\<close>

text \<open>
  A rule suppresses a detector for an object exactly when it is enabled, its namespace (if set)
  is the object's, the object is one of its targets or satisfies its selector, the detector is
  listed or the list is empty, and there is no time window or its zone is known and one of its
  periods is active; a rule with a malformed time zone never suppresses.
\<close>

theorem rule_suppresses_iff:
  "rule_suppresses tz obj det now rule \<longleftrightarrow>
     xr_enabled (rule_spec rule) \<and>
     (xr_namespace (rule_spec rule) = [] \<or> xr_namespace (rule_spec rule) = get_namespace obj) \<and>
     ((\<exists>ref. ref \<in> set (xr_targetResources (rule_spec rule)) \<and> rr_kind ref = get_kind obj \<and>
         rr_name ref = get_name obj \<and> (rr_namespace ref = [] \<or> rr_namespace ref = get_namespace obj)) \<or>
      (\<exists>sel. xr_selector (rule_spec rule) = Some sel \<and>
         (xs_namespace sel = [] \<or> xs_namespace sel = get_namespace obj) \<and>
         (xs_kinds sel = [] \<or> get_kind obj \<in> set (xs_kinds sel)) \<and>
         {(k, v). (k, v) \<in> set (xs_matchLabels sel) \<and> go_idx (get_labels obj) k \<noteq> v} = {})) \<and>
     (xr_detectors (rule_spec rule) = [] \<or> det \<in> set (xr_detectors (rule_spec rule))) \<and>
     (xr_timeWindow (rule_spec rule) = None \<or>
      (\<exists>tw loc p. xr_timeWindow (rule_spec rule) = Some tw \<and> tz (xw_timezone tw) = Some loc \<and>
         p \<in> set (xw_periods tw) \<and>
         period_active (day_name (local_secs loc now)) (minute_of_day (local_secs loc now)) p))"
proof -
  have res: "matchesResource (rule_spec rule) obj \<longleftrightarrow>
     (\<exists>ref. ref \<in> set (xr_targetResources (rule_spec rule)) \<and> rr_kind ref = get_kind obj \<and>
         rr_name ref = get_name obj \<and> (rr_namespace ref = [] \<or> rr_namespace ref = get_namespace obj)) \<or>
      (\<exists>sel. xr_selector (rule_spec rule) = Some sel \<and>
         (xs_namespace sel = [] \<or> xs_namespace sel = get_namespace obj) \<and>
         (xs_kinds sel = [] \<or> get_kind obj \<in> set (xs_kinds sel)) \<and>
         {(k, v). (k, v) \<in> set (xs_matchLabels sel) \<and> go_idx (get_labels obj) k \<noteq> v} = {})"
    by (auto simp: matchesResource_def list_ex_iff list_all_iff split: option.splits)
  have win: "(case xr_timeWindow (rule_spec rule) of None \<Rightarrow> True
       | Some tw \<Rightarrow> (case inTimeWindow tz tw now of Inl err \<Rightarrow> False | Inr active \<Rightarrow> active)) \<longleftrightarrow>
     (xr_timeWindow (rule_spec rule) = None \<or>
      (\<exists>tw loc p. xr_timeWindow (rule_spec rule) = Some tw \<and> tz (xw_timezone tw) = Some loc \<and>
         p \<in> set (xw_periods tw) \<and>
         period_active (day_name (local_secs loc now)) (minute_of_day (local_secs loc now)) p))"
    by (auto simp: inTimeWindow_def Let_def list_ex_iff split: option.splits)
  show ?thesis
    unfolding rule_suppresses_def res win matchesDetector_def by auto
qed

text \<open>
  A window whose periods are written as clock times is active exactly in the minutes it names:
  a period from \<open>h:m\<close> to a later \<open>h':m'\<close> from its start to before its end, a period whose end is
  before its start outside that gap, and a period with equal ends never; the day is the one the
  wall clock of the zone shows.
\<close>

theorem in_time_window_iff:
  assumes "tz (xw_timezone tw) = Some loc"
    and "xw_periods tw = [\<lparr>xp_start = clock_string h m, xp_end = clock_string h' m', xp_days = days\<rparr>]"
    and "h < 24" and "m < 60" and "h' < 24" and "m' < 60"
  shows "inTimeWindow tz tw now = Inr (day_name (local_secs loc now) \<in> set days \<and>
    (let s = int (h * 60 + m); e = int (h' * 60 + m'); t = (local_secs loc now mod 86400) div 60
     in if s \<le> e then s \<le> t \<and> t < e else s \<le> t \<or> t < e))"
proof -
  have "hhmm (clock_string h m) = Some (int (h * 60 + m))" "hhmm (clock_string h' m') = Some (int (h' * 60 + m'))"
    using assms(3-6) by (simp_all add: hhmm_clock_string)
  then show ?thesis
    by (simp add: inTimeWindow_def assms(1,2) Let_def period_active_def minute_of_day_div)
qed

theorem in_time_window_iff_witness:
  "inTimeWindow (\<lambda>z. if z = ''UTC'' then Some (\<lambda>_. 0) else None)
     \<lparr>xw_timezone = ''UTC'', xw_periods = [\<lparr>xp_start = clock_string 22 0, xp_end = clock_string 6 0,
       xp_days = [''Thu'']\<rparr>]\<rparr> (23 * hour) = Inr True"
  by (subst in_time_window_iff [where loc = "\<lambda>_. 0" and h = 22 and m = 0 and h' = 6 and m' = 0 and days = "[''Thu'']"])
    (simp_all add: Let_def local_secs_def unix_def day_name_def day_names_def)

text \<open>
  \<open>IsExcluded\<close> decides over all rules of the control namespace: when the listing succeeds it
  returns no rule exactly when no stored rule suppresses, and a name it returns is the name of a
  stored rule that suppresses; when the listing fails the error is returned.
\<close>

theorem is_excluded_decides:
  assumes "faithful_client c view" and "controlNS \<noteq> []"
  shows "case IsExcluded tz c controlNS obj det now w of
      Inl e \<Rightarrow> (\<exists>e'. api_list (c_rules c) controlNS [] w = Inl e' \<and> e = Wrapf ''listing KubechanExclusionRules'' e')
    | Inr None \<Rightarrow> \<not> (\<exists>n rule. st_rules (view w) (controlNS, n) = Some rule \<and> rule_suppresses tz obj det now rule)
    | Inr (Some n) \<Rightarrow> \<exists>rule. st_rules (view w) (controlNS, n) = Some rule \<and> rule_suppresses tz obj det now rule"
proof (cases "api_list (c_rules c) controlNS [] w")
  case (Inl e)
  then show ?thesis by (simp add: IsExcluded_def)
next
  case (Inr rules)
  have set: "set rules = {x. st_rules (view w) (meta_key (rule_meta x)) = Some x \<and> om_namespace (rule_meta x) = controlNS}"
    using kind_laws_list [OF faithful_rule [OF assms(1)] Inr] assms(2) by (simp add: selector_matches_def)
  have key: "meta_key (rule_meta x) = k" if "st_rules (view w) k = Some x" for k x
    using kind_laws_keyed [OF faithful_rule [OF assms(1)] that] .
  show ?thesis
  proof (cases "find (rule_suppresses tz obj det now) rules")
    case None
    have "\<not> rule_suppresses tz obj det now rule" if r: "st_rules (view w) (controlNS, n) = Some rule" for n rule
    proof -
      have "rule \<in> set rules" using key [OF r] r set by (simp add: meta_key_def)
      with None show ?thesis by (simp add: find_None_iff)
    qed
    with None Inr show ?thesis by (auto simp: IsExcluded_def)
  next
    case (Some rule)
    then have "rule \<in> set rules" "rule_suppresses tz obj det now rule"
      by (auto simp: find_Some_iff)
    with set Some Inr show ?thesis by (auto simp: IsExcluded_def meta_key_def)
  qed
qed

definition sample_rule :: exclusion_rule where
  "sample_rule = \<lparr>rule_meta = empty_meta\<lparr>om_name := ''quiet'', om_namespace := ''kubechan''\<rparr>,
     rule_spec = \<lparr>xr_description = [], xr_enabled = True, xr_namespace = [], xr_detectors = [],
       xr_targetResources = [mk_ref [] ''Pod'' ''web''], xr_selector = None, xr_timeWindow = None\<rparr>,
     rule_status = \<lparr>xt_lastMatchedAt = None, xt_suppressedCount = 4\<rparr>\<rparr>"

definition sample_pod :: pod where
  "sample_pod = \<lparr>pod_meta = empty_meta\<lparr>om_kind := ''Pod'', om_name := ''web'', om_namespace := ''shop''\<rparr>,
     pod_phase = ''Running'', pod_containerStatuses = [], pod_initContainerStatuses = []\<rparr>"

theorem is_excluded_decides_witness:
  "\<exists>rule. st_rules (mem_view (empty_mem\<lparr>m_rules := [sample_rule]\<rparr>)) (''kubechan'', ''quiet'') = Some rule \<and>
     rule_suppresses (\<lambda>_. None) (PodObj sample_pod) ''CrashLoopBackOff'' 0 rule"
proof -
  have "IsExcluded (\<lambda>_. None) mem_client ''kubechan'' (PodObj sample_pod) ''CrashLoopBackOff'' 0
      (empty_mem\<lparr>m_rules := [sample_rule]\<rparr>) = Inr (Some ''quiet'')"
    by (simp add: IsExcluded_def mem_eval sample_rule_def sample_pod_def rule_suppresses_def
        matchesResource_def matchesDetector_def)
  then show ?thesis
    using is_excluded_decides [OF mem_client_faithful, where controlNS = "''kubechan''" and tz = "\<lambda>_. None"
      and obj = "PodObj sample_pod" and det = "''CrashLoopBackOff''" and now = 0
      and w = "empty_mem\<lparr>m_rules := [sample_rule]\<rparr>"]
    by simp
qed

text \<open>
  \<open>PatchMatchedStatus\<close> counts one suppression and stamps the rule with the current second,
  changing nothing else of the rule and no other object; when the call fails nothing changes and
  the error names the rule.
\<close>

theorem patch_matched_status_counts:
  assumes "faithful_client c view"
    and "st_rules (view w) (meta_key (rule_meta rule)) = Some rule"
    and "0 \<le> xt_suppressedCount (rule_status rule)" and "xt_suppressedCount (rule_status rule) < max_int64"
  shows "case PatchMatchedStatus c rule now w of
      (None, w') \<Rightarrow> view w' = (view w)\<lparr>st_rules := (st_rules (view w))(meta_key (rule_meta rule) \<mapsto>
        rule\<lparr>rule_status := \<lparr>xt_lastMatchedAt = Some (now div second * second),
          xt_suppressedCount = xt_suppressedCount (rule_status rule) + 1\<rparr>\<rparr>)\<rparr>
    | (Some e, w') \<Rightarrow> view w' = view w \<and> (\<exists>e'. e = Wrapf (''patching ExclusionRule '' @ rule_name rule @ '' status'') e')"
proof -
  let ?n = "xt_suppressedCount (rule_status rule)"
  have n: "wrap64 (?n + 1) = ?n + 1"
    using assms(3,4) by (intro wrap64_id) (simp add: in_int64_def min_int64_def max_int64_def)
  obtain r w' where eq: "api_status_patch (c_rules c) rule (rule\<lparr>rule_status := \<lparr>xt_lastMatchedAt = Some (metav1_now now),
            xt_suppressedCount = ?n + 1\<rparr>\<rparr>) w = (r, w')" by fastforce
  note kl = faithful_rule [OF assms(1)]
  show ?thesis
  proof (cases r)
    case (Inl e)
    with eq have "view w' = view w" using kind_laws_fail(3) [OF kl] by blast
    with eq Inl show ?thesis by (simp add: PatchMatchedStatus_def Let_def n)
  next
    case (Inr x)
    with eq kind_laws_status_patch(2) [OF kl, of rule _ w] assms(2)
    show ?thesis by (simp add: PatchMatchedStatus_def Let_def n metav1_now_def fun_upd_def)
  qed
qed

theorem patch_matched_status_counts_witness:
  "\<exists>w'. PatchMatchedStatus mem_client sample_rule (7 * second + 5) (empty_mem\<lparr>m_rules := [sample_rule]\<rparr>) = (None, w') \<and>
     st_rules (mem_view w') (''kubechan'', ''quiet'') = Some (sample_rule\<lparr>rule_status :=
       \<lparr>xt_lastMatchedAt = Some (7 * second), xt_suppressedCount = 5\<rparr>\<rparr>)"
proof -
  let ?w = "empty_mem\<lparr>m_rules := [sample_rule]\<rparr>"
  have st: "st_rules (mem_view ?w) (meta_key (rule_meta sample_rule)) = Some sample_rule"
    by (simp add: mem_eval)
  have key: "meta_key (rule_meta sample_rule) = (''kubechan'', ''quiet'')"
    by (simp add: sample_rule_def meta_key_def)
  have "fst (PatchMatchedStatus mem_client sample_rule (7 * second + 5) ?w) = None"
    by (simp add: PatchMatchedStatus_def Let_def mem_eval)
  with patch_matched_status_counts [OF mem_client_faithful st, of "7 * second + 5"] key show ?thesis
    by (cases "PatchMatchedStatus mem_client sample_rule (7 * second + 5) ?w")
      (auto simp: sample_rule_def max_int64_def)
qed

text \<open>
  A selector label with an empty value does not have to be present on the resource: such a
  selector matches an object that has no labels at all.
\<close>

theorem empty_label_value_matches_unlabelled:
  assumes "get_labels obj = []"
  shows "matchesResource \<lparr>xr_description = d, xr_enabled = True, xr_namespace = ns, xr_detectors = ds,
      xr_targetResources = [], xr_selector = Some \<lparr>xs_namespace = [], xs_kinds = [], xs_matchLabels = [(k, v)]\<rparr>,
      xr_timeWindow = tw\<rparr> obj \<longleftrightarrow> v = []"
  using assms by (auto simp: matchesResource_def go_idx_def)

theorem empty_label_value_matches_unlabelled_witness:
  "matchesResource \<lparr>xr_description = [], xr_enabled = True, xr_namespace = [], xr_detectors = [],
      xr_targetResources = [], xr_selector = Some \<lparr>xs_namespace = [], xs_kinds = [], xs_matchLabels = [(''team'', [])]\<rparr>,
      xr_timeWindow = None\<rparr> (PodObj sample_pod)"
  by (subst empty_label_value_matches_unlabelled) (simp_all add: sample_pod_def empty_meta_def)

end
