(* ===== verification/Detectors.thy ===== *)
theory Detectors
  imports Mem_Client
begin

text \<open>
  The detectors of \<open>cluster-watcher/detector\<close>: five implementations of the \<open>Detector\<close>
  interface, each a name and an evaluation of one Kubernetes object into symptoms. The interface
  is the record \<open>detector\<close>, its contract the locale \<open>detector_contract\<close>, interpreted on each of
  the five. \<open>clock\<close> gives the successive readings of \<open>time.Now()\<close> during the evaluation; a
  threshold is \<open>None\<close> where the Go field is the nil function.
\<close>

type_synonym clock = "nat \<Rightarrow> time"

record symptom =
  sym_message :: string
  sym_severity :: string

type_synonym 'w evaluation =
  "client_object \<Rightarrow> 'w client \<Rightarrow> 'w \<Rightarrow> clock \<Rightarrow> go_error + symptom list"

record 'w detector =
  det_Name :: string
  det_Evaluate :: "'w evaluation"

section \<open>CrashLoopBackOff\<close>

definition crashLoop_check :: "container_status \<Rightarrow> symptom list" where
  "crashLoop_check cs = (if cs_waitingReason cs = Some ''CrashLoopBackOff''
     then [\<lparr>sym_message = ''container '' @ quote (cs_name cs) @ '' is in CrashLoopBackOff (restarts: ''
              @ itoa (cs_restartCount cs) @ '')'',
            sym_severity = ''critical''\<rparr>]
     else [])"

definition crashLoop_Evaluate :: "'w evaluation" where
  "crashLoop_Evaluate obj c w clk = (case obj of
     PodObj pod \<Rightarrow> Inr (concat (map crashLoop_check (pod_containerStatuses pod)) @
       concat (map crashLoop_check (pod_initContainerStatuses pod)))
   | _ \<Rightarrow> Inr [])"

definition CrashLoopBackOffDetector :: "'w detector" where
  "CrashLoopBackOffDetector = \<lparr>det_Name = ''CrashLoopBackOff'', det_Evaluate = crashLoop_Evaluate\<rparr>"

section \<open>ImagePullBackOff\<close>

definition imagePull_check :: "container_status \<Rightarrow> symptom list" where
  "imagePull_check cs = (case cs_waitingReason cs of None \<Rightarrow> []
     | Some reason \<Rightarrow> if reason = ''ImagePullBackOff'' \<or> reason = ''ErrImagePull''
         then [\<lparr>sym_message = ''container '' @ quote (cs_name cs) @ '' cannot pull image ''
                  @ quote (cs_image cs) @ '': '' @ reason,
                sym_severity = ''high''\<rparr>]
         else [])"

definition imagePull_Evaluate :: "'w evaluation" where
  "imagePull_Evaluate obj c w clk = (case obj of
     PodObj pod \<Rightarrow> Inr (concat (map imagePull_check (pod_containerStatuses pod)) @
       concat (map imagePull_check (pod_initContainerStatuses pod)))
   | _ \<Rightarrow> Inr [])"

definition ImagePullBackOffDetector :: "'w detector" where
  "ImagePullBackOffDetector = \<lparr>det_Name = ''ImagePullBackOff'', det_Evaluate = imagePull_Evaluate\<rparr>"

section \<open>PendingTooLong\<close>

definition defaultPendingThreshold :: duration where
  "defaultPendingThreshold = 5 * minute"

definition pendingTooLong_Evaluate :: "duration option \<Rightarrow> 'w evaluation" where
  "pendingTooLong_Evaluate thr obj c w clk = (case obj of
     PodObj pod \<Rightarrow>
       if pod_phase pod \<noteq> ''Pending'' then Inr []
       else
         (let threshold = (case thr of None \<Rightarrow> defaultPendingThreshold | Some d \<Rightarrow> d);
              age = time_sub (clk 0) (om_creation (pod_meta pod))
          in if age < threshold then Inr []
             else Inr [\<lparr>sym_message = ''pod has been Pending for ''
                    @ duration_string (duration_round age second) @ '' (threshold: ''
                    @ duration_string threshold @ '')'',
                  sym_severity = ''medium''\<rparr>])
   | _ \<Rightarrow> Inr [])"

definition PendingTooLongDetector :: "duration option \<Rightarrow> 'w detector" where
  "PendingTooLongDetector thr =
     \<lparr>det_Name = ''PendingTooLong'', det_Evaluate = pendingTooLong_Evaluate thr\<rparr>"

section \<open>DeploymentUnavailable\<close>

definition defaultUnavailableThreshold :: duration where
  "defaultUnavailableThreshold = 5 * minute"

definition desired_replicas :: "deployment \<Rightarrow> int" where
  "desired_replicas deploy = (case dep_replicas deploy of None \<Rightarrow> 1 | Some n \<Rightarrow> n)"

definition unavailable_since :: "deployment \<Rightarrow> time" where
  "unavailable_since deploy =
     (case find (\<lambda>cond. dc_type cond = ''Available'' \<and> dc_status cond = ''False'') (dep_conditions deploy) of
        Some cond \<Rightarrow> dc_lastTransitionTime cond
      | None \<Rightarrow> om_creation (dep_meta deploy))"

definition deploymentUnavailable_Evaluate :: "duration option \<Rightarrow> 'w evaluation" where
  "deploymentUnavailable_Evaluate thr obj c w clk = (case obj of
     DeploymentObj deploy \<Rightarrow>
       (let desired = desired_replicas deploy;
            available = dep_availableReplicas deploy;
            unavailable = dep_unavailableReplicas deploy
        in if desired = 0 then Inr []
           else if available \<ge> desired \<and> unavailable = 0 then Inr []
           else if available = 0 \<and> unavailable = 0 then Inr []
           else
             (let threshold = (case thr of None \<Rightarrow> defaultUnavailableThreshold | Some d \<Rightarrow> d);
                  since = unavailable_since deploy
              in if time_sub (clk 0) since < threshold then Inr []
                 else
                   (let duration = duration_round (time_sub (clk 1) since) second
                    in if available = 0 then
                         Inr [\<lparr>sym_message = ''deployment '' @ quote (om_name (dep_meta deploy)) @ '' has 0/''
                                @ itoa desired @ '' available replicas for '' @ duration_string duration,
                              sym_severity = ''high''\<rparr>]
                       else if unavailable > 0 then
                         Inr [\<lparr>sym_message = ''deployment '' @ quote (om_name (dep_meta deploy)) @ '' has ''
                                @ itoa unavailable @ '' unavailable replica(s) (''
                                @ itoa (dep_readyReplicas deploy) @ ''/'' @ itoa desired @ '' ready) for ''
                                @ duration_string duration,
                              sym_severity = ''high''\<rparr>]
                       else Inr [])))
   | _ \<Rightarrow> Inr [])"

definition DeploymentUnavailableDetector :: "duration option \<Rightarrow> 'w detector" where
  "DeploymentUnavailableDetector thr =
     \<lparr>det_Name = ''DeploymentUnavailable'', det_Evaluate = deploymentUnavailable_Evaluate thr\<rparr>"

section \<open>ServiceNoEndpoints\<close>

definition serviceNoEndpoints_Evaluate :: "'w evaluation" where
  "serviceNoEndpoints_Evaluate obj c w clk = (case obj of
     ServiceObj svc \<Rightarrow>
       if svc_type svc \<noteq> ''ClusterIP'' then Inr []
       else if svc_clusterIP svc = ''None'' \<or> svc_clusterIP svc = [] then Inr []
       else
         (case api_list (c_endpointSlices c) (om_namespace (svc_meta svc))
             [(''kubernetes.io/service-name'', om_name (svc_meta svc))] w of
            Inl err \<Rightarrow> Inl (Wrapf (''listing EndpointSlices for service '' @ om_namespace (svc_meta svc)
              @ ''/'' @ om_name (svc_meta svc)) err)
          | Inr items \<Rightarrow>
              if list_ex (\<lambda>es. list_ex (\<lambda>ready. ready = Some True) (es_ready es)) items then Inr []
              else Inr [\<lparr>sym_message = ''service '' @ quote (om_name (svc_meta svc)) @ '' has no ready endpoints'',
                         sym_severity = ''high''\<rparr>])
   | _ \<Rightarrow> Inr [])"

definition ServiceNoEndpointsDetector :: "'w detector" where
  "ServiceNoEndpointsDetector =
     \<lparr>det_Name = ''ServiceNoEndpoints'', det_Evaluate = serviceNoEndpoints_Evaluate\<rparr>"

lemmas detector_defs = CrashLoopBackOffDetector_def ImagePullBackOffDetector_def
  PendingTooLongDetector_def DeploymentUnavailableDetector_def ServiceNoEndpointsDetector_def

section \<open>The contract of the interface\<close>

text \<open>
  What the reconcilers rely on: a detector returns symptoms only for the kind of object it
  handles, and every symptom carries one of the four severities.
\<close>

locale detector_contract =
  fixes d :: "'w detector" and handles :: "client_object \<Rightarrow> bool"
  assumes known_severity:
      "det_Evaluate d obj c w clk = Inr ss \<Longrightarrow> s \<in> set ss \<Longrightarrow> sym_severity s \<in> set severities"
    and foreign_object: "\<not> handles obj \<Longrightarrow> det_Evaluate d obj c w clk = Inr []"
begin

lemma symptoms_only_if_handled:
  assumes "det_Evaluate d obj c w clk = Inr ss" and "ss \<noteq> []"
  shows "handles obj"
  using assms foreign_object by fastforce

lemma fails_only_if_handled:
  assumes "det_Evaluate d obj c w clk = Inl e"
  shows "handles obj"
  using assms foreign_object by fastforce

end

definition is_pod :: "client_object \<Rightarrow> bool" where
  "is_pod obj = (case obj of PodObj _ \<Rightarrow> True | _ \<Rightarrow> False)"
definition is_deployment :: "client_object \<Rightarrow> bool" where
  "is_deployment obj = (case obj of DeploymentObj _ \<Rightarrow> True | _ \<Rightarrow> False)"
definition is_service :: "client_object \<Rightarrow> bool" where
  "is_service obj = (case obj of ServiceObj _ \<Rightarrow> True | _ \<Rightarrow> False)"

interpretation crash_loop: detector_contract CrashLoopBackOffDetector is_pod
  by unfold_locales
    (auto simp: CrashLoopBackOffDetector_def crashLoop_Evaluate_def crashLoop_check_def is_pod_def
      severities_def severity_consts split: client_object.splits if_splits)

interpretation image_pull: detector_contract ImagePullBackOffDetector is_pod
  by unfold_locales
    (auto simp: ImagePullBackOffDetector_def imagePull_Evaluate_def imagePull_check_def is_pod_def
      severities_def severity_consts split: client_object.splits if_splits option.splits)

interpretation pending_too_long: detector_contract "PendingTooLongDetector thr" is_pod for thr
  by unfold_locales
    (auto simp: PendingTooLongDetector_def pendingTooLong_Evaluate_def is_pod_def Let_def
      severities_def severity_consts split: client_object.splits if_splits)

interpretation deployment_unavailable:
  detector_contract "DeploymentUnavailableDetector thr" is_deployment for thr
  by unfold_locales
    (auto simp: DeploymentUnavailableDetector_def deploymentUnavailable_Evaluate_def
      is_deployment_def Let_def severities_def severity_consts
      split: client_object.splits if_splits)

interpretation service_no_endpoints: detector_contract ServiceNoEndpointsDetector is_service
  by unfold_locales
    (auto simp: ServiceNoEndpointsDetector_def serviceNoEndpoints_Evaluate_def is_service_def
      severities_def severity_consts split: client_object.splits if_splits sum.splits)

section \<open>What each detector reports\<close>

text \<open>
  The pod detectors report every container status they are about, init containers included,
  once each: \<open>CrashLoopBackOffDetector\<close> exactly the containers waiting in CrashLoopBackOff and
  \<open>ImagePullBackOffDetector\<close> exactly those waiting on an image pull.
\<close>

theorem pod_detectors_report_every_container:
  "\<exists>ss ts. det_Evaluate CrashLoopBackOffDetector (PodObj pod) c w clk = Inr ss \<and>
     det_Evaluate ImagePullBackOffDetector (PodObj pod) c w clk = Inr ts \<and>
     map sym_severity ss = replicate (length (filter (\<lambda>cs. cs_waitingReason cs = Some ''CrashLoopBackOff'')
       (pod_containerStatuses pod @ pod_initContainerStatuses pod))) ''critical'' \<and>
     map sym_severity ts = replicate (length (filter (\<lambda>cs. cs_waitingReason cs \<in> {Some ''ImagePullBackOff'', Some ''ErrImagePull''})
       (pod_containerStatuses pod @ pod_initContainerStatuses pod))) ''high''"
proof -
  let ?P = "\<lambda>cs. cs_waitingReason cs = Some ''CrashLoopBackOff''"
  let ?Q = "\<lambda>cs. cs_waitingReason cs \<in> {Some ''ImagePullBackOff'', Some ''ErrImagePull''}"
  have crash: "map sym_severity (concat (map crashLoop_check cs)) = replicate (length (filter ?P cs)) ''critical''" for cs
    by (induction cs) (simp_all add: crashLoop_check_def)
  have image: "map sym_severity (concat (map imagePull_check cs)) = replicate (length (filter ?Q cs)) ''high''" for cs
    by (induction cs) (simp_all add: imagePull_check_def split: option.splits)
  show ?thesis
    using crash [of "pod_containerStatuses pod @ pod_initContainerStatuses pod"]
      image [of "pod_containerStatuses pod @ pod_initContainerStatuses pod"]
    by (simp add: CrashLoopBackOffDetector_def ImagePullBackOffDetector_def crashLoop_Evaluate_def
        imagePull_Evaluate_def)
qed

text \<open>
  \<open>PendingTooLongDetector\<close> reports a pod exactly when it is Pending and its age has reached the
  threshold, five minutes when none is configured.
\<close>

theorem pending_too_long_iff:
  "(\<exists>s ss. det_Evaluate (PendingTooLongDetector thr) (PodObj pod) c w clk = Inr (s # ss)) \<longleftrightarrow>
     pod_phase pod = ''Pending'' \<and>
     time_sub (clk 0) (om_creation (pod_meta pod)) \<ge> (case thr of None \<Rightarrow> 5 * minute | Some d \<Rightarrow> d)"
  by (cases thr) (auto simp: PendingTooLongDetector_def pendingTooLong_Evaluate_def Let_def
      defaultPendingThreshold_def not_less)

text \<open>
  \<open>DeploymentUnavailableDetector\<close> reports a deployment exactly when some replica is wanted, the
  time since the Available condition turned False (or since creation) has reached the threshold,
  and there are unavailable replicas; a deployment scaled to zero is never reported.
\<close>

theorem deployment_unavailable_iff:
  "(\<exists>s ss. det_Evaluate (DeploymentUnavailableDetector thr) (DeploymentObj deploy) c w clk = Inr (s # ss)) \<longleftrightarrow>
     desired_replicas deploy \<noteq> 0 \<and>
     time_sub (clk 0) (unavailable_since deploy) \<ge> (case thr of None \<Rightarrow> 5 * minute | Some d \<Rightarrow> d) \<and>
     (dep_unavailableReplicas deploy > 0 \<or>
      dep_unavailableReplicas deploy < 0 \<and> dep_availableReplicas deploy = 0)"
  by (cases thr) (auto simp: DeploymentUnavailableDetector_def deploymentUnavailable_Evaluate_def Let_def
      defaultUnavailableThreshold_def not_less split: if_splits)

text \<open>
  A deployment that is still Available is timed from its creation: once it is older than the
  threshold, a replica that becomes unavailable during a rollout is reported at once, however
  recently it became unavailable.
\<close>

theorem deployment_rollout_reported_at_once:
  assumes "list_all (\<lambda>cond. \<not> (dc_type cond = ''Available'' \<and> dc_status cond = ''False'')) (dep_conditions deploy)"
    and "threshold \<le> time_sub (clk 0) (om_creation (dep_meta deploy))"
    and "dep_unavailableReplicas deploy > 0" and "desired_replicas deploy \<noteq> 0"
  shows "\<exists>s. det_Evaluate (DeploymentUnavailableDetector (Some threshold)) (DeploymentObj deploy) c w clk = Inr [s]"
proof -
  have "find (\<lambda>cond. dc_type cond = ''Available'' \<and> dc_status cond = ''False'') (dep_conditions deploy) = None"
    using assms(1) by (auto simp: find_None_iff list_all_iff)
  then have "unavailable_since deploy = om_creation (dep_meta deploy)"
    by (simp add: unavailable_since_def)
  with assms(2-4) show ?thesis
    by (auto simp: DeploymentUnavailableDetector_def deploymentUnavailable_Evaluate_def Let_def)
qed

definition rollout_deployment :: deployment where
  "rollout_deployment = \<lparr>dep_meta = empty_meta\<lparr>om_name := ''web''\<rparr>, dep_replicas = Some 3, dep_templateLabels = [],
     dep_availableReplicas = 2, dep_unavailableReplicas = 1, dep_readyReplicas = 2,
     dep_conditions = [\<lparr>dc_type = ''Available'', dc_status = ''True'', dc_lastTransitionTime = 3600 * second\<rparr>]\<rparr>"

theorem deployment_rollout_reported_at_once_witness:
  "\<exists>s. det_Evaluate (DeploymentUnavailableDetector (Some (300 * second))) (DeploymentObj rollout_deployment)
     mem_client empty_mem (\<lambda>_. 3600 * second) = Inr [s]"
  by (rule deployment_rollout_reported_at_once)
    (simp_all add: rollout_deployment_def empty_meta_def time_sub_def min_int64_def max_int64_def desired_replicas_def)

text \<open>
  \<open>ServiceNoEndpointsDetector\<close> looks only at ClusterIP services that are not headless: it passes
  on a failing EndpointSlice listing as an error, and otherwise reports the service exactly when no
  endpoint of its slices is ready.
\<close>

theorem service_no_endpoints_iff:
  "(det_Evaluate ServiceNoEndpointsDetector (ServiceObj svc) c w clk = Inl e \<longleftrightarrow>
     svc_type svc = ''ClusterIP'' \<and> svc_clusterIP svc \<notin> {''None'', []} \<and>
     (\<exists>e'. api_list (c_endpointSlices c) (om_namespace (svc_meta svc))
        [(''kubernetes.io/service-name'', om_name (svc_meta svc))] w = Inl e' \<and>
        e = Wrapf (''listing EndpointSlices for service '' @ om_namespace (svc_meta svc) @ ''/'' @ om_name (svc_meta svc)) e')) \<and>
   ((\<exists>s ss. det_Evaluate ServiceNoEndpointsDetector (ServiceObj svc) c w clk = Inr (s # ss)) \<longleftrightarrow>
     svc_type svc = ''ClusterIP'' \<and> svc_clusterIP svc \<notin> {''None'', []} \<and>
     (\<exists>items. api_list (c_endpointSlices c) (om_namespace (svc_meta svc))
        [(''kubernetes.io/service-name'', om_name (svc_meta svc))] w = Inr items \<and>
        Some True \<notin> \<Union> (set ` es_ready ` set items)))"
  by (auto simp: ServiceNoEndpointsDetector_def serviceNoEndpoints_Evaluate_def list_ex_iff
      split: sum.splits if_splits)

end
