(* ===== verification/Problem_Case.thy ===== *)
theory Problem_Case
  imports Detectors
begin

text \<open>
  The life cycle of a ProblemCase, \<open>cluster-watcher/problemcase/lookup.go\<close> and \<open>lifecycle.go\<close>: the
  case of a resource and a detector is found by two labels, created once, refreshed while the
  symptoms last, and resolved. The invariant \<open>one_open_case\<close> says that no two unresolved cases of
  the control namespace carry the same labels; every operation keeps it, also when a call of the
  Kubernetes client fails half way.
\<close>

definition LabelAffectedResource :: string where
  "LabelAffectedResource = ''kubechan.io/affected-resource''"
definition LabelDetector :: string where
  "LabelDetector = ''kubechan.io/detector''"

lemmas label_defs = LabelAffectedResource_def LabelDetector_def

definition AffectedResourceLabelValue :: "resource_ref \<Rightarrow> string" where
  "AffectedResourceLabelValue ref =
     (let ns = (if rr_namespace ref = [] then ''cluster'' else rr_namespace ref);
          v = to_lower (rr_kind ref @ ''.'' @ ns @ ''.'' @ rr_name ref)
      in if length v > 63 then take 63 v else v)"

definition case_labels :: "resource_ref \<Rightarrow> string \<Rightarrow> str_map" where
  "case_labels ref detectorName = [(LabelAffectedResource, AffectedResourceLabelValue ref),
     (LabelDetector, detectorName)]"

definition FindOpen ::
  "'w client \<Rightarrow> string \<Rightarrow> resource_ref \<Rightarrow> string \<Rightarrow> 'w \<Rightarrow> go_error + problem_case option" where
  "FindOpen c controlNamespace ref detectorName w =
     (case api_list (c_problemCases c) controlNamespace (case_labels ref detectorName) w of
        Inl err \<Rightarrow> Inl (Wrapf ''listing ProblemCases'' err)
      | Inr items \<Rightarrow> Inr (find (\<lambda>pc. pc_state pc \<noteq> ProblemCaseStateResolved) items))"

definition patchLastSeen ::
  "'w client \<Rightarrow> problem_case \<Rightarrow> time \<Rightarrow> string list \<Rightarrow> 'w \<Rightarrow> go_error option \<times> 'w" where
  "patchLastSeen c pc now msgs w =
     (case api_patch (c_problemCases c) pc (pc\<lparr>pc_spec := (pc_spec pc)\<lparr>pcs_symptoms := msgs\<rparr>\<rparr>) w of
        (Inl err, w1) \<Rightarrow>
          (Some (Wrapf (''patching ProblemCase spec '' @ pc_namespace pc @ ''/'' @ pc_name pc) err), w1)
      | (Inr pc1, w1) \<Rightarrow>
          (case api_status_patch (c_problemCases c) pc1
              (pc1\<lparr>pc_status := (pc_status pc1)\<lparr>pct_lastSeen := Some now\<rparr>\<rparr>) w1 of
             (Inl err, w2) \<Rightarrow>
               (Some (Wrapf (''patching ProblemCase status '' @ pc_namespace pc1 @ ''/'' @ pc_name pc1) err), w2)
           | (Inr _, w2) \<Rightarrow> (None, w2)))"

definition new_case ::
  "string \<Rightarrow> resource_ref \<Rightarrow> problem_case_severity \<Rightarrow> string \<Rightarrow> string list \<Rightarrow> problem_case" where
  "new_case controlNamespace ref severity detectorName msgs =
     \<lparr>pc_meta = empty_meta\<lparr>om_generateName := to_lower (detectorName @ ''-'' @ rr_kind ref @ ''-''),
        om_namespace := controlNamespace, om_labels := case_labels ref detectorName\<rparr>,
      pc_spec = \<lparr>pcs_affectedResource = ref, pcs_detector = detectorName, pcs_severity = severity,
        pcs_symptoms = msgs, pcs_relatedResources = []\<rparr>,
      pc_status = empty_pc_status\<rparr>"

text \<open>The status write that follows the create, on the object the server returned.\<close>

definition setInitialStatus ::
  "'w client \<Rightarrow> problem_case \<Rightarrow> time \<Rightarrow> 'w \<Rightarrow> go_error option \<times> 'w" where
  "setInitialStatus c pc now w =
     (case api_status_patch (c_problemCases c) pc
         (pc\<lparr>pc_status := (pc_status pc)\<lparr>pct_state := ProblemCaseStateOpen,
            pct_firstSeen := Some now, pct_lastSeen := Some now\<rparr>\<rparr>) w of
        (Inl err, w') \<Rightarrow> (Some (Wrapf ''setting initial ProblemCase status'' err), w')
      | (Inr _, w') \<Rightarrow> (None, w'))"

definition createNew ::
  "'w client \<Rightarrow> string \<Rightarrow> resource_ref \<Rightarrow> problem_case_severity \<Rightarrow> string \<Rightarrow> string list \<Rightarrow> time \<Rightarrow> 'w \<Rightarrow>
   go_error option \<times> 'w" where
  "createNew c controlNamespace ref severity detectorName msgs now w =
     (let pc = new_case controlNamespace ref severity detectorName msgs
      in case api_create (c_problemCases c) pc w of
           (Inr pc', w1) \<Rightarrow> setInitialStatus c pc' now w1
         | (Inl err, w1) \<Rightarrow>
             if \<not> is_already_exists err then (Some (Wrapf ''creating ProblemCase'' err), w1)
             else
               (case FindOpen c controlNamespace ref detectorName w1 of
                  Inl lookupErr \<Rightarrow> (Some lookupErr, w1)
                | Inr (Some existing) \<Rightarrow> patchLastSeen c existing now msgs w1
                | Inr None \<Rightarrow> setInitialStatus c pc now w1))"

text \<open>\<open>now\<close> is the reading of the clock between the lookup and the writes.\<close>

definition CreateOrUpdate ::
  "'w client \<Rightarrow> string \<Rightarrow> resource_ref \<Rightarrow> problem_case_severity \<Rightarrow> string \<Rightarrow> symptom list \<Rightarrow> time \<Rightarrow> 'w \<Rightarrow>
   go_error option \<times> 'w" where
  "CreateOrUpdate c controlNamespace ref severity detectorName symptoms now w =
     (case FindOpen c controlNamespace ref detectorName w of
        Inl err \<Rightarrow> (Some err, w)
      | Inr existing \<Rightarrow>
          (let now' = metav1_now now; msgs = map sym_message symptoms
           in case existing of
                Some pc \<Rightarrow> patchLastSeen c pc now' msgs w
              | None \<Rightarrow> createNew c controlNamespace ref severity detectorName msgs now' w))"

definition Resolve :: "'w client \<Rightarrow> problem_case \<Rightarrow> time \<Rightarrow> 'w \<Rightarrow> go_error option \<times> 'w" where
  "Resolve c pc now w =
     (case api_status_patch (c_problemCases c) pc
         (pc\<lparr>pc_status := (pc_status pc)\<lparr>pct_state := ProblemCaseStateResolved,
            pct_resolvedAt := Some (metav1_now now)\<rparr>\<rparr>) w of
        (Inl err, w') \<Rightarrow>
          (Some (Wrapf (''resolving ProblemCase '' @ pc_namespace pc @ ''/'' @ pc_name pc) err), w')
      | (Inr _, w') \<Rightarrow> (None, w'))"

section \<open>Lookup\<close>

abbreviation cases :: "('w \<Rightarrow> store) \<Rightarrow> 'w \<Rightarrow> problem_case table" where
  "cases view w \<equiv> st_problemCases (view w)"

definition carries :: "problem_case \<Rightarrow> resource_ref \<Rightarrow> string \<Rightarrow> bool" where
  "carries pc ref det \<longleftrightarrow> selector_matches (case_labels ref det) (om_labels (pc_meta pc))"

lemma carries_new: "carries (new_case ns ref sev det msgs) ref det"
  by (simp add: carries_def new_case_def selector_matches_def case_labels_def label_defs)

lemma pc_key: "faithful_client c view \<Longrightarrow> cases view w k = Some pc \<Longrightarrow> meta_key (pc_meta pc) = k"
  by (rule kind_laws_keyed [OF faithful_pc])

lemma list_cases:
  assumes "faithful_client c view" and "api_list (c_problemCases c) ns (case_labels ref det) w = Inr items"
  shows "set items = {pc. cases view w (meta_key (pc_meta pc)) = Some pc \<and>
    (ns = [] \<or> pc_namespace pc = ns) \<and> carries pc ref det}"
  using kind_laws_list [OF faithful_pc [OF assms(1)] assms(2)] by (simp add: carries_def)

lemma FindOpen_Some:
  assumes "faithful_client c view" and "FindOpen c ns ref det w = Inr (Some pc)"
  shows "cases view w (meta_key (pc_meta pc)) = Some pc" and "ns = [] \<or> pc_namespace pc = ns"
    and "carries pc ref det" and "\<not> pc_resolved pc"
proof -
  obtain items where i: "api_list (c_problemCases c) ns (case_labels ref det) w = Inr items"
    and f: "find (\<lambda>pc. pc_state pc \<noteq> ProblemCaseStateResolved) items = Some pc"
    using assms(2) by (auto simp: FindOpen_def split: sum.splits)
  from f have "pc \<in> set items" "\<not> pc_resolved pc" by (auto simp: find_Some_iff pc_resolved_def)
  with list_cases [OF assms(1) i] show "cases view w (meta_key (pc_meta pc)) = Some pc"
    "ns = [] \<or> pc_namespace pc = ns" "carries pc ref det" "\<not> pc_resolved pc" by simp_all
qed

lemma FindOpen_None:
  assumes "faithful_client c view" and "FindOpen c ns ref det w = Inr None"
    and "cases view w k = Some pc" and "fst k = ns" and "carries pc ref det"
  shows "pc_resolved pc"
proof -
  obtain items where i: "api_list (c_problemCases c) ns (case_labels ref det) w = Inr items"
    and f: "find (\<lambda>pc. pc_state pc \<noteq> ProblemCaseStateResolved) items = None"
    using assms(2) by (auto simp: FindOpen_def split: sum.splits)
  have "pc_namespace pc = ns"
    unfolding assms(4) [symmetric] pc_key [OF assms(1,3), symmetric] by (simp add: meta_key_def)
  then have "pc \<in> set items"
    unfolding list_cases [OF assms(1) i] using pc_key [OF assms(1,3)] assms(3,5) by simp
  with f show ?thesis by (simp add: find_None_iff pc_resolved_def)
qed

section \<open>What the operations change\<close>

text \<open>
  The effect of refreshing: every case stays where it is, with its metadata and its resolution.
\<close>

definition same_case :: "problem_case \<Rightarrow> problem_case \<Rightarrow> bool" where
  "same_case pc pc' \<longleftrightarrow> pc_meta pc' = pc_meta pc \<and> pc_resolved pc' = pc_resolved pc"

definition refreshed :: "problem_case table \<Rightarrow> problem_case table \<Rightarrow> bool" where
  "refreshed t t' \<longleftrightarrow> (\<forall>k. rel_option same_case (t k) (t' k))"

lemma refreshed_refl [simp]: "refreshed t t"
  by (simp add: refreshed_def same_case_def option.rel_refl)

lemma refreshed_upd: "refreshed t t' \<Longrightarrow> t k = Some pc \<Longrightarrow> same_case pc pc' \<Longrightarrow> refreshed t (t'(k \<mapsto> pc'))"
  by (simp add: refreshed_def)

text \<open>The object a refresh leaves: new symptoms and a new last-seen instant.\<close>

definition seen_again :: "time \<Rightarrow> string list \<Rightarrow> problem_case \<Rightarrow> problem_case" where
  "seen_again now msgs pc = pc\<lparr>pc_spec := (pc_spec pc)\<lparr>pcs_symptoms := msgs\<rparr>,
     pc_status := (pc_status pc)\<lparr>pct_lastSeen := Some now\<rparr>\<rparr>"

lemma patchLastSeen_outcome:
  assumes "faithful_client c view" and "cases view w (meta_key (pc_meta pc)) = Some pc"
  obtains w' pc' where "patchLastSeen c pc now msgs w = (None, w')"
      and "pc' = seen_again now msgs pc \<or> pc' = pc_dflt (seen_again now msgs pc)"
      and "view w' = (view w)\<lparr>st_problemCases := (cases view w)(meta_key (pc_meta pc) \<mapsto> pc')\<rparr>"
  | e w' where "patchLastSeen c pc now msgs w = (Some e, w')" and "view w' = view w"
  | e w' where "patchLastSeen c pc now msgs w = (Some e, w')"
      and "view w' = (view w)\<lparr>st_problemCases := (cases view w)(meta_key (pc_meta pc) \<mapsto>
        pc\<lparr>pc_spec := (pc_spec pc)\<lparr>pcs_symptoms := msgs\<rparr>\<rparr>)\<rparr>"
proof -
  note kl = faithful_pc [OF assms(1)]
  let ?pc1 = "pc\<lparr>pc_spec := (pc_spec pc)\<lparr>pcs_symptoms := msgs\<rparr>\<rparr>"
  have st: "meta_key (pc_meta ?pc1) = meta_key (pc_meta pc)" "pc_status ?pc1 = pc_status pc" by simp_all
  show thesis
    using kl assms(2) st
  proof (cases rule: patch_outcome)
    case (1 e w')
    then show thesis using that(2) by (simp add: patchLastSeen_def)
  next
    case w1: (2 w1)
    let ?pc2 = "?pc1\<lparr>pc_status := (pc_status ?pc1)\<lparr>pct_lastSeen := Some now\<rparr>\<rparr>"
    have st1: "cases view w1 (meta_key (pc_meta ?pc1)) = Some ?pc1" using w1(2) by simp
    have eq: "?pc2 = seen_again now msgs pc" by (simp add: seen_again_def)
    show thesis
      using kl st1
    proof (rule status_patch_outcome [where x = ?pc2])
      fix e w2 assume "api_status_patch (c_problemCases c) ?pc1 ?pc2 w1 = (Inl e, w2)" "view w2 = view w1"
      with w1 that(3) show thesis by (simp add: patchLastSeen_def)
    next
      fix x' w2 assume "api_status_patch (c_problemCases c) ?pc1 ?pc2 w1 = (Inr x', w2)"
        "x' = ?pc2 \<or> x' = pc_dflt ?pc2"
        "view w2 = st_problemCases_update (\<lambda>m. m(meta_key (pc_meta ?pc1) \<mapsto> x')) (view w1)"
      with w1 that(1) eq show thesis by (simp add: patchLastSeen_def)
    qed simp_all
  qed
qed

lemma seen_again_same: "same_case pc (seen_again now msgs pc)" "same_case pc (pc_dflt (seen_again now msgs pc))"
proof -
  have "pc_resolved (seen_again now msgs pc) = pc_resolved pc" "pc_meta (seen_again now msgs pc) = pc_meta pc"
    by (simp_all add: seen_again_def pc_resolved_def)
  then show "same_case pc (seen_again now msgs pc)" "same_case pc (pc_dflt (seen_again now msgs pc))"
    by (simp_all add: same_case_def)
qed

lemma patchLastSeen_refreshed:
  assumes "faithful_client c view" and "cases view w (meta_key (pc_meta pc)) = Some pc"
    and "patchLastSeen c pc now msgs w = (r, w')"
  shows "refreshed (cases view w) (cases view w')"
  using assms(1,2)
proof (cases rule: patchLastSeen_outcome [where now = now and msgs = msgs])
  case (1 w'' pc')
  with assms seen_again_same [of pc now msgs] show ?thesis by (auto intro: refreshed_upd)
next
  case 2
  with assms(3) show ?thesis by simp
next
  case 3
  with assms show ?thesis by (auto intro!: refreshed_upd simp: same_case_def pc_resolved_def)
qed


text \<open>The object the initial status write leaves.\<close>

definition opened :: "time \<Rightarrow> problem_case \<Rightarrow> problem_case" where
  "opened now pc = pc\<lparr>pc_status := (pc_status pc)\<lparr>pct_state := ProblemCaseStateOpen,
     pct_firstSeen := Some now, pct_lastSeen := Some now\<rparr>\<rparr>"

lemma opened_sel [simp]: "pc_meta (opened now pc) = pc_meta pc" "pc_spec (opened now pc) = pc_spec pc"
  "pc_state (opened now pc) = ProblemCaseStateOpen" "pc_dflt (opened now pc) = opened now pc"
  by (simp_all add: opened_def pc_dflt_def state_consts)

lemma setInitialStatus_opened:
  "setInitialStatus c pc now w = (case api_status_patch (c_problemCases c) pc (opened now pc) w of
     (Inl err, w') \<Rightarrow> (Some (Wrapf ''setting initial ProblemCase status'' err), w')
   | (Inr _, w') \<Rightarrow> (None, w'))"
  by (simp add: setInitialStatus_def opened_def)

lemma setInitialStatus_outcome:
  assumes "faithful_client c view" and "cases view w (meta_key (pc_meta pc)) = Some pc"
  obtains w' where "setInitialStatus c pc now w = (None, w')"
      and "view w' = (view w)\<lparr>st_problemCases := (cases view w)(meta_key (pc_meta pc) \<mapsto> opened now pc)\<rparr>"
  | e w' where "setInitialStatus c pc now w = (Some e, w')" and "view w' = view w"
proof -
  show thesis
    using faithful_pc [OF assms(1)] assms(2)
  proof (rule status_patch_outcome [where x = "opened now pc"])
    fix e w' assume "api_status_patch (c_problemCases c) pc (opened now pc) w = (Inl e, w')" "view w' = view w"
    with that(2) show thesis by (auto simp: setInitialStatus_opened)
  next
    fix x' w' assume "api_status_patch (c_problemCases c) pc (opened now pc) w = (Inr x', w')"
      "x' = opened now pc \<or> x' = pc_dflt (opened now pc)"
      "view w' = st_problemCases_update (\<lambda>m. m(meta_key (pc_meta pc) \<mapsto> x')) (view w)"
    with that(1) show thesis by (auto simp: setInitialStatus_opened)
  qed simp_all
qed

lemma setInitialStatus_missing:
  assumes "faithful_client c view" and "cases view w (meta_key (pc_meta pc)) = None"
  shows "\<exists>e w'. setInitialStatus c pc now w = (Some e, w') \<and> view w' = view w"
proof -
  obtain r w' where eq: "api_status_patch (c_problemCases c) pc (opened now pc) w = (r, w')" by fastforce
  with kind_laws_missing(2) [OF faithful_pc [OF assms(1)]] assms(2) obtain e where "r = Inl e"
    by (cases r) auto
  with eq kind_laws_fail(3) [OF faithful_pc [OF assms(1)]] show ?thesis
    by (auto simp: setInitialStatus_opened)
qed

section \<open>One unresolved case per resource and detector\<close>

definition case_id :: "problem_case \<Rightarrow> string option \<times> string option" where
  "case_id pc = (map_of (om_labels (pc_meta pc)) LabelAffectedResource,
     map_of (om_labels (pc_meta pc)) LabelDetector)"

lemma carries_iff: "carries pc ref det \<longleftrightarrow> case_id pc = (Some (AffectedResourceLabelValue ref), Some det)"
  by (simp add: carries_def case_id_def case_labels_def selector_matches_def)

definition one_open_case :: "string \<Rightarrow> problem_case table \<Rightarrow> bool" where
  "one_open_case ns t \<longleftrightarrow> (\<forall>n n' pc pc' v d. t (ns, n) = Some pc \<longrightarrow> t (ns, n') = Some pc' \<longrightarrow>
     \<not> pc_resolved pc \<longrightarrow> \<not> pc_resolved pc' \<longrightarrow> case_id pc = (Some v, Some d) \<longrightarrow> case_id pc' = (Some v, Some d) \<longrightarrow>
     n = n')"

lemma one_open_caseD:
  "one_open_case ns t \<Longrightarrow> t (ns, n) = Some pc \<Longrightarrow> t (ns, n') = Some pc' \<Longrightarrow> \<not> pc_resolved pc \<Longrightarrow>
   \<not> pc_resolved pc' \<Longrightarrow> case_id pc = (Some v, Some d) \<Longrightarrow> case_id pc' = (Some v, Some d) \<Longrightarrow> n = n'"
  unfolding one_open_case_def by blast

lemma one_open_caseI:
  "(\<And>n n' pc pc' v d. t (ns, n) = Some pc \<Longrightarrow> t (ns, n') = Some pc' \<Longrightarrow> \<not> pc_resolved pc \<Longrightarrow>
     \<not> pc_resolved pc' \<Longrightarrow> case_id pc = (Some v, Some d) \<Longrightarrow> case_id pc' = (Some v, Some d) \<Longrightarrow> n = n') \<Longrightarrow>
   one_open_case ns t"
  unfolding one_open_case_def by blast

lemma refreshedD:
  assumes "refreshed t t'" and "t' k = Some pc'"
  obtains pc where "t k = Some pc" and "case_id pc = case_id pc'" and "pc_resolved pc = pc_resolved pc'"
proof -
  have "rel_option same_case (t k) (Some pc')" using assms by (metis refreshed_def)
  then obtain pc where "t k = Some pc" "same_case pc pc'" by (auto simp: option_rel_Some2)
  with that show thesis by (simp add: same_case_def case_id_def)
qed

lemma one_open_refreshed [keeps]:
  assumes "one_open_case ns t" and "refreshed t t'"
  shows "one_open_case ns t'"
proof (rule one_open_caseI)
  fix n n' pc pc' v d
  assume a: "t' (ns, n) = Some pc" "t' (ns, n') = Some pc'" "\<not> pc_resolved pc" "\<not> pc_resolved pc'"
    "case_id pc = (Some v, Some d)" "case_id pc' = (Some v, Some d)"
  from assms(2) a(1) obtain p where "t (ns, n) = Some p" "case_id p = case_id pc" "pc_resolved p = pc_resolved pc"
    by (rule refreshedD)
  moreover from assms(2) a(2) obtain p' where "t (ns, n') = Some p'" "case_id p' = case_id pc'" "pc_resolved p' = pc_resolved pc'"
    by (rule refreshedD)
  ultimately show "n = n'" using one_open_caseD [OF assms(1)] a by metis
qed

lemma one_open_insert:
  assumes "one_open_case ns t" and "case_id pc = (Some v, Some d)"
    and "\<And>n pc'. t (ns, n) = Some pc' \<Longrightarrow> case_id pc' = (Some v, Some d) \<Longrightarrow> pc_resolved pc'"
  shows "one_open_case ns (t(k \<mapsto> pc))"
proof (rule one_open_caseI)
  fix n n' p p' v' d'
  assume a: "(t(k \<mapsto> pc)) (ns, n) = Some p" "(t(k \<mapsto> pc)) (ns, n') = Some p'" "\<not> pc_resolved p" "\<not> pc_resolved p'"
    "case_id p = (Some v', Some d')" "case_id p' = (Some v', Some d')"
  show "n = n'"
    using a assms(2,3) one_open_caseD [OF assms(1) _ _ a(3,4) a(5,6)]
    by (cases "k = (ns, n)"; cases "k = (ns, n')") auto
qed

lemma createNew_keeps [keeps]:
  assumes fc: "faithful_client c view" and inv: "one_open_case ns (cases view w)"
    and none: "FindOpen c ns ref det w = Inr None" and unnamed: "cases view w (ns, []) = None"
    and run: "createNew c ns ref sev det msgs now w = (r, w')"
  shows "one_open_case ns (cases view w')"
proof -
  let ?pc = "new_case ns ref sev det msgs"
  have meta: "om_namespace (pc_meta ?pc) = ns" "om_name (pc_meta ?pc) = []"
    by (simp_all add: new_case_def empty_meta_def)
  have res: "pc_resolved pc'" if "cases view w (ns, n) = Some pc'"
    "case_id pc' = (Some (AffectedResourceLabelValue ref), Some det)" for n pc'
    using FindOpen_None [OF fc none that(1)] that(2) by (simp add: carries_iff)
  have ins: "one_open_case ns ((cases view w)(k \<mapsto> pc'))" if "om_labels (pc_meta pc') = om_labels (pc_meta ?pc)" for k pc'
    using carries_new [of ns ref sev det msgs] that res
    by (intro one_open_insert [OF inv]) (auto simp: carries_iff case_id_def)
  show ?thesis
    using faithful_pc [OF fc]
  proof (cases rule: create_outcome [where x = ?pc and w = w])
    case failed: (1 e w1)
    show ?thesis
    proof (cases "is_already_exists e")
      case False
      with failed run inv show ?thesis by (auto simp: createNew_def)
    next
      case True
      consider (err) err where "FindOpen c ns ref det w1 = Inl err"
        | (none) "FindOpen c ns ref det w1 = Inr None"
        | (some) pc where "FindOpen c ns ref det w1 = Inr (Some pc)"
        by (metis obj_sumE option.exhaust)
      then show ?thesis
      proof cases
        case err
        with True failed run inv show ?thesis by (auto simp: createNew_def)
      next
        case none
        have "cases view w1 (meta_key (pc_meta ?pc)) = None"
          using unnamed failed(2) meta by (simp add: meta_key_def)
        from setInitialStatus_missing [OF fc this, of now] none True failed run inv show ?thesis
          by (auto simp: createNew_def)
      next
        case some
        have "patchLastSeen c pc now msgs w1 = (r, w')" using some True failed run by (simp add: createNew_def)
        from patchLastSeen_refreshed [OF fc FindOpen_Some(1) [OF fc some] this] inv failed(2)
        show ?thesis by (auto intro: one_open_refreshed)
      qed
    qed
  next
    case created: (2 pc' w1)
    have st: "cases view w1 (meta_key (pc_meta pc')) = Some pc'" using created(7) by simp
    have run': "setInitialStatus c pc' now w1 = (r, w')" using created(1) run by (simp add: createNew_def)
    from fc st show ?thesis
    proof (cases rule: setInitialStatus_outcome [where now = now])
      case (1 w2)
      with run' created(7) ins [of "opened now pc'"] created(5) show ?thesis by simp
    next
      case (2 e w2)
      with run' created(7) ins [of pc'] created(5) show ?thesis by simp
    qed
  qed
qed

lemma CreateOrUpdate_keeps [keeps]:
  assumes fc: "faithful_client c view" and inv: "one_open_case ns (cases view w)"
    and unnamed: "cases view w (ns, []) = None"
    and run: "CreateOrUpdate c ns ref sev det syms now w = (r, w')"
  shows "one_open_case ns (cases view w')"
proof -
  consider (err) err where "FindOpen c ns ref det w = Inl err"
    | (none) "FindOpen c ns ref det w = Inr None"
    | (some) pc where "FindOpen c ns ref det w = Inr (Some pc)"
    by (metis obj_sumE option.exhaust)
  then show ?thesis
  proof cases
    case err
    with run inv show ?thesis by (simp add: CreateOrUpdate_def)
  next
    case none
    with run createNew_keeps [OF fc inv none unnamed] show ?thesis by (simp add: CreateOrUpdate_def Let_def)
  next
    case some
    with run patchLastSeen_refreshed [OF fc FindOpen_Some(1) [OF fc some]] inv show ?thesis
      by (auto simp: CreateOrUpdate_def Let_def intro: one_open_refreshed)
  qed
qed

definition closed :: "time \<Rightarrow> problem_case \<Rightarrow> problem_case" where
  "closed now pc = pc\<lparr>pc_status := (pc_status pc)\<lparr>pct_state := ProblemCaseStateResolved,
     pct_resolvedAt := Some now\<rparr>\<rparr>"

lemma closed_sel [simp]: "pc_meta (closed now pc) = pc_meta pc" "pc_spec (closed now pc) = pc_spec pc"
  "pc_resolved (closed now pc)" "pc_dflt (closed now pc) = closed now pc" "case_id (closed now pc) = case_id pc"
  by (simp_all add: closed_def pc_dflt_def pc_resolved_def case_id_def state_consts)

lemma Resolve_outcome:
  assumes "faithful_client c view" and "cases view w (meta_key (pc_meta pc)) = Some pc"
  obtains w' where "Resolve c pc now w = (None, w')"
      and "view w' = (view w)\<lparr>st_problemCases := (cases view w)(meta_key (pc_meta pc) \<mapsto> closed (metav1_now now) pc)\<rparr>"
  | e w' where "Resolve c pc now w = (Some (Wrapf (''resolving ProblemCase '' @ pc_namespace pc @ ''/'' @ pc_name pc) e), w')"
      and "view w' = view w"
proof -
  have alt: "Resolve c pc now w = (case api_status_patch (c_problemCases c) pc (closed (metav1_now now) pc) w of
      (Inl err, w') \<Rightarrow> (Some (Wrapf (''resolving ProblemCase '' @ pc_namespace pc @ ''/'' @ pc_name pc) err), w')
    | (Inr _, w') \<Rightarrow> (None, w'))"
    by (simp add: Resolve_def closed_def)
  show thesis
    using faithful_pc [OF assms(1)] assms(2)
  proof (rule status_patch_outcome [where x = "closed (metav1_now now) pc"])
    fix e w' assume "api_status_patch (c_problemCases c) pc (closed (metav1_now now) pc) w = (Inl e, w')" "view w' = view w"
    with that(2) alt show thesis by simp
  next
    fix x' w' assume "api_status_patch (c_problemCases c) pc (closed (metav1_now now) pc) w = (Inr x', w')"
      "x' = closed (metav1_now now) pc \<or> x' = pc_dflt (closed (metav1_now now) pc)"
      "view w' = st_problemCases_update (\<lambda>m. m(meta_key (pc_meta pc) \<mapsto> x')) (view w)"
    with that(1) alt show thesis by auto
  qed simp_all
qed

lemma one_open_close [keeps]:
  assumes "one_open_case ns t"
  shows "one_open_case ns (t(k \<mapsto> closed now pc))"
proof (rule one_open_caseI)
  fix n n' p p' v' d'
  assume a: "(t(k \<mapsto> closed now pc)) (ns, n) = Some p" "(t(k \<mapsto> closed now pc)) (ns, n') = Some p'"
    "\<not> pc_resolved p" "\<not> pc_resolved p'" "case_id p = (Some v', Some d')" "case_id p' = (Some v', Some d')"
  then show "n = n'"
    using one_open_caseD [OF assms _ _ a(3-6)] by (auto split: if_splits)
qed

section \<open>Properties\<close>

text \<open>
  C1. At most one unresolved case per resource and detector: if the control namespace never holds two
  unresolved ProblemCases with the same resource and detector labels, then \<open>CreateOrUpdate\<close> and
  \<open>Resolve\<close> keep it so, whatever calls of the client fail on the way.
\<close>

theorem at_most_one_open_case:
  assumes "faithful_client c view" and "one_open_case ns (st_problemCases (view w))"
    and "st_problemCases (view w) (ns, []) = None"
  shows "one_open_case ns (st_problemCases (view (snd (CreateOrUpdate c ns ref sev det syms now w)))) \<and>
    (st_problemCases (view w) (meta_key (pc_meta pc)) = Some pc \<longrightarrow>
       one_open_case ns (st_problemCases (view (snd (Resolve c pc now w)))))"
proof -
  have "one_open_case ns (cases view (snd (Resolve c pc now w)))" if "cases view w (meta_key (pc_meta pc)) = Some pc"
    using assms(1) that by (cases rule: Resolve_outcome [where now = now]) (simp_all add: assms(2) one_open_close)
  then show ?thesis
    using CreateOrUpdate_keeps [OF assms] by (metis prod.collapse)
qed

definition sample_ref :: resource_ref where
  "sample_ref = mk_ref ''shop'' ''Pod'' ''web''"

definition sample_case :: problem_case where
  "sample_case = opened 0 (new_case ''kubechan'' sample_ref SeverityHigh ''PendingTooLong'' [''old''])
     \<lparr>pc_meta := empty_meta\<lparr>om_name := ''pc1'', om_namespace := ''kubechan'',
        om_labels := case_labels sample_ref ''PendingTooLong''\<rparr>\<rparr>"

definition case_world :: mem where
  "case_world = empty_mem\<lparr>m_problemCases := [sample_case]\<rparr>"

lemma case_world_view:
  "st_problemCases (mem_view case_world) = [(''kubechan'', ''pc1'') \<mapsto> sample_case]"
  by (rule ext) (auto simp: case_world_def mem_view_def tab_find_def sample_case_def meta_key_def)

theorem at_most_one_open_case_witness:
  "one_open_case ''kubechan'' (st_problemCases (mem_view
     (snd (CreateOrUpdate mem_client ''kubechan'' sample_ref SeverityHigh ''PendingTooLong'' [] 5 case_world))))"
proof -
  have "one_open_case ''kubechan'' (st_problemCases (mem_view case_world))"
    unfolding case_world_view by (rule one_open_caseI) (auto split: if_splits)
  moreover have "st_problemCases (mem_view case_world) (''kubechan'', []) = None" by (simp add: case_world_view)
  ultimately show ?thesis using at_most_one_open_case [OF mem_client_faithful] by blast
qed

text \<open>
  \<open>FindOpen\<close> decides: it returns no case exactly when every stored case of the namespace with
  the labels of the resource and the detector is resolved, and a case it returns is stored, carries
  the labels and is not resolved.
\<close>

theorem find_open_decides:
  assumes "faithful_client c view" and "ns \<noteq> []" and "FindOpen c ns ref det w = Inr found"
  shows "(found = None \<longleftrightarrow> \<not> (\<exists>n pc. st_problemCases (view w) (ns, n) = Some pc \<and> \<not> pc_resolved pc \<and>
            case_id pc = (Some (AffectedResourceLabelValue ref), Some det))) \<and>
    (\<forall>pc. found = Some pc \<longrightarrow> st_problemCases (view w) (ns, pc_name pc) = Some pc \<and> \<not> pc_resolved pc \<and>
            case_id pc = (Some (AffectedResourceLabelValue ref), Some det))"
proof (cases found)
  case None
  with FindOpen_None [OF assms(1)] assms(3) show ?thesis by (auto simp: carries_iff)
next
  case (Some pc)
  with assms have "FindOpen c ns ref det w = Inr (Some pc)" by simp
  note f = FindOpen_Some [OF assms(1) this]
  from f(1,2) assms(2) have "cases view w (ns, pc_name pc) = Some pc" by (simp add: meta_key_def)
  with f Some show ?thesis by (auto simp: carries_iff)
qed

theorem find_open_decides_witness:
  "FindOpen mem_client ''kubechan'' sample_ref ''PendingTooLong'' case_world = Inr (Some sample_case) \<and>
   \<not> pc_resolved sample_case"
proof -
  have "FindOpen mem_client ''kubechan'' sample_ref ''PendingTooLong'' case_world = Inr (Some sample_case)"
    by (simp add: FindOpen_def case_world_def mem_eval sample_case_def case_labels_def label_defs state_consts
        opened_def)
  with find_open_decides [OF mem_client_faithful _ this] show ?thesis by simp
qed

text \<open>
  When no case is open, a successful \<open>CreateOrUpdate\<close> adds exactly one ProblemCase, under a free
  name of the control namespace, with the labels of the resource and the detector, the given
  severity and the messages of the symptoms, in state open, first and last seen at the same second.
\<close>

theorem create_or_update_opens:
  assumes "faithful_client c view" and "FindOpen c ns ref det w = Inr None" and "st_problemCases (view w) (ns, []) = None"
    and "CreateOrUpdate c ns ref sev det syms now w = (None, w')"
    and "\<And>e w1. api_create (c_problemCases c) (new_case ns ref sev det (map sym_message syms)) w = (Inl e, w1) \<Longrightarrow>
      \<not> is_already_exists e"
  shows "\<exists>pc. st_problemCases (view w) (ns, pc_name pc) = None \<and> pc_namespace pc = ns \<and>
    view w' = (view w)\<lparr>st_problemCases := (st_problemCases (view w))((ns, pc_name pc) \<mapsto> pc)\<rparr> \<and>
    case_id pc = (Some (AffectedResourceLabelValue ref), Some det) \<and>
    pc_spec pc = \<lparr>pcs_affectedResource = ref, pcs_detector = det, pcs_severity = sev,
      pcs_symptoms = map sym_message syms, pcs_relatedResources = []\<rparr> \<and>
    pc_state pc = ProblemCaseStateOpen \<and> pct_firstSeen (pc_status pc) = Some (metav1_now now) \<and>
    pct_lastSeen (pc_status pc) = Some (metav1_now now)"
proof -
  let ?pc = "new_case ns ref sev det (map sym_message syms)"
  have run: "createNew c ns ref sev det (map sym_message syms) (metav1_now now) w = (None, w')"
    using assms(2,4) by (simp add: CreateOrUpdate_def Let_def)
  show ?thesis
    using faithful_pc [OF assms(1)]
  proof (cases rule: create_outcome [where x = ?pc and w = w])
    case (1 e w1)
    with assms(5) run show ?thesis by (simp add: createNew_def)
  next
    case created: (2 pc' w1)
    have ns: "om_namespace (pc_meta pc') = ns" using created(3) by (simp add: new_case_def)
    have st: "cases view w1 (meta_key (pc_meta pc')) = Some pc'" using created(7) by simp
    have run': "setInitialStatus c pc' (metav1_now now) w1 = (None, w')"
      using created(1) run by (simp add: createNew_def)
    have id: "case_id pc' = (Some (AffectedResourceLabelValue ref), Some det)"
      using carries_new [of ns ref sev det "map sym_message syms"] created(5) by (simp add: carries_iff case_id_def)
    from assms(1) st show ?thesis
    proof (cases rule: setInitialStatus_outcome [where now = "metav1_now now"])
      case (1 w2)
      with run' created ns id show ?thesis
        by (intro exI [of _ "opened (metav1_now now) pc'"])
          (simp add: meta_key_def case_id_def new_case_def opened_def)
    next
      case (2 e w2)
      with run' show ?thesis by simp
    qed
  qed
qed

theorem create_or_update_opens_witness:
  "\<exists>w' pc. CreateOrUpdate mem_client ''kubechan'' sample_ref SeverityHigh ''PendingTooLong''
      [\<lparr>sym_message = ''slow'', sym_severity = ''medium''\<rparr>] (5 * second) empty_mem = (None, w') \<and>
    st_problemCases (mem_view w') (''kubechan'', pc_name pc) = Some pc \<and> pc_state pc = ProblemCaseStateOpen"
proof -
  let ?syms = "[\<lparr>sym_message = ''slow'', sym_severity = ''medium''\<rparr>]"
  obtain r w' where run: "CreateOrUpdate mem_client ''kubechan'' sample_ref SeverityHigh ''PendingTooLong''
      ?syms (5 * second) empty_mem = (r, w')" by fastforce
  have f: "FindOpen mem_client ''kubechan'' sample_ref ''PendingTooLong'' empty_mem = Inr None"
    by (simp add: FindOpen_def mem_eval)
  have r: "r = None"
    using run f by (simp add: CreateOrUpdate_def Let_def createNew_def setInitialStatus_def mem_eval new_case_def)
  have "\<exists>pc. st_problemCases (mem_view empty_mem) (''kubechan'', pc_name pc) = None \<and> pc_namespace pc = ''kubechan'' \<and>
    mem_view w' = (mem_view empty_mem)\<lparr>st_problemCases := (st_problemCases (mem_view empty_mem))((''kubechan'', pc_name pc) \<mapsto> pc)\<rparr> \<and>
    case_id pc = (Some (AffectedResourceLabelValue sample_ref), Some ''PendingTooLong'') \<and>
    pc_spec pc = \<lparr>pcs_affectedResource = sample_ref, pcs_detector = ''PendingTooLong'', pcs_severity = SeverityHigh,
      pcs_symptoms = map sym_message ?syms, pcs_relatedResources = []\<rparr> \<and>
    pc_state pc = ProblemCaseStateOpen \<and> pct_firstSeen (pc_status pc) = Some (metav1_now (5 * second)) \<and>
    pct_lastSeen (pc_status pc) = Some (metav1_now (5 * second))"
    by (rule create_or_update_opens [OF mem_client_faithful f _ run [unfolded r]])
      (simp_all add: mem_eval Let_def split: option.splits)
  then show ?thesis using run r by fastforce
qed

text \<open>
  While a case is open, \<open>CreateOrUpdate\<close> never creates another: a successful call rewrites the
  symptoms and the last-seen second of the case it found and leaves its severity, first-seen
  instant, resource and everything else in the store as they were.
\<close>

theorem create_or_update_refreshes:
  assumes "faithful_client c view" and "FindOpen c ns ref det w = Inr (Some pc)" and "pc_state pc \<noteq> []"
    and "CreateOrUpdate c ns ref sev det syms now w = (None, w')"
  shows "view w' = (view w)\<lparr>st_problemCases := (st_problemCases (view w))(meta_key (pc_meta pc) \<mapsto>
    pc\<lparr>pc_spec := (pc_spec pc)\<lparr>pcs_symptoms := map sym_message syms\<rparr>,
       pc_status := (pc_status pc)\<lparr>pct_lastSeen := Some (metav1_now now)\<rparr>\<rparr>)\<rparr>"
proof -
  have run: "patchLastSeen c pc (metav1_now now) (map sym_message syms) w = (None, w')"
    using assms(2,4) by (simp add: CreateOrUpdate_def Let_def)
  show ?thesis
    using assms(1) FindOpen_Some(1) [OF assms(1,2)]
  proof (cases rule: patchLastSeen_outcome [where now = "metav1_now now" and msgs = "map sym_message syms"])
    case (1 w'' pc')
    have "pc_dflt (seen_again (metav1_now now) (map sym_message syms) pc) = seen_again (metav1_now now) (map sym_message syms) pc"
      using assms(3) by (simp add: pc_dflt_def seen_again_def)
    with 1 run show ?thesis by (auto simp: seen_again_def)
  qed (use run in auto)
qed

theorem create_or_update_refreshes_witness:
  "\<exists>w'. CreateOrUpdate mem_client ''kubechan'' sample_ref SeverityCritical ''PendingTooLong''
      [\<lparr>sym_message = ''slow'', sym_severity = ''critical''\<rparr>] (5 * second) case_world = (None, w') \<and>
    (\<exists>pc. st_problemCases (mem_view w') (''kubechan'', ''pc1'') = Some pc \<and>
       pcs_symptoms (pc_spec pc) = [''slow''] \<and> pcs_severity (pc_spec pc) = SeverityHigh \<and>
       pct_firstSeen (pc_status pc) = Some 0 \<and> pct_lastSeen (pc_status pc) = Some (5 * second))"
proof -
  let ?syms = "[\<lparr>sym_message = ''slow'', sym_severity = ''critical''\<rparr>]"
  obtain r w' where run: "CreateOrUpdate mem_client ''kubechan'' sample_ref SeverityCritical ''PendingTooLong''
      ?syms (5 * second) case_world = (r, w')" by fastforce
  have f: "FindOpen mem_client ''kubechan'' sample_ref ''PendingTooLong'' case_world = Inr (Some sample_case)"
    by (simp add: FindOpen_def case_world_def mem_eval sample_case_def case_labels_def label_defs state_consts
        opened_def)
  have key: "meta_key (pc_meta sample_case) = (''kubechan'', ''pc1'')"
    by (simp add: sample_case_def meta_key_def)
  have r: "r = None"
    using run f by (simp add: CreateOrUpdate_def Let_def patchLastSeen_def mem_eval case_world_def)
  have "pc_state sample_case \<noteq> []" by (simp add: sample_case_def opened_def state_consts)
  from create_or_update_refreshes [OF mem_client_faithful f this run [unfolded r]]
  show ?thesis
    using run r by (simp add: key) (simp add: sample_case_def new_case_def opened_def metav1_now_def)
qed

text \<open>
  Resolving ends the case: a successful \<open>Resolve\<close> of an open case marks it resolved at the
  current second, changes nothing else, and the next lookup for its resource and detector finds no
  open case any more, so that a recurrence opens a new one.
\<close>

theorem resolve_closes:
  assumes "faithful_client c view" and "ns \<noteq> []" and "one_open_case ns (st_problemCases (view w))"
    and "FindOpen c ns ref det w = Inr (Some pc)" and "Resolve c pc now w = (None, w')"
  shows "view w' = (view w)\<lparr>st_problemCases := (st_problemCases (view w))(meta_key (pc_meta pc) \<mapsto>
      pc\<lparr>pc_status := (pc_status pc)\<lparr>pct_state := ProblemCaseStateResolved, pct_resolvedAt := Some (metav1_now now)\<rparr>\<rparr>)\<rparr> \<and>
    FindOpen c ns ref det w' \<notin> range (\<lambda>pc'. Inr (Some pc'))"
proof -
  note f = FindOpen_Some [OF assms(1,4)]
  have key: "meta_key (pc_meta pc) = (ns, pc_name pc)" using f(2) assms(2) by (simp add: meta_key_def)
  have v: "view w' = (view w)\<lparr>st_problemCases := (cases view w)(meta_key (pc_meta pc) \<mapsto> closed (metav1_now now) pc)\<rparr>"
    using assms(1) f(1) by (cases rule: Resolve_outcome [where now = now]) (use assms(5) in auto)
  have "FindOpen c ns ref det w' \<noteq> Inr (Some pc')" for pc'
  proof
    assume "FindOpen c ns ref det w' = Inr (Some pc')"
    note g = FindOpen_Some [OF assms(1) this]
    have k': "meta_key (pc_meta pc') = (ns, pc_name pc')" using g(2) assms(2) by (simp add: meta_key_def)
    have new: "((cases view w)((ns, pc_name pc) \<mapsto> closed (metav1_now now) pc)) (ns, pc_name pc') = Some pc'"
      using g(1) unfolding v k' key by simp
    show False
    proof (cases "pc_name pc' = pc_name pc")
      case True
      with new g(4) show False by auto
    next
      case False
      with new have "cases view w (ns, pc_name pc') = Some pc'" by simp
      with one_open_caseD [OF assms(3) f(1) [unfolded key] this f(4) g(4) f(3) [unfolded carries_iff] g(3) [unfolded carries_iff]]
        False show False by simp
    qed
  qed
  with v show ?thesis by (auto simp: closed_def)
qed

theorem resolve_closes_witness:
  "\<exists>w'. Resolve mem_client sample_case (9 * second) case_world = (None, w') \<and>
     FindOpen mem_client ''kubechan'' sample_ref ''PendingTooLong'' w' \<notin> range (\<lambda>pc'. Inr (Some pc'))"
proof -
  obtain r w' where run: "Resolve mem_client sample_case (9 * second) case_world = (r, w')" by fastforce
  have r: "r = None" using run by (simp add: Resolve_def mem_eval case_world_def Let_def)
  have f: "FindOpen mem_client ''kubechan'' sample_ref ''PendingTooLong'' case_world = Inr (Some sample_case)"
    by (simp add: FindOpen_def case_world_def mem_eval sample_case_def case_labels_def label_defs state_consts
        opened_def)
  have one: "one_open_case ''kubechan'' (st_problemCases (mem_view case_world))"
    unfolding case_world_view by (rule one_open_caseI) (auto split: if_splits)
  from resolve_closes [OF mem_client_faithful _ one f run [unfolded r]] run r show ?thesis by simp
qed

section \<open>The label of a resource\<close>

lemma label_value_length: "length (AffectedResourceLabelValue r) \<le> 63"
  unfolding AffectedResourceLabelValue_def Let_def by (rule length_clip)

lemma to_lower_dot: "CHR ''.'' \<in> set (to_lower s) \<longleftrightarrow> CHR ''.'' \<in> set s"
proof -
  have c: "CHR ''.'' = char_lower x \<longleftrightarrow> x = CHR ''.''" for x
  proof (cases "65 \<le> (of_char x :: nat) \<and> (of_char x :: nat) \<le> 90")
    case True
    then have "(of_char (char_lower x) :: nat) = of_char x + 32" by (simp add: char_lower_def of_char_mod_256)
    with True have "char_lower x \<noteq> CHR ''.''" by auto
    moreover from True have "x \<noteq> CHR ''.''" by auto
    ultimately show ?thesis by metis
  next
    case False
    then have "char_lower x = x" by (simp only: char_lower_def if_False)
    then show ?thesis by auto
  qed
  show ?thesis by (simp add: to_lower_def image_iff c)
qed

text \<open>
  The label value identifies the resource as long as it is not truncated: for kinds and
  namespaces without a dot, resources whose values fit in 63 bytes have equal values only if kind,
  namespace and name agree up to letter case, a cluster-scoped resource counting as being in the
  namespace \<open>cluster\<close>. The value never exceeds 63 bytes.
\<close>

theorem label_value_identifies:
  assumes "AffectedResourceLabelValue r = AffectedResourceLabelValue r'"
    and "length (rr_kind r) + length (rr_namespace r) + length (rr_name r) \<le> 54"
    and "length (rr_kind r') + length (rr_namespace r') + length (rr_name r') \<le> 54"
    and "CHR ''.'' \<notin> set (rr_kind r) \<union> set (rr_kind r') \<union> set (rr_namespace r) \<union> set (rr_namespace r')"
  shows "to_lower (rr_kind r) = to_lower (rr_kind r') \<and> to_lower (rr_name r) = to_lower (rr_name r') \<and>
    to_lower (if rr_namespace r = [] then ''cluster'' else rr_namespace r) =
    to_lower (if rr_namespace r' = [] then ''cluster'' else rr_namespace r') \<and>
    length (AffectedResourceLabelValue r) \<le> 63"
proof -
  let ?ns = "\<lambda>r. if rr_namespace r = [] then ''cluster'' else rr_namespace r"
  have val: "AffectedResourceLabelValue q = to_lower (rr_kind q) @ CHR ''.'' # to_lower (?ns q) @ CHR ''.'' # to_lower (rr_name q)"
    if "length (rr_kind q) + length (rr_namespace q) + length (rr_name q) \<le> 54" for q
  proof -
    have "to_lower (CHR ''.'' # s) = CHR ''.'' # to_lower s" for s by (simp add: to_lower_def char_lower_def)
    with that show ?thesis by (simp add: AffectedResourceLabelValue_def Let_def)
  qed
  have ns: "CHR ''.'' \<notin> set (to_lower (?ns r))" "CHR ''.'' \<notin> set (to_lower (?ns r'))"
    "CHR ''.'' \<notin> set (to_lower (rr_kind r))" "CHR ''.'' \<notin> set (to_lower (rr_kind r'))"
    using assms(4) by (auto simp: to_lower_dot)
  note eq = assms(1) [unfolded val [OF assms(2)] val [OF assms(3)]]
  note k = sep_split [OF ns(3,4) eq]
  note n = sep_split [OF ns(1,2) k(2)]
  from k n label_value_length show ?thesis by simp
qed

theorem label_value_identifies_witness:
  "AffectedResourceLabelValue (mk_ref ''shop'' ''Pod'' ''web'') = ''pod.shop.web'' \<and>
   length (AffectedResourceLabelValue (mk_ref ''shop'' ''Pod'' ''web'')) \<le> 63"
proof
  show "AffectedResourceLabelValue (mk_ref ''shop'' ''Pod'' ''web'') = ''pod.shop.web''"
    by code_simp
  show "length (AffectedResourceLabelValue (mk_ref ''shop'' ''Pod'' ''web'')) \<le> 63"
    using label_value_identifies [of "mk_ref ''shop'' ''Pod'' ''web''" "mk_ref ''shop'' ''Pod'' ''web''"] by simp
qed

text \<open>
  Two resources of a kind and namespace whose names share a prefix long enough to fill the 63
  bytes of the label share their case: while the case of the first is open, \<open>CreateOrUpdate\<close> for the
  second succeeds by rewriting the first one's symptoms, and no case for the second resource
  appears.
\<close>

theorem truncated_label_shares_case:
  assumes "faithful_client c view" and "FindOpen c ns ref det w = Inr (Some pc)" and "pcs_affectedResource (pc_spec pc) = ref"
    and "ref' = ref\<lparr>rr_name := take n (rr_name ref) @ rest\<rparr>" and "ref' \<noteq> ref" and "n \<le> length (rr_name ref)"
    and "63 \<le> length (rr_kind ref) + length (rr_namespace ref) + n" and "rr_namespace ref \<noteq> []"
    and "CreateOrUpdate c ns ref' sev det syms now w = (r, w')"
    and "\<not> (\<exists>k pc'. st_problemCases (view w) k = Some pc' \<and> pcs_affectedResource (pc_spec pc') = ref')"
  shows "\<not> (\<exists>k pc'. st_problemCases (view w') k = Some pc' \<and> pcs_affectedResource (pc_spec pc') = ref')"
proof -
  have "AffectedResourceLabelValue ref' = AffectedResourceLabelValue ref"
  proof -
    let ?p = "rr_kind ref @ ''.'' @ rr_namespace ref @ ''.'' @ take n (rr_name ref)"
    have len: "63 \<le> length ?p" using assms(6,7) by simp
    have val: "AffectedResourceLabelValue q = take 63 (to_lower ?p)"
      if "rr_kind q = rr_kind ref" "rr_namespace q = rr_namespace ref" "rr_name q = take n (rr_name ref) @ s" for q s
    proof -
      have "take 63 (to_lower (?p @ s)) = take 63 (to_lower ?p)" using len by (rule take_to_lower_append)
      moreover have "AffectedResourceLabelValue q = take 63 (to_lower (?p @ s))"
        using that assms(8) by (simp add: AffectedResourceLabelValue_def Let_def)
      ultimately show ?thesis by simp
    qed
    have "AffectedResourceLabelValue ref = take 63 (to_lower ?p)"
      by (rule val [where s = "drop n (rr_name ref)"]) simp_all
    moreover have "AffectedResourceLabelValue ref' = take 63 (to_lower ?p)"
      by (rule val [where s = rest]) (simp_all add: assms(4))
    ultimately show ?thesis by simp
  qed
  then have f': "FindOpen c ns ref' det w = Inr (Some pc)"
    using assms(2) by (simp add: FindOpen_def case_labels_def)
  have run: "patchLastSeen c pc (metav1_now now) (map sym_message syms) w = (r, w')"
    using assms(9) f' by (simp add: CreateOrUpdate_def Let_def)
  have aff: "pcs_affectedResource (pc_spec (seen_again m ms pc)) = ref" for m ms
    using assms(3) by (simp add: seen_again_def)
  from assms(1) FindOpen_Some(1) [OF assms(1,2)] show ?thesis
    by (cases rule: patchLastSeen_outcome [where now = "metav1_now now" and msgs = "map sym_message syms"])
      (use run aff assms(3,5,10) in \<open>auto split: if_splits\<close>)
qed

definition long_ref :: resource_ref where
  "long_ref = mk_ref ''shop'' ''Pod'' (replicate 60 (CHR ''a''))"

definition long_case :: problem_case where
  "long_case = sample_case\<lparr>pc_meta := (pc_meta sample_case)\<lparr>om_labels := case_labels long_ref ''PendingTooLong''\<rparr>,
     pc_spec := (pc_spec sample_case)\<lparr>pcs_affectedResource := long_ref\<rparr>\<rparr>"

theorem truncated_label_shares_case_witness:
  "\<not> (\<exists>k pc'. st_problemCases (mem_view (snd (CreateOrUpdate mem_client ''kubechan''
        (long_ref\<lparr>rr_name := take 56 (rr_name long_ref) @ ''b''\<rparr>) SeverityHigh ''PendingTooLong'' [] 7
        (empty_mem\<lparr>m_problemCases := [long_case]\<rparr>)))) k = Some pc' \<and>
      pcs_affectedResource (pc_spec pc') = long_ref\<lparr>rr_name := take 56 (rr_name long_ref) @ ''b''\<rparr>)"
proof -
  let ?w = "empty_mem\<lparr>m_problemCases := [long_case]\<rparr>"
  let ?ref' = "long_ref\<lparr>rr_name := take 56 (rr_name long_ref) @ ''b''\<rparr>"
  have f: "FindOpen mem_client ''kubechan'' long_ref ''PendingTooLong'' ?w = Inr (Some long_case)"
    by (simp add: FindOpen_def mem_eval long_case_def sample_case_def case_labels_def label_defs state_consts
        opened_def)
  have aff: "pcs_affectedResource (pc_spec long_case) = long_ref" by (simp add: long_case_def)
  have ne: "?ref' \<noteq> long_ref"
  proof
    assume "?ref' = long_ref"
    then have "rr_name ?ref' = rr_name long_ref" by (rule arg_cong)
    then have "length (rr_name ?ref') = length (rr_name long_ref)" by (rule arg_cong)
    then show False by (simp add: long_ref_def)
  qed
  have none: "\<not> (\<exists>k pc'. st_problemCases (mem_view ?w) k = Some pc' \<and> pcs_affectedResource (pc_spec pc') = ?ref')"
    using ne aff by (auto simp: mem_view_def tab_find_def split: if_splits)
  show ?thesis
    by (rule truncated_label_shares_case [OF mem_client_faithful f aff refl ne _ _ _ prod.collapse [symmetric] none])
      (simp_all add: long_ref_def)
qed

end
