(* ===== verification/Workload_Reconcilers.thy ===== *)
theory Workload_Reconcilers
  imports Debounce Exclusion Problem_Case
begin

text \<open>
  The reconcilers that watch the cluster, \<open>cluster-watcher/controllers\<close>: \<open>PodReconciler\<close>,
  \<open>DeploymentReconciler\<close> and \<open>ServiceReconciler\<close> run their detectors on the object of a request and
  hand what they find to the debouncer; the debounced function (\<open>job\<close>, with the variables it
  captures) checks the exclusion rules when it runs and creates or refreshes the ProblemCase. Also
  the helpers of \<open>helpers.go\<close>, the functions that map watched objects to requests, and the
  \<open>NodeReconciler\<close> and \<open>EventReconciler\<close> stubs.

  A reconciliation reads the world and changes the debouncer; a job changes the world. In the
  \<open>i\<close>-th turn of the detector loop \<open>clk i\<close> is the clock the detector sees, \<open>win i\<close> the window
  and \<open>arm i\<close> the instant at which the timer is armed.
\<close>

section \<open>Helpers\<close>

definition severityOrder :: "(string \<times> int) list" where
  "severityOrder = [(''critical'', 4), (''high'', 3), (''medium'', 2), (''low'', 1)]"

definition severity_weight :: "string \<Rightarrow> int" where
  "severity_weight s = (case map_of severityOrder s of None \<Rightarrow> 0 | Some n \<Rightarrow> n)"

definition highestSeverity :: "symptom list \<Rightarrow> problem_case_severity" where
  "highestSeverity symptoms = snd (foldl (\<lambda>(best, result) s.
     let w = severity_weight (sym_severity s) in if w > best then (w, sym_severity s) else (best, result))
     (0, ''low'') symptoms)"

definition debounceKey :: "string \<Rightarrow> string \<Rightarrow> string \<Rightarrow> string \<Rightarrow> string" where
  "debounceKey namespace kind name detectorName =
     namespace @ ''/'' @ kind @ ''/'' @ name @ ''/'' @ detectorName"

definition ruleNamespace :: "client_object \<Rightarrow> string" where
  "ruleNamespace obj = (case obj of RuleObj rule \<Rightarrow> xr_namespace (rule_spec rule) | _ \<Rightarrow> get_namespace obj)"

definition requests_of :: "('o \<Rightarrow> object_meta) \<Rightarrow> go_error + 'o list \<Rightarrow> namespaced_name list" where
  "requests_of meta listing = (case listing of Inl err \<Rightarrow> [] | Inr items \<Rightarrow> map (\<lambda>x. meta_key (meta x)) items)"

definition ruleToPodsMapper :: "'w client \<Rightarrow> client_object \<Rightarrow> 'w \<Rightarrow> namespaced_name list" where
  "ruleToPodsMapper c obj w = requests_of pod_meta (api_list (c_pods c) (ruleNamespace obj) [] w)"

definition ruleToServicesMapper :: "'w client \<Rightarrow> client_object \<Rightarrow> 'w \<Rightarrow> namespaced_name list" where
  "ruleToServicesMapper c obj w = requests_of svc_meta (api_list (c_services c) (ruleNamespace obj) [] w)"

definition ruleToDeploymentsMapper :: "'w client \<Rightarrow> client_object \<Rightarrow> 'w \<Rightarrow> namespaced_name list" where
  "ruleToDeploymentsMapper c obj w = requests_of dep_meta (api_list (c_deployments c) (ruleNamespace obj) [] w)"

text \<open>\<open>rsToDeployment\<close>: the first owner of kind Deployment; \<open>esToService\<close>: the service label.\<close>

definition rsToDeployment :: "object_meta \<Rightarrow> namespaced_name list" where
  "rsToDeployment m = (case find (\<lambda>ref. or_kind ref = ''Deployment'') (om_owners m) of
     Some ref \<Rightarrow> [(om_namespace m, or_name ref)] | None \<Rightarrow> [])"

definition esToService :: "object_meta \<Rightarrow> namespaced_name list" where
  "esToService m = (let svcName = go_idx (om_labels m) ''kubernetes.io/service-name''
     in if svcName = [] then [] else [(om_namespace m, svcName)])"

definition relevantEventKinds :: "string list" where
  "relevantEventKinds = [''Pod'', ''Deployment'', ''Service'', ''Node'']"

text \<open>The event filter, on the involved object's kind of an Event and \<open>None\<close> for any other type.\<close>

definition eventFilter :: "string option \<Rightarrow> bool" where
  "eventFilter involvedKind = (case involvedKind of None \<Rightarrow> False | Some kind \<Rightarrow> kind \<in> set relevantEventKinds)"

section \<open>The debounced function\<close>

record job =
  job_obj :: client_object
  job_ref :: resource_ref
  job_severity :: problem_case_severity
  job_detector :: string
  job_symptoms :: "symptom list"

text \<open>
  \<open>t1\<close>, \<open>t2\<close> are the readings of the clock in \<open>IsExcluded\<close> and in what follows it. A failing
  exclusion check is logged and counts as not excluded; the other errors are logged too.
\<close>

definition run_job ::
  "tz_database \<Rightarrow> 'w client \<Rightarrow> string \<Rightarrow> time \<Rightarrow> time \<Rightarrow> job \<Rightarrow> 'w \<Rightarrow> 'w" where
  "run_job tz c controlNS t1 t2 j w =
     (case IsExcluded tz c controlNS (job_obj j) (job_detector j) t1 w of
        Inr (Some ruleName) \<Rightarrow>
          (case GetRule c controlNS ruleName w of
             Inr (Some rule) \<Rightarrow> snd (PatchMatchedStatus c rule t2 w)
           | _ \<Rightarrow> w)
      | _ \<Rightarrow> snd (CreateOrUpdate c controlNS (job_ref j) (job_severity j) (job_detector j) (job_symptoms j) t2 w))"

section \<open>Reconciliation\<close>

text \<open>One turn of the loop over the detectors, for an object of the given kind.\<close>

definition reconcile_detector ::
  "string \<Rightarrow> client_object \<Rightarrow> 'w client \<Rightarrow> 'w \<Rightarrow> clock \<Rightarrow> duration \<Rightarrow> time \<Rightarrow> 'w detector \<Rightarrow>
   job debouncer \<Rightarrow> job debouncer" where
  "reconcile_detector kind obj c w clk win now d db =
     (case det_Evaluate d obj c w clk of
        Inl err \<Rightarrow> db
      | Inr symptoms \<Rightarrow>
          (let key = debounceKey (get_namespace obj) kind (get_name obj) (det_Name d)
           in if symptoms = [] then Cancel key db
              else Debounce win now key
                \<lparr>job_obj = obj, job_ref = mk_ref (get_namespace obj) kind (get_name obj),
                 job_severity = highestSeverity symptoms, job_detector = det_Name d,
                 job_symptoms = symptoms\<rparr> db))"

definition reconcile_detectors ::
  "string \<Rightarrow> client_object \<Rightarrow> 'w client \<Rightarrow> 'w \<Rightarrow> (nat \<Rightarrow> clock) \<Rightarrow> (nat \<Rightarrow> duration) \<Rightarrow> (nat \<Rightarrow> time) \<Rightarrow>
   'w detector list \<Rightarrow> job debouncer \<Rightarrow> job debouncer" where
  "reconcile_detectors kind obj c w clk win arm ds db =
     fold (\<lambda>(i, d). reconcile_detector kind obj c w (clk i) (win i) (arm i) d) (enumerate 0 ds) db"

definition cancel_all :: "string \<Rightarrow> string \<Rightarrow> string \<Rightarrow> 'w detector list \<Rightarrow> job debouncer \<Rightarrow> job debouncer" where
  "cancel_all namespace kind name ds db =
     fold Cancel (map (\<lambda>d. debounceKey namespace kind name (det_Name d)) ds) db"

record 'w workload_reconciler =
  wr_client :: "'w client"
  wr_detectors :: "'w detector list"
  wr_controlNamespace :: string

definition PodReconciler_Reconcile ::
  "'w workload_reconciler \<Rightarrow> namespaced_name \<Rightarrow> (nat \<Rightarrow> clock) \<Rightarrow> (nat \<Rightarrow> duration) \<Rightarrow> (nat \<Rightarrow> time) \<Rightarrow> 'w \<Rightarrow>
   job debouncer \<Rightarrow> go_error option \<times> job debouncer" where
  "PodReconciler_Reconcile r req clk win arm w db =
     (if fst req = wr_controlNamespace r then (None, db)
      else (case api_get (c_pods (wr_client r)) (fst req) (snd req) w of
          Inl err \<Rightarrow>
            if is_not_found err then (None, cancel_all (fst req) ''Pod'' (snd req) (wr_detectors r) db)
            else (Some (Wrapf (''getting Pod '' @ fst req @ ''/'' @ snd req) err), db)
        | Inr pod \<Rightarrow>
            (None, reconcile_detectors ''Pod'' (PodObj pod) (wr_client r) w clk win arm (wr_detectors r) db)))"

definition DeploymentReconciler_Reconcile ::
  "'w workload_reconciler \<Rightarrow> namespaced_name \<Rightarrow> (nat \<Rightarrow> clock) \<Rightarrow> (nat \<Rightarrow> duration) \<Rightarrow> (nat \<Rightarrow> time) \<Rightarrow> 'w \<Rightarrow>
   job debouncer \<Rightarrow> go_error option \<times> job debouncer" where
  "DeploymentReconciler_Reconcile r req clk win arm w db =
     (if fst req = wr_controlNamespace r then (None, db)
      else (case api_get (c_deployments (wr_client r)) (fst req) (snd req) w of
          Inl err \<Rightarrow>
            if is_not_found err then (None, cancel_all (fst req) ''Deployment'' (snd req) (wr_detectors r) db)
            else (Some (Wrapf (''getting Deployment '' @ fst req @ ''/'' @ snd req) err), db)
        | Inr deploy \<Rightarrow>
            (None, reconcile_detectors ''Deployment'' (DeploymentObj deploy) (wr_client r) w clk win arm
              (wr_detectors r) db)))"

definition ServiceReconciler_Reconcile ::
  "'w workload_reconciler \<Rightarrow> namespaced_name \<Rightarrow> (nat \<Rightarrow> clock) \<Rightarrow> (nat \<Rightarrow> duration) \<Rightarrow> (nat \<Rightarrow> time) \<Rightarrow> 'w \<Rightarrow>
   job debouncer \<Rightarrow> go_error option \<times> job debouncer" where
  "ServiceReconciler_Reconcile r req clk win arm w db =
     (if fst req = wr_controlNamespace r then (None, db)
      else (case api_get (c_services (wr_client r)) (fst req) (snd req) w of
          Inl err \<Rightarrow>
            if is_not_found err then (None, cancel_all (fst req) ''Service'' (snd req) (wr_detectors r) db)
            else (Some (Wrapf (''getting Service '' @ fst req @ ''/'' @ snd req) err), db)
        | Inr svc \<Rightarrow>
            (None, reconcile_detectors ''Service'' (ServiceObj svc) (wr_client r) w clk win arm (wr_detectors r) db)))"

definition NodeReconciler_Reconcile :: "'w client \<Rightarrow> namespaced_name \<Rightarrow> 'w \<Rightarrow> go_error option" where
  "NodeReconciler_Reconcile c req w = (case api_get (c_nodes c) (fst req) (snd req) w of
     Inl err \<Rightarrow> if is_not_found err then None else Some (Wrapf (''getting Node '' @ snd req) err)
   | Inr node \<Rightarrow> None)"

text \<open>Events are read through \<open>getEvent\<close>; nothing is done with the event that is found.\<close>

definition EventReconciler_Reconcile ::
  "(string \<Rightarrow> string \<Rightarrow> 'w \<Rightarrow> go_error + 'event) \<Rightarrow> namespaced_name \<Rightarrow> 'w \<Rightarrow> go_error option" where
  "EventReconciler_Reconcile getEvent req w = (case getEvent (fst req) (snd req) w of
     Inl err \<Rightarrow> if is_not_found err then None
       else Some (Wrapf (''getting Event '' @ fst req @ ''/'' @ snd req) err)
   | Inr event \<Rightarrow> None)"

section \<open>Severities\<close>

lemma severity_weight_pos: "severity_weight s > 0 \<longleftrightarrow> s \<in> set severities"
  by (simp add: severity_weight_def severityOrder_def severities_def severity_consts)

lemma severity_weight_nonneg: "0 \<le> severity_weight s"
  by (simp add: severity_weight_def severityOrder_def)

lemma highest_fold:
  fixes best :: int
  assumes "0 \<le> best"
  shows "let (b, r) = foldl (\<lambda>(best, result) s. let w = severity_weight (sym_severity s)
       in if w > best then (w, sym_severity s) else (best, result)) (best, result) ss
     in best \<le> b \<and> (\<forall>s \<in> set ss. severity_weight (sym_severity s) \<le> b) \<and>
        (b = best \<and> r = result \<or> b = severity_weight r \<and> r \<in> sym_severity ` set ss)"
  using assms
proof (induction ss arbitrary: best result)
  case (Cons s ss)
  let ?w = "severity_weight (sym_severity s)"
  show ?case
  proof (cases "?w > best")
    case True
    with Cons.IH [of ?w "sym_severity s"] severity_weight_nonneg [of "sym_severity s"] show ?thesis
      by (auto simp: Let_def split: prod.splits)
  next
    case False
    with Cons.IH [of best result] Cons.prems show ?thesis by (auto simp: Let_def split: prod.splits)
  qed
qed simp

lemma highestSeverity_max:
  "(\<forall>s \<in> set ss. severity_weight (sym_severity s) \<le> severity_weight (highestSeverity ss)) \<and>
   (highestSeverity ss \<in> sym_severity ` set ss \<or> highestSeverity ss = ''low'')"
proof -
  obtain b r where br: "foldl (\<lambda>(best, result) s. let w = severity_weight (sym_severity s)
       in if w > best then (w, sym_severity s) else (best, result)) (0, ''low'') ss = (b, r)" by fastforce
  have low: "severity_weight ''low'' = 1" by (simp add: severity_weight_def severityOrder_def)
  from highest_fold [of 0 "''low''" ss] br low show ?thesis
    by (auto simp: highestSeverity_def Let_def)
qed

section \<open>What is pending after a reconciliation\<close>

text \<open>The pending entry a detector's outcome leaves: \<open>old\<close> on an error.\<close>

definition entry_after ::
  "string \<Rightarrow> client_object \<Rightarrow> 'w detector \<Rightarrow> go_error + symptom list \<Rightarrow> time \<Rightarrow> (job \<times> time) option \<Rightarrow>
   (job \<times> time) option" where
  "entry_after kind obj d outcome deadline old = (case outcome of
     Inl err \<Rightarrow> old
   | Inr [] \<Rightarrow> None
   | Inr (s # ss) \<Rightarrow> Some (\<lparr>job_obj = obj, job_ref = mk_ref (get_namespace obj) kind (get_name obj),
       job_severity = highestSeverity (s # ss), job_detector = det_Name d, job_symptoms = s # ss\<rparr>, deadline))"

lemma debounceKey_detector: "debounceKey ns kind name d = debounceKey ns kind name d' \<longleftrightarrow> d = d'"
  by (simp add: debounceKey_def)

lemma reconcile_detector_live [keeps]: "map_live db \<Longrightarrow> map_live (reconcile_detector kind obj c w clk win now d db)"
  by (simp add: reconcile_detector_def Let_def keeps split: sum.splits)

lemma reconcile_detector_pending:
  assumes "map_live db"
  shows "pending (reconcile_detector kind obj c w clk win now d db) =
    (pending db)(debounceKey (get_namespace obj) kind (get_name obj) (det_Name d) :=
       entry_after kind obj d (det_Evaluate d obj c w clk) (now + win)
         (pending db (debounceKey (get_namespace obj) kind (get_name obj) (det_Name d))))"
  using debouncer.pend_debounce [OF assms] debouncer.pend_cancel [OF assms]
  by (auto simp: reconcile_detector_def entry_after_def Let_def neq_Nil_conv split: sum.splits list.splits)

lemma reconcile_detectors_snoc:
  "reconcile_detectors kind obj c w clk win arm (ds @ [d]) db =
   reconcile_detector kind obj c w (clk (length ds)) (win (length ds)) (arm (length ds)) d
     (reconcile_detectors kind obj c w clk win arm ds db)"
  by (simp add: reconcile_detectors_def enumerate_append_eq)

lemma reconcile_detectors_live [keeps]: "map_live db \<Longrightarrow> map_live (reconcile_detectors kind obj c w clk win arm ds db)"
  by (induction ds rule: rev_induct) (simp_all add: reconcile_detectors_snoc keeps, simp add: reconcile_detectors_def)

lemma reconcile_detectors_pending:
  assumes "map_live db" and "distinct (map det_Name ds)"
  shows "(\<forall>i < length ds. pending (reconcile_detectors kind obj c w clk win arm ds db)
       (debounceKey (get_namespace obj) kind (get_name obj) (det_Name (ds ! i))) =
     entry_after kind obj (ds ! i) (det_Evaluate (ds ! i) obj c w (clk i)) (arm i + win i)
       (pending db (debounceKey (get_namespace obj) kind (get_name obj) (det_Name (ds ! i))))) \<and>
   (\<forall>k. k \<notin> (\<lambda>d. debounceKey (get_namespace obj) kind (get_name obj) (det_Name d)) ` set ds \<longrightarrow>
     pending (reconcile_detectors kind obj c w clk win arm ds db) k = pending db k)"
  using assms(2)
proof (induction ds rule: rev_induct)
  case Nil
  show ?case by (simp add: reconcile_detectors_def)
next
  case (snoc d ds)
  let ?key = "\<lambda>d. debounceKey (get_namespace obj) kind (get_name obj) (det_Name d)"
  from snoc have IH: "\<forall>i < length ds. pending (reconcile_detectors kind obj c w clk win arm ds db) (?key (ds ! i)) =
       entry_after kind obj (ds ! i) (det_Evaluate (ds ! i) obj c w (clk i)) (arm i + win i) (pending db (?key (ds ! i)))"
    and IH': "\<forall>k. k \<notin> ?key ` set ds \<longrightarrow> pending (reconcile_detectors kind obj c w clk win arm ds db) k = pending db k"
    by auto
  have new: "?key d \<notin> ?key ` set ds" using snoc.prems by (auto simp: debounceKey_detector)
  have other: "?key (ds ! i) \<noteq> ?key d" if "i < length ds" for i
    using imageI [OF nth_mem [OF that], of ?key] new by metis
  note step = reconcile_detectors_snoc reconcile_detector_pending [OF reconcile_detectors_live [OF assms(1)]]
  show ?case
    using IH IH' new other by (auto simp: step nth_append less_Suc_eq)
qed

lemma cancel_all_pending:
  assumes "map_live db"
  shows "pending (cancel_all ns kind name ds db) k =
    (if k \<in> (\<lambda>d. debounceKey ns kind name (det_Name d)) ` set ds then None else pending db k)"
  using debouncer.pend_cancel_all [OF assms, of "map (\<lambda>d. debounceKey ns kind name (det_Name d)) ds" k]
  by (simp add: cancel_all_def)

section \<open>Properties\<close>

text \<open>
  C3. Reconciling a pod leaves, for each detector, exactly what its evaluation calls for: symptoms
  arm the entry of the pod and the detector with a fresh deadline and a job carrying the symptoms
  and the highest severity, no symptoms cancel it, a failing detector leaves it alone; the entries
  of other resources are untouched, and the reconciliation itself succeeds.
\<close>

theorem pod_reconcile_pending:
  assumes "db_reach db" and "distinct (map det_Name (wr_detectors r))"
    and "api_get (c_pods (wr_client r)) ns name w = Inr pod" and "ns \<noteq> wr_controlNamespace r"
  shows "case PodReconciler_Reconcile r (ns, name) clk win arm w db of (err, db') \<Rightarrow> err = None \<and>
    (\<forall>i < length (wr_detectors r).
       pending db' (debounceKey (om_namespace (pod_meta pod)) ''Pod'' (om_name (pod_meta pod)) (det_Name (wr_detectors r ! i))) =
       entry_after ''Pod'' (PodObj pod) (wr_detectors r ! i)
         (det_Evaluate (wr_detectors r ! i) (PodObj pod) (wr_client r) w (clk i)) (arm i + win i)
         (pending db (debounceKey (om_namespace (pod_meta pod)) ''Pod'' (om_name (pod_meta pod)) (det_Name (wr_detectors r ! i))))) \<and>
    (\<forall>k. k \<notin> (\<lambda>d. debounceKey (om_namespace (pod_meta pod)) ''Pod'' (om_name (pod_meta pod)) (det_Name d)) ` set (wr_detectors r) \<longrightarrow>
       pending db' k = pending db k)"
  using reconcile_detectors_pending [OF reach_map_live [OF assms(1)] assms(2),
      where obj = "PodObj pod" and kind = "''Pod''" and c = "wr_client r" and w = w and clk = clk and win = win and arm = arm]
  by (simp add: PodReconciler_Reconcile_def assms(3,4))

definition crash_pod :: pod where
  "crash_pod = sample_pod\<lparr>pod_containerStatuses :=
     [\<lparr>cs_name = ''app'', cs_image = ''app:1'', cs_restartCount = 7, cs_waitingReason = Some ''CrashLoopBackOff''\<rparr>]\<rparr>"

definition pod_reconciler :: "mem workload_reconciler" where
  "pod_reconciler = \<lparr>wr_client = mem_client, wr_detectors = [CrashLoopBackOffDetector, ImagePullBackOffDetector],
     wr_controlNamespace = ''kubechan''\<rparr>"

theorem pod_reconcile_pending_witness:
  "\<exists>j. pending (snd (PodReconciler_Reconcile pod_reconciler (''shop'', ''web'') (\<lambda>_ _. 0) (\<lambda>_. 30) (\<lambda>_. 100)
       (empty_mem\<lparr>m_pods := [crash_pod]\<rparr>) New)) (debounceKey ''shop'' ''Pod'' ''web'' ''CrashLoopBackOff'') = Some (j, 130) \<and>
     job_severity j = SeverityCritical"
proof -
  let ?w = "empty_mem\<lparr>m_pods := [crash_pod]\<rparr>"
  have d: "distinct (map det_Name (wr_detectors pod_reconciler))"
    by (simp add: pod_reconciler_def detector_defs)
  have g: "api_get (c_pods (wr_client pod_reconciler)) ''shop'' ''web'' ?w = Inr crash_pod"
    by (simp add: pod_reconciler_def mem_eval crash_pod_def sample_pod_def)
  have ns: "''shop'' \<noteq> wr_controlNamespace pod_reconciler" by (simp add: pod_reconciler_def)
  note t = pod_reconcile_pending [OF reach_new d g ns, where clk = "\<lambda>_ _. 0" and win = "\<lambda>_. 30" and arm = "\<lambda>_. 100"]
  have m: "om_namespace (pod_meta crash_pod) = ''shop''" "om_name (pod_meta crash_pod) = ''web''"
    by (simp_all add: crash_pod_def sample_pod_def)
  have n: "det_Name (wr_detectors pod_reconciler ! 0) = ''CrashLoopBackOff''" "0 < length (wr_detectors pod_reconciler)"
    by (simp_all add: pod_reconciler_def detector_defs)
  have e: "det_Evaluate (wr_detectors pod_reconciler ! 0) (PodObj crash_pod) (wr_client pod_reconciler) ?w (\<lambda>_. 0) =
      Inr (crashLoop_check (hd (pod_containerStatuses crash_pod)))"
    by (simp add: pod_reconciler_def detector_defs crashLoop_Evaluate_def crash_pod_def sample_pod_def)
  obtain err db' where run: "PodReconciler_Reconcile pod_reconciler (''shop'', ''web'') (\<lambda>_ _. 0) (\<lambda>_. 30) (\<lambda>_. 100) ?w New
      = (err, db')" by fastforce
  have "pending db' (debounceKey ''shop'' ''Pod'' ''web'' ''CrashLoopBackOff'') =
      entry_after ''Pod'' (PodObj crash_pod) (wr_detectors pod_reconciler ! 0)
        (Inr (crashLoop_check (hd (pod_containerStatuses crash_pod)))) 130
        (pending New (debounceKey ''shop'' ''Pod'' ''web'' ''CrashLoopBackOff''))"
    using t [unfolded run prod.case m, THEN conjunct2, THEN conjunct1, rule_format, OF n(2)] n(1) e by simp
  moreover have "\<exists>s. crashLoop_check (hd (pod_containerStatuses crash_pod)) = [s] \<and> sym_severity s = ''critical''"
    by (simp add: crashLoop_check_def crash_pod_def)
  ultimately show ?thesis
    by (auto simp: run entry_after_def highestSeverity_def severity_weight_def severityOrder_def severity_consts)
qed

definition gone :: "go_error + 'o \<Rightarrow> bool" where
  "gone reply = (case reply of Inl e \<Rightarrow> is_not_found e | Inr _ \<Rightarrow> False)"

definition cancels ::
  "'w workload_reconciler \<Rightarrow> string \<Rightarrow> namespaced_name \<Rightarrow> job debouncer \<Rightarrow> go_error option \<times> job debouncer \<Rightarrow> bool" where
  "cancels r kind req db outcome \<longleftrightarrow> fst outcome = None \<and> (\<forall>k. pending (snd outcome) k =
     (if k \<in> (\<lambda>d. debounceKey (fst req) kind (snd req) (det_Name d)) ` set (wr_detectors r) then None else pending db k))"

text \<open>
  When the object of a request is gone, each of the three reconcilers cancels the pending work of
  every one of its detectors for it, touches no other entry and returns no error; a request for an
  object of the control namespace changes nothing.
\<close>

theorem deleted_workload_is_cancelled:
  assumes "db_reach db" and "fst req \<noteq> wr_controlNamespace r"
  shows "(gone (api_get (c_pods (wr_client r)) (fst req) (snd req) w) \<longrightarrow>
      cancels r ''Pod'' req db (PodReconciler_Reconcile r req clk win arm w db)) \<and>
    (gone (api_get (c_deployments (wr_client r)) (fst req) (snd req) w) \<longrightarrow>
      cancels r ''Deployment'' req db (DeploymentReconciler_Reconcile r req clk win arm w db)) \<and>
    (gone (api_get (c_services (wr_client r)) (fst req) (snd req) w) \<longrightarrow>
      cancels r ''Service'' req db (ServiceReconciler_Reconcile r req clk win arm w db)) \<and>
    PodReconciler_Reconcile r (wr_controlNamespace r, n) clk win arm w db = (None, db) \<and>
    DeploymentReconciler_Reconcile r (wr_controlNamespace r, n) clk win arm w db = (None, db) \<and>
    ServiceReconciler_Reconcile r (wr_controlNamespace r, n) clk win arm w db = (None, db)"
proof -
  have "cancels r kind req db (None, cancel_all (fst req) kind (snd req) (wr_detectors r) db)" for kind
    using cancel_all_pending [OF reach_map_live [OF assms(1)], of "fst req" kind "snd req" "wr_detectors r"]
    by (simp add: cancels_def)
  with assms(2) show ?thesis
    by (auto simp: gone_def PodReconciler_Reconcile_def DeploymentReconciler_Reconcile_def
        ServiceReconciler_Reconcile_def split: sum.splits)
qed

theorem deleted_workload_is_cancelled_witness:
  "pending (snd (PodReconciler_Reconcile pod_reconciler (''shop'', ''web'') (\<lambda>_ _. 0) (\<lambda>_. 30) (\<lambda>_. 100) empty_mem
     (Debounce 30 0 (debounceKey ''shop'' ''Pod'' ''web'' ''CrashLoopBackOff'')
       \<lparr>job_obj = PodObj crash_pod, job_ref = sample_ref, job_severity = SeverityHigh, job_detector = ''CrashLoopBackOff'',
        job_symptoms = []\<rparr> New))) (debounceKey ''shop'' ''Pod'' ''web'' ''CrashLoopBackOff'') = None"
proof -
  let ?db = "Debounce 30 0 (debounceKey ''shop'' ''Pod'' ''web'' ''CrashLoopBackOff'')
    \<lparr>job_obj = PodObj crash_pod, job_ref = sample_ref, job_severity = SeverityHigh, job_detector = ''CrashLoopBackOff'',
     job_symptoms = []\<rparr> New"
  have g: "gone (api_get (c_pods (wr_client pod_reconciler)) (fst (''shop'', ''web'')) (snd (''shop'', ''web'')) empty_mem)"
    by (simp add: gone_def pod_reconciler_def mem_eval)
  have ns: "fst (''shop'', ''web'') \<noteq> wr_controlNamespace pod_reconciler" by (simp add: pod_reconciler_def)
  have "cancels pod_reconciler ''Pod'' (''shop'', ''web'') ?db
      (PodReconciler_Reconcile pod_reconciler (''shop'', ''web'') (\<lambda>_ _. 0) (\<lambda>_. 30) (\<lambda>_. 100) empty_mem ?db)"
    using deleted_workload_is_cancelled [OF reach_step [OF reach_new step_debounce] ns] g by blast
  then show ?thesis by (simp add: cancels_def) (simp add: pod_reconciler_def detector_defs)
qed

text \<open>
  Different resources and detectors never share an entry of the debouncer: as long as
  namespaces, kinds and names contain no slash, equal keys mean the same namespace, kind, name and
  detector.
\<close>

theorem debounce_key_injective:
  assumes "debounceKey ns kind name det = debounceKey ns' kind' name' det'"
    and "CHR ''/'' \<notin> set ns \<union> set kind \<union> set name \<union> set ns' \<union> set kind' \<union> set name'"
  shows "ns = ns' \<and> kind = kind' \<and> name = name' \<and> det = det'"
proof -
  note e = assms(1) [unfolded debounceKey_def append_Cons append_Nil]
  have s: "CHR ''/'' \<notin> set ns" "CHR ''/'' \<notin> set ns'" "CHR ''/'' \<notin> set kind" "CHR ''/'' \<notin> set kind'"
    "CHR ''/'' \<notin> set name" "CHR ''/'' \<notin> set name'" using assms(2) by auto
  note a = sep_split [OF s(1,2) e]
  note b = sep_split [OF s(3,4) a(2)]
  note c = sep_split [OF s(5,6) b(2)]
  from a b c show ?thesis by simp
qed

theorem debounce_key_injective_witness:
  "debounceKey ''shop'' ''Pod'' ''web'' ''PendingTooLong'' \<noteq> debounceKey ''shop'' ''Pod'' ''web-2'' ''PendingTooLong''"
  using debounce_key_injective [of "''shop''" "''Pod''" "''web''" "''PendingTooLong''" "''shop''" "''Pod''" "''web-2''" "''PendingTooLong''"]
  by auto

text \<open>
  \<open>highestSeverity\<close> returns a severity that weighs at least as much as every symptom's and, when
  the symptoms come from the detectors of the program, is the severity of one of them.
\<close>

theorem highest_severity_is_maximum:
  assumes "symptoms \<noteq> []" and "sym_severity ` set symptoms \<subseteq> set severities"
  shows "highestSeverity symptoms \<in> sym_severity ` set symptoms \<and>
    (\<forall>s. s \<in> set symptoms \<longrightarrow> severity_weight (sym_severity s) \<le> severity_weight (highestSeverity symptoms))"
proof -
  have "highestSeverity symptoms \<in> sym_severity ` set symptoms"
  proof (rule ccontr)
    assume no: "highestSeverity symptoms \<notin> sym_severity ` set symptoms"
    then have low: "highestSeverity symptoms = ''low''" using highestSeverity_max [of symptoms] by blast
    from assms obtain s where s: "s \<in> set symptoms" "sym_severity s \<in> set severities" by (cases symptoms) auto
    have "severity_weight (sym_severity s) \<le> severity_weight ''low''"
      using highestSeverity_max [of symptoms] s(1) low by auto
    with s(2) have "sym_severity s = ''low''"
      by (auto simp: severities_def severity_consts severity_weight_def severityOrder_def)
    with no low s(1) show False by force
  qed
  with highestSeverity_max [of symptoms] show ?thesis by blast
qed

theorem highest_severity_is_maximum_witness:
  "highestSeverity [\<lparr>sym_message = ''a'', sym_severity = ''medium''\<rparr>, \<lparr>sym_message = ''b'', sym_severity = ''high''\<rparr>] \<in> {''medium'', ''high''}"
  using highest_severity_is_maximum [of "[\<lparr>sym_message = ''a'', sym_severity = ''medium''\<rparr>, \<lparr>sym_message = ''b'', sym_severity = ''high''\<rparr>]"]
  by (auto simp: severities_def severity_consts)


definition sample_job :: job where
  "sample_job = \<lparr>job_obj = PodObj sample_pod, job_ref = sample_ref, job_severity = SeverityHigh,
     job_detector = ''PendingTooLong'', job_symptoms = [\<lparr>sym_message = ''slow'', sym_severity = ''high''\<rparr>]\<rparr>"


end
