(* ===== verification/Problem_Case_Reconciler.thy ===== *)
theory Problem_Case_Reconciler
  imports Workload_Reconcilers
begin

text \<open>
  \<open>ProblemCaseReconciler\<close> of \<open>cluster-watcher/controllers/problemcase_reconciler.go\<close>: an open
  ProblemCase is looked at again, with the detector that raised it, and resolved when the resource
  is gone or the detector no longer reports anything. The result is the error or the
  \<open>RequeueAfter\<close> of the \<open>ctrl.Result\<close>, zero when there is none.
\<close>

definition requeueAfter :: duration where
  "requeueAfter = 60 * second"

definition findDetector :: "'w detector list \<Rightarrow> string \<Rightarrow> 'w detector option" where
  "findDetector ds name = find (\<lambda>d. det_Name d = name) ds"

definition fetchAffectedResource :: "'w client \<Rightarrow> resource_ref \<Rightarrow> 'w \<Rightarrow> go_error + client_object" where
  "fetchAffectedResource c ref w =
     (if rr_kind ref = ''Pod'' then map_sum id PodObj (api_get (c_pods c) (rr_namespace ref) (rr_name ref) w)
      else if rr_kind ref = ''Deployment'' then
        map_sum id DeploymentObj (api_get (c_deployments c) (rr_namespace ref) (rr_name ref) w)
      else if rr_kind ref = ''Service'' then
        map_sum id ServiceObj (api_get (c_services c) (rr_namespace ref) (rr_name ref) w)
      else if rr_kind ref = ''Node'' then
        map_sum id NodeObj (api_get (c_nodes c) (rr_namespace ref) (rr_name ref) w)
      else Inl (Errorf (''unsupported kind '' @ quote (rr_kind ref) @ '' in ProblemCase'')))"

text \<open>\<open>return ctrl.Result{}, err\<close> for an optional error.\<close>

definition done_with :: "go_error option \<times> 'w \<Rightarrow> (go_error + duration) \<times> 'w" where
  "done_with r = (case r of (None, w) \<Rightarrow> (Inr 0, w) | (Some e, w) \<Rightarrow> (Inl e, w))"

definition ProblemCaseReconciler_Reconcile ::
  "'w client \<Rightarrow> 'w detector list \<Rightarrow> namespaced_name \<Rightarrow> clock \<Rightarrow> time \<Rightarrow> 'w \<Rightarrow> (go_error + duration) \<times> 'w" where
  "ProblemCaseReconciler_Reconcile c ds req clk now w =
     (case api_get (c_problemCases c) (fst req) (snd req) w of
        Inl err \<Rightarrow> if is_not_found err then (Inr 0, w)
          else (Inl (Wrapf (''getting ProblemCase '' @ fst req @ ''/'' @ snd req) err), w)
      | Inr pc \<Rightarrow>
          if pc_state pc \<noteq> ProblemCaseStateOpen then (Inr 0, w)
          else (case fetchAffectedResource c (pcs_affectedResource (pc_spec pc)) w of
              Inl err \<Rightarrow> if is_not_found err then done_with (Resolve c pc now w)
                else (Inl (Wrapf ''fetching affected resource'' err), w)
            | Inr obj \<Rightarrow>
                (case findDetector ds (pcs_detector (pc_spec pc)) of
                   None \<Rightarrow> (Inr requeueAfter, w)
                 | Some d \<Rightarrow>
                     (case det_Evaluate d obj c w clk of
                        Inl err \<Rightarrow> (Inl (Wrapf (''evaluating detector '' @ quote (det_Name d)) err), w)
                      | Inr symptoms \<Rightarrow>
                          if symptoms = [] then done_with (Resolve c pc now w)
                          else (Inr requeueAfter, w)))))"

section \<open>Properties\<close>

text \<open>The condition under which a case is over: the resource is gone or its detector is silent.\<close>

definition cleared :: "'w client \<Rightarrow> 'w detector list \<Rightarrow> clock \<Rightarrow> problem_case \<Rightarrow> 'w \<Rightarrow> bool" where
  "cleared c ds clk pc w = (case fetchAffectedResource c (pcs_affectedResource (pc_spec pc)) w of
     Inl e \<Rightarrow> is_not_found e
   | Inr obj \<Rightarrow> (case findDetector ds (pcs_detector (pc_spec pc)) of
       None \<Rightarrow> False | Some d \<Rightarrow> det_Evaluate d obj c w clk = Inr []))"

lemma Resolve_done:
  assumes "faithful_client c view" and "cases view w (meta_key (pc_meta pc)) = Some pc"
  shows "case done_with (Resolve c pc now w) of
      (Inr rq, w') \<Rightarrow> rq = 0 \<and>
        view w' = (view w)\<lparr>st_problemCases := (cases view w)(meta_key (pc_meta pc) \<mapsto> closed (metav1_now now) pc)\<rparr>
    | (Inl e, w') \<Rightarrow> view w' = view w"
  using assms by (cases rule: Resolve_outcome [where now = now]) (simp_all add: done_with_def)

text \<open>
  C27. Reconciling a ProblemCase resolves it exactly when it is open and over, that is when its
  resource is gone or the detector that raised it reports nothing: then the reconciliation ends
  with the case resolved at the current second and no requeue. A case that is not open is left
  alone; an open case that is not over is looked at again after sixty seconds; on an error nothing
  has changed.
\<close>

theorem reconcile_resolves_iff_over:
  assumes "faithful_client c view" and "api_get (c_problemCases c) ns n w = Inr pc"
  shows "case ProblemCaseReconciler_Reconcile c ds (ns, n) clk now w of
      (Inr rq, w') \<Rightarrow>
        if pc_state pc \<noteq> ProblemCaseStateOpen then rq = 0 \<and> w' = w
        else if cleared c ds clk pc w then rq = 0 \<and>
          view w' = (view w)\<lparr>st_problemCases := (st_problemCases (view w))((ns, n) \<mapsto>
            pc\<lparr>pc_status := (pc_status pc)\<lparr>pct_state := ProblemCaseStateResolved,
               pct_resolvedAt := Some (metav1_now now)\<rparr>\<rparr>)\<rparr>
        else rq = 60 * second \<and> w' = w
    | (Inl e, w') \<Rightarrow> view w' = view w"
proof -
  have st: "cases view w (ns, n) = Some pc" by (rule kind_laws_get [OF faithful_pc [OF assms(1)] assms(2)])
  with pc_key [OF assms(1)] have key: "meta_key (pc_meta pc) = (ns, n)" by blast
  note r = Resolve_done [OF assms(1), of w pc now, unfolded key, OF st]
  show ?thesis
    using r assms(2)
    by (auto simp: ProblemCaseReconciler_Reconcile_def cleared_def requeueAfter_def closed_def
        split: sum.splits option.splits prod.splits)
qed

theorem reconcile_resolves_iff_over_witness:
  "\<exists>w'. ProblemCaseReconciler_Reconcile mem_client [PendingTooLongDetector None] (''kubechan'', ''pc1'') (\<lambda>_. 0)
      (8 * second) case_world = (Inr 0, w') \<and>
    st_problemCases (mem_view w') (''kubechan'', ''pc1'') = Some (sample_case\<lparr>pc_status :=
      (pc_status sample_case)\<lparr>pct_state := ProblemCaseStateResolved, pct_resolvedAt := Some (8 * second)\<rparr>\<rparr>)"
proof -
  let ?run = "ProblemCaseReconciler_Reconcile mem_client [PendingTooLongDetector None] (''kubechan'', ''pc1'') (\<lambda>_. 0)
      (8 * second) case_world"
  have key: "meta_key (pc_meta sample_case) = (''kubechan'', ''pc1'')" by (simp add: sample_case_def meta_key_def)
  have g: "api_get (c_problemCases mem_client) ''kubechan'' ''pc1'' case_world = Inr sample_case"
    using key by (simp add: mem_client_def mem_kind_def tab_find_def case_world_def)
  have o: "pc_state sample_case = ProblemCaseStateOpen" by (simp add: sample_case_def opened_def)
  have ref: "pcs_affectedResource (pc_spec sample_case) = mk_ref ''shop'' ''Pod'' ''web''"
    by (simp add: sample_case_def opened_def new_case_def sample_ref_def)
  have cl: "cleared mem_client [PendingTooLongDetector None] (\<lambda>_. 0) sample_case case_world"
    by (simp add: cleared_def fetchAffectedResource_def ref mem_eval case_world_def)
  have f: "fetchAffectedResource mem_client (pcs_affectedResource (pc_spec sample_case)) case_world = Inl NotFound"
    by (simp add: fetchAffectedResource_def ref mem_eval case_world_def)
  have "isl (fst ?run) = False"
    using g o f key by (simp add: ProblemCaseReconciler_Reconcile_def Resolve_def done_with_def mem_client_def
        mem_kind_def tab_find_def case_world_def Let_def)
  then obtain rq w' where run: "?run = (Inr rq, w')" by (metis isl_def prod.collapse sum.exhaust_sel)
  with reconcile_resolves_iff_over [OF mem_client_faithful g, of "[PendingTooLongDetector None]" "\<lambda>_. 0" "8 * second"] o cl
  show ?thesis by (simp add: metav1_now_def)
qed

end
