(* ===== verification/Watcher_Config.thy ===== *)
theory Watcher_Config
  imports Prelude
begin

text \<open>
  The live thresholds of \<open>cluster-watcher/watcherconfig/config.go\<close>: three atomic integers, written
  one after the other by \<open>Set\<close> and refreshed from the backend over HTTP. The reply of the backend,
  with its body decoded into \<open>remoteSettings\<close> or a decoding error, is an argument. Shown: whatever
  the backend answers, and between any two of the stores, every threshold is a positive duration;
  seconds are taken over exactly when the product with \<open>time.Second\<close> does not overflow.
\<close>

definition defaultDebounceWindow :: duration where "defaultDebounceWindow = 30 * second"
definition defaultPendingThreshold' :: duration where "defaultPendingThreshold' = 5 * minute"
definition defaultUnavailableThreshold' :: duration where "defaultUnavailableThreshold' = 5 * minute"

lemmas config_defaults = defaultDebounceWindow_def defaultPendingThreshold'_def
  defaultUnavailableThreshold'_def

record config =
  cfg_debounceWindow :: int
  cfg_pendingThreshold :: int
  cfg_unavailableThreshold :: int

definition zero_config :: config where
  "zero_config = \<lparr>cfg_debounceWindow = 0, cfg_pendingThreshold = 0, cfg_unavailableThreshold = 0\<rparr>"

text \<open>The local function \<open>store\<close> of \<open>Set\<close>: the value it stores.\<close>

definition store_value :: "duration \<Rightarrow> duration \<Rightarrow> int" where
  "store_value d def = (if d \<le> 0 then def else d)"

text \<open>The three atomic stores of \<open>Set\<close>, in their order.\<close>

definition set_stores :: "duration \<Rightarrow> duration \<Rightarrow> duration \<Rightarrow> (config \<Rightarrow> config) list" where
  "set_stores debounce pending unavailable =
     [cfg_debounceWindow_update (\<lambda>_. store_value debounce defaultDebounceWindow),
      cfg_pendingThreshold_update (\<lambda>_. store_value pending defaultPendingThreshold'),
      cfg_unavailableThreshold_update (\<lambda>_. store_value unavailable defaultUnavailableThreshold')]"

definition config_Set :: "duration \<Rightarrow> duration \<Rightarrow> duration \<Rightarrow> config \<Rightarrow> config" where
  "config_Set debounce pending unavailable c = fold id (set_stores debounce pending unavailable) c"

definition config_New :: "duration \<Rightarrow> duration \<Rightarrow> duration \<Rightarrow> config" where
  "config_New debounce pending unavailable = config_Set debounce pending unavailable zero_config"

definition DebounceWindow :: "config \<Rightarrow> duration" where
  "DebounceWindow c = cfg_debounceWindow c"
definition PendingThreshold :: "config \<Rightarrow> duration" where
  "PendingThreshold c = cfg_pendingThreshold c"
definition UnavailableThreshold :: "config \<Rightarrow> duration" where
  "UnavailableThreshold c = cfg_unavailableThreshold c"

lemmas threshold_defs = DebounceWindow_def PendingThreshold_def UnavailableThreshold_def

record remote_settings =
  rs_debounceWindowSecs :: int
  rs_pendingThresholdSecs :: int
  rs_unavailableThresholdSecs :: int

text \<open>What the HTTP exchange gives: no request, no response, or a status and the decoded body.\<close>

datatype settings_reply =
    RequestInvalid go_error
  | CallFailed go_error
  | Reply int "go_error + remote_settings"

definition Refresh :: "settings_reply \<Rightarrow> config \<Rightarrow> go_error option \<times> config" where
  "Refresh reply c = (case reply of
     RequestInvalid err \<Rightarrow> (Some (Wrapf ''building request'' err), c)
   | CallFailed err \<Rightarrow> (Some (Wrapf ''GET /internal/settings'' err), c)
   | Reply code body \<Rightarrow>
       if code \<noteq> 200 then (None, c)
       else (case body of
           Inl err \<Rightarrow> (Some (Wrapf ''decoding response'' err), c)
         | Inr s \<Rightarrow> (None, config_Set (wrap64 (rs_debounceWindowSecs s * second))
             (wrap64 (rs_pendingThresholdSecs s * second))
             (wrap64 (rs_unavailableThresholdSecs s * second)) c)))"

text \<open>\<open>StartPolling\<close>: one refresh at once, then one per tick, errors only logged.\<close>

definition StartPolling :: "settings_reply \<Rightarrow> settings_reply list \<Rightarrow> config \<Rightarrow> config" where
  "StartPolling first ticks c = fold (\<lambda>reply c. snd (Refresh reply c)) (first # ticks) c"

section \<open>Properties\<close>

definition positive :: "config \<Rightarrow> bool" where
  "positive c \<longleftrightarrow> DebounceWindow c > 0 \<and> PendingThreshold c > 0 \<and> UnavailableThreshold c > 0"

lemma store_value_positive: "0 < def \<Longrightarrow> 0 < store_value d def"
  by (simp add: store_value_def)

lemma positive_take_stores:
  "positive c \<Longrightarrow> positive (fold id (take k (set_stores d p u)) c)"
  by (cases k; cases "k - 1"; cases "k - 2")
    (auto simp: set_stores_def positive_def threshold_defs store_value_positive config_defaults take_Cons'
      split: nat.splits)

lemma positive_Set [keeps]: "positive (config_Set d p u c)"
  by (simp add: config_Set_def set_stores_def positive_def threshold_defs store_value_positive config_defaults)

lemma positive_Refresh [keeps]: "positive c \<Longrightarrow> positive (snd (Refresh reply c))"
  by (auto simp: Refresh_def keeps split: settings_reply.splits sum.splits)

lemma positive_refreshes: "positive c \<Longrightarrow> positive (fold (\<lambda>reply c. snd (Refresh reply c)) rs c)"
  by (induction rs arbitrary: c) (simp_all add: keeps)

lemma positive_polling [keeps]: "positive c \<Longrightarrow> positive (StartPolling r rs c)"
  unfolding StartPolling_def by (rule positive_refreshes)

text \<open>
  C6. Every threshold the detectors and the debouncer read is a positive duration: after \<open>New\<close>,
  after any sequence of refreshes whatever the backend answers, and also for a reader that looks
  between two of the three stores of a \<open>Set\<close> that is under way.
\<close>

theorem thresholds_always_positive:
  "let c = StartPolling first ticks (config_New d p u); c' = fold id (take k (set_stores d' p' u')) c
   in DebounceWindow c' > 0 \<and> PendingThreshold c' > 0 \<and> UnavailableThreshold c' > 0"
proof -
  have "positive (fold id (take k (set_stores d' p' u')) (StartPolling first ticks (config_New d p u)))"
    by (simp add: positive_take_stores keeps config_New_def)
  then show ?thesis by (simp add: positive_def Let_def)
qed

lemma wrap64_seconds: "\<bar>s\<bar> \<le> 9223372036 \<Longrightarrow> wrap64 (s * second) = s * second"
  by (intro wrap64_id) (simp only: in_int64_def min_int64_def max_int64_def, linarith)

lemma refresh_ok:
  assumes "\<bar>d\<bar> \<le> 9223372036" and "\<bar>p\<bar> \<le> 9223372036" and "\<bar>u\<bar> \<le> 9223372036"
  shows "snd (Refresh (Reply 200 (Inr \<lparr>rs_debounceWindowSecs = d, rs_pendingThresholdSecs = p,
      rs_unavailableThresholdSecs = u\<rparr>)) c) =
    \<lparr>cfg_debounceWindow = (if d \<le> 0 then 30 * second else d * second),
     cfg_pendingThreshold = (if p \<le> 0 then 5 * minute else p * second),
     cfg_unavailableThreshold = (if u \<le> 0 then 5 * minute else u * second)\<rparr>"
  using assms by (auto simp: Refresh_def config_Set_def set_stores_def store_value_def config_defaults wrap64_seconds)

text \<open>
  A refresh that fails or is answered with an error status keeps the thresholds; a decoded
  answer sets each of them to the given seconds, or to its default when the value is not positive,
  as long as the seconds fit in a 64-bit number of nanoseconds; an answer of 9223372037 seconds or
  slightly more wraps to a negative duration and is replaced by the default.
\<close>

theorem refresh_outcome:
  "(\<forall>e. Refresh (RequestInvalid e) c = (Some (Wrapf ''building request'' e), c)) \<and>
   (\<forall>e. Refresh (CallFailed e) c = (Some (Wrapf ''GET /internal/settings'' e), c)) \<and>
   (\<forall>code. code \<noteq> 200 \<longrightarrow> Refresh (Reply code body) c = (None, c)) \<and>
   (\<forall>d p u. \<bar>d\<bar> \<le> 9223372036 \<and> \<bar>p\<bar> \<le> 9223372036 \<and> \<bar>u\<bar> \<le> 9223372036 \<longrightarrow>
     snd (Refresh (Reply 200 (Inr \<lparr>rs_debounceWindowSecs = d, rs_pendingThresholdSecs = p,
         rs_unavailableThresholdSecs = u\<rparr>)) c) =
       \<lparr>cfg_debounceWindow = (if d \<le> 0 then 30 * second else d * second),
        cfg_pendingThreshold = (if p \<le> 0 then 5 * minute else p * second),
        cfg_unavailableThreshold = (if u \<le> 0 then 5 * minute else u * second)\<rparr>) \<and>
   DebounceWindow (snd (Refresh (Reply 200 (Inr \<lparr>rs_debounceWindowSecs = 9223372037,
     rs_pendingThresholdSecs = p', rs_unavailableThresholdSecs = u'\<rparr>)) c)) = 30 * second"
  using refresh_ok by (auto simp: Refresh_def config_Set_def set_stores_def store_value_def config_defaults
      DebounceWindow_def wrap64_def)

theorem refresh_outcome_witness:
  "snd (Refresh (Reply 200 (Inr \<lparr>rs_debounceWindowSecs = 10, rs_pendingThresholdSecs = 0,
     rs_unavailableThresholdSecs = 60\<rparr>)) zero_config) =
   \<lparr>cfg_debounceWindow = 10 * second, cfg_pendingThreshold = 5 * minute, cfg_unavailableThreshold = 60 * second\<rparr> \<and>
   Refresh (Reply 503 (Inl (Errorf ''EOF''))) zero_config = (None, zero_config)"
  using refresh_outcome [of zero_config] by simp

end
