(* ===== verification/Sha256.thy ===== *)
theory Sha256
  imports Prelude "HOL-Library.Word"
begin

unbundle bit_operations_syntax

text \<open>
  SHA-256 (\<open>crypto/sha256\<close>, FIPS 180-4), as the incident fingerprint uses it: padding to blocks of
  64 bytes, the message schedule and the compression function on 32-bit words. The digest has 32
  bytes for every message.
\<close>

type_synonym w32 = "32 word"

definition sha_k :: "w32 list" where
  "sha_k = [
    1116352408, 1899447441, 3049323471, 3921009573, 961987163, 1508970993, 2453635748, 2870763221,
    3624381080, 310598401, 607225278, 1426881987, 1925078388, 2162078206, 2614888103, 3248222580,
    3835390401, 4022224774, 264347078, 604807628, 770255983, 1249150122, 1555081692, 1996064986,
    2554220882, 2821834349, 2952996808, 3210313671, 3336571891, 3584528711, 113926993, 338241895,
    666307205, 773529912, 1294757372, 1396182291, 1695183700, 1986661051, 2177026350, 2456956037,
    2730485921, 2820302411, 3259730800, 3345764771, 3516065817, 3600352804, 4094571909, 275423344,
    430227734, 506948616, 659060556, 883997877, 958139571, 1322822218, 1537002063, 1747873779,
    1955562222, 2024104815, 2227730452, 2361852424, 2428436474, 2756734187, 3204031479, 3329325298]"

definition sha_h0 :: "w32 list" where
  "sha_h0 = [
    1779033703, 3144134277, 1013904242, 2773480762, 1359893119, 2600822924, 528734635, 1541459225]"

definition rotr32 :: "nat \<Rightarrow> w32 \<Rightarrow> w32" where
  "rotr32 n x = drop_bit n x OR push_bit (32 - n) x"

definition small0 :: "w32 \<Rightarrow> w32" where
  "small0 x = rotr32 7 x XOR rotr32 18 x XOR drop_bit 3 x"
definition small1 :: "w32 \<Rightarrow> w32" where
  "small1 x = rotr32 17 x XOR rotr32 19 x XOR drop_bit 10 x"
definition big0 :: "w32 \<Rightarrow> w32" where
  "big0 x = rotr32 2 x XOR rotr32 13 x XOR rotr32 22 x"
definition big1 :: "w32 \<Rightarrow> w32" where
  "big1 x = rotr32 6 x XOR rotr32 11 x XOR rotr32 25 x"

text \<open>Bytes are numbers below 256; \<open>be_bytes n v\<close> are the \<open>n\<close> low bytes of \<open>v\<close>, big end first.\<close>

fun be_bytes :: "nat \<Rightarrow> nat \<Rightarrow> nat list" where
  "be_bytes 0 v = []"
| "be_bytes (Suc n) v = be_bytes n (v div 256) @ [v mod 256]"

definition sha_pad :: "nat list \<Rightarrow> nat list" where
  "sha_pad m = m @ [128] @ replicate ((119 - length m mod 64) mod 64) 0 @ be_bytes 8 (8 * length m)"

fun be_words :: "nat list \<Rightarrow> w32 list" where
  "be_words (a # b # c # d # bs) = of_nat (((a * 256 + b) * 256 + c) * 256 + d) # be_words bs"
| "be_words _ = []"

fun sha_schedule :: "nat \<Rightarrow> w32 list \<Rightarrow> w32 list" where
  "sha_schedule 0 ws = ws"
| "sha_schedule (Suc n) ws = (let k = length ws in sha_schedule n (ws @
     [small1 (ws ! (k - 2)) + ws ! (k - 7) + small0 (ws ! (k - 15)) + ws ! (k - 16)]))"

fun sha_round :: "w32 \<times> w32 \<Rightarrow> w32 list \<Rightarrow> w32 list" where
  "sha_round (k, w) [a, b, c, d, e, f, g, h] =
     (let t1 = h + big1 e + ((e AND f) XOR (NOT e AND g)) + k + w;
          t2 = big0 a + ((a AND b) XOR (a AND c) XOR (b AND c))
      in [t1 + t2, a, b, c, d + t1, e, f, g])"
| "sha_round kw s = s"

definition sha_block :: "w32 list \<Rightarrow> nat list \<Rightarrow> w32 list" where
  "sha_block h block =
     map2 (+) h (fold sha_round (zip sha_k (sha_schedule 48 (be_words block))) h)"

fun sha_blocks :: "nat \<Rightarrow> nat list \<Rightarrow> w32 list \<Rightarrow> w32 list" where
  "sha_blocks 0 bs h = h"
| "sha_blocks (Suc n) bs h = sha_blocks n (drop 64 bs) (sha_block h (take 64 bs))"

definition sha256 :: "string \<Rightarrow> nat list" where
  "sha256 s = (let bs = sha_pad (map of_char s)
     in concat (map (\<lambda>x. be_bytes 4 (unat x)) (sha_blocks (length bs div 64) bs sha_h0)))"

section \<open>The digest has 32 bytes\<close>

lemma length_be_bytes [simp]: "length (be_bytes n v) = n"
  by (induction n arbitrary: v) simp_all

lemma be_bytes_lt: "b \<in> set (be_bytes n v) \<Longrightarrow> b < 256"
  by (induction n arbitrary: v) auto

lemma length_sha_round [simp]: "length (sha_round kw s) = length s"
  by (induction kw s rule: sha_round.induct) (simp_all add: Let_def)

lemma length_fold_round: "length (fold sha_round kws s) = length s"
  by (induction kws arbitrary: s) simp_all

lemma length_sha_blocks: "length (sha_blocks n bs h) = length h"
  by (induction n arbitrary: bs h) (simp_all add: sha_block_def length_fold_round)

lemma length_sha256 [simp]: "length (sha256 s) = 32"
proof -
  have four: "length (concat (map (\<lambda>x. be_bytes 4 (unat x)) xs)) = 4 * length xs" for xs :: "w32 list"
    by (induction xs) simp_all
  have "length sha_h0 = 8" by (simp add: sha_h0_def)
  then show ?thesis unfolding sha256_def Let_def four length_sha_blocks by simp
qed

lemma sha256_bytes: "b \<in> set (sha256 s) \<Longrightarrow> b < 256"
  by (auto simp: sha256_def Let_def dest: be_bytes_lt)

end
