(* ===== verification/Correlation.thy ===== *)
theory Correlation
  imports Problem_Case Sha256
begin

text \<open>
  \<open>CorrelationReconciler\<close> of \<open>cluster-watcher/controllers/correlation_reconciler.go\<close>: an unresolved
  ProblemCase is attached to the Incident of its workload root, which is found through the owner
  references, and a resolved one may end its Incident. The walk up the owner references can in
  principle run for ever, so it takes fuel; \<open>None\<close> is the walk that ran out. With the ownership
  Kubernetes sets up (\<open>owners_ranked\<close>) five steps are enough.
\<close>

definition LabelIncident :: string where "LabelIncident = ''kubechan.io/incident''"
definition LabelRootResourceKind :: string where "LabelRootResourceKind = ''kubechan.io/root-resource-kind''"
definition LabelRootResourceName :: string where "LabelRootResourceName = ''kubechan.io/root-resource-name''"
definition LabelIncidentFingerprint :: string where
  "LabelIncidentFingerprint = ''kubechan.io/incident-fingerprint''"
definition defaultRecurrenceWindow :: duration where "defaultRecurrenceWindow = 24 * hour"

lemmas incident_labels = LabelIncident_def LabelRootResourceKind_def LabelRootResourceName_def
  LabelIncidentFingerprint_def

record 'w correlation_reconciler =
  cr_client :: "'w client"
  cr_controlNamespace :: string
  cr_recurrenceWindow :: duration

section \<open>The workload root\<close>

definition kindToGVK :: "string \<Rightarrow> (string \<times> string \<times> string) option" where
  "kindToGVK kind =
     (if kind = ''Pod'' \<or> kind = ''Service'' then Some ('''', ''v1'', kind)
      else if kind = ''ReplicaSet'' \<or> kind = ''Deployment'' \<or> kind = ''StatefulSet'' \<or> kind = ''DaemonSet''
        then Some (''apps'', ''v1'', kind)
      else if kind = ''Job'' then Some (''batch'', ''v1'', kind)
      else None)"

definition resourceKey :: "resource_ref \<Rightarrow> string" where
  "resourceKey ref = rr_namespace ref @ ''/'' @ rr_kind ref @ ''/'' @ rr_name ref"

type_synonym candidates = "(string \<times> resource_ref) list"

fun add_pod_roots ::
  "(resource_ref \<Rightarrow> (go_error + resource_ref) option) \<Rightarrow> string \<Rightarrow> pod list \<Rightarrow> candidates \<Rightarrow>
   (go_error + candidates) option" where
  "add_pod_roots find_root ns [] cands = Some (Inr cands)"
| "add_pod_roots find_root ns (p # ps) cands =
     (case find_root (mk_ref ns ''Pod'' (om_name (pod_meta p))) of
        None \<Rightarrow> None
      | Some (Inl err) \<Rightarrow> Some (Inl err)
      | Some (Inr root) \<Rightarrow> add_pod_roots find_root ns ps
          (if rr_kind root \<noteq> ''Pod'' then map_put (resourceKey root) root cands else cands))"

definition add_templates ::
  "string \<Rightarrow> string \<Rightarrow> str_map \<Rightarrow> ('o \<Rightarrow> string) \<Rightarrow> ('o \<Rightarrow> str_map) \<Rightarrow> 'o list \<Rightarrow> candidates \<Rightarrow> candidates" where
  "add_templates ns kind selector name template items cands =
     foldl (\<lambda>cands x. if selector_matches selector (template x)
       then let candidate = mk_ref ns kind (name x) in map_put (resourceKey candidate) candidate cands
       else cands) cands items"

definition findServiceRoot ::
  "(resource_ref \<Rightarrow> (go_error + resource_ref) option) \<Rightarrow> 'w client \<Rightarrow> resource_ref \<Rightarrow> 'w \<Rightarrow>
   (go_error + resource_ref) option" where
  "findServiceRoot find_root c ref w =
     (case api_get (c_services c) (rr_namespace ref) (rr_name ref) w of
        Inl err \<Rightarrow> Some (if is_not_found err then Inr ref else Inl err)
      | Inr svc \<Rightarrow>
          if svc_selector svc = [] \<or> svc_type svc = ''ExternalName'' then Some (Inr ref)
          else (case api_list (c_pods c) (rr_namespace ref) (svc_selector svc) w of
              Inl err \<Rightarrow> Some (Inl err)
            | Inr pods \<Rightarrow> (case add_pod_roots find_root (rr_namespace ref) pods [] of
                None \<Rightarrow> None
              | Some (Inl err) \<Rightarrow> Some (Inl err)
              | Some (Inr cands0) \<Rightarrow>
                  (case api_list (c_deployments c) (rr_namespace ref) [] w of
                     Inl err \<Rightarrow> Some (Inl err)
                   | Inr deployments \<Rightarrow>
                       (let cands1 = add_templates (rr_namespace ref) ''Deployment'' (svc_selector svc)
                          (\<lambda>x. om_name (dep_meta x)) dep_templateLabels deployments cands0
                        in case api_list (c_statefulSets c) (rr_namespace ref) [] w of
                             Inl err \<Rightarrow> Some (Inl err)
                           | Inr statefulSets \<Rightarrow>
                               (let cands2 = add_templates (rr_namespace ref) ''StatefulSet'' (svc_selector svc)
                                  (\<lambda>x. om_name (to_meta x)) to_templateLabels statefulSets cands1
                                in case api_list (c_daemonSets c) (rr_namespace ref) [] w of
                                     Inl err \<Rightarrow> Some (Inl err)
                                   | Inr daemonSets \<Rightarrow>
                                       (let cands3 = add_templates (rr_namespace ref) ''DaemonSet'' (svc_selector svc)
                                          (\<lambda>x. om_name (to_meta x)) to_templateLabels daemonSets cands2
                                        in Some (Inr (case cands3 of [(_, root)] \<Rightarrow> root | _ \<Rightarrow> ref)))))))))"

definition controller_of :: "object_meta \<Rightarrow> owner_reference option" where
  "controller_of m = find (\<lambda>owner. or_controller owner = Some True) (om_owners m)"

primrec findRootResource ::
  "nat \<Rightarrow> 'w client \<Rightarrow> resource_ref \<Rightarrow> 'w \<Rightarrow> (go_error + resource_ref) option" where
  "findRootResource 0 c ref w = None"
| "findRootResource (Suc fuel) c ref w =
     (if rr_kind ref = ''Service'' then findServiceRoot (\<lambda>r. findRootResource fuel c r w) c ref w
      else (case kindToGVK (rr_kind ref) of
          None \<Rightarrow> Some (Inr ref)
        | Some gvk \<Rightarrow>
            (case c_unstructured c gvk (rr_namespace ref) (rr_name ref) w of
               Inl err \<Rightarrow> Some (if is_not_found err then Inr ref else Inl err)
             | Inr obj \<Rightarrow>
                 (case controller_of obj of
                    Some owner \<Rightarrow>
                      findRootResource fuel c (mk_ref (rr_namespace ref) (or_kind owner) (or_name owner)) w
                  | None \<Rightarrow> Some (Inr ref)))))"

declare findRootResource.simps(2) [simp del]

lemma root_of_service:
  "rr_kind ref = ''Service'' \<Longrightarrow>
   findRootResource (Suc fuel) c ref w = findServiceRoot (\<lambda>r. findRootResource fuel c r w) c ref w"
  by (simp add: findRootResource.simps(2))

lemma root_of_other:
  "rr_kind ref \<noteq> ''Service'' \<Longrightarrow> findRootResource (Suc fuel) c ref w =
     (case kindToGVK (rr_kind ref) of
        None \<Rightarrow> Some (Inr ref)
      | Some gvk \<Rightarrow> (case c_unstructured c gvk (rr_namespace ref) (rr_name ref) w of
            Inl err \<Rightarrow> Some (if is_not_found err then Inr ref else Inl err)
          | Inr obj \<Rightarrow> (case controller_of obj of
                Some owner \<Rightarrow> findRootResource fuel c (mk_ref (rr_namespace ref) (or_kind owner) (or_name owner)) w
              | None \<Rightarrow> Some (Inr ref))))"
  by (simp add: findRootResource.simps(2))

section \<open>Incidents\<close>

definition hex :: "nat list \<Rightarrow> string" where
  "hex bytes = concat (map hex2 bytes)"

definition incidentFingerprint :: "resource_ref \<Rightarrow> string" where
  "incidentFingerprint root = hex (take 16 (sha256 (resourceKey root)))"

definition labelSafe :: "string \<Rightarrow> string" where
  "labelSafe s = (if length s > 63 then take 63 s else s)"

definition recurrence_window :: "'w correlation_reconciler \<Rightarrow> duration" where
  "recurrence_window r = (if cr_recurrenceWindow r = 0 then defaultRecurrenceWindow else cr_recurrenceWindow r)"

text \<open>The comparison of \<open>sort.Slice\<close>: later resolutions first, missing ones last.\<close>

definition resolved_later :: "incident \<Rightarrow> incident \<Rightarrow> bool" where
  "resolved_later a b = (case int_resolvedAt (inc_status a) of
     None \<Rightarrow> False
   | Some s \<Rightarrow> (case int_resolvedAt (inc_status b) of None \<Rightarrow> True | Some t \<Rightarrow> s > t))"

text \<open>The loop over the listed incidents: the first open one, or the resolved ones in list order.\<close>

fun scan_incidents :: "incident list \<Rightarrow> incident list \<Rightarrow> incident + incident list" where
  "scan_incidents [] resolved = Inr resolved"
| "scan_incidents (inc # incs) resolved =
     (if ins_source (inc_spec inc) = ''manual'' then scan_incidents incs resolved
      else if inc_state inc \<noteq> IncidentStateResolved then Inl inc
      else scan_incidents incs (resolved @ [inc]))"

text \<open>\<open>Inr (Some (inc, reopen))\<close> for an incident to use, \<open>Inr None\<close> for none.\<close>

definition findReusableIncident ::
  "'w correlation_reconciler \<Rightarrow> string \<Rightarrow> resource_ref \<Rightarrow> time \<Rightarrow> 'w \<Rightarrow> go_error + (incident \<times> bool) option" where
  "findReusableIncident r namespace root now w =
     (case api_list (c_incidents (cr_client r)) namespace [(LabelIncidentFingerprint, incidentFingerprint root)] w of
        Inl err \<Rightarrow> Inl err
      | Inr items \<Rightarrow>
          (case scan_incidents items [] of
             Inl inc \<Rightarrow> Inr (Some (inc, False))
           | Inr resolved \<Rightarrow>
               (case sort_slice resolved_later resolved of
                  [] \<Rightarrow> Inr None
                | inc # _ \<Rightarrow>
                    (case int_resolvedAt (inc_status inc) of
                       None \<Rightarrow> Inr None
                     | Some t \<Rightarrow> if time_sub now t \<le> recurrence_window r then Inr (Some (inc, True))
                         else Inr None))))"

definition reopened :: "time \<Rightarrow> incident \<Rightarrow> incident" where
  "reopened now inc = inc\<lparr>inc_status := (inc_status inc)\<lparr>int_state := IncidentStateOpen, int_resolvedAt := None,
     int_occurrenceCount := (let n = wrap64 (int_occurrenceCount (inc_status inc) + 1) in if n < 2 then 2 else n),
     int_lastOccurrenceAt := Some now\<rparr>\<rparr>"

definition reopenIncident ::
  "'w correlation_reconciler \<Rightarrow> incident \<Rightarrow> time \<Rightarrow> 'w \<Rightarrow> (go_error + incident) \<times> 'w" where
  "reopenIncident r inc now w = api_status_patch (c_incidents (cr_client r)) inc (reopened (metav1_now now) inc) w"

definition findOpenIncident ::
  "'w correlation_reconciler \<Rightarrow> string \<Rightarrow> resource_ref \<Rightarrow> 'w \<Rightarrow> go_error + incident option" where
  "findOpenIncident r namespace root w =
     (case api_list (c_incidents (cr_client r)) namespace
         [(LabelRootResourceKind, to_lower (rr_kind root)), (LabelRootResourceName, labelSafe (rr_name root))] w of
        Inl err \<Rightarrow> Inl err
      | Inr items \<Rightarrow> Inr (find (\<lambda>inc. inc_state inc \<noteq> IncidentStateResolved) items))"

definition new_incident :: "string \<Rightarrow> resource_ref \<Rightarrow> int \<Rightarrow> incident" where
  "new_incident namespace root bucket = \<lparr>
     inc_meta = empty_meta\<lparr>om_name := ''incident-'' @ take 12 (incidentFingerprint root) @ ''-'' @ format_int 36 bucket,
       om_namespace := namespace,
       om_labels := [(LabelRootResourceKind, to_lower (rr_kind root)), (LabelRootResourceName, labelSafe (rr_name root)),
         (LabelIncidentFingerprint, incidentFingerprint root)]\<rparr>,
     inc_spec = \<lparr>ins_rootResource = root, ins_problemCases = [], ins_source = [], ins_userMessage = [],
       ins_relatedResources = [], ins_falsePositive = False\<rparr>,
     inc_status = empty_incident_status\<rparr>"

definition started :: "time \<Rightarrow> incident \<Rightarrow> incident" where
  "started now inc = inc\<lparr>inc_status := (inc_status inc)\<lparr>int_state := IncidentStateOpen, int_openedAt := Some now,
     int_occurrenceCount := 1, int_lastOccurrenceAt := Some now\<rparr>\<rparr>"

definition createIncident ::
  "'w correlation_reconciler \<Rightarrow> string \<Rightarrow> resource_ref \<Rightarrow> time \<Rightarrow> 'w \<Rightarrow> (go_error + incident) \<times> 'w" where
  "createIncident r namespace root now w =
     (let now' = metav1_now now;
          secs = go_quot (recurrence_window r) second
      in if secs = 0 then (Inl (Panicked ''integer divide by zero''), w)
         else
           (let inc = new_incident namespace root (go_quot (unix now') secs)
            in case api_create (c_incidents (cr_client r)) inc w of
                 (Inl err, w1) \<Rightarrow>
                   (if is_already_exists err
                    then (case api_get (c_incidents (cr_client r)) namespace (inc_name inc) w1 of
                        Inr existing \<Rightarrow> (Inr existing, w1) | Inl _ \<Rightarrow> (Inl err, w1))
                    else (Inl err, w1))
               | (Inr inc', w1) \<Rightarrow>
                   api_status_patch (c_incidents (cr_client r)) inc' (started now' inc') w1))"

text \<open>The count of unresolved members, deleted ones left out, as both callers compute it.\<close>

fun count_active :: "'w client \<Rightarrow> string \<Rightarrow> string list \<Rightarrow> 'w \<Rightarrow> int \<Rightarrow> go_error + int" where
  "count_active c ns [] w active = Inr active"
| "count_active c ns (name # names) w active =
     (case api_get (c_problemCases c) ns name w of
        Inl err \<Rightarrow> if is_not_found err then count_active c ns names w active else Inl err
      | Inr pc \<Rightarrow> count_active c ns names w
          (if pc_state pc \<noteq> ProblemCaseStateResolved then active + 1 else active))"

definition err_of :: "(go_error + 'a) \<times> 'w \<Rightarrow> go_error option \<times> 'w" where
  "err_of r = (case r of (Inl e, w) \<Rightarrow> (Some e, w) | (Inr _, w) \<Rightarrow> (None, w))"

definition addProblemCaseToIncident ::
  "'w correlation_reconciler \<Rightarrow> incident \<Rightarrow> string \<Rightarrow> 'w \<Rightarrow> go_error option \<times> 'w" where
  "addProblemCaseToIncident r inc pcName w =
     (if pcName \<in> set (inc_members inc) then (None, w)
      else (case api_patch (c_incidents (cr_client r)) inc
          (inc\<lparr>inc_spec := (inc_spec inc)\<lparr>ins_problemCases := inc_members inc @ [pcName]\<rparr>\<rparr>) w of
          (Inl err, w1) \<Rightarrow> (Some err, w1)
        | (Inr inc1, w1) \<Rightarrow>
            (case count_active (cr_client r) (inc_namespace inc1) (inc_members inc1) w1 0 of
               Inl err \<Rightarrow> (Some err, w1)
             | Inr active \<Rightarrow> err_of (api_status_patch (c_incidents (cr_client r)) inc1
                 (inc1\<lparr>inc_status := (inc_status inc1)\<lparr>int_activeProblemCases := active\<rparr>\<rparr>) w1))))"

definition counted :: "int \<Rightarrow> time \<Rightarrow> incident \<Rightarrow> incident" where
  "counted active now inc =
     (let inc1 = inc\<lparr>inc_status := (inc_status inc)\<lparr>int_activeProblemCases := active\<rparr>\<rparr>
      in if active = 0 then inc1\<lparr>inc_status := (inc_status inc1)\<lparr>int_state := IncidentStateResolved,
             int_resolvedAt := Some now\<rparr>\<rparr>
         else inc1)"

definition maybeResolveIncident ::
  "'w correlation_reconciler \<Rightarrow> string \<Rightarrow> string \<Rightarrow> time \<Rightarrow> 'w \<Rightarrow> go_error option \<times> 'w" where
  "maybeResolveIncident r namespace incidentName now w =
     (case api_get (c_incidents (cr_client r)) namespace incidentName w of
        Inl err \<Rightarrow> (ignore_not_found err, w)
      | Inr inc \<Rightarrow>
          if inc_state inc = IncidentStateResolved then (None, w)
          else if inc_members inc = [] then (None, w)
          else (case count_active (cr_client r) namespace (inc_members inc) w 0 of
              Inl err \<Rightarrow> (Some err, w)
            | Inr active \<Rightarrow> err_of (api_status_patch (c_incidents (cr_client r)) inc
                (counted active (metav1_now now) inc) w)))"

section \<open>Reconciliation\<close>

text \<open>The incident to attach the case to: reused, reopened or created. \<open>t1\<close>, \<open>t2\<close> are clock readings.\<close>

definition obtainIncident ::
  "'w correlation_reconciler \<Rightarrow> resource_ref \<Rightarrow> time \<Rightarrow> time \<Rightarrow> 'w \<Rightarrow> (go_error + incident) \<times> 'w" where
  "obtainIncident r root t1 t2 w =
     (case findReusableIncident r (cr_controlNamespace r) root t1 w of
        Inl err \<Rightarrow> (Inl (Wrapf ''finding reusable incident'' err), w)
      | Inr None \<Rightarrow>
          (case createIncident r (cr_controlNamespace r) root t2 w of
             (Inl err, w1) \<Rightarrow> (Inl (Wrapf ''creating incident'' err), w1)
           | (Inr inc, w1) \<Rightarrow> (Inr inc, w1))
      | Inr (Some (inc, reopen)) \<Rightarrow>
          if reopen then
            (case reopenIncident r inc t2 w of
               (Inl err, w1) \<Rightarrow> (Inl (Wrapf ''reopening incident'' err), w1)
             | (Inr inc', w1) \<Rightarrow> (Inr inc', w1))
          else (Inr inc, w))"

definition labelled :: "string \<Rightarrow> problem_case \<Rightarrow> problem_case" where
  "labelled name pc = pc\<lparr>pc_meta := (pc_meta pc)\<lparr>om_labels := map_put LabelIncident name (om_labels (pc_meta pc))\<rparr>\<rparr>"

definition CorrelationReconciler_Reconcile ::
  "nat \<Rightarrow> 'w correlation_reconciler \<Rightarrow> namespaced_name \<Rightarrow> time \<Rightarrow> time \<Rightarrow> 'w \<Rightarrow> (go_error option \<times> 'w) option" where
  "CorrelationReconciler_Reconcile fuel r req t1 t2 w =
     (case api_get (c_problemCases (cr_client r)) (fst req) (snd req) w of
        Inl err \<Rightarrow> Some (ignore_not_found err, w)
      | Inr pc \<Rightarrow>
          (let incidentName = go_idx (om_labels (pc_meta pc)) LabelIncident
           in if pc_state pc = ProblemCaseStateResolved then
                (if incidentName = [] then Some (None, w)
                 else Some (maybeResolveIncident r (cr_controlNamespace r) incidentName t1 w))
              else if incidentName \<noteq> [] then Some (None, w)
              else (case findRootResource fuel (cr_client r) (pcs_affectedResource (pc_spec pc)) w of
                  None \<Rightarrow> None
                | Some (Inl err) \<Rightarrow> Some (Some (Wrapf ''finding root resource'' err), w)
                | Some (Inr root) \<Rightarrow>
                    Some (case obtainIncident r root t1 t2 w of
                        (Inl err, w1) \<Rightarrow> (Some err, w1)
                      | (Inr inc, w1) \<Rightarrow>
                          (case addProblemCaseToIncident r inc (pc_name pc) w1 of
                             (Some err, w2) \<Rightarrow> (Some (Wrapf ''adding ProblemCase to Incident'' err), w2)
                           | (None, w2) \<Rightarrow>
                               (case api_patch (c_problemCases (cr_client r)) pc (labelled (inc_name inc) pc) w2 of
                                  (Inl err, w3) \<Rightarrow> (Some (Wrapf ''labelling ProblemCase'' err), w3)
                                | (Inr _, w3) \<Rightarrow> (None, w3)))))))"

section \<open>The walk ends\<close>

text \<open>
  Controllers in Kubernetes: a Pod is controlled by a ReplicaSet, StatefulSet, DaemonSet or Job, a
  ReplicaSet by a Deployment, and kinds the walk does not know end it.
\<close>

definition kind_rank :: "string \<Rightarrow> nat" where
  "kind_rank kind =
     (if kind = ''Service'' then 4 else if kind = ''Pod'' then 3 else if kind = ''ReplicaSet'' then 2
      else if kindToGVK kind = None then 0 else 1)"

definition owners_ranked :: "'w client \<Rightarrow> 'w \<Rightarrow> bool" where
  "owners_ranked c w \<longleftrightarrow> (\<forall>g v k ns n obj owner. c_unstructured c (g, v, k) ns n w = Inr obj \<longrightarrow>
     controller_of obj = Some owner \<longrightarrow> kind_rank (or_kind owner) < kind_rank k)"

lemma kindToGVK_kind: "kindToGVK kind = Some (g, v, k) \<Longrightarrow> k = kind"
  by (auto simp: kindToGVK_def split: if_splits)

lemma kind_rank_le: "kind_rank kind \<le> 4"
  by (simp add: kind_rank_def)

lemma add_pod_roots_total:
  assumes "\<And>r. rr_kind r = ''Pod'' \<Longrightarrow> f r \<noteq> None"
  shows "add_pod_roots f ns ps cands \<noteq> None"
proof (induction ps arbitrary: cands)
  case (Cons p ps)
  obtain res where "f (mk_ref ns ''Pod'' (om_name (pod_meta p))) = Some res" using assms by fastforce
  with Cons show ?case by (cases res) auto
qed simp

lemma findServiceRoot_total:
  assumes "\<And>r. rr_kind r = ''Pod'' \<Longrightarrow> f r \<noteq> None"
  shows "findServiceRoot f c ref w \<noteq> None"
proof -
  have tot: "(add_pod_roots f ns ps cands = None) = False" for ns ps cands
    using add_pod_roots_total [where f = f, OF assms] by blast
  show ?thesis by (auto simp: findServiceRoot_def Let_def tot split: sum.splits option.splits)
qed

lemma findRootResource_total:
  assumes "owners_ranked c w" and "kind_rank (rr_kind ref) < fuel"
  shows "findRootResource fuel c ref w \<noteq> None"
  using assms(2)
proof (induction fuel arbitrary: ref)
  case (Suc fuel)
  show ?case
  proof (cases "rr_kind ref = ''Service''")
    case True
    with Suc.prems have "findRootResource fuel c r w \<noteq> None" if "rr_kind r = ''Pod''" for r
      using that by (intro Suc.IH) (simp add: kind_rank_def)
    then have "findServiceRoot (\<lambda>r. findRootResource fuel c r w) c ref w \<noteq> None"
      by (rule findServiceRoot_total)
    with True show ?thesis by (simp add: root_of_service)
  next
    case False
    have "findRootResource fuel c (mk_ref (rr_namespace ref) (or_kind owner) (or_name owner)) w \<noteq> None"
      if "kindToGVK (rr_kind ref) = Some gvk" "c_unstructured c gvk (rr_namespace ref) (rr_name ref) w = Inr obj"
        "controller_of obj = Some owner" for gvk obj owner
    proof (rule Suc.IH)
      obtain g v k where "gvk = (g, v, k)" by (cases gvk)
      with that assms(1) have "kind_rank (or_kind owner) < kind_rank (rr_kind ref)"
        by (auto simp: owners_ranked_def dest: kindToGVK_kind)
      with Suc.prems show "kind_rank (rr_kind (mk_ref (rr_namespace ref) (or_kind owner) (or_name owner))) < fuel" by simp
    qed
    with False show ?thesis by (auto simp: root_of_other split: option.splits sum.splits)
  qed
qed simp

lemma add_pod_roots_mono:
  assumes "\<And>r x. f r = Some x \<Longrightarrow> g r = Some x"
  shows "add_pod_roots f ns ps cands = Some y \<Longrightarrow> add_pod_roots g ns ps cands = Some y"
proof (induction ps arbitrary: cands)
  case (Cons p ps)
  then obtain res where "f (mk_ref ns ''Pod'' (om_name (pod_meta p))) = Some res"
    by (auto split: option.splits)
  with assms Cons show ?case by (cases res) auto
qed simp

lemma findServiceRoot_mono:
  assumes "\<And>r x. f r = Some x \<Longrightarrow> g r = Some x" and "findServiceRoot f c ref w = Some y"
  shows "findServiceRoot g c ref w = Some y"
proof -
  have "add_pod_roots g ns ps cands = add_pod_roots f ns ps cands" if "add_pod_roots f ns ps cands \<noteq> None" for ns ps cands
    using that add_pod_roots_mono [where f = f and g = g, OF assms(1)] by fastforce
  with assms(2) show ?thesis
    by (auto simp: findServiceRoot_def Let_def split: sum.splits option.splits if_splits)
qed

lemma findRootResource_Suc: "findRootResource fuel c ref w = Some x \<Longrightarrow> findRootResource (Suc fuel) c ref w = Some x"
proof (induction fuel arbitrary: ref x)
  case (Suc fuel)
  show ?case
  proof (cases "rr_kind ref = ''Service''")
    case True
    with Suc.prems have "findServiceRoot (\<lambda>r. findRootResource fuel c r w) c ref w = Some x" by (simp add: root_of_service)
    then have "findServiceRoot (\<lambda>r. findRootResource (Suc fuel) c r w) c ref w = Some x"
      using Suc.IH by (rule findServiceRoot_mono [rotated])
    with True show ?thesis by (simp add: root_of_service)
  next
    case False
    with Suc show ?thesis by (auto simp: root_of_other split: option.splits sum.splits)
  qed
qed simp

lemma findRootResource_mono:
  assumes "findRootResource n c ref w = Some x" and "n \<le> m"
  shows "findRootResource m c ref w = Some x"
  using assms(2,1) by (induction rule: dec_induct) (auto intro: findRootResource_Suc)

text \<open>One step up: the controlling owner of a resource the walk knows.\<close>

inductive controlled_by :: "'w client \<Rightarrow> 'w \<Rightarrow> resource_ref \<Rightarrow> resource_ref \<Rightarrow> bool" for c w where
  step_up: "rr_kind ref \<noteq> ''Service'' \<Longrightarrow> kindToGVK (rr_kind ref) = Some gvk \<Longrightarrow>
    c_unstructured c gvk (rr_namespace ref) (rr_name ref) w = Inr obj \<Longrightarrow> controller_of obj = Some owner \<Longrightarrow>
    controlled_by c w ref (mk_ref (rr_namespace ref) (or_kind owner) (or_name owner))"

inductive_cases controlled_byE: "controlled_by c w ref parent"

lemma findRootResource_up:
  assumes "controlled_by c w ref parent"
  shows "findRootResource (Suc n) c ref w = findRootResource n c parent w"
  using assms by cases (simp add: root_of_other)

lemma findRootResource_enough:
  assumes "owners_ranked c w" and "5 \<le> n"
  shows "findRootResource n c ref w = findRootResource 5 c ref w"
proof -
  have "kind_rank (rr_kind ref) < 5" using kind_rank_le [of "rr_kind ref"] by linarith
  with findRootResource_total [OF assms(1)] obtain x where "findRootResource 5 c ref w = Some x" by blast
  with findRootResource_mono [OF this assms(2)] show ?thesis by simp
qed

lemma findRootResource_same:
  assumes "owners_ranked c w" and "(controlled_by c w)\<^sup>*\<^sup>* ref anc"
  shows "findRootResource 5 c ref w = findRootResource 5 c anc w"
  using assms(2)
proof (induction rule: converse_rtranclp_induct)
  case (step ref parent)
  have "findRootResource 5 c ref w = findRootResource (Suc 5) c ref w"
    using findRootResource_enough [OF assms(1), of "Suc 5" ref] by simp
  also have "\<dots> = findRootResource 5 c parent w" by (rule findRootResource_up [OF step(1)])
  finally show ?case using step.IH by simp
qed simp

section \<open>Counting and looking up\<close>

abbreviation incidents :: "('w \<Rightarrow> store) \<Rightarrow> 'w \<Rightarrow> incident table" where
  "incidents view w \<equiv> st_incidents (view w)"

text \<open>The members that are stored and not resolved.\<close>

definition active_members :: "problem_case table \<Rightarrow> string \<Rightarrow> string list \<Rightarrow> string list" where
  "active_members t ns names = filter (\<lambda>n. case t (ns, n) of None \<Rightarrow> False | Some pc \<Rightarrow> \<not> pc_resolved pc) names"

lemma count_active_correct:
  assumes "faithful_client c view"
  shows "count_active c ns names w k = Inr n \<Longrightarrow> n = k + int (length (active_members (cases view w) ns names))"
proof (induction names arbitrary: k)
  case (Cons name names)
  show ?case
  proof (cases "api_get (c_problemCases c) ns name w")
    case (Inl e)
    with Cons.prems have nf: "is_not_found e" by (auto split: if_splits)
    with kind_laws_get_missing [OF faithful_pc [OF assms] Inl] have "cases view w (ns, name) = None" by simp
    with Cons Inl nf show ?thesis by (simp add: active_members_def)
  next
    case (Inr pc)
    with kind_laws_get [OF faithful_pc [OF assms]] have "cases view w (ns, name) = Some pc" by blast
    with Cons.IH [of "if pc_state pc \<noteq> ProblemCaseStateResolved then k + 1 else k"] Cons.prems Inr show ?thesis
      by (auto simp: active_members_def pc_resolved_def split: if_splits)
  qed
qed (simp add: active_members_def)

definition automatic :: "incident \<Rightarrow> bool" where
  "automatic inc \<longleftrightarrow> ins_source (inc_spec inc) \<noteq> ''manual''"

lemma scan_incidents_Inl:
  "scan_incidents items acc = Inl inc \<Longrightarrow> inc \<in> set items \<and> automatic inc \<and> \<not> inc_resolved inc"
  by (induction items acc rule: scan_incidents.induct)
    (auto simp: automatic_def inc_resolved_def split: if_splits)

lemma scan_incidents_Inr:
  "scan_incidents items acc = Inr rs \<Longrightarrow>
   rs = acc @ filter automatic items \<and> (\<forall>inc \<in> set items. automatic inc \<longrightarrow> inc_resolved inc)"
proof (induction items arbitrary: acc)
  case (Cons inc items)
  consider "\<not> automatic inc" | "automatic inc" "inc_resolved inc"
    using Cons.prems by (auto simp: automatic_def inc_resolved_def split: if_splits)
  then show ?case
    using Cons.IH [of acc] Cons.IH [of "acc @ [inc]"] Cons.prems
    by cases (simp_all add: automatic_def inc_resolved_def)
qed simp

lemma strict_weak_resolved_later: "strict_weak resolved_later"
  by (auto simp: strict_weak_def resolved_later_def split: option.splits)

lemma inc_key: "faithful_client c view \<Longrightarrow> incidents view w k = Some inc \<Longrightarrow> meta_key (inc_meta inc) = k"
  by (rule kind_laws_keyed [OF faithful_inc])

definition fingerprinted :: "resource_ref \<Rightarrow> incident \<Rightarrow> bool" where
  "fingerprinted root inc \<longleftrightarrow> map_of (om_labels (inc_meta inc)) LabelIncidentFingerprint = Some (incidentFingerprint root)"

lemma list_incidents:
  assumes "faithful_client c view"
    and "api_list (c_incidents c) ns [(LabelIncidentFingerprint, incidentFingerprint root)] w = Inr items" and "ns \<noteq> []"
  shows "set items = {inc. incidents view w (ns, inc_name inc) = Some inc \<and> fingerprinted root inc \<and> inc_namespace inc = ns}"
  unfolding kind_laws_list [OF faithful_inc [OF assms(1)] assms(2)] selector_matches_def fingerprinted_def meta_key_def
  using assms(3) by auto

lemma in_list_incidents:
  assumes "faithful_client c view"
    and "api_list (c_incidents c) ns [(LabelIncidentFingerprint, incidentFingerprint root)] w = Inr items" and "ns \<noteq> []"
    and "incidents view w (ns, n) = Some inc" and "fingerprinted root inc"
  shows "inc \<in> set items"
proof -
  have "meta_key (inc_meta inc) = (ns, n)" by (rule inc_key [OF assms(1,4)])
  then have "inc_namespace inc = ns" "inc_name inc = n" by (simp_all add: meta_key_def)
  with assms(4,5) show ?thesis unfolding list_incidents [OF assms(1-3)] by simp
qed

section \<open>What the operations change\<close>

text \<open>Only the incident under one key differs between two stores.\<close>

definition only_incident :: "namespaced_name \<Rightarrow> store \<Rightarrow> store \<Rightarrow> bool" where
  "only_incident k s s' \<longleftrightarrow> (\<exists>x. s' = s\<lparr>st_incidents := (st_incidents s)(k := x)\<rparr>)"

lemma only_incident_refl [simp]: "only_incident k s s"
  unfolding only_incident_def by (rule exI [of _ "st_incidents s k"]) simp

lemma only_incident_upd [simp]: "only_incident k s (st_incidents_update (\<lambda>m. m(k \<mapsto> x)) s)"
  unfolding only_incident_def by (rule exI [of _ "Some x"]) simp

lemma only_incident_trans: "only_incident k s s' \<Longrightarrow> only_incident k s' s'' \<Longrightarrow> only_incident k s s''"
  unfolding only_incident_def by (auto intro: exI)

lemma only_incident_cases: "only_incident k s s' \<Longrightarrow> st_problemCases s' = st_problemCases s"
  by (auto simp: only_incident_def)

lemma only_incident_other: "only_incident k s s' \<Longrightarrow> k' \<noteq> k \<Longrightarrow> st_incidents s' k' = st_incidents s k'"
  by (auto simp: only_incident_def)

text \<open>A status write that sets the state stores exactly what was sent.\<close>

lemma incident_status_written:
  assumes "faithful_client c view" and "incidents view w (meta_key (inc_meta inc)) = Some inc"
    and "inc_meta x = inc_meta inc" and "inc_spec x = inc_spec inc"
    and "api_status_patch (c_incidents c) inc x w = (Inr x', w')"
  shows "incidents view w' (meta_key (inc_meta inc)) = Some x'" and "x' = x \<or> x' = inc_dflt x"
    and "only_incident (meta_key (inc_meta inc)) (view w) (view w')"
  using kind_laws_status_patch_any [OF faithful_inc [OF assms(1)] assms(5,2,3,4)] by simp_all

lemma started_sel [simp]: "inc_meta (started now inc) = inc_meta inc" "inc_spec (started now inc) = inc_spec inc"
  "inc_state (started now inc) = IncidentStateOpen" "inc_dflt (started now inc) = started now inc"
  by (simp_all add: started_def inc_dflt_def state_consts)

lemma reopened_sel [simp]: "inc_meta (reopened now inc) = inc_meta inc" "inc_spec (reopened now inc) = inc_spec inc"
  "inc_state (reopened now inc) = IncidentStateOpen" "inc_dflt (reopened now inc) = reopened now inc"
  by (simp_all add: reopened_def inc_dflt_def state_consts)

lemma createIncident_stored:
  assumes "faithful_client (cr_client r) view" and "createIncident r ns root now w = (Inr inc, w')"
  shows "incidents view w' (meta_key (inc_meta inc)) = Some inc \<and> inc_namespace inc = ns \<and>
    only_incident (meta_key (inc_meta inc)) (view w) (view w')"
proof -
  let ?c = "cr_client r" and ?new = "new_incident ns root (go_quot (unix (metav1_now now)) (go_quot (recurrence_window r) second))"
  note kl = faithful_inc [OF assms(1)]
  show ?thesis
    using kl
  proof (cases rule: create_outcome [where x = ?new and w = w])
    case (1 e w1)
    with assms(2) have "api_get (c_incidents ?c) ns (inc_name ?new) w1 = Inr inc" "w' = w1"
      by (auto simp: createIncident_def Let_def split: if_splits sum.splits)
    with kind_laws_get [OF kl] have "incidents view w1 (ns, inc_name ?new) = Some inc" by blast
    with inc_key [OF assms(1) this] 1(2) \<open>w' = w1\<close> show ?thesis by (simp add: meta_key_def)
  next
    case (2 inc' w1)
    then have run: "api_status_patch (c_incidents ?c) inc' (started (metav1_now now) inc') w1 = (Inr inc, w')"
      using assms(2) by (auto simp: createIncident_def Let_def split: if_splits)
    have st: "incidents view w1 (meta_key (inc_meta inc')) = Some inc'" using 2(7) by simp
    note wr = incident_status_written [OF assms(1) st _ _ run]
    have eq: "inc = started (metav1_now now) inc'" using wr(2) by simp
    have "only_incident (meta_key (inc_meta inc')) (view w) (view w1)" using 2(7) by simp
    with wr(3) have "only_incident (meta_key (inc_meta inc')) (view w) (view w')"
      by (auto intro: only_incident_trans)
    with wr(1) eq 2(3) show ?thesis by (simp add: new_incident_def)
  qed
qed

lemma findReusableIncident_stored:
  assumes "faithful_client (cr_client r) view" and "ns \<noteq> []" and "findReusableIncident r ns root now w = Inr (Some (inc, reopen))"
  shows "incidents view w (ns, inc_name inc) = Some inc \<and> inc_namespace inc = ns"
proof -
  obtain items where l: "api_list (c_incidents (cr_client r)) ns [(LabelIncidentFingerprint, incidentFingerprint root)] w = Inr items"
    using assms(3) by (auto simp: findReusableIncident_def split: sum.splits)
  have "inc \<in> set items"
  proof (cases "scan_incidents items []")
    case (Inl inc')
    with scan_incidents_Inl [OF Inl] assms(3) l show ?thesis by (simp add: findReusableIncident_def)
  next
    case (Inr rs)
    with assms(3) l obtain ys where s: "sort_slice resolved_later rs = inc # ys"
      by (auto simp: findReusableIncident_def split: list.splits option.splits if_splits)
    have "inc \<in> set rs" using set_sort_slice [of resolved_later rs] s by auto
    with scan_incidents_Inr [OF Inr] show ?thesis by auto
  qed
  with list_incidents [OF assms(1) l assms(2)] show ?thesis by simp
qed

lemma obtainIncident_stored:
  assumes "faithful_client (cr_client r) view" and "cr_controlNamespace r \<noteq> []"
    and "obtainIncident r root t1 t2 w = (Inr inc, w')"
  shows "incidents view w' (cr_controlNamespace r, inc_name inc) = Some inc \<and> inc_namespace inc = cr_controlNamespace r \<and>
    only_incident (cr_controlNamespace r, inc_name inc) (view w) (view w')"
proof -
  consider (new) "findReusableIncident r (cr_controlNamespace r) root t1 w = Inr None"
      "createIncident r (cr_controlNamespace r) root t2 w = (Inr inc, w')"
    | (reopen) old where "findReusableIncident r (cr_controlNamespace r) root t1 w = Inr (Some (old, True))"
      "reopenIncident r old t2 w = (Inr inc, w')"
    | (reuse) "findReusableIncident r (cr_controlNamespace r) root t1 w = Inr (Some (inc, False))" "w' = w"
    using assms(3) by (auto simp: obtainIncident_def split: sum.splits option.splits prod.splits if_splits)
  then show ?thesis
  proof cases
    case new
    with createIncident_stored [OF assms(1) new(2)] show ?thesis by (auto simp: meta_key_def)
  next
    case reopen
    note st = findReusableIncident_stored [OF assms(1,2) reopen(1)]
    then have k: "meta_key (inc_meta old) = (cr_controlNamespace r, inc_name old)" by (simp add: meta_key_def)
    note wr = incident_status_written [OF assms(1) _ _ _ reopen(2) [unfolded reopenIncident_def]]
    from wr st k show ?thesis by auto
  next
    case reuse
    with findReusableIncident_stored [OF assms(1,2) reuse(1)] show ?thesis by simp
  qed
qed

lemma addProblemCase_listed:
  assumes "faithful_client (cr_client r) view" and "incidents view w (meta_key (inc_meta inc)) = Some inc"
    and "addProblemCaseToIncident r inc pcName w = (None, w')"
  shows "\<exists>inc'. incidents view w' (meta_key (inc_meta inc)) = Some inc' \<and> inc_meta inc' = inc_meta inc \<and>
    pcName \<in> set (inc_members inc') \<and> inc_resolved inc' = inc_resolved inc \<and>
    (pcName \<notin> set (inc_members inc) \<longrightarrow> inc_members inc' = inc_members inc @ [pcName] \<and>
      int_activeProblemCases (inc_status inc') =
        int (length (active_members (cases view w) (inc_namespace inc) (inc_members inc')))) \<and>
    only_incident (meta_key (inc_meta inc)) (view w) (view w')"
proof (cases "pcName \<in> set (inc_members inc)")
  case True
  with assms(2,3) show ?thesis by (simp add: addProblemCaseToIncident_def)
next
  case False
  let ?c = "cr_client r" and ?k = "meta_key (inc_meta inc)"
  let ?inc1 = "inc\<lparr>inc_spec := (inc_spec inc)\<lparr>ins_problemCases := inc_members inc @ [pcName]\<rparr>\<rparr>"
  have pre: "meta_key (inc_meta ?inc1) = ?k" "inc_status ?inc1 = inc_status inc" by simp_all
  show ?thesis
    using faithful_inc [OF assms(1)] assms(2) pre
  proof (cases rule: patch_outcome)
    case (1 e w1)
    with assms(3) False show ?thesis by (simp add: addProblemCaseToIncident_def)
  next
    case w1: (2 w1)
    then obtain n where n: "count_active ?c (inc_namespace inc) (inc_members inc @ [pcName]) w1 0 = Inr n"
      using assms(3) False by (cases "count_active ?c (inc_namespace inc) (inc_members inc @ [pcName]) w1 0")
        (simp_all add: addProblemCaseToIncident_def)
    let ?inc2 = "?inc1\<lparr>inc_status := (inc_status ?inc1)\<lparr>int_activeProblemCases := n\<rparr>\<rparr>"
    have st1: "incidents view w1 (meta_key (inc_meta ?inc1)) = Some ?inc1" using w1(2) by simp
    obtain x' where run: "api_status_patch (c_incidents ?c) ?inc1 ?inc2 w1 = (Inr x', w')"
      using assms(3) False w1 n by (auto simp: addProblemCaseToIncident_def err_of_def split: prod.splits sum.splits)
    note wr = incident_status_written [OF assms(1) st1 _ _ run]
    have "inc_resolved ?inc2 = inc_resolved inc" by (simp add: inc_resolved_def)
    then have same: "inc_members x' = inc_members inc @ [pcName]" "inc_meta x' = inc_meta inc"
        "inc_resolved x' = inc_resolved inc" "int_activeProblemCases (inc_status x') = n"
      using wr(2) by auto
    have "n = int (length (active_members (cases view w) (inc_namespace inc) (inc_members inc @ [pcName])))"
      using count_active_correct [OF assms(1) n] w1(2) by simp
    moreover have "only_incident ?k (view w) (view w')"
      using wr(3) w1(2) by (auto intro: only_incident_trans [of _ _ "view w1"])
    ultimately show ?thesis using wr(1) same False by (intro exI [of _ x']) simp
  qed
qed

section \<open>Properties\<close>


text \<open>
  C24. An Incident is resolved exactly when nothing of it is left: a successful \<open>maybeResolveIncident\<close>
  on an unresolved Incident with members writes the number of members that are still stored and
  unresolved as its active count, resolves it at the current second when that number is zero, keeps
  its state otherwise, and touches nothing else; a resolved or empty Incident is left alone.
\<close>

theorem incident_resolved_iff_no_active_member:
  assumes "faithful_client (cr_client r) view" and "st_incidents (view w) (ns, n) = Some inc"
    and "inc_state inc \<noteq> []" and "maybeResolveIncident r ns n now w = (None, w')"
  shows "if inc_resolved inc \<or> inc_members inc = [] then view w' = view w
    else (let active = length (active_members (st_problemCases (view w)) ns (inc_members inc)) in
      view w' = (view w)\<lparr>st_incidents := (st_incidents (view w))((ns, n) \<mapsto> inc\<lparr>inc_status := (inc_status inc)\<lparr>
        int_activeProblemCases := int active,
        int_state := (if active = 0 then IncidentStateResolved else inc_state inc),
        int_resolvedAt := (if active = 0 then Some (metav1_now now) else int_resolvedAt (inc_status inc))\<rparr>\<rparr>)\<rparr>)"
proof -
  let ?c = "cr_client r"
  have key: "meta_key (inc_meta inc) = (ns, n)" by (rule inc_key [OF assms(1,2)])
  have g: "api_get (c_incidents ?c) ns n w = Inr inc"
  proof (cases "api_get (c_incidents ?c) ns n w")
    case (Inl e)
    with assms(4) have "is_not_found e" by (auto simp: maybeResolveIncident_def ignore_not_found_def split: if_splits)
    with kind_laws_get_missing [OF faithful_inc [OF assms(1)] Inl] assms(2) show ?thesis by simp
  next
    case (Inr x)
    with kind_laws_get [OF faithful_inc [OF assms(1)] Inr] assms(2) show ?thesis by simp
  qed
  show ?thesis
  proof (cases "inc_resolved inc \<or> inc_members inc = []")
    case True
    with assms(4) g show ?thesis by (auto simp: maybeResolveIncident_def inc_resolved_def split: if_splits)
  next
    case False
    then obtain m where m: "count_active ?c ns (inc_members inc) w 0 = Inr m"
      using assms(4) g by (auto simp: maybeResolveIncident_def inc_resolved_def split: sum.splits)
    let ?x = "counted m (metav1_now now) inc"
    obtain x' where run: "api_status_patch (c_incidents ?c) inc ?x w = (Inr x', w')"
      using assms(4) g m False by (auto simp: maybeResolveIncident_def inc_resolved_def err_of_def split: sum.splits prod.splits)
    have x: "inc_meta ?x = inc_meta inc" "inc_spec ?x = inc_spec inc" "inc_dflt ?x = ?x"
      using assms(3) by (simp_all add: counted_def inc_dflt_def state_consts Let_def)
    have "view w' = (view w)\<lparr>st_incidents := (incidents view w)((ns, n) \<mapsto> ?x)\<rparr>"
      using kind_laws_status_patch(2) [OF faithful_inc [OF assms(1)] run _ x] assms(2) key by simp
    moreover have "m = int (length (active_members (cases view w) ns (inc_members inc)))"
      using count_active_correct [OF assms(1) m] by simp
    ultimately show ?thesis using False by (simp add: counted_def Let_def)
  qed
qed

definition sample_correlator :: "mem correlation_reconciler" where
  "sample_correlator = \<lparr>cr_client = mem_client, cr_controlNamespace = ''kubechan'', cr_recurrenceWindow = 0\<rparr>"

lemma sample_case_facts:
  "meta_key (pc_meta sample_case) = (''kubechan'', ''pc1'')" "pc_state sample_case = ProblemCaseStateOpen"
  "pcs_affectedResource (pc_spec sample_case) = sample_ref"
  "om_labels (pc_meta sample_case) = case_labels sample_ref ''PendingTooLong''"
  "om_namespace (pc_meta sample_case) = ''kubechan''" "om_name (pc_meta sample_case) = ''pc1''"
  by (simp_all add: sample_case_def meta_key_def opened_def new_case_def)

lemma sample_root: "findRootResource (Suc n) mem_client sample_ref case_world = Some (Inr sample_ref)"
  by (simp add: root_of_other sample_ref_def kindToGVK_def mem_client_def case_world_def empty_mem_def)

lemma sample_obtain: "obtainIncident sample_correlator sample_ref 0 0 case_world =
   (let inc = started 0 (new_incident ''kubechan'' sample_ref 0) in (Inr inc, case_world\<lparr>m_incidents := [inc]\<rparr>))"
  by (simp add: sample_correlator_def mem_client_def mem_kind_def tab_find_def named_def tab_put_def meta_key_def
      case_world_def empty_mem_def obtainIncident_def findReusableIncident_def createIncident_def sort_slice_def
      recurrence_window_def defaultRecurrenceWindow_def go_quot_def metav1_now_def unix_def Let_def new_incident_def
      started_def)

lemma sample_add: "\<exists>w'. addProblemCaseToIncident sample_correlator (started 0 (new_incident ''kubechan'' sample_ref 0)) ''pc1''
    (case_world\<lparr>m_incidents := [started 0 (new_incident ''kubechan'' sample_ref 0)]\<rparr>) = (None, w') \<and>
    m_problemCases w' = [sample_case]"
  using sample_case_facts
  by (simp add: sample_correlator_def mem_client_def mem_kind_def tab_find_def tab_put_def meta_key_def
      case_world_def empty_mem_def addProblemCaseToIncident_def Let_def new_incident_def started_def err_of_def)

lemma sample_get: "api_get (c_problemCases mem_client) ''kubechan'' ''pc1'' case_world = Inr sample_case"
  using sample_case_facts by (simp add: mem_client_def mem_kind_def tab_find_def case_world_def)

lemma sample_unlabelled: "go_idx (om_labels (pc_meta sample_case)) LabelIncident = []"
  by (simp add: sample_case_facts go_idx_def case_labels_def label_defs incident_labels)

lemma sample_run: "\<exists>w'. CorrelationReconciler_Reconcile 5 sample_correlator (''kubechan'', ''pc1'') 0 0 case_world = Some (None, w')"
proof -
  have cl: "cr_client sample_correlator = mem_client" by (simp add: sample_correlator_def)
  have r: "findRootResource 5 mem_client sample_ref case_world = Some (Inr sample_ref)"
    using sample_root [of 4] by simp
  let ?inc = "started 0 (new_incident ''kubechan'' sample_ref 0)"
  obtain w2 where a: "addProblemCaseToIncident sample_correlator ?inc ''pc1'' (case_world\<lparr>m_incidents := [?inc]\<rparr>) = (None, w2)"
    and p: "m_problemCases w2 = [sample_case]" using sample_add by blast
  obtain x w' where "api_patch (c_problemCases mem_client) sample_case (labelled (inc_name ?inc) sample_case) w2 = (Inr x, w')"
    using p by (simp add: mem_client_def mem_kind_def tab_find_def Let_def)
  then show ?thesis
    using a by (simp add: CorrelationReconciler_Reconcile_def cl sample_get sample_unlabelled r sample_case_facts
        state_consts sample_obtain Let_def)
qed


definition sample_incident :: incident where
  "sample_incident = (started 0 (new_incident ''kubechan'' sample_ref 0))
     \<lparr>inc_meta := empty_meta\<lparr>om_name := ''inc1'', om_namespace := ''kubechan''\<rparr>,
      inc_spec := \<lparr>ins_rootResource = sample_ref, ins_problemCases = [''gone''], ins_source = ''auto'', ins_userMessage = [],
        ins_relatedResources = [], ins_falsePositive = False\<rparr>\<rparr>"

theorem incident_resolved_iff_no_active_member_witness:
  "\<exists>w' inc. maybeResolveIncident sample_correlator ''kubechan'' ''inc1'' (4 * second) (empty_mem\<lparr>m_incidents := [sample_incident]\<rparr>) = (None, w') \<and>
     st_incidents (mem_view w') (''kubechan'', ''inc1'') = Some inc \<and> inc_resolved inc"
proof -
  let ?w = "empty_mem\<lparr>m_incidents := [sample_incident]\<rparr>"
  have key: "meta_key (inc_meta sample_incident) = (''kubechan'', ''inc1'')" by (simp add: sample_incident_def meta_key_def)
  have st: "st_incidents (mem_view ?w) (''kubechan'', ''inc1'') = Some sample_incident"
    using key by (simp add: mem_view_def tab_find_def)
  have facts: "inc_state sample_incident = IncidentStateOpen" "inc_members sample_incident = [''gone'']"
    by (simp_all add: sample_incident_def started_def)
  have cl: "cr_client sample_correlator = mem_client" by (simp add: sample_correlator_def)
  obtain w' where run: "maybeResolveIncident sample_correlator ''kubechan'' ''inc1'' (4 * second) ?w = (None, w')"
    using key facts by (simp add: maybeResolveIncident_def cl mem_client_def mem_kind_def tab_find_def state_consts
        empty_mem_def err_of_def Let_def)
  have act: "active_members (st_problemCases (mem_view ?w)) ''kubechan'' [''gone''] = []"
    by (simp add: active_members_def mem_view_def tab_find_def empty_mem_def)
  have ne: "inc_state sample_incident \<noteq> []" by (simp add: facts state_consts)
  from incident_resolved_iff_no_active_member [where r = sample_correlator and view = mem_view, unfolded cl, OF mem_client_faithful st ne run]
  show ?thesis using run act facts by (auto simp: inc_resolved_def state_consts)
qed

text \<open>The choice among the listed incidents.\<close>

lemma reusable_of_items:
  assumes l: "api_list (c_incidents (cr_client r)) ns [(LabelIncidentFingerprint, incidentFingerprint root)] w = Inr items"
    and f: "findReusableIncident r ns root now w = Inr found"
  shows "case found of
      Some (inc, False) \<Rightarrow> inc \<in> set items \<and> automatic inc \<and> \<not> inc_resolved inc
    | Some (inc, True) \<Rightarrow> inc \<in> set items \<and> automatic inc \<and> inc_resolved inc \<and>
        (\<exists>t. int_resolvedAt (inc_status inc) = Some t \<and> time_sub now t \<le> recurrence_window r \<and>
          (\<forall>x \<in> set items. automatic x \<longrightarrow> inc_resolved x \<and> (\<forall>t'. int_resolvedAt (inc_status x) = Some t' \<longrightarrow> t' \<le> t)))
    | None \<Rightarrow> (\<forall>x \<in> set items. automatic x \<longrightarrow> inc_resolved x \<and>
        (\<forall>t'. int_resolvedAt (inc_status x) = Some t' \<longrightarrow> time_sub now t' > recurrence_window r))"
proof (cases "scan_incidents items []")
  case (Inl inc)
  with f l have "found = Some (inc, False)" by (simp add: findReusableIncident_def)
  with scan_incidents_Inl [OF Inl] show ?thesis by simp
next
  case (Inr rs)
  then have rs: "set rs = {inc \<in> set items. automatic inc}" "\<And>inc. inc \<in> set items \<Longrightarrow> automatic inc \<Longrightarrow> inc_resolved inc"
    using scan_incidents_Inr [OF Inr] by auto
  show ?thesis
  proof (cases "sort_slice resolved_later rs")
    case Nil
    with f l Inr rs show ?thesis by (auto simp: findReusableIncident_def)
  next
    case (Cons inc ys)
    have inc: "inc \<in> set rs" using set_sort_slice [of resolved_later rs] Cons by auto
    have least: "\<not> resolved_later x inc" if "x \<in> set rs" for x
      using hd_sort_slice_least [OF strict_weak_resolved_later Cons that] .
    show ?thesis
    proof (cases "int_resolvedAt (inc_status inc)")
      case None
      have "int_resolvedAt (inc_status x) = None" if "x \<in> set rs" for x
        using least [OF that] None by (auto simp: resolved_later_def split: option.splits)
      moreover have "found = None" using None f l Inr Cons by (simp add: findReusableIncident_def)
      ultimately show ?thesis using rs by auto
    next
      case (Some t)
      have le: "t' \<le> t" if "x \<in> set items" "automatic x" "int_resolvedAt (inc_status x) = Some t'" for x t'
        using least [of x] that rs(1) Some by (auto simp: resolved_later_def)
      have late: "recurrence_window r < time_sub now t'" if "recurrence_window r < time_sub now t" "t' \<le> t" for t'
        using that time_sub_antimono [of t' t now] by linarith
      have "found = (if time_sub now t \<le> recurrence_window r then Some (inc, True) else None)"
        using f l Inr Cons Some by (auto simp: findReusableIncident_def)
      with Some inc rs le late show ?thesis by (auto split: if_splits)
    qed
  qed
qed

text \<open>
  C25. Which Incident is reused: an unresolved automatic Incident with the fingerprint of the root,
  if there is one; otherwise the most recently resolved automatic one, if it was resolved within the
  recurrence window (24 hours unless configured), and then it is to be reopened; otherwise none.
  Manual Incidents are never reused.
\<close>

theorem reuse_policy:
  assumes "faithful_client (cr_client r) view" and "ns \<noteq> []" and "findReusableIncident r ns root now w = Inr found"
  shows "case found of
      Some (inc, False) \<Rightarrow> st_incidents (view w) (ns, inc_name inc) = Some inc \<and> fingerprinted root inc \<and>
        ins_source (inc_spec inc) \<noteq> ''manual'' \<and> \<not> inc_resolved inc
    | Some (inc, True) \<Rightarrow> st_incidents (view w) (ns, inc_name inc) = Some inc \<and> fingerprinted root inc \<and>
        ins_source (inc_spec inc) \<noteq> ''manual'' \<and> inc_resolved inc \<and>
        (\<exists>t. int_resolvedAt (inc_status inc) = Some t \<and> time_sub now t \<le> recurrence_window r \<and>
          (\<forall>n inc'. st_incidents (view w) (ns, n) = Some inc' \<longrightarrow> fingerprinted root inc' \<longrightarrow>
             ins_source (inc_spec inc') \<noteq> ''manual'' \<longrightarrow> inc_resolved inc' \<and>
             (\<forall>t'. int_resolvedAt (inc_status inc') = Some t' \<longrightarrow> t' \<le> t)))
    | None \<Rightarrow> (\<forall>n inc'. st_incidents (view w) (ns, n) = Some inc' \<longrightarrow> fingerprinted root inc' \<longrightarrow>
        ins_source (inc_spec inc') \<noteq> ''manual'' \<longrightarrow> inc_resolved inc' \<and>
        (\<forall>t'. int_resolvedAt (inc_status inc') = Some t' \<longrightarrow> time_sub now t' > recurrence_window r))"
proof -
  obtain items where l: "api_list (c_incidents (cr_client r)) ns [(LabelIncidentFingerprint, incidentFingerprint root)] w = Inr items"
    using assms(3) by (auto simp: findReusableIncident_def split: sum.splits)
  have mem: "x \<in> set items \<Longrightarrow> st_incidents (view w) (ns, inc_name x) = Some x \<and> fingerprinted root x" for x
    using list_incidents [OF assms(1) l assms(2)] by simp
  note listed = in_list_incidents [OF assms(1) l assms(2)]
  note r = reusable_of_items [OF l assms(3)]
  show ?thesis
  proof (cases found)
    case None
    with r listed show ?thesis by (simp add: automatic_def) blast
  next
    case (Some p)
    obtain inc b where p: "p = (inc, b)" by fastforce
    show ?thesis
    proof (cases b)
      case True
      with r Some p mem [of inc] listed show ?thesis by (simp add: automatic_def) blast
    next
      case False
      with r Some p mem [of inc] show ?thesis by (simp add: automatic_def)
    qed
  qed
qed

definition old_incident :: incident where
  "old_incident = sample_incident\<lparr>inc_meta := (inc_meta sample_incident)\<lparr>om_labels :=
       [(LabelIncidentFingerprint, incidentFingerprint sample_ref)]\<rparr>,
     inc_status := (inc_status sample_incident)\<lparr>int_state := IncidentStateResolved, int_resolvedAt := Some (100 * second)\<rparr>\<rparr>"

theorem reuse_policy_witness:
  "findReusableIncident sample_correlator ''kubechan'' sample_ref (3600 * second) (empty_mem\<lparr>m_incidents := [old_incident]\<rparr>) =
     Inr (Some (old_incident, True)) \<and> inc_resolved old_incident"
proof -
  let ?w = "empty_mem\<lparr>m_incidents := [old_incident]\<rparr>"
  have cl: "cr_client sample_correlator = mem_client" by (simp add: sample_correlator_def)
  have o: "om_labels (inc_meta old_incident) = [(LabelIncidentFingerprint, incidentFingerprint sample_ref)]"
    "inc_namespace old_incident = ''kubechan''" "inc_state old_incident = IncidentStateResolved"
    "int_resolvedAt (inc_status old_incident) = Some (100 * second)" "ins_source (inc_spec old_incident) = ''auto''"
    by (simp_all add: old_incident_def sample_incident_def)
  have run: "findReusableIncident sample_correlator ''kubechan'' sample_ref (3600 * second) ?w = Inr (Some (old_incident, True))"
    using o by (simp add: findReusableIncident_def cl mem_client_def mem_kind_def selector_matches_def empty_mem_def
        sort_slice_def time_sub_def min_int64_def max_int64_def recurrence_window_def defaultRecurrenceWindow_def
        sample_correlator_def)
  from reuse_policy [where r = sample_correlator and view = mem_view, unfolded cl, OF mem_client_faithful _ run] run
  show ?thesis by simp
qed

text \<open>
  Reopening an Incident whose stored state is the one that was found makes it open again: no
  resolution time, one more occurrence and at least two, last seen now; nothing else changes.
\<close>

theorem reopen_incident_outcome:
  assumes "faithful_client (cr_client r) view" and "st_incidents (view w) (meta_key (inc_meta inc)) = Some inc"
    and "int_occurrenceCount (inc_status inc) < max_int64" and "min_int64 \<le> int_occurrenceCount (inc_status inc)"
  shows "case reopenIncident r inc now w of
      (Inl e, w') \<Rightarrow> view w' = view w
    | (Inr inc', w') \<Rightarrow> view w' = (view w)\<lparr>st_incidents := (st_incidents (view w))(meta_key (inc_meta inc) \<mapsto> inc')\<rparr> \<and>
        inc' = inc\<lparr>inc_status := (inc_status inc)\<lparr>int_state := IncidentStateOpen, int_resolvedAt := None,
          int_occurrenceCount := max 2 (int_occurrenceCount (inc_status inc) + 1),
          int_lastOccurrenceAt := Some (metav1_now now)\<rparr>\<rparr>"
proof -
  have n: "wrap64 (int_occurrenceCount (inc_status inc) + 1) = int_occurrenceCount (inc_status inc) + 1"
    using assms(3,4) by (intro wrap64_id) (simp add: in_int64_def)
  have x: "reopened (metav1_now now) inc = inc\<lparr>inc_status := (inc_status inc)\<lparr>int_state := IncidentStateOpen, int_resolvedAt := None,
          int_occurrenceCount := max 2 (int_occurrenceCount (inc_status inc) + 1), int_lastOccurrenceAt := Some (metav1_now now)\<rparr>\<rparr>"
    by (simp add: reopened_def n Let_def max_def)
  from faithful_inc [OF assms(1)] assms(2) show ?thesis
    by (rule status_patch_outcome [where x = "reopened (metav1_now now) inc"])
      (auto simp: reopenIncident_def x [symmetric])
qed

theorem reopen_incident_outcome_witness:
  "\<exists>inc' w'. reopenIncident sample_correlator old_incident (200 * second) (empty_mem\<lparr>m_incidents := [old_incident]\<rparr>) = (Inr inc', w') \<and>
     inc_state inc' = IncidentStateOpen \<and> int_occurrenceCount (inc_status inc') = 2"
proof -
  let ?w = "empty_mem\<lparr>m_incidents := [old_incident]\<rparr>"
  have cl: "cr_client sample_correlator = mem_client" by (simp add: sample_correlator_def)
  have st: "st_incidents (mem_view ?w) (meta_key (inc_meta old_incident)) = Some old_incident"
    by (simp add: mem_view_def tab_find_def)
  have n: "int_occurrenceCount (inc_status old_incident) = 1"
    by (simp add: old_incident_def sample_incident_def started_def)
  have "\<not> isl (fst (reopenIncident sample_correlator old_incident (200 * second) ?w))"
    by (simp add: reopenIncident_def cl mem_client_def mem_kind_def tab_find_def Let_def)
  then obtain inc' w' where run: "reopenIncident sample_correlator old_incident (200 * second) ?w = (Inr inc', w')"
    by (metis isl_def prod.collapse sum.exhaust_sel)
  with reopen_incident_outcome [where r = sample_correlator and view = mem_view, unfolded cl, OF mem_client_faithful st, of "200 * second"] n
  show ?thesis by (simp add: max_int64_def min_int64_def)
qed


lemma sample_owners_ranked: "owners_ranked mem_client case_world"
  by (simp add: owners_ranked_def mem_client_def case_world_def empty_mem_def)


text \<open>
  Resources that are controlled, directly or through other controllers, by the same workload
  have the same root, so their ProblemCases get the same fingerprint and meet in one Incident.
\<close>

theorem same_controller_same_root:
  assumes "owners_ranked c w" and "(controlled_by c w)\<^sup>*\<^sup>* a top_ref" and "(controlled_by c w)\<^sup>*\<^sup>* b top_ref"
  shows "findRootResource 5 c a w = findRootResource 5 c b w"
  using findRootResource_same [OF assms(1,2)] findRootResource_same [OF assms(1,3)] by simp

definition owned_pod :: "string \<Rightarrow> pod" where
  "owned_pod name = \<lparr>pod_meta = empty_meta\<lparr>om_kind := ''Pod'', om_name := name, om_namespace := ''shop'',
       om_owners := [\<lparr>or_apiVersion = ''apps/v1'', or_kind = ''StatefulSet'', or_name = ''db'', or_controller = Some True\<rparr>]\<rparr>,
     pod_phase = ''Running'', pod_containerStatuses = [], pod_initContainerStatuses = []\<rparr>"

theorem same_controller_same_root_witness:
  "findRootResource 5 mem_client (mk_ref ''shop'' ''Pod'' ''db-0'') (empty_mem\<lparr>m_pods := [owned_pod ''db-0'', owned_pod ''db-1'']\<rparr>) =
   findRootResource 5 mem_client (mk_ref ''shop'' ''Pod'' ''db-1'') (empty_mem\<lparr>m_pods := [owned_pod ''db-0'', owned_pod ''db-1'']\<rparr>)"
proof -
  let ?w = "empty_mem\<lparr>m_pods := [owned_pod ''db-0'', owned_pod ''db-1'']\<rparr>"
  let ?meta = "\<lambda>n. pod_meta (owned_pod n)"
  have get: "c_unstructured mem_client ([], ''v1'', ''Pod'') ''shop'' n ?w = Inr (?meta n)" if "n \<in> {''db-0'', ''db-1''}" for n
    using that by (auto simp: mem_client_def owned_pod_def empty_mem_def)
  have up: "controlled_by mem_client ?w (mk_ref ''shop'' ''Pod'' n) (mk_ref ''shop'' ''StatefulSet'' ''db'')"
    if "n \<in> {''db-0'', ''db-1''}" for n
  proof -
    let ?owner = "\<lparr>or_apiVersion = ''apps/v1'', or_kind = ''StatefulSet'', or_name = ''db'', or_controller = Some True\<rparr>"
    have "controlled_by mem_client ?w (mk_ref ''shop'' ''Pod'' n)
        (mk_ref (rr_namespace (mk_ref ''shop'' ''Pod'' n)) (or_kind ?owner) (or_name ?owner))"
      by (rule step_up [where gvk = "([], ''v1'', ''Pod'')" and obj = "?meta n"])
        (simp_all add: get [OF that] kindToGVK_def controller_of_def, simp add: owned_pod_def)
    then show ?thesis by simp
  qed
  have "owners_ranked mem_client ?w"
    by (auto simp: owners_ranked_def mem_client_def empty_mem_def owned_pod_def controller_of_def kind_rank_def kindToGVK_def
        split: if_splits option.splits)
  then show ?thesis
    by (rule same_controller_same_root [where top_ref = "mk_ref ''shop'' ''StatefulSet'' ''db''"])
      (simp_all add: up r_into_rtranclp)
qed

text \<open>
  Creating an Incident panics on a division by zero when the configured recurrence window is
  shorter than a second. An Incident that is created is stored under a free name, open, with one occurrence, for
  the given root; a name that is already taken gives the stored Incident as it is, in whatever state.
\<close>

theorem create_incident_outcome:
  assumes "faithful_client (cr_client r) view"
  shows "(\<bar>recurrence_window r\<bar> < second \<longrightarrow>
      createIncident r ns root now w = (Inl (Panicked ''integer divide by zero''), w)) \<and>
    (case createIncident r ns root now w of
      (Inl e, w') \<Rightarrow> True
    | (Inr inc, w') \<Rightarrow> st_incidents (view w') (meta_key (inc_meta inc)) = Some inc \<and>
        (\<forall>k. k \<noteq> meta_key (inc_meta inc) \<longrightarrow> st_incidents (view w') k = st_incidents (view w) k) \<and>
        (st_incidents (view w) (meta_key (inc_meta inc)) = Some inc \<or>
         st_incidents (view w) (meta_key (inc_meta inc)) = None \<and> inc_state inc = IncidentStateOpen \<and>
         ins_rootResource (inc_spec inc) = root \<and> int_occurrenceCount (inc_status inc) = 1))"
proof -
  have small: "go_quot d second = 0" if "\<bar>d\<bar> < second" for d
    using that by (simp add: go_quot_def)
  have stored: "st_incidents (view w) (meta_key (inc_meta inc)) = Some inc \<or>
         st_incidents (view w) (meta_key (inc_meta inc)) = None \<and> inc_state inc = IncidentStateOpen \<and>
         ins_rootResource (inc_spec inc) = root \<and> int_occurrenceCount (inc_status inc) = 1"
    if run: "createIncident r ns root now w = (Inr inc, w')" for inc w'
  proof -
    let ?new = "new_incident ns root (go_quot (unix (metav1_now now)) (go_quot (recurrence_window r) second))"
    from faithful_inc [OF assms] show ?thesis
    proof (cases rule: create_outcome [where x = ?new and w = w])
      case (1 e w1)
      with run have "api_get (c_incidents (cr_client r)) ns (inc_name ?new) w1 = Inr inc"
        by (auto simp: createIncident_def Let_def split: if_splits sum.splits)
      with kind_laws_get [OF faithful_inc [OF assms]] have "incidents view w1 (ns, inc_name ?new) = Some inc" by blast
      with inc_key [OF assms this] 1(2) show ?thesis by simp
    next
      case (2 inc' w1)
      then have "api_status_patch (c_incidents (cr_client r)) inc' (started (metav1_now now) inc') w1 = (Inr inc, w')"
        using run by (auto simp: createIncident_def Let_def split: if_splits)
      from incident_status_written(2) [OF assms _ _ _ this] 2(7) have "inc = started (metav1_now now) inc'" by simp
      with 2(2,6) show ?thesis by (simp add: inc_sent_def new_incident_def started_def)
    qed
  qed
  have panic: "createIncident r ns root now w = (Inl (Panicked ''integer divide by zero''), w)" if "\<bar>recurrence_window r\<bar> < second"
    using small [OF that] by (simp add: createIncident_def Let_def)
  show ?thesis
    using panic stored createIncident_stored [OF assms, of ns root now w]
    by (auto dest: only_incident_other split: prod.splits sum.splits)
qed

theorem create_incident_outcome_witness:
  "createIncident (sample_correlator\<lparr>cr_recurrenceWindow := 500000000\<rparr>) ''kubechan'' sample_ref 0 empty_mem =
     (Inl (Panicked ''integer divide by zero''), empty_mem)"
proof -
  have "faithful_client (cr_client (sample_correlator\<lparr>cr_recurrenceWindow := 500000000\<rparr>)) mem_view"
    by (simp add: sample_correlator_def mem_client_faithful)
  from create_incident_outcome [OF this, of "''kubechan''" sample_ref 0 empty_mem] show ?thesis
    by (simp add: recurrence_window_def)
qed

end
