(* ===== verification/Exclusion_Rule_Reconciler.thy ===== *)
theory Exclusion_Rule_Reconciler
  imports Exclusion Correlation
begin

text \<open>
  \<open>ExclusionRuleReconciler\<close> of \<open>cluster-watcher/controllers/exclusionrule_reconciler.go\<close>: when a rule
  is created or changed, the open automatic Incidents it covers are resolved together with their
  ProblemCases. It has its own matching of incidents and its own reading of time windows, which are
  compared here with those of the matcher in \<open>Exclusion\<close>. The result is the error or the requeue
  delay; \<open>tm i\<close> is the clock reading for the \<open>i\<close>-th incident and \<open>tlast\<close> the last one.
\<close>

section \<open>Time windows\<close>

text \<open>\<open>int(s[i]-'0')\<close>: the subtraction is one of bytes and wraps.\<close>

definition digit_byte :: "char \<Rightarrow> int" where
  "digit_byte c = (int (of_char c) - 48) mod 256"

definition parseHHMM :: "string \<Rightarrow> int \<times> int" where
  "parseHHMM s = (if length s = 5 \<and> s ! 2 = CHR '':''
     then (digit_byte (s ! 0) * 10 + digit_byte (s ! 1), digit_byte (s ! 3) * 10 + digit_byte (s ! 4))
     else (0, 0))"

text \<open>
  \<open>time.Date\<close> with hour and minute on the calendar day of \<open>ref\<close>: the civil time is normalised, and
  the offset is looked up at the civil time and, with that, at the instant it gives.
\<close>

definition civil_to_unix :: "location \<Rightarrow> int \<Rightarrow> int" where
  "civil_to_unix loc u = u - loc (u - loc u)"

definition parseDayTime :: "time \<Rightarrow> string \<Rightarrow> location \<Rightarrow> time" where
  "parseDayTime ref hm loc = (let (h, m) = parseHHMM hm; day = local_secs loc ref div 86400 * 86400
     in civil_to_unix loc (day + h * 3600 + m * 60) * second)"

definition isWindowActive :: "tz_database \<Rightarrow> exclusion_time_window \<Rightarrow> time \<Rightarrow> bool \<times> duration" where
  "isWindowActive tz tw now =
     (let loc = (case tz (xw_timezone tw) of None \<Rightarrow> (\<lambda>_. 0) | Some l \<Rightarrow> l);
          weekday = day_name (local_secs loc now)
      in if list_ex (\<lambda>p. list_ex (\<lambda>d. d = weekday \<and>
           (let start = parseDayTime now (xp_start p) loc;
                fin = parseDayTime now (xp_end p) loc;
                fin' = (if fin < start then fin + 24 * hour else fin)
            in \<not> now < start \<and> now < fin')) (xp_days p)) (xw_periods tw)
         then (True, 0) else (False, 5 * minute))"

section \<open>Matching incidents\<close>

definition kindMatches :: "string \<Rightarrow> string \<Rightarrow> bool" where
  "kindMatches a b = (if length a \<noteq> length b then False
     else list_all (\<lambda>(ca, cb). char_lower ca = char_lower cb) (zip a b))"

definition resourceRefMatchesAny :: "resource_ref \<Rightarrow> resource_ref list \<Rightarrow> bool" where
  "resourceRefMatchesAny ref targets = list_ex (\<lambda>t. kindMatches (rr_kind ref) (rr_kind t) \<and>
     \<not> (rr_name t \<noteq> [] \<and> rr_name t \<noteq> rr_name ref) \<and>
     \<not> (rr_namespace t \<noteq> [] \<and> rr_namespace t \<noteq> rr_namespace ref)) targets"

definition incidentMatchesRule :: "incident \<Rightarrow> exclusion_rule \<Rightarrow> bool" where
  "incidentMatchesRule inc rule =
     (let spec = rule_spec rule; root = ins_rootResource (inc_spec inc)
      in if xr_namespace spec \<noteq> [] \<and> xr_namespace spec \<noteq> rr_namespace root then False
         else if xr_targetResources spec \<noteq> [] then resourceRefMatchesAny root (xr_targetResources spec)
         else if xr_selector spec = None then xr_namespace spec \<noteq> []
         else True)"

section \<open>Resolving\<close>

fun resolve_members :: "'w client \<Rightarrow> string \<Rightarrow> string list \<Rightarrow> time \<Rightarrow> 'w \<Rightarrow> go_error option \<times> 'w" where
  "resolve_members c ns [] now w = (None, w)"
| "resolve_members c ns (pcName # names) now w =
     (case api_get (c_problemCases c) ns pcName w of
        Inl err \<Rightarrow> resolve_members c ns names now w
      | Inr pc \<Rightarrow>
          if pc_state pc = ProblemCaseStateResolved then resolve_members c ns names now w
          else (case api_status_patch (c_problemCases c) pc
              (pc\<lparr>pc_status := (pc_status pc)\<lparr>pct_state := ProblemCaseStateResolved, pct_resolvedAt := Some now\<rparr>\<rparr>) w of
              (Inl err, w1) \<Rightarrow> (Some err, w1)
            | (Inr _, w1) \<Rightarrow> resolve_members c ns names now w1))"

definition ended :: "time \<Rightarrow> incident \<Rightarrow> incident" where
  "ended now inc = inc\<lparr>inc_status := (inc_status inc)\<lparr>int_state := IncidentStateResolved, int_resolvedAt := Some now,
     int_activeProblemCases := 0\<rparr>\<rparr>"

definition resolveIncident :: "'w client \<Rightarrow> incident \<Rightarrow> time \<Rightarrow> 'w \<Rightarrow> go_error option \<times> 'w" where
  "resolveIncident c inc now w =
     (let now' = metav1_now now
      in case resolve_members c (inc_namespace inc) (inc_members inc) now' w of
           (Some err, w1) \<Rightarrow> (Some err, w1)
         | (None, w1) \<Rightarrow> err_of (api_status_patch (c_incidents c) inc (ended now' inc) w1))"

text \<open>The loop over the listed incidents, with the number of incidents resolved so far.\<close>

fun resolve_matching ::
  "'w client \<Rightarrow> exclusion_rule \<Rightarrow> (nat \<Rightarrow> time) \<Rightarrow> nat \<Rightarrow> incident list \<Rightarrow> int \<Rightarrow> 'w \<Rightarrow> int \<times> 'w" where
  "resolve_matching c rule tm i [] resolved w = (resolved, w)"
| "resolve_matching c rule tm i (inc # incs) resolved w =
     (if inc_state inc = IncidentStateResolved then resolve_matching c rule tm (Suc i) incs resolved w
      else if ins_source (inc_spec inc) = ''manual'' then resolve_matching c rule tm (Suc i) incs resolved w
      else if incidentMatchesRule inc rule then
        (case resolveIncident c inc (tm i) w of
           (Some err, w1) \<Rightarrow> resolve_matching c rule tm (Suc i) incs resolved w1
         | (None, w1) \<Rightarrow> resolve_matching c rule tm (Suc i) incs (resolved + 1) w1)
      else resolve_matching c rule tm (Suc i) incs resolved w)"

definition suppress :: "'w client \<Rightarrow> exclusion_rule \<Rightarrow> int \<Rightarrow> time \<Rightarrow> 'w \<Rightarrow> 'w" where
  "suppress c rule resolved now w = (if resolved > 0
     then snd (api_status_patch (c_rules c) rule (rule\<lparr>rule_status := \<lparr>xt_lastMatchedAt = Some (metav1_now now),
       xt_suppressedCount = wrap64 (xt_suppressedCount (rule_status rule) + resolved)\<rparr>\<rparr>) w)
     else w)"

definition ExclusionRuleReconciler_Reconcile ::
  "tz_database \<Rightarrow> 'w client \<Rightarrow> string \<Rightarrow> namespaced_name \<Rightarrow> time \<Rightarrow> (nat \<Rightarrow> time) \<Rightarrow> time \<Rightarrow> 'w \<Rightarrow>
   (go_error + duration) \<times> 'w" where
  "ExclusionRuleReconciler_Reconcile tz c controlNS req t0 tm tlast w =
     (case api_get (c_rules c) (fst req) (snd req) w of
        Inl err \<Rightarrow> (case ignore_not_found err of None \<Rightarrow> (Inr 0, w) | Some e \<Rightarrow> (Inl e, w))
      | Inr rule \<Rightarrow>
          if \<not> xr_enabled (rule_spec rule) then (Inr 0, w)
          else
            (let (active, requeueIn) = (case xr_timeWindow (rule_spec rule) of
                   None \<Rightarrow> (True, 0) | Some tw \<Rightarrow> isWindowActive tz tw t0)
             in if \<not> active then (Inr (if requeueIn > 0 then requeueIn else 0), w)
                else (case api_list (c_incidents c) controlNS [] w of
                    Inl err \<Rightarrow> (Inl err, w)
                  | Inr incs \<Rightarrow>
                      (case resolve_matching c rule tm 0 incs 0 w of
                         (resolved, w1) \<Rightarrow> (Inr 0, suppress c rule resolved tlast w1)))))"

section \<open>Agreement of the two readings of a time window\<close>

lemma digit_byte_char: "d < 10 \<Longrightarrow> digit_byte (digit_char d) = int d"
  by (simp add: digit_byte_def digit_char_def of_char_mod_256)

lemma parseHHMM_clock_string:
  assumes "h < 100" and "m < 100"
  shows "parseHHMM (clock_string h m) = (int h, int m)"
proof -
  have "int (n div 10) * 10 + int (n mod 10) = int n" for n
    by (simp add: zdiv_int zmod_int)
  with assms show ?thesis by (simp add: parseHHMM_def clock_string_def digit_byte_char)
qed

lemma kindMatches_iff: "kindMatches a b \<longleftrightarrow> to_lower a = to_lower b"
proof
  show "kindMatches a b \<Longrightarrow> to_lower a = to_lower b"
    by (auto simp: kindMatches_def to_lower_def list_eq_iff_nth_eq list_all_length split: if_splits)
  assume eq: "to_lower a = to_lower b"
  then have "length a = length b" by (metis length_to_lower)
  moreover from eq have "char_lower (a ! i) = char_lower (b ! i)" if "i < length a" for i
    using that by (metis calculation nth_map to_lower_def)
  ultimately show "kindMatches a b" by (simp add: kindMatches_def list_all_length)
qed

lemma fixed_offset_before:
  assumes "0 \<le> hm" and "hm \<le> 1440"
  shows "now < civil_to_unix (\<lambda>_. off) (local_secs (\<lambda>_. off) now div 86400 * 86400 + hm * 60) * second \<longleftrightarrow>
    minute_of_day (local_secs (\<lambda>_. off) now) < hm"
proof -
  let ?s = "local_secs (\<lambda>_. off) now"
  have s: "?s = now div second + off" by (simp add: local_secs_def unix_def)
  have "now < (?s div 86400 * 86400 + hm * 60 - off) * second \<longleftrightarrow> now div second < ?s div 86400 * 86400 + hm * 60 - off"
    by (rule int_div_less_iff [symmetric]) simp
  also have "\<dots> \<longleftrightarrow> ?s - ?s div 86400 * 86400 < hm * 60" using s by linarith
  also have "\<dots> \<longleftrightarrow> ?s mod 86400 < hm * 60" by (simp add: minus_div_mult_eq_mod)
  also have "\<dots> \<longleftrightarrow> ?s mod 86400 div 60 < hm" by (rule int_div_less_iff [symmetric]) simp
  finally show ?thesis by (simp add: civil_to_unix_def minute_of_day_div)
qed

section \<open>What the operations change\<close>

lemma resolve_members_effect:
  assumes fc: "faithful_client c view"
  shows "resolve_members c ns names now w = (r, w') \<Longrightarrow>
    \<exists>t. view w' = (view w)\<lparr>st_problemCases := t\<rparr> \<and>
      (\<forall>k. t k = cases view w k \<or> k \<in> Pair ns ` set names \<and>
        (\<exists>pc. cases view w k = Some pc \<and> \<not> pc_resolved pc \<and> t k = Some (closed now pc)))"
proof (induction names arbitrary: w)
  case Nil
  then show ?case by (intro exI [of _ "cases view w"]) simp
next
  case (Cons name names)
  show ?case
  proof (cases "api_get (c_problemCases c) ns name w")
    case (Inl e)
    with Cons show ?thesis by fastforce
  next
    case (Inr pc)
    have st: "cases view w (ns, name) = Some pc" by (rule kind_laws_get [OF faithful_pc [OF fc] Inr])
    have key: "meta_key (pc_meta pc) = (ns, name)" by (rule pc_key [OF fc st])
    show ?thesis
    proof (cases "pc_resolved pc")
      case True
      with Cons Inr show ?thesis by (fastforce simp: pc_resolved_def)
    next
      case open_pc: False
      show ?thesis
        using faithful_pc [OF fc] st [folded key]
      proof (rule status_patch_outcome [where x = "closed now pc"])
        fix e w1 assume "api_status_patch (c_problemCases c) pc (closed now pc) w = (Inl e, w1)" "view w1 = view w"
        with Cons.prems Inr open_pc show ?thesis
          by (intro exI [of _ "cases view w"]) (simp add: pc_resolved_def closed_def)
      next
        fix x' w1 assume p: "api_status_patch (c_problemCases c) pc (closed now pc) w = (Inr x', w1)"
          "x' = closed now pc \<or> x' = pc_dflt (closed now pc)"
          "view w1 = st_problemCases_update (\<lambda>m. m(meta_key (pc_meta pc) \<mapsto> x')) (view w)"
        then have v: "view w1 = (view w)\<lparr>st_problemCases := (cases view w)((ns, name) \<mapsto> closed now pc)\<rparr>"
          using key by auto
        have "resolve_members c ns names now w1 = (r, w')"
          using Cons.prems Inr open_pc p(1) by (simp add: pc_resolved_def closed_def)
        from Cons.IH [OF this] obtain t where t: "view w' = (view w1)\<lparr>st_problemCases := t\<rparr>"
          "\<forall>k. t k = cases view w1 k \<or> k \<in> Pair ns ` set names \<and>
             (\<exists>pc. cases view w1 k = Some pc \<and> \<not> pc_resolved pc \<and> t k = Some (closed now pc))" by blast
        have "t k = cases view w k \<or> k \<in> Pair ns ` set (name # names) \<and>
            (\<exists>pc. cases view w k = Some pc \<and> \<not> pc_resolved pc \<and> t k = Some (closed now pc))" for k
          using t(2) [rule_format, of k] v st open_pc by (cases "k = (ns, name)") auto
        with t(1) v show ?thesis by (intro exI [of _ t]) simp
      qed simp_all
    qed
  qed
qed

lemma ended_sel [simp]: "inc_meta (ended now inc) = inc_meta inc" "inc_spec (ended now inc) = inc_spec inc"
  "inc_resolved (ended now inc)" "inc_dflt (ended now inc) = ended now inc"
  by (simp_all add: ended_def inc_resolved_def inc_dflt_def state_consts)

text \<open>The effect of resolving one incident, successful or not.\<close>

lemma resolveIncident_effect:
  assumes fc: "faithful_client c view" and st: "incidents view w (meta_key (inc_meta inc)) = Some inc"
    and run: "resolveIncident c inc now w = (r, w')"
  shows "st_rules (view w') = st_rules (view w)"
    and "incidents view w' = (if r = None then (incidents view w)(meta_key (inc_meta inc) \<mapsto> ended (metav1_now now) inc)
      else incidents view w)"
    and "cases view w' k = cases view w k \<or> k \<in> Pair (inc_namespace inc) ` set (inc_members inc) \<and>
      (\<exists>pc. cases view w k = Some pc \<and> \<not> pc_resolved pc \<and> cases view w' k = Some (closed (metav1_now now) pc))"
proof -
  obtain r1 w1 where m: "resolve_members c (inc_namespace inc) (inc_members inc) (metav1_now now) w = (r1, w1)" by fastforce
  obtain t where v1: "view w1 = (view w)\<lparr>st_problemCases := t\<rparr>" and t: "\<And>k. t k = cases view w k \<or>
      k \<in> Pair (inc_namespace inc) ` set (inc_members inc) \<and>
      (\<exists>pc. cases view w k = Some pc \<and> \<not> pc_resolved pc \<and> t k = Some (closed (metav1_now now) pc))"
    using resolve_members_effect [OF fc m] by blast
  have st1: "incidents view w1 (meta_key (inc_meta inc)) = Some inc" using st v1 by simp
  have "view w' = (if r = None then (view w1)\<lparr>st_incidents := (incidents view w1)(meta_key (inc_meta inc) \<mapsto>
      ended (metav1_now now) inc)\<rparr> else view w1)"
  proof (cases r1)
    case (Some e)
    with m run show ?thesis by (auto simp: resolveIncident_def)
  next
    case None
    with m run have e: "err_of (api_status_patch (c_incidents c) inc (ended (metav1_now now) inc) w1) = (r, w')"
      by (simp add: resolveIncident_def)
    from faithful_inc [OF fc] st1 show ?thesis
      by (rule status_patch_outcome [where x = "ended (metav1_now now) inc"]) (use e in \<open>auto simp: err_of_def\<close>)
  qed
  with v1 t show "st_rules (view w') = st_rules (view w)"
    "incidents view w' = (if r = None then (incidents view w)(meta_key (inc_meta inc) \<mapsto> ended (metav1_now now) inc)
      else incidents view w)"
    "cases view w' k = cases view w k \<or> k \<in> Pair (inc_namespace inc) ` set (inc_members inc) \<and>
      (\<exists>pc. cases view w k = Some pc \<and> \<not> pc_resolved pc \<and> cases view w' k = Some (closed (metav1_now now) pc))"
    by auto
qed

definition rule_covers :: "exclusion_rule \<Rightarrow> incident \<Rightarrow> bool" where
  "rule_covers rule inc \<longleftrightarrow> \<not> inc_resolved inc \<and> automatic inc \<and> incidentMatchesRule inc rule"

lemma resolve_matching_step:
  "resolve_matching c rule tm i (inc # incs) n w = (if rule_covers rule inc
     then (case resolveIncident c inc (tm i) w of
         (Some err, w1) \<Rightarrow> resolve_matching c rule tm (Suc i) incs n w1
       | (None, w1) \<Rightarrow> resolve_matching c rule tm (Suc i) incs (n + 1) w1)
     else resolve_matching c rule tm (Suc i) incs n w)"
  by (simp add: rule_covers_def inc_resolved_def automatic_def)

declare resolve_matching.simps(2) [simp del]

abbreviation ikey :: "incident \<Rightarrow> namespaced_name" where "ikey inc \<equiv> meta_key (inc_meta inc)"

text \<open>What may differ between two stores when incidents of \<open>incs\<close> have been resolved.\<close>

definition resolves_some :: "exclusion_rule \<Rightarrow> incident list \<Rightarrow> store \<Rightarrow> store \<Rightarrow> bool" where
  "resolves_some rule incs s s' \<longleftrightarrow> st_rules s' = st_rules s \<and>
     (\<forall>k. st_incidents s' k = st_incidents s k \<or>
       (\<exists>inc t. inc \<in> set incs \<and> rule_covers rule inc \<and> k = ikey inc \<and> st_incidents s' k = Some (ended t inc))) \<and>
     (\<forall>k. st_problemCases s' k = st_problemCases s k \<or>
       (\<exists>inc pc t. inc \<in> set incs \<and> rule_covers rule inc \<and> k \<in> Pair (inc_namespace inc) ` set (inc_members inc) \<and>
         st_problemCases s k = Some pc \<and> \<not> pc_resolved pc \<and> st_problemCases s' k = Some (closed t pc)))"

lemma resolves_some_refl [simp]: "resolves_some rule incs s s"
  by (simp add: resolves_some_def)

lemma resolves_some_step:
  assumes "st_rules s1 = st_rules s"
    and "st_incidents s1 = (st_incidents s)(ikey inc \<mapsto> ended t inc) \<or> st_incidents s1 = st_incidents s"
    and cases: "\<And>k. st_problemCases s1 k = st_problemCases s k \<or> k \<in> Pair (inc_namespace inc) ` set (inc_members inc) \<and>
      (\<exists>pc. st_problemCases s k = Some pc \<and> \<not> pc_resolved pc \<and> st_problemCases s1 k = Some (closed t pc))"
    and "rule_covers rule inc" and rest: "resolves_some rule incs s1 s'" and "ikey inc \<notin> ikey ` set incs"
  shows "resolves_some rule (inc # incs) s s'"
  unfolding resolves_some_def
proof (intro conjI allI)
  show "st_rules s' = st_rules s" using assms(1) rest by (simp add: resolves_some_def)
  fix k
  consider "st_incidents s' k = st_incidents s1 k"
    | i u where "i \<in> set incs" "rule_covers rule i" "k = ikey i" "st_incidents s' k = Some (ended u i)"
    using rest unfolding resolves_some_def by blast
  then show "st_incidents s' k = st_incidents s k \<or> (\<exists>i u. i \<in> set (inc # incs) \<and> rule_covers rule i \<and> k = ikey i \<and>
      st_incidents s' k = Some (ended u i))"
  proof cases
    case 1
    from assms(2) show ?thesis
    proof
      assume "st_incidents s1 = (st_incidents s)(ikey inc \<mapsto> ended t inc)"
      with 1 have "st_incidents s' k = (if k = ikey inc then Some (ended t inc) else st_incidents s k)" by simp
      with assms(4) show ?thesis by (metis list.set_intros(1))
    qed (use 1 in simp)
  next
    case (2 i u)
    then show ?thesis by auto
  qed
  consider "st_problemCases s' k = st_problemCases s1 k"
    | i pc u where "i \<in> set incs" "rule_covers rule i" "k \<in> Pair (inc_namespace i) ` set (inc_members i)"
      "st_problemCases s1 k = Some pc" "\<not> pc_resolved pc" "st_problemCases s' k = Some (closed u pc)"
    using rest unfolding resolves_some_def by blast
  then show "st_problemCases s' k = st_problemCases s k \<or> (\<exists>i pc u. i \<in> set (inc # incs) \<and> rule_covers rule i \<and>
      k \<in> Pair (inc_namespace i) ` set (inc_members i) \<and> st_problemCases s k = Some pc \<and> \<not> pc_resolved pc \<and>
      st_problemCases s' k = Some (closed u pc))"
  proof cases
    case 1
    with cases [of k] assms(4) show ?thesis by (metis list.set_intros(1))
  next
    case (2 i pc u)
    with cases [of k] have "st_problemCases s k = Some pc" by auto
    with 2 show ?thesis by (metis list.set_intros(2))
  qed
qed

lemma resolves_some_mono: "resolves_some rule incs s s' \<Longrightarrow> resolves_some rule (inc # incs) s s'"
  unfolding resolves_some_def by (metis list.set_intros(2))

lemma resolve_matching_effect:
  assumes fc: "faithful_client c view"
  shows "\<forall>inc \<in> set incs. incidents view w (ikey inc) = Some inc \<Longrightarrow> distinct (map ikey incs) \<Longrightarrow>
    resolve_matching c rule tm i incs n w = (n', w') \<Longrightarrow> resolves_some rule incs (view w) (view w')"
proof (induction incs arbitrary: i n w)
  case (Cons inc incs)
  show ?case
  proof (cases "rule_covers rule inc")
    case False
    with Cons show ?thesis by (simp add: resolve_matching_step resolves_some_mono)
  next
    case True
    obtain r w1 where r: "resolveIncident c inc (tm i) w = (r, w1)" by fastforce
    have st: "incidents view w (ikey inc) = Some inc" using Cons.prems(1) by simp
    note eff = resolveIncident_effect [OF fc st r]
    have nin: "ikey inc \<notin> ikey ` set incs" using Cons.prems(2) by auto
    have "incidents view w1 (ikey x) = Some x" if "x \<in> set incs" for x
    proof -
      have "ikey x \<noteq> ikey inc" using that nin by (metis imageI)
      with that Cons.prems(1) show ?thesis by (simp add: eff(2))
    qed
    then have "\<forall>x \<in> set incs. incidents view w1 (ikey x) = Some x" by blast
    moreover have "\<exists>m. resolve_matching c rule tm (Suc i) incs m w1 = (n', w')"
      using Cons.prems(3) True r by (auto simp: resolve_matching_step split: option.splits)
    ultimately have "resolves_some rule incs (view w1) (view w')"
      using Cons.IH Cons.prems(2) by auto
    with resolves_some_step [OF eff(1) _ eff(3) True _ nin] eff(2) show ?thesis by (auto split: if_splits)
  qed
qed simp

lemma suppress_frame:
  assumes fc: "faithful_client c view" and st: "st_rules (view w) (meta_key (rule_meta rule)) = Some rule"
  shows "incidents view (suppress c rule n now w) = incidents view w"
    and "cases view (suppress c rule n now w) = cases view w"
proof -
  have "incidents view (suppress c rule n now w) = incidents view w \<and> cases view (suppress c rule n now w) = cases view w"
    using faithful_rule [OF fc] st
    by (rule status_patch_outcome [where x = "rule\<lparr>rule_status := \<lparr>xt_lastMatchedAt = Some (metav1_now now),
        xt_suppressedCount = wrap64 (xt_suppressedCount (rule_status rule) + n)\<rparr>\<rparr>"])
      (simp_all add: suppress_def)
  then show "incidents view (suppress c rule n now w) = incidents view w"
    "cases view (suppress c rule n now w) = cases view w" by simp_all
qed

section \<open>Properties\<close>

lemma reconcile_effect:
  assumes fc: "faithful_client c view" and ns: "controlNS \<noteq> []" and g: "api_get (c_rules c) rns rn w = Inr rule"
    and reconcile: "ExclusionRuleReconciler_Reconcile tz c controlNS (rns, rn) t0 tm tlast w = (res, w')"
  shows "view w' = view w \<or> (\<exists>incs. xr_enabled (rule_spec rule) \<and>
    set incs = {inc. incidents view w (ikey inc) = Some inc \<and> inc_namespace inc = controlNS} \<and>
    (\<exists>s. resolves_some rule incs (view w) s \<and> st_incidents s = incidents view w' \<and> st_problemCases s = cases view w'))"
proof -
  obtain active q where a: "(case xr_timeWindow (rule_spec rule) of None \<Rightarrow> (True, 0)
      | Some tw \<Rightarrow> isWindowActive tz tw t0) = (active, q)" by fastforce
  consider (same) "w' = w"
    | (run) incs n w1 where "xr_enabled (rule_spec rule)" "api_list (c_incidents c) controlNS [] w = Inr incs"
      "resolve_matching c rule tm 0 incs 0 w = (n, w1)" "w' = suppress c rule n tlast w1"
    using g reconcile by (cases "api_list (c_incidents c) controlNS [] w")
      (auto simp: ExclusionRuleReconciler_Reconcile_def a split: if_splits prod.splits)
  then show ?thesis
  proof cases
    case run
    have set: "set incs = {inc. incidents view w (ikey inc) = Some inc \<and> inc_namespace inc = controlNS}"
      using kind_laws_list [OF faithful_inc [OF fc] run(2)] ns by (simp add: selector_matches_def)
    have dist: "distinct (map ikey incs)"
      using faithful_inc [OF fc] run(2) by (auto simp: kind_laws_def law_list_def)
    have eff: "resolves_some rule incs (view w) (view w1)"
      using resolve_matching_effect [OF fc _ dist run(3)] set by auto
    have st: "st_rules (view w) (meta_key (rule_meta rule)) = Some rule"
      using kind_laws_get [OF faithful_rule [OF fc] g] kind_laws_keyed [OF faithful_rule [OF fc]] by metis
    then have "st_rules (view w1) (meta_key (rule_meta rule)) = Some rule"
      using eff by (simp add: resolves_some_def)
    note sf = suppress_frame [OF fc this, of n tlast]
    have "st_incidents (view w1) = incidents view w'" "st_problemCases (view w1) = cases view w'"
      using sf run(4) by simp_all
    with eff set run(1) show ?thesis by blast
  qed simp
qed


definition covered_world :: mem where
  "covered_world = empty_mem\<lparr>m_incidents := [sample_incident], m_rules := [sample_rule]\<rparr>"

lemma sample_incident_facts:
  "ikey sample_incident = (''kubechan'', ''inc1'')" "inc_namespace sample_incident = ''kubechan''"
  "inc_state sample_incident = IncidentStateOpen" "ins_source (inc_spec sample_incident) = ''auto''"
  "ins_rootResource (inc_spec sample_incident) = sample_ref" "inc_members sample_incident = [''gone'']"
  by (simp_all add: sample_incident_def meta_key_def started_def)

lemma covered_run:
  "m_incidents (snd (ExclusionRuleReconciler_Reconcile (\<lambda>_. None) mem_client ''kubechan'' (''kubechan'', ''quiet'') 0 (\<lambda>_. 0) 0
     covered_world)) = [ended 0 sample_incident]"
proof -
  have g: "api_get (c_rules mem_client) ''kubechan'' ''quiet'' covered_world = Inr sample_rule"
    by (simp add: covered_world_def mem_eval sample_rule_def)
  have l: "api_list (c_incidents mem_client) ''kubechan'' [] covered_world = Inr [sample_incident]"
    by (simp add: covered_world_def mem_client_def mem_kind_def selector_matches_def sample_incident_facts)
  have m: "incidentMatchesRule sample_incident sample_rule"
    by (simp add: incidentMatchesRule_def sample_incident_facts sample_rule_def sample_ref_def Let_def
        resourceRefMatchesAny_def kindMatches_iff)
  have r: "resolveIncident mem_client sample_incident 0 covered_world =
      (None, covered_world\<lparr>m_incidents := [ended 0 sample_incident]\<rparr>)"
    by (simp add: resolveIncident_def sample_incident_facts Let_def metav1_now_def err_of_def mem_client_def mem_kind_def
        tab_find_def tab_put_def covered_world_def empty_mem_def ended_def)
  have "resolve_matching mem_client sample_rule (\<lambda>_. 0) 0 [sample_incident] 0 covered_world =
      (1, covered_world\<lparr>m_incidents := [ended 0 sample_incident]\<rparr>)"
    by (simp add: resolve_matching_step rule_covers_def inc_resolved_def automatic_def sample_incident_facts state_consts m r)
  then show ?thesis
    using g l by (simp add: ExclusionRuleReconciler_Reconcile_def suppress_def mem_client_def mem_kind_def Let_def
        tab_find_def covered_world_def sample_rule_def split: option.splits)
qed




text \<open>
  On a period that spans midnight they do not agree: on a listed day at two in the morning the
  matcher holds a window from 22:00 to 06:00 active and the reconciler does not.
\<close>

theorem time_windows_disagree_after_midnight:
  "let tw = \<lparr>xw_timezone = ''UTC'', xw_periods = [\<lparr>xp_start = ''22:00'', xp_end = ''06:00'', xp_days = [''Thu'']\<rparr>]\<rparr>
   in inTimeWindow (\<lambda>_. Some (\<lambda>_. 0)) tw (2 * hour) = Inr True \<and>
      isWindowActive (\<lambda>_. Some (\<lambda>_. 0)) tw (2 * hour) = (False, 5 * minute)"
proof -
  have c: "''22:00'' = clock_string 22 0" "''06:00'' = clock_string 6 0"
    by code_simp+
  show ?thesis
    unfolding c Let_def
    by (simp add: inTimeWindow_def isWindowActive_def period_active_def hhmm_clock_string Let_def local_secs_def unix_def
        day_name_def day_names_def minute_of_day_def parseDayTime_def parseHHMM_clock_string civil_to_unix_def)
qed

text \<open>
  The reconciler looks neither at the labels or kinds of a selector nor at the detectors of a
  rule: a rule without a namespace and without targets that has any selector covers every unresolved
  automatic Incident, while a rule with targets covers exactly the Incidents whose root matches one
  of them, with kinds compared regardless of letter case.
\<close>

theorem selector_rule_covers_every_incident:
  assumes "xr_namespace (rule_spec rule) = []"
  shows "(xr_targetResources (rule_spec rule) = [] \<and> xr_selector (rule_spec rule) = Some sel \<longrightarrow>
      rule_covers rule inc = (\<not> inc_resolved inc \<and> ins_source (inc_spec inc) \<noteq> ''manual'')) \<and>
    (xr_targetResources (rule_spec rule) \<noteq> [] \<longrightarrow>
      incidentMatchesRule inc rule = (\<exists>t. t \<in> set (xr_targetResources (rule_spec rule)) \<and>
        to_lower (rr_kind t) = to_lower (rr_kind (ins_rootResource (inc_spec inc))) \<and>
        (rr_name t = [] \<or> rr_name t = rr_name (ins_rootResource (inc_spec inc))) \<and>
        (rr_namespace t = [] \<or> rr_namespace t = rr_namespace (ins_rootResource (inc_spec inc)))))"
proof -
  have "kindMatches (rr_kind root) (rr_kind t) \<longleftrightarrow> to_lower (rr_kind t) = to_lower (rr_kind root)" for root t
    by (auto simp: kindMatches_iff)
  with assms show ?thesis
    by (simp add: rule_covers_def incidentMatchesRule_def automatic_def Let_def resourceRefMatchesAny_def list_ex_iff)
      blast
qed

theorem selector_rule_covers_every_incident_witness:
  "rule_covers (sample_rule\<lparr>rule_spec := (rule_spec sample_rule)\<lparr>xr_detectors := [''PendingTooLong''], xr_targetResources := [],
     xr_selector := Some \<lparr>xs_namespace = ''other'', xs_kinds = [''Service''], xs_matchLabels = [(''team'', ''x'')]\<rparr>\<rparr>\<rparr>) sample_incident"
  (is "rule_covers ?rule _")
proof -
  have "xr_namespace (rule_spec ?rule) = []" by (simp add: sample_rule_def)
  from selector_rule_covers_every_incident [OF this] show ?thesis
    by (auto simp: inc_resolved_def sample_incident_facts state_consts)
qed

end
