(* ===== verification/Watcher_Main.thy ===== *)
theory Watcher_Main
  imports Problem_Case_Reconciler Watcher_Config Exclusion_Rule_Reconciler
begin

text \<open>
  \<open>cluster-watcher/main.go\<close>: the settings from the environment, the detectors and the reconcilers that share them. The manager,
  its health checks and the registration of the reconcilers with it are the controller-runtime library.
\<close>

section \<open>The environment\<close>

definition envDuration :: "string \<Rightarrow> int \<Rightarrow> duration" where
  "envDuration v defaultSecs = (if v = [] then defaultSecs
     else (case parse_int64 v of None \<Rightarrow> defaultSecs | Some n \<Rightarrow> if n \<le> 0 then defaultSecs else n))"

record watcher_env =
  we_debounceWindowSecs :: string
  we_pendingThresholdSecs :: string
  we_unavailableThresholdSecs :: string
  we_recurrenceWindowSecs :: string
  we_backendURL :: string
  we_controlNamespace :: string

definition env_seconds :: "string \<Rightarrow> int \<Rightarrow> duration" where
  "env_seconds v defaultSecs = wrap64 (envDuration v defaultSecs * second)"

text \<open>The live thresholds: from the environment, then polled when there is a backend.\<close>

definition watcher_config :: "watcher_env \<Rightarrow> settings_reply \<Rightarrow> settings_reply list \<Rightarrow> config" where
  "watcher_config env first ticks =
     (let wcfg = config_New (env_seconds (we_debounceWindowSecs env) 30) (env_seconds (we_pendingThresholdSecs env) 300)
            (env_seconds (we_unavailableThresholdSecs env) 300)
      in if we_backendURL env \<noteq> [] then StartPolling first ticks wcfg else wcfg)"

definition control_namespace :: "watcher_env \<Rightarrow> string" where
  "control_namespace env = (if we_controlNamespace env = [] then ''kubechan'' else we_controlNamespace env)"

section \<open>Detectors and reconcilers\<close>

text \<open>The thresholds of the detectors are read from the live configuration at each evaluation.\<close>

definition podDetectors :: "config \<Rightarrow> 'w detector list" where
  "podDetectors wcfg = [CrashLoopBackOffDetector, ImagePullBackOffDetector, PendingTooLongDetector (Some (PendingThreshold wcfg))]"

definition deployDetectors :: "config \<Rightarrow> 'w detector list" where
  "deployDetectors wcfg = [DeploymentUnavailableDetector (Some (UnavailableThreshold wcfg))]"

definition svcDetectors :: "'w detector list" where
  "svcDetectors = [ServiceNoEndpointsDetector]"

definition allDetectors :: "config \<Rightarrow> 'w detector list" where
  "allDetectors wcfg = (podDetectors wcfg @ deployDetectors wcfg) @ svcDetectors"

record 'w watcher =
  wa_pods :: "'w workload_reconciler"
  wa_deployments :: "'w workload_reconciler"
  wa_services :: "'w workload_reconciler"
  wa_caseDetectors :: "'w detector list"
  wa_correlation :: "'w correlation_reconciler"
  wa_rulesNamespace :: string

definition watcher_main :: "watcher_env \<Rightarrow> 'w client \<Rightarrow> config \<Rightarrow> 'w watcher" where
  "watcher_main env c wcfg =
     (let mk = \<lambda>ds. \<lparr>wr_client = c, wr_detectors = ds, wr_controlNamespace = control_namespace env\<rparr>
      in \<lparr>wa_pods = mk (podDetectors wcfg), wa_deployments = mk (deployDetectors wcfg), wa_services = mk svcDetectors,
          wa_caseDetectors = allDetectors wcfg,
          wa_correlation = \<lparr>cr_client = c, cr_controlNamespace = control_namespace env,
            cr_recurrenceWindow = env_seconds (we_recurrenceWindowSecs env) 86400\<rparr>,
          wa_rulesNamespace = control_namespace env\<rparr>)"

section \<open>Properties\<close>

lemmas detector_lists = podDetectors_def deployDetectors_def svcDetectors_def allDetectors_def CrashLoopBackOffDetector_def
  ImagePullBackOffDetector_def PendingTooLongDetector_def DeploymentUnavailableDetector_def ServiceNoEndpointsDetector_def

lemma findDetector_unique: "distinct (map det_Name ds) \<Longrightarrow> d \<in> set ds \<Longrightarrow> findDetector ds (det_Name d) = Some d"
  by (induction ds) (auto simp: findDetector_def image_iff)

lemma detector_names: "distinct (map det_Name (allDetectors wcfg))"
  by (simp add: detector_lists)

text \<open>
  C11. Every detector with which one of the reconcilers raises a case is the one with which the case is looked at again: the names are
  unique and the list of the case reconciler is complete. So an open case whose resource still exists is resolved, on a successful
  look, exactly when the detector that raised it reports nothing any more.
\<close>

theorem raised_cases_are_rechecked:
  fixes c :: "'w client"
  assumes W: "W = watcher_main env c wcfg"
    and d: "d \<in> set (wr_detectors (wa_pods W)) \<union> set (wr_detectors (wa_deployments W)) \<union> set (wr_detectors (wa_services W))"
    and pc: "api_get (c_problemCases c) (fst req) (snd req) w = Inr pc" "pc_state pc = ProblemCaseStateOpen" "pcs_detector (pc_spec pc) = det_Name d"
    and obj: "fetchAffectedResource c (pcs_affectedResource (pc_spec pc)) w = Inr obj" "det_Evaluate d obj c w clk = Inr symptoms"
  shows "ProblemCaseReconciler_Reconcile c (wa_caseDetectors W) req clk now w =
    (if symptoms = [] then done_with (Resolve c pc now w) else (Inr requeueAfter, w))"
proof -
  have "d \<in> set (allDetectors wcfg)" "wa_caseDetectors W = allDetectors wcfg"
    using d by (simp_all add: W watcher_main_def Let_def allDetectors_def)
  then have "findDetector (wa_caseDetectors W) (det_Name d) = Some d" by (simp add: findDetector_unique detector_names)
  with pc obj show ?thesis by (simp add: ProblemCaseReconciler_Reconcile_def)
qed

lemma env_seconds_valid:
  assumes "parse_int64 v = Some n" and "0 < n" and "n \<le> 9223372036"
  shows "env_seconds v defaultSecs = n * second"
proof -
  have "v \<noteq> []" using assms(1) by (auto simp: parse_int64_def Let_def)
  with assms show ?thesis by (simp add: env_seconds_def envDuration_def wrap64_seconds)
qed

lemma env_seconds_invalid:
  assumes "\<And>n. parse_int64 v = Some n \<Longrightarrow> n \<le> 0" and "0 < s" and "s \<le> 9223372036"
  shows "env_seconds v s = s * second"
  using assms by (auto simp: env_seconds_def envDuration_def wrap64_seconds split: option.split)

text \<open>
  C12. The recurrence window is the number of seconds in the environment when this is a positive number of at most 9223372036, and one day
  when it is none or not positive; both never make the division by the window in \<open>createIncident\<close> panic. Above that bound the product with
  \<open>time.Second\<close> wraps: 9223372037 gives a negative window, and 20211507185753197 one of 512 nanoseconds, with which every creation of
  an incident panics.
\<close>

theorem recurrence_window_from_environment:
  fixes c :: "'w client"
  assumes "r = wa_correlation (watcher_main env c wcfg)"
  shows "(\<forall>n. parse_int64 (we_recurrenceWindowSecs env) = Some n \<and> 0 < n \<and> n \<le> 9223372036 \<longrightarrow>
        recurrence_window r = n * second \<and> go_quot (recurrence_window r) second = n) \<and>
    ((\<forall>n. parse_int64 (we_recurrenceWindowSecs env) = Some n \<longrightarrow> n \<le> 0) \<longrightarrow>
        recurrence_window r = 86400 * second \<and> go_quot (recurrence_window r) second = 86400) \<and>
    (we_recurrenceWindowSecs env = ''9223372037'' \<longrightarrow> recurrence_window r < 0) \<and>
    (we_recurrenceWindowSecs env = ''20211507185753197'' \<longrightarrow> recurrence_window r = 512 \<and>
        createIncident r ns root now w = (Inl (Panicked ''integer divide by zero''), w))"
proof -
  have win: "cr_recurrenceWindow r = env_seconds (we_recurrenceWindowSecs env) 86400"
    using assms by (simp add: watcher_main_def Let_def)
  have quot: "go_quot (n * second) second = n" if "0 < n" for n using that by (simp add: go_quot_def)
  have "parse_int64 ''9223372037'' = Some 9223372037" "parse_int64 ''20211507185753197'' = Some 20211507185753197"
    by (simp_all add: parse_int64_def digits_value_def unradix_def digit_value_def is_digit_def in_int64_def min_int64_def max_int64_def)
  then have big: "env_seconds ''9223372037'' 86400 < 0" "env_seconds ''20211507185753197'' 86400 = 512"
    by (simp_all add: env_seconds_def envDuration_def wrap64_def)
  show ?thesis
  proof (intro conjI allI impI)
    fix n assume n: "parse_int64 (we_recurrenceWindowSecs env) = Some n \<and> 0 < n \<and> n \<le> 9223372036"
    then have "env_seconds (we_recurrenceWindowSecs env) 86400 = n * second" by (intro env_seconds_valid) auto
    with win n show "recurrence_window r = n * second" by (simp add: recurrence_window_def)
    with quot n show "go_quot (recurrence_window r) second = n" by simp
  next
    assume "\<forall>n. parse_int64 (we_recurrenceWindowSecs env) = Some n \<longrightarrow> n \<le> 0"
    then have "env_seconds (we_recurrenceWindowSecs env) 86400 = 86400 * second" by (intro env_seconds_invalid) auto
    with win show "recurrence_window r = 86400 * second" by (simp add: recurrence_window_def)
    with quot [of 86400] show "go_quot (recurrence_window r) second = 86400" by simp
  next
    assume "we_recurrenceWindowSecs env = ''9223372037''"
    with win big show "recurrence_window r < 0" by (simp add: recurrence_window_def)
  next
    assume "we_recurrenceWindowSecs env = ''20211507185753197''"
    with win big show "recurrence_window r = 512" by (simp add: recurrence_window_def)
    then show "createIncident r ns root now w = (Inl (Panicked ''integer divide by zero''), w)"
      by (simp add: createIncident_def go_quot_def Let_def)
  qed
qed

definition overflowing_env :: watcher_env where
  "overflowing_env = \<lparr>we_debounceWindowSecs = [], we_pendingThresholdSecs = [], we_unavailableThresholdSecs = [],
     we_recurrenceWindowSecs = ''20211507185753197'', we_backendURL = [], we_controlNamespace = []\<rparr>"

theorem recurrence_window_from_environment_witness:
  "createIncident (wa_correlation (watcher_main overflowing_env mem_client zero_config)) ''kubechan'' sample_ref 0 empty_mem =
     (Inl (Panicked ''integer divide by zero''), empty_mem)"
  using recurrence_window_from_environment [OF refl, of overflowing_env mem_client zero_config "''kubechan''" sample_ref 0 empty_mem]
  by (simp add: overflowing_env_def)

text \<open>A pod that has been scheduled: its case is resolved by the next look.\<close>

theorem raised_cases_are_rechecked_witness:
  "ProblemCaseReconciler_Reconcile mem_client (wa_caseDetectors (watcher_main overflowing_env mem_client zero_config)) (''kubechan'', ''pc1'') (\<lambda>_. 0)
      (8 * second) (case_world\<lparr>m_pods := [sample_pod]\<rparr>) =
    done_with (Resolve mem_client sample_case (8 * second) (case_world\<lparr>m_pods := [sample_pod]\<rparr>))"
proof -
  let ?W = "watcher_main overflowing_env mem_client zero_config" and ?w = "case_world\<lparr>m_pods := [sample_pod]\<rparr>"
  let ?d = "PendingTooLongDetector (Some (PendingThreshold zero_config))"
  have d: "?d \<in> set (wr_detectors (wa_pods ?W)) \<union> set (wr_detectors (wa_deployments ?W)) \<union> set (wr_detectors (wa_services ?W))"
    by (simp add: watcher_main_def podDetectors_def Let_def)
  have key: "meta_key (pc_meta sample_case) = (''kubechan'', ''pc1'')" by (simp add: sample_case_def meta_key_def)
  have get: "api_get (c_problemCases mem_client) (fst (''kubechan'', ''pc1'')) (snd (''kubechan'', ''pc1'')) ?w = Inr sample_case"
    using key by (simp add: mem_client_def mem_kind_def tab_find_def case_world_def)
  have pc: "pc_state sample_case = ProblemCaseStateOpen" "pcs_detector (pc_spec sample_case) = det_Name ?d"
    by (simp_all add: sample_case_def opened_def new_case_def PendingTooLongDetector_def)
  have "pcs_affectedResource (pc_spec sample_case) = mk_ref ''shop'' ''Pod'' ''web''"
    by (simp add: sample_case_def opened_def new_case_def sample_ref_def)
  then have obj: "fetchAffectedResource mem_client (pcs_affectedResource (pc_spec sample_case)) ?w = Inr (PodObj sample_pod)"
    by (simp add: fetchAffectedResource_def mem_eval case_world_def sample_pod_def)
  have eval: "det_Evaluate ?d (PodObj sample_pod) mem_client ?w (\<lambda>_. 0) = Inr []"
    by (simp add: PendingTooLongDetector_def pendingTooLong_Evaluate_def sample_pod_def)
  from raised_cases_are_rechecked [OF refl d get pc obj eval] show ?thesis by simp
qed

end
