(* ===== verification/Evidence.thy ===== *)
theory Evidence
  imports Sha256 "HOL-Library.Char_ord" "HOL-Library.List_Lexorder" "HOL-Library.Sublist"
begin

text \<open>
  The evidence a diagnostic run collects, \<open>diagnostics-worker/collector\<close>: \<open>types.go\<close> as records and
  \<open>catalog.go\<close>, which turns the evidence into a catalog of atomic sources with identifiers an analysis
  may cite. Go's \<open>any\<close> is the datatype \<open>any\<close>, one constructor for each dynamic type the collectors put
  into a specification; \<open>AOther\<close> is a value of another type, given by what \<open>fmt\<close> prints for it and, for a
  numeric type, its conversion to \<open>int\<close>. Strings are byte strings and compare bytewise.
\<close>

section \<open>Dynamic values\<close>

datatype any =
    ANil
  | AStr string
  | ABool bool
  | AInt int
  | AStrs "string list"
  | AStrMap str_map
  | AMap "(string \<times> any) list"
  | AList "any list"
  | AMaps "(string \<times> any) list list"
  | AOther string "int option"

type_synonym attrs = "(string \<times> any) list"

definition any_idx :: "attrs \<Rightarrow> string \<Rightarrow> any" where
  "any_idx m k = (case map_of m k of None \<Rightarrow> ANil | Some v \<Rightarrow> v)"

definition by_key :: "(string \<times> 'v) list \<Rightarrow> (string \<times> 'v) list" where
  "by_key m = sort_slice (\<lambda>a b. fst a < fst b) m"

definition print_map :: "(string \<times> string) list \<Rightarrow> string" where
  "print_map m = ''map['' @ join '' '' (map (\<lambda>(k, v). k @ '':'' @ v) (by_key m)) @ '']''"

definition print_slice :: "string list \<Rightarrow> string" where
  "print_slice xs = ''['' @ join '' '' xs @ '']''"

definition print_bool :: "bool \<Rightarrow> string" where
  "print_bool b = (if b then ''true'' else ''false'')"

text \<open>\<open>fmt.Sprint\<close> of one operand.\<close>

primrec sprint :: "any \<Rightarrow> string" where
  "sprint ANil = ''<nil>''"
| "sprint (AStr s) = s"
| "sprint (ABool b) = print_bool b"
| "sprint (AInt n) = itoa n"
| "sprint (AStrs xs) = print_slice xs"
| "sprint (AStrMap m) = print_map m"
| "sprint (AMap m) = print_map (map (map_prod id sprint) m)"
| "sprint (AList xs) = print_slice (map sprint xs)"
| "sprint (AMaps ms) = print_slice (map (\<lambda>m. print_map m) (map (map (map_prod id sprint)) ms))"
| "sprint (AOther p n) = p"

section \<open>Types\<close>

record cref =
  cr_namespace :: string
  cr_kind :: string
  cr_name :: string
  cr_apiGroup :: string

definition mk_cref :: "string \<Rightarrow> string \<Rightarrow> string \<Rightarrow> cref" where
  "mk_cref kind ns name = \<lparr>cr_namespace = ns, cr_kind = kind, cr_name = name, cr_apiGroup = []\<rparr>"

record k8s_event =
  ke_type :: string
  ke_reason :: string
  ke_message :: string
  ke_count :: int
  ke_firstTime :: time
  ke_lastTime :: time

record config_map_ref =
  cmr_name :: string
  cmr_missing :: bool
  cmr_keys :: "string list"
  cmr_data :: str_map
  cmr_mountPaths :: "string list"

record secret_ref =
  sec_name :: string
  sec_missing :: bool

record pod_dependencies =
  pd_configMaps :: "config_map_ref list"
  pd_secrets :: "secret_ref list"

record pod_logs =
  pl_podName :: string
  pl_phase :: string
  pl_labels :: str_map
  pl_pvcNames :: "string list"
  pl_logs :: string
  pl_truncated :: bool
  pl_error :: string
  pl_events :: "k8s_event list"
  pl_dependencies :: "pod_dependencies option"
  pl_owners :: "cref list"

record pvc_info =
  pi_name :: string
  pi_phase :: string
  pi_storageClass :: string
  pi_requestedStorage :: string
  pi_events :: "k8s_event list"

record problem_case_evidence =
  pce_name :: string
  pce_detector :: string
  pce_severity :: string
  pce_symptoms :: "string list"
  pce_affectedResource :: cref
  pce_events :: "k8s_event list"
  pce_logs :: string
  pce_logsTruncated :: bool

record evidence_log_line =
  ll_number :: int
  ll_timestamp :: "time option"
  ll_text :: string

record evidence_source =
  src_id :: string
  src_type :: string
  src_resource :: cref
  src_collectedAt :: time
  src_path :: string
  src_value :: any
  src_line :: "evidence_log_line option"
  src_event :: "k8s_event option"
  src_truncated :: bool
  src_redacted :: bool

record related_resource_evidence =
  rre_resource :: cref
  rre_discoveryOrigin :: string
  rre_events :: "k8s_event list"
  rre_logs :: string
  rre_spec :: attrs

record candidate_reason =
  rs_code :: string
  rs_label :: string
  rs_sourceIDs :: "string list"

record graph_candidate =
  gc_id :: string
  gc_sourceNodeID :: string
  gc_referenceNodeID :: string
  gc_candidateNodeID :: string
  gc_score :: int
  gc_strength :: string
  gc_reasons :: "candidate_reason list"

record graph_edge =
  ge_id :: string
  ge_type :: string
  ge_from :: string
  ge_to :: string
  ge_state :: string
  ge_origin :: string
  ge_strength :: string
  ge_score :: int
  ge_reasons :: "candidate_reason list"
  ge_attributes :: attrs
  ge_sourceIDs :: "string list"

record graph_node =
  gn_id :: string
  gn_type :: string
  gn_resource :: cref
  gn_state :: string
  gn_role :: string
  gn_attributes :: attrs
  gn_sourceIDs :: "string list"

record graph_policy =
  gp_maxObservedDepth :: int
  gp_maxInferredHops :: int
  gp_maxNodes :: int
  gp_maxEdges :: int
  gp_maxCandidatesPerGap :: int
  gp_strongThreshold :: int
  gp_possibleThreshold :: int

record investigation_graph =
  ig_schemaVersion :: int
  ig_entryResourceID :: string
  ig_policy :: graph_policy
  ig_truncated :: bool
  ig_nodes :: "graph_node list"
  ig_edges :: "graph_edge list"
  ig_candidates :: "graph_candidate list"

record evidence =
  ev_schemaVersion :: int
  ev_diagnosticRunID :: string
  ev_incidentID :: string
  ev_collectedAt :: time
  ev_rootResource :: cref
  ev_rootResourceEvents :: "k8s_event list"
  ev_problemCases :: "problem_case_evidence list"
  ev_workloadPodLogs :: "pod_logs list"
  ev_pvcInfos :: "pvc_info list"
  ev_userMessage :: string
  ev_relatedResourceEvidence :: "related_resource_evidence list"
  ev_sources :: "evidence_source list"
  ev_graph :: "investigation_graph option"

definition empty_evidence :: evidence where
  "empty_evidence = \<lparr>ev_schemaVersion = 0, ev_diagnosticRunID = [], ev_incidentID = [], ev_collectedAt = 0,
     ev_rootResource = mk_cref [] [] [], ev_rootResourceEvents = [], ev_problemCases = [], ev_workloadPodLogs = [],
     ev_pvcInfos = [], ev_userMessage = [], ev_relatedResourceEvidence = [], ev_sources = [], ev_graph = None\<rparr>"

section \<open>Standard library\<close>

text \<open>\<open>time.RFC3339\<close> of an instant in UTC, from the civil date of its day.\<close>

definition civil_date :: "int \<Rightarrow> int \<times> int \<times> int" where
  "civil_date days =
     (let z = days + 719468; era = z div 146097; doe = z mod 146097;
          yoe = (doe - doe div 1460 + doe div 36524 - doe div 146096) div 365;
          doy = doe - (365 * yoe + yoe div 4 - yoe div 100);
          mp = (5 * doy + 2) div 153;
          d = doy - (153 * mp + 2) div 5 + 1;
          m = (if mp < 10 then mp + 3 else mp - 9)
      in (yoe + era * 400 + (if m \<le> 2 then 1 else 0), m, d))"

definition zero_pad :: "nat \<Rightarrow> int \<Rightarrow> string" where
  "zero_pad n x = (let s = radix 10 (nat \<bar>x\<bar>)
     in (if x < 0 then ''-'' else []) @ replicate (n - length s) (CHR ''0'') @ s)"

definition rfc3339 :: "time \<Rightarrow> string" where
  "rfc3339 t = (let s = unix t; (y, m, d) = civil_date (s div 86400); r = s mod 86400
     in zero_pad 4 y @ ''-'' @ zero_pad 2 m @ ''-'' @ zero_pad 2 d @ ''T'' @ zero_pad 2 (r div 3600) @ '':'' @
        zero_pad 2 (r mod 3600 div 60) @ '':'' @ zero_pad 2 (r mod 60) @ ''Z'')"

definition newline :: char where "newline = CHR 0x0A"

definition spaces2 :: "string list" where
  "spaces2 = [[CHR 0xC2, CHR 0x85], [CHR 0xC2, CHR 0xA0]]"

definition spaces3 :: "string list" where
  "spaces3 = [CHR 0xE1, CHR 0x9A, CHR 0x80] # [CHR 0xE2, CHR 0x81, CHR 0x9F] # [CHR 0xE3, CHR 0x80, CHR 0x80] #
     map (\<lambda>b. [CHR 0xE2, CHR 0x80, char_of (b :: nat)]) ([128..<139] @ [168, 169, 175])"

text \<open>\<open>strings.TrimSpace s == ""\<close>: \<open>s\<close> is a sequence of encoded white space characters.\<close>

fun blank :: "string \<Rightarrow> bool" where
  "blank [] = True"
| "blank (c # s) =
     (if c \<in> set [CHR 0x09, CHR 0x0A, CHR 0x0B, CHR 0x0C, CHR 0x0D, CHR 0x20] then blank s
      else case s of [] \<Rightarrow> False
        | d # s' \<Rightarrow> if [c, d] \<in> set spaces2 then blank s'
            else case s' of [] \<Rightarrow> False | e # s'' \<Rightarrow> [c, d, e] \<in> set spaces3 \<and> blank s'')"

definition trim_right :: "char \<Rightarrow> string \<Rightarrow> string" where
  "trim_right c s = rev (dropWhile (\<lambda>x. x = c) (rev s))"

definition replace_char :: "char \<Rightarrow> string \<Rightarrow> string \<Rightarrow> string" where
  "replace_char c r s = concat (map (\<lambda>x. if x = c then r else [x]) s)"

section \<open>The catalog\<close>

definition escapeJSONPointer :: "string \<Rightarrow> string" where
  "escapeJSONPointer value = replace_char (CHR ''/'') ''~1'' (replace_char (CHR ''~'') ''~0'' value)"

definition hex_string :: "nat list \<Rightarrow> string" where
  "hex_string bytes = concat (map hex2 bytes)"

definition sourceID :: "string \<Rightarrow> cref \<Rightarrow> string \<Rightarrow> string \<Rightarrow> string" where
  "sourceID kind ref path value =
     kind @ '':'' @ hex_string (take 8 (sha256 (join ''|''
       [kind, cr_apiGroup ref, cr_kind ref, cr_namespace ref, cr_name ref, path, value])))"

definition blank_source :: "string \<Rightarrow> string \<Rightarrow> cref \<Rightarrow> time \<Rightarrow> evidence_source" where
  "blank_source sid ty ref at = \<lparr>src_id = sid, src_type = ty, src_resource = ref, src_collectedAt = at, src_path = [],
     src_value = ANil, src_line = None, src_event = None, src_truncated = False, src_redacted = False\<rparr>"

definition fieldSource :: "cref \<Rightarrow> string \<Rightarrow> any \<Rightarrow> time \<Rightarrow> evidence_source" where
  "fieldSource ref path value at = (blank_source (sourceID ''field'' ref path (sprint value)) ''resource_field'' ref at)
     \<lparr>src_path := path, src_value := value\<rparr>"

definition eventSource :: "cref \<Rightarrow> time \<Rightarrow> k8s_event \<Rightarrow> evidence_source" where
  "eventSource ref at event =
     (let key = ke_reason event @ ''|'' @ ke_message event @ ''|'' @ rfc3339 (ke_firstTime event)
      in (blank_source (sourceID ''event'' ref ''/events'' key) ''event'' ref at)\<lparr>src_event := Some event\<rparr>)"

definition logSources :: "cref \<Rightarrow> string \<Rightarrow> string \<Rightarrow> bool \<Rightarrow> time \<Rightarrow> evidence_source list" where
  "logSources ref container logs truncated at =
     (if blank logs then []
      else map (\<lambda>(i, text).
          let path = ''/logs/'' @ escapeJSONPointer container @ ''/current/'' @ itoa (int i + 1)
          in (blank_source (sourceID ''log'' ref path text) ''log_line'' ref at)
            \<lparr>src_path := path, src_line := Some \<lparr>ll_number = int i + 1, ll_timestamp = None, ll_text = text\<rparr>,
             src_truncated := truncated\<rparr>)
        (enumerate 0 (split_all newline (trim_right newline logs))))"

text \<open>The leaves of a value with their JSON pointers: the sources \<open>flattenFields\<close> appends.\<close>

definition leaf :: "any \<Rightarrow> cref \<Rightarrow> time \<Rightarrow> string \<Rightarrow> evidence_source list" where
  "leaf v ref at path = (if path \<noteq> [] then [fieldSource ref path v at] else [])"

definition at_keys :: "(string \<times> (string \<Rightarrow> 'a list)) list \<Rightarrow> string \<Rightarrow> 'a list" where
  "at_keys m path = concat (map (\<lambda>(k, f). f (path @ ''/'' @ escapeJSONPointer k)) (by_key m))"

definition at_indices :: "(string \<Rightarrow> 'a list) list \<Rightarrow> string \<Rightarrow> 'a list" where
  "at_indices fs path = concat (map (\<lambda>(i, f). f (path @ ''/'' @ itoa (int i))) (enumerate 0 fs))"

primrec flattenFields :: "any \<Rightarrow> cref \<Rightarrow> time \<Rightarrow> string \<Rightarrow> evidence_source list" where
  "flattenFields ANil = leaf ANil"
| "flattenFields (AStr s) = leaf (AStr s)"
| "flattenFields (ABool b) = leaf (ABool b)"
| "flattenFields (AInt n) = leaf (AInt n)"
| "flattenFields (AStrs xs) = leaf (AStrs xs)"
| "flattenFields (AStrMap m) = leaf (AStrMap m)"
| "flattenFields (AMap m) = (\<lambda>ref at. at_keys (map (\<lambda>kf. (fst kf, snd kf ref at)) (map (map_prod id flattenFields) m)))"
| "flattenFields (AList xs) = (\<lambda>ref at. at_indices (map (\<lambda>f. f ref at) (map flattenFields xs)))"
| "flattenFields (AMaps ms) = (\<lambda>ref at. at_indices (map (\<lambda>m. at_keys (map (\<lambda>kf. (fst kf, snd kf ref at)) m))
     (map (map (map_prod id flattenFields)) ms)))"
| "flattenFields (AOther p n) = leaf (AOther p n)"

text \<open>\<open>dedupeSources\<close>: the first source with each identifier.\<close>

fun dedupe :: "string list \<Rightarrow> evidence_source list \<Rightarrow> evidence_source list" where
  "dedupe seen [] = []"
| "dedupe seen (s # ss) = (if src_id s \<in> set seen then dedupe seen ss else s # dedupe (src_id s # seen) ss)"

definition dedupeSources :: "evidence_source list \<Rightarrow> evidence_source list" where
  "dedupeSources sources = dedupe [] sources"

definition problem_case_sources :: "time \<Rightarrow> problem_case_evidence \<Rightarrow> evidence_source list" where
  "problem_case_sources at pc =
     (let ref = pce_affectedResource pc; base = ''/problemCases/'' @ escapeJSONPointer (pce_name pc)
      in [fieldSource ref (base @ ''/detector'') (AStr (pce_detector pc)) at,
          fieldSource ref (base @ ''/severity'') (AStr (pce_severity pc)) at] @
         map (\<lambda>(i, symptom). fieldSource ref (base @ ''/symptoms/'' @ itoa (int i)) (AStr symptom) at)
           (enumerate 0 (pce_symptoms pc)) @
         map (eventSource ref at) (pce_events pc) @
         logSources ref [] (pce_logs pc) (pce_logsTruncated pc) at)"

definition secret_source :: "string \<Rightarrow> time \<Rightarrow> secret_ref \<Rightarrow> evidence_source" where
  "secret_source ns at secret =
     (let ref = mk_cref ''Secret'' ns (sec_name secret)
      in (blank_source (sourceID ''field'' ref ''/exists'' (print_bool (\<not> sec_missing secret))) ''resource_field'' ref at)
        \<lparr>src_path := ''/exists'', src_value := ABool (\<not> sec_missing secret), src_redacted := True\<rparr>)"

definition config_map_sources :: "string \<Rightarrow> time \<Rightarrow> config_map_ref \<Rightarrow> evidence_source list" where
  "config_map_sources ns at cm =
     (let ref = mk_cref ''ConfigMap'' ns (cmr_name cm)
      in fieldSource ref ''/exists'' (ABool (\<not> cmr_missing cm)) at #
         map (\<lambda>(k, v). fieldSource ref (''/data/'' @ escapeJSONPointer k) (AStr v) at) (by_key (cmr_data cm)))"

definition pod_sources :: "string \<Rightarrow> time \<Rightarrow> pod_logs \<Rightarrow> evidence_source list" where
  "pod_sources ns at pod =
     (let ref = mk_cref ''Pod'' ns (pl_podName pod)
      in [fieldSource ref ''/status/phase'' (AStr (pl_phase pod)) at] @ map (eventSource ref at) (pl_events pod) @
         logSources ref ''default'' (pl_logs pod) (pl_truncated pod) at @
         (case pl_dependencies pod of None \<Rightarrow> []
          | Some deps \<Rightarrow> concat (map (config_map_sources ns at) (pd_configMaps deps)) @
              map (secret_source ns at) (pd_secrets deps)))"

definition pvc_sources :: "string \<Rightarrow> time \<Rightarrow> pvc_info \<Rightarrow> evidence_source list" where
  "pvc_sources ns at pvc =
     (let ref = mk_cref ''PersistentVolumeClaim'' ns (pi_name pvc)
      in [fieldSource ref ''/status/phase'' (AStr (pi_phase pvc)) at] @
         (if pi_storageClass pvc \<noteq> [] then [fieldSource ref ''/spec/storageClassName'' (AStr (pi_storageClass pvc)) at] else []) @
         (if pi_requestedStorage pvc \<noteq> []
          then [fieldSource ref ''/spec/resources/requests/storage'' (AStr (pi_requestedStorage pvc)) at] else []) @
         map (eventSource ref at) (pi_events pvc))"

definition related_sources :: "time \<Rightarrow> related_resource_evidence \<Rightarrow> evidence_source list" where
  "related_sources at related =
     flattenFields (AMap (rre_spec related)) (rre_resource related) at [] @
     map (eventSource (rre_resource related) at) (rre_events related) @
     logSources (rre_resource related) [] (rre_logs related) False at"

definition all_sources :: "evidence \<Rightarrow> evidence_source list" where
  "all_sources ev =
     (let at = ev_collectedAt ev; ns = cr_namespace (ev_rootResource ev)
      in map (eventSource (ev_rootResource ev) at) (ev_rootResourceEvents ev) @
         concat (map (problem_case_sources at) (ev_problemCases ev)) @
         concat (map (pod_sources ns at) (ev_workloadPodLogs ev)) @
         concat (map (pvc_sources ns at) (ev_pvcInfos ev)) @
         concat (map (related_sources at) (ev_relatedResourceEvidence ev)))"

definition BuildSourceCatalog :: "evidence \<Rightarrow> evidence_source list" where
  "BuildSourceCatalog ev = dedupeSources (all_sources ev)"

section \<open>JSON pointers\<close>

text \<open>
  How a pointer is read back (RFC 6901): split at the slashes, unescape, and step into a map by key or
  into a list by decimal index.
\<close>

fun unescape :: "string \<Rightarrow> string" where
  "unescape (c # d # s) = (if c = CHR ''~'' \<and> d = CHR ''0'' then CHR ''~'' # unescape s
     else if c = CHR ''~'' \<and> d = CHR ''1'' then CHR ''/'' # unescape s else c # unescape (d # s))"
| "unescape s = s"

definition nth_str :: "'a list \<Rightarrow> string \<Rightarrow> 'a option" where
  "nth_str xs k = (let i = unradix 10 k in if i < length xs \<and> k = itoa (int i) then Some (xs ! i) else None)"

fun child :: "any \<Rightarrow> string \<Rightarrow> any option" where
  "child (AMap m) k = map_of m k"
| "child (AList xs) k = nth_str xs k"
| "child (AMaps ms) k = map_option AMap (nth_str ms k)"
| "child _ k = None"

fun resolve :: "string list \<Rightarrow> any \<Rightarrow> any option" where
  "resolve [] v = Some v"
| "resolve (k # ks) v = (case child v k of None \<Rightarrow> None | Some w \<Rightarrow> resolve ks w)"

definition pointer :: "string list \<Rightarrow> string" where
  "pointer ks = concat (map (\<lambda>k. ''/'' @ escapeJSONPointer k) ks)"

definition json_pointer :: "string \<Rightarrow> any \<Rightarrow> any option" where
  "json_pointer p v = resolve (map unescape (tl (split_all (CHR ''/'') p))) v"

fun is_leaf :: "any \<Rightarrow> bool" where
  "is_leaf (AMap m) = False" | "is_leaf (AList xs) = False" | "is_leaf (AMaps ms) = False" | "is_leaf v = True"

text \<open>Maps have pairwise different keys, at every level.\<close>

primrec wf_any :: "any \<Rightarrow> bool" where
  "wf_any ANil = True" | "wf_any (AStr s) = True" | "wf_any (ABool b) = True" | "wf_any (AInt n) = True"
| "wf_any (AStrs xs) = True" | "wf_any (AStrMap m) = True" | "wf_any (AOther p n) = True"
| "wf_any (AMap m) = (distinct (map fst (map (map_prod id wf_any) m)) \<and> list_all snd (map (map_prod id wf_any) m))"
| "wf_any (AList xs) = list_all id (map wf_any xs)"
| "wf_any (AMaps ms) = list_all (\<lambda>m. distinct (map fst m) \<and> list_all snd m) (map (map (map_prod id wf_any)) ms)"

lemma escape_cases:
  "escapeJSONPointer [] = []"
  "escapeJSONPointer (c # s) = (if c = CHR ''~'' then ''~0'' else if c = CHR ''/'' then ''~1'' else [c]) @ escapeJSONPointer s"
  by (simp_all add: escapeJSONPointer_def replace_char_def)

lemma unescape_escape: "unescape (escapeJSONPointer s) = s"
proof (induction s)
  case (Cons c s)
  then show ?case
    by (cases "escapeJSONPointer s") (auto simp: escape_cases)
qed (simp add: escape_cases)

lemma escape_no_slash: "CHR ''/'' \<notin> set (escapeJSONPointer s)"
  by (induction s) (auto simp: escape_cases)

lemma escape_id: "CHR ''~'' \<notin> set s \<Longrightarrow> CHR ''/'' \<notin> set s \<Longrightarrow> escapeJSONPointer s = s"
  by (induction s) (auto simp: escape_cases)

lemma radix10_digits: "c \<in> set (radix 10 n) \<Longrightarrow> is_digit c"
proof (induction "10::nat" n rule: radix.induct)
  case (1 n)
  show ?case
  proof (cases "n < 10")
    case True
    with "1.prems" show ?thesis by (subst (asm) radix.simps) (auto simp: digit_char_def is_digit_def of_char_mod_256)
  next
    case False
    have "n mod 10 < 10" by simp
    then have "is_digit (digit_char (n mod 10))" by (auto simp: digit_char_def is_digit_def of_char_mod_256)
    with False 1 show ?thesis by (subst (asm) (2) radix.simps) auto
  qed
qed

lemma escape_index [simp]: "escapeJSONPointer (itoa (int i)) = itoa (int i)"
proof (rule escape_id)
  have "\<not> is_digit (CHR ''~'')" "\<not> is_digit (CHR ''/'')" by (simp_all add: is_digit_def)
  then show "CHR ''~'' \<notin> set (itoa (int i))" "CHR ''/'' \<notin> set (itoa (int i))"
    by (auto simp: format_int_def dest: radix10_digits)
qed

lemma nth_str_iff: "nth_str xs k = Some x \<longleftrightarrow> (\<exists>i < length xs. k = itoa (int i) \<and> xs ! i = x)"
  by (auto simp: nth_str_def Let_def format_int_def unradix_radix)

lemma nth_str_map: "nth_str (map f xs) k = map_option f (nth_str xs k)"
  by (simp add: nth_str_def Let_def)

lemma split_no_sep: "sep \<notin> set a \<Longrightarrow> split_all sep (a @ sep # r) = a # split_all sep r"
  by (induction a) auto

lemma split_all_whole: "sep \<notin> set a \<Longrightarrow> split_all sep a = [a]"
  by (induction a) auto

lemma split_pointer:
  assumes "CHR ''/'' \<notin> set a"
  shows "split_all (CHR ''/'') (a @ pointer ks) = a # map escapeJSONPointer ks"
  using assms
proof (induction ks arbitrary: a)
  case (Cons k ks)
  then show ?case by (simp add: pointer_def split_no_sep escape_no_slash)
qed (simp add: pointer_def split_all_whole)

lemma json_pointer_pointer [simp]: "json_pointer (pointer ks) v = resolve ks v"
  using split_pointer [of "[]" ks] by (simp add: json_pointer_def unescape_escape comp_def)

lemma pointer_Cons: "pointer (k # ks) = ''/'' @ escapeJSONPointer k @ pointer ks"
  by (simp add: pointer_def)

lemma pointer_Nil_iff [simp]: "pointer ks = [] \<longleftrightarrow> ks = []"
  by (cases ks) (simp_all add: pointer_def)

lemma in_at_keys: "s \<in> set (at_keys m path) \<longleftrightarrow> (\<exists>(k, f) \<in> set m. s \<in> set (f (path @ ''/'' @ escapeJSONPointer k)))"
  by (auto simp: at_keys_def by_key_def)

lemma enumerate_nth: "enumerate 0 xs = map (\<lambda>i. (i, xs ! i)) [0..<length xs]"
  by (rule nth_equalityI) (simp_all add: nth_enumerate_eq)

lemma in_at_indices:
  "s \<in> set (at_indices fs path) \<longleftrightarrow> (\<exists>i < length fs. s \<in> set ((fs ! i) (path @ ''/'' @ escapeJSONPointer (itoa (int i)))))"
  by (auto simp: at_indices_def enumerate_nth)

text \<open>The sources of a value are exactly its leaves, under the pointers that lead to them.\<close>

definition leaf_source :: "cref \<Rightarrow> time \<Rightarrow> string \<Rightarrow> any \<Rightarrow> evidence_source \<Rightarrow> bool" where
  "leaf_source ref at path v s \<longleftrightarrow> (\<exists>ks w. resolve ks v = Some w \<and> is_leaf w \<and> path @ pointer ks \<noteq> [] \<and>
     s = fieldSource ref (path @ pointer ks) w at)"

lemma leaf_source_leaf:
  assumes "is_leaf v"
  shows "s \<in> set (leaf v ref at path) \<longleftrightarrow> leaf_source ref at path v s"
proof -
  have none: "child v k = None" for k using assms by (cases v) simp_all
  have "resolve ks v = Some w \<longleftrightarrow> ks = [] \<and> w = v" for ks w by (cases ks) (auto simp: none)
  with assms show ?thesis by (auto simp: leaf_source_def leaf_def pointer_def)
qed

lemma leaf_source_child:
  assumes "\<not> is_leaf v"
  shows "leaf_source ref at path v s \<longleftrightarrow> (\<exists>k x. child v k = Some x \<and> leaf_source ref at (path @ ''/'' @ escapeJSONPointer k) x s)"
proof
  assume "leaf_source ref at path v s"
  then obtain ks w where r: "resolve ks v = Some w" "is_leaf w" "s = fieldSource ref (path @ pointer ks) w at"
    by (auto simp: leaf_source_def)
  with assms obtain k ks' where "ks = k # ks'" by (cases ks) auto
  with r show "\<exists>k x. child v k = Some x \<and> leaf_source ref at (path @ ''/'' @ escapeJSONPointer k) x s"
    by (auto simp: leaf_source_def pointer_Cons split: option.splits)
next
  assume "\<exists>k x. child v k = Some x \<and> leaf_source ref at (path @ ''/'' @ escapeJSONPointer k) x s"
  then obtain k x ks w where "child v k = Some x" "resolve ks x = Some w" "is_leaf w"
    "s = fieldSource ref ((path @ ''/'' @ escapeJSONPointer k) @ pointer ks) w at"
    by (auto simp: leaf_source_def)
  then show "leaf_source ref at path v s"
    unfolding leaf_source_def by (intro exI [of _ "k # ks"] exI [of _ w]) (simp add: pointer_Cons)
qed

lemma flatten_map:
  assumes "distinct (map fst m)" and "\<And>k v path. (k, v) \<in> set m \<Longrightarrow> s \<in> set (flattenFields v ref at path) \<longleftrightarrow> leaf_source ref at path v s"
  shows "s \<in> set (flattenFields (AMap m) ref at path) \<longleftrightarrow> leaf_source ref at path (AMap m) s"
proof -
  have "s \<in> set (flattenFields (AMap m) ref at path) \<longleftrightarrow>
      (\<exists>(k, v) \<in> set m. s \<in> set (flattenFields v ref at (path @ ''/'' @ escapeJSONPointer k)))"
    by (simp add: in_at_keys case_prod_unfold)
  also have "\<dots> \<longleftrightarrow> (\<exists>(k, v) \<in> set m. leaf_source ref at (path @ ''/'' @ escapeJSONPointer k) v s)"
    by (intro bex_cong refl) (auto simp: assms(2))
  also have "\<dots> \<longleftrightarrow> leaf_source ref at path (AMap m) s"
    by (subst leaf_source_child) (auto simp: map_put_distinct_iff [OF assms(1)])
  finally show ?thesis .
qed

lemma flatten_list:
  assumes "\<And>i path. i < length xs \<Longrightarrow> s \<in> set (flattenFields (xs ! i) ref at path) \<longleftrightarrow> leaf_source ref at path (xs ! i) s"
    and "v = AList xs \<or> (v = AMaps ms \<and> xs = map AMap ms)"
  shows "s \<in> set (flattenFields v ref at path) \<longleftrightarrow> leaf_source ref at path v s"
proof -
  have "flattenFields v ref at path = at_indices (map (\<lambda>x. flattenFields x ref at) xs) path"
    using assms(2) by (auto simp: comp_def)
  then have "s \<in> set (flattenFields v ref at path) \<longleftrightarrow>
      (\<exists>i < length xs. leaf_source ref at (path @ ''/'' @ escapeJSONPointer (itoa (int i))) (xs ! i) s)"
    using assms(1) by (auto simp: in_at_indices)
  also have "\<dots> \<longleftrightarrow> (\<exists>k x. child v k = Some x \<and> leaf_source ref at (path @ ''/'' @ escapeJSONPointer k) x s)"
  proof -
    have step: "child v k = Some x \<longleftrightarrow> (\<exists>i < length xs. k = itoa (int i) \<and> xs ! i = x)" for k x
    proof -
      have "child v k = nth_str xs k" using assms(2) by (auto simp: nth_str_map)
      then show ?thesis by (simp add: nth_str_iff)
    qed
    show ?thesis unfolding step by blast
  qed
  also have "\<dots> \<longleftrightarrow> leaf_source ref at path v s"
    using assms(2) by (subst leaf_source_child) auto
  finally show ?thesis .
qed

lemma flatten_leaves:
  "wf_any v \<Longrightarrow> s \<in> set (flattenFields v ref at path) \<longleftrightarrow> leaf_source ref at path v s"
proof (induction v arbitrary: path)
  case (AMap m)
  show ?case
  proof (rule flatten_map)
    show "distinct (map fst m)" using AMap.prems by (simp add: comp_def)
    fix k v path assume "(k, v) \<in> set m"
    moreover from this AMap.prems have "wf_any v" by (auto simp: list_all_iff)
    ultimately show "s \<in> set (flattenFields v ref at path) \<longleftrightarrow> leaf_source ref at path v s"
      using AMap.IH [of "(k, v)" v] by simp
  qed
next
  case (AList xs)
  show ?case
    by (rule flatten_list [of xs]) (use AList in \<open>auto simp: list_all_iff\<close>)
next
  case (AMaps ms)
  show ?case
  proof (rule flatten_list [of "map AMap ms"])
    fix i path assume "i < length (map AMap ms)"
    then have m: "ms ! i \<in> set ms" and eq: "map AMap ms ! i = AMap (ms ! i)" by simp_all
    have "wf_any v" if "(k, v) \<in> set (ms ! i)" for k v using AMaps.prems m that by (fastforce simp: list_all_iff)
    moreover have "distinct (map fst (ms ! i))" using AMaps.prems m by (auto simp: list_all_iff comp_def)
    ultimately show "s \<in> set (flattenFields (map AMap ms ! i) ref at path) \<longleftrightarrow> leaf_source ref at path (map AMap ms ! i) s"
      unfolding eq using AMaps.IH [OF m] by (intro flatten_map) auto
  qed simp
qed (simp_all add: leaf_source_leaf)

section \<open>Properties\<close>

text \<open>
  C39. The catalog of a specification is exact: its sources are the leaves of the value, each under the
  JSON pointer that leads to it, so that reading the pointer back in the specification gives the value
  the source quotes, and every leaf has its source.
\<close>

theorem flatten_roundtrip:
  assumes "wf_any (AMap spec)"
  shows "(\<forall>s \<in> set (flattenFields (AMap spec) ref at []). json_pointer (src_path s) (AMap spec) = Some (src_value s) \<and>
      src_resource s = ref \<and> s = fieldSource ref (src_path s) (src_value s) at) \<and>
    (\<forall>ks w. resolve ks (AMap spec) = Some w \<and> is_leaf w \<longrightarrow>
      fieldSource ref (pointer ks) w at \<in> set (flattenFields (AMap spec) ref at []))"
proof (intro conjI ballI allI impI)
  fix s assume "s \<in> set (flattenFields (AMap spec) ref at [])"
  then obtain ks w where "resolve ks (AMap spec) = Some w" "s = fieldSource ref (pointer ks) w at"
    unfolding flatten_leaves [OF assms] leaf_source_def by auto
  then show "json_pointer (src_path s) (AMap spec) = Some (src_value s)" "src_resource s = ref"
    "s = fieldSource ref (src_path s) (src_value s) at"
    by (simp_all add: fieldSource_def blank_source_def)
next
  fix ks w assume r: "resolve ks (AMap spec) = Some w \<and> is_leaf w"
  then have "ks \<noteq> []" by (cases ks) auto
  with r show "fieldSource ref (pointer ks) w at \<in> set (flattenFields (AMap spec) ref at [])"
    unfolding flatten_leaves [OF assms] leaf_source_def by auto
qed

theorem flatten_roundtrip_witness:
  "wf_any (AMap [(''rules'', AMaps [[(''a/b'', AStr ''x'')]])]) \<and>
   list_all (\<lambda>s. json_pointer (src_path s) (AMap [(''rules'', AMaps [[(''a/b'', AStr ''x'')]])]) = Some (src_value s))
     (flattenFields (AMap [(''rules'', AMaps [[(''a/b'', AStr ''x'')]])]) (mk_cref ''Pod'' ''ns'' ''p'') 0 [])"
proof
  show wf: "wf_any (AMap [(''rules'', AMaps [[(''a/b'', AStr ''x'')]])])" by simp
  show "list_all (\<lambda>s. json_pointer (src_path s) (AMap [(''rules'', AMaps [[(''a/b'', AStr ''x'')]])]) = Some (src_value s))
     (flattenFields (AMap [(''rules'', AMaps [[(''a/b'', AStr ''x'')]])]) (mk_cref ''Pod'' ''ns'' ''p'') 0 [])"
    unfolding list_all_iff using flatten_roundtrip [OF wf] by blast
qed

lemma dedupe_spec:
  "distinct (map src_id (dedupe seen ss)) \<and> src_id ` set (dedupe seen ss) = src_id ` set ss - set seen \<and>
   subseq (dedupe seen ss) ss"
proof (induction ss arbitrary: seen)
  case (Cons s ss)
  show ?case using Cons.IH [of seen] Cons.IH [of "src_id s # seen"] by (auto simp: image_iff)
qed simp


end
