(* ===== verification/Graph_Engine.thy ===== *)
theory Graph_Engine
  imports Evidence
begin

text \<open>
  The investigation graph, \<open>diagnostics-worker/graphengine/engine.go\<close>: \<open>BuildWithPolicy\<close> adds a node for every
  resource of the evidence, connects them, infers edges across broken references, and cuts the result
  to the bounds of the policy.

  The builder's maps are association lists. The order in which a \<open>range\<close> over a map yields its
  keys is not specified in Go and may differ between two executions; it is the parameter \<open>ord\<close>, given
  a tag that is different for every execution of a \<open>range\<close> statement in a build and the keys the map
  has when it starts. Nodes added during such a loop may or may not be visited; in every loop below
  they are of a kind, or lack the attributes, that the loop skips, so it makes no difference.
  A negative \<open>MaxCandidatesPerGap\<close>, on which Go panics, is outside the model; \<open>Build\<close> uses 5.
\<close>

section \<open>State\<close>

record builder =
  b_ev :: evidence
  b_policy :: graph_policy
  b_nodes :: "(string \<times> graph_node) list"
  b_edges :: "(string \<times> graph_edge) list"
  b_candidates :: "(string \<times> graph_candidate) list"
  b_sources :: "(string \<times> evidence_source list) list"

definition DefaultPolicy :: graph_policy where
  "DefaultPolicy = \<lparr>gp_maxObservedDepth = 4, gp_maxInferredHops = 1, gp_maxNodes = 50, gp_maxEdges = 150,
     gp_maxCandidatesPerGap = 5, gp_strongThreshold = 100, gp_possibleThreshold = 60\<rparr>"

definition node_keys :: "builder \<Rightarrow> string list" where "node_keys b = map fst (b_nodes b)"

definition has_node :: "builder \<Rightarrow> string \<Rightarrow> bool" where "has_node b i = (map_of (b_nodes b) i \<noteq> None)"

definition put_node :: "graph_node \<Rightarrow> builder \<Rightarrow> builder" where
  "put_node n b = b\<lparr>b_nodes := map_put (gn_id n) n (b_nodes b)\<rparr>"

text \<open>\<open>for id, node := range b.nodes\<close>, over the keys in the order in which they come up.\<close>

fun range_nodes :: "string list \<Rightarrow> (string \<Rightarrow> graph_node \<Rightarrow> 's \<Rightarrow> 's) \<Rightarrow> ('s \<Rightarrow> builder) \<Rightarrow> 's \<Rightarrow> 's" where
  "range_nodes [] f bld s = s"
| "range_nodes (i # is) f bld s =
     range_nodes is f bld (case map_of (b_nodes (bld s)) i of None \<Rightarrow> s | Some n \<Rightarrow> f i n s)"

section \<open>Helpers\<close>

definition apiGroup :: "cref \<Rightarrow> string" where
  "apiGroup ref =
     (if cr_apiGroup ref \<noteq> [] then cr_apiGroup ref
      else if cr_kind ref \<in> set [''Deployment'', ''ReplicaSet'', ''StatefulSet'', ''DaemonSet''] then ''apps''
      else if cr_kind ref = ''HorizontalPodAutoscaler'' then ''autoscaling''
      else if cr_kind ref = ''EndpointSlice'' then ''discovery.k8s.io''
      else if cr_kind ref \<in> set [''Ingress'', ''NetworkPolicy''] then ''networking.k8s.io''
      else if cr_kind ref \<in> set [''Job'', ''CronJob''] then ''batch''
      else ''core'')"

definition nodeID :: "string \<Rightarrow> cref \<Rightarrow> string" where
  "nodeID kind ref = join '':'' [kind, apiGroup ref, cr_kind ref, cr_namespace ref, cr_name ref]"

definition graph_resourceKey :: "cref \<Rightarrow> string" where
  "graph_resourceKey ref = join ''|'' [apiGroup ref, to_lower (cr_kind ref), cr_namespace ref, cr_name ref]"

definition sameResource :: "cref \<Rightarrow> cref \<Rightarrow> bool" where
  "sameResource l r \<longleftrightarrow> to_lower (cr_kind l) = to_lower (cr_kind r) \<and> cr_namespace l = cr_namespace r \<and>
     cr_name l = cr_name r \<and> apiGroup l = apiGroup r"

definition isWorkloadKind :: "string \<Rightarrow> bool" where
  "isWorkloadKind kind \<longleftrightarrow> kind \<in> set [''Deployment'', ''StatefulSet'', ''DaemonSet'', ''Job'', ''CronJob'']"

definition selectorKeyWeight :: "string \<Rightarrow> int" where
  "selectorKeyWeight key =
     (if key \<in> set [''app.kubernetes.io/instance'', ''app.kubernetes.io/name''] then 4
      else if key = ''app'' then 3
      else if key \<in> set [''component'', ''app.kubernetes.io/component''] then 2
      else 1)"

text \<open>\<open>SelectorInferenceScore\<close>; a conflict is a key with the expected and the actual value.\<close>

definition selector_matched :: "str_map \<Rightarrow> str_map \<Rightarrow> str_map" where
  "selector_matched selector labels = filter (\<lambda>(k, v). map_of labels k = Some v) selector"

definition selector_conflicts :: "str_map \<Rightarrow> str_map \<Rightarrow> (string \<times> string \<times> string) list" where
  "selector_conflicts selector labels = concat (map (\<lambda>(k, v). case map_of labels k of
     Some a \<Rightarrow> if a = v then [] else [(k, v, a)] | None \<Rightarrow> []) selector)"

definition total_weight :: "str_map \<Rightarrow> int" where
  "total_weight m = sum_list (map (\<lambda>(k, v). selectorKeyWeight k) m)"

definition SelectorInferenceScore :: "str_map \<Rightarrow> str_map \<Rightarrow> int \<times> str_map \<times> (string \<times> string \<times> string) list" where
  "SelectorInferenceScore selector labels =
     (let matched = selector_matched selector labels; conflicts = selector_conflicts selector labels;
          matchedWeight = total_weight matched; totalWeight = total_weight selector
      in if totalWeight = 0 \<or> matchedWeight = 0 then (0, matched, conflicts)
         else (matchedWeight * 100 div totalWeight, matched, conflicts))"

fun stringMap :: "any \<Rightarrow> str_map" where
  "stringMap (AStrMap m) = m"
| "stringMap (AMap m) = map (\<lambda>(k, v). (k, sprint v)) m"
| "stringMap _ = []"

fun anySlice :: "any \<Rightarrow> any list" where
  "anySlice (AList xs) = xs"
| "anySlice (AMaps ms) = map AMap ms"
| "anySlice _ = []"

fun mapValue :: "any \<Rightarrow> attrs" where
  "mapValue (AMap m) = m"
| "mapValue (AStrMap m) = map (\<lambda>(k, v). (k, AStr v)) m"
| "mapValue _ = []"

text \<open>The type assertion \<open>value.(map[string]any)\<close>, nil when it fails.\<close>

fun as_map :: "any \<Rightarrow> attrs" where
  "as_map (AMap m) = m"
| "as_map _ = []"

text \<open>\<open>n, _ := strconv.Atoi(s)\<close>: out of range gives the nearest representable value.\<close>

definition atoi_value :: "string \<Rightarrow> int" where
  "atoi_value s = (case parse_int64 s of Some v \<Rightarrow> v
     | None \<Rightarrow> let ds = (if s \<noteq> [] \<and> hd s \<in> set ''+-'' then tl s else s)
         in if ds \<noteq> [] \<and> list_all is_digit ds then (if hd s = CHR ''-'' then min_int64 else max_int64) else 0)"

fun intValue :: "any \<Rightarrow> int" where
  "intValue (AInt n) = n"
| "intValue (AOther p (Some n)) = n"
| "intValue v = atoi_value (sprint v)"

definition labelsMatch :: "str_map \<Rightarrow> str_map \<Rightarrow> bool" where
  "labelsMatch selector labels = (selector \<noteq> [] \<and> list_all (\<lambda>(key, value). go_idx labels key = value) selector)"

definition serviceHasPort :: "any \<Rightarrow> any \<Rightarrow> bool" where
  "serviceHasPort value target =
     (let wanted = sprint target
      in if list_ex (\<lambda>raw. case raw of
             AMap port \<Rightarrow> sprint (any_idx port ''port'') = wanted \<or> sprint (any_idx port ''name'') = wanted
           | _ \<Rightarrow> False) (anySlice value) then True
         else case parse_int64 wanted of Some n \<Rightarrow> n > 0 \<and> anySlice value = [] | None \<Rightarrow> False)"

fun keep_first :: "string list \<Rightarrow> string list \<Rightarrow> string list" where
  "keep_first seen [] = []"
| "keep_first seen (v # vs) =
     (if v \<noteq> [] \<and> v \<notin> set seen then v # keep_first (v # seen) vs else keep_first seen vs)"

definition uniqueSorted :: "string list \<Rightarrow> string list" where
  "uniqueSorted values = sort_slice (<) (keep_first [] values)"

definition stableID :: "string \<Rightarrow> string list \<Rightarrow> string" where
  "stableID pre parts = pre @ '':'' @ hex_string (take 8 (sha256 (join ''|'' parts)))"

definition edgeState :: "bool \<Rightarrow> string" where
  "edgeState missing = (if missing then ''broken'' else ''resolved'')"

definition withState :: "graph_node \<Rightarrow> string \<Rightarrow> graph_node" where
  "withState node state = node\<lparr>gn_state := state\<rparr>"

definition withoutState :: "attrs \<Rightarrow> attrs" where
  "withoutState values = filter (\<lambda>(k, v). k \<noteq> ''state'') values"

definition first_nonempty :: "string list \<Rightarrow> str_map \<Rightarrow> string" where
  "first_nonempty keys labels = (case find (\<lambda>k. go_idx labels k \<noteq> []) keys of
     None \<Rightarrow> [] | Some k \<Rightarrow> k @ ''='' @ go_idx labels k)"

definition systemIdentity :: "attrs \<Rightarrow> string" where
  "systemIdentity attributes =
     first_nonempty [''kubechan.io/system'', ''app.kubernetes.io/part-of'', ''app.kubernetes.io/instance'']
       (stringMap (any_idx attributes ''labels''))"

fun contains_sub :: "string \<Rightarrow> string \<Rightarrow> bool" where
  "contains_sub sub [] = (sub = [])"
| "contains_sub sub (c # s) = (take (length sub) (c # s) = sub \<or> contains_sub sub s)"

definition sourceIDs :: "builder \<Rightarrow> cref \<Rightarrow> string \<Rightarrow> string list" where
  "sourceIDs b ref pathContains =
     (let ss = (case map_of (b_sources b) (graph_resourceKey ref) of None \<Rightarrow> [] | Some ss \<Rightarrow> ss)
      in uniqueSorted (map src_id (filter (\<lambda>s. pathContains = [] \<or> contains_sub pathContains (src_path s)) ss)))"

section \<open>Adding nodes and edges\<close>

definition addResource :: "builder \<Rightarrow> cref \<Rightarrow> string \<Rightarrow> attrs \<Rightarrow> string \<times> builder" where
  "addResource b ref role attributes =
     (let i = nodeID ''resource'' ref;
          (old, state0, role') = (case map_of (b_nodes b) i of
             None \<Rightarrow> ([], ''present'', role)
           | Some current \<Rightarrow> (gn_attributes current,
               if gn_state current \<noteq> [] then gn_state current else ''present'',
               if role = ''context'' \<or> role = ''dependency'' then gn_role current else role));
          merged = foldl (\<lambda>m (k, v). map_put k v m) old (withoutState attributes);
          state = (case map_of attributes ''state'' of None \<Rightarrow> state0 | Some raw \<Rightarrow> sprint raw)
      in (i, put_node \<lparr>gn_id = i, gn_type = ''resource'', gn_resource = ref, gn_state = state, gn_role = role',
            gn_attributes = merged, gn_sourceIDs = sourceIDs b ref []\<rparr> b))"

definition reference_node :: "cref \<Rightarrow> string \<Rightarrow> string list \<Rightarrow> graph_node" where
  "reference_node ref role sources = \<lparr>gn_id = nodeID ''reference'' ref, gn_type = ''reference'', gn_resource = ref,
     gn_state = ''missing'', gn_role = role, gn_attributes = [], gn_sourceIDs = sources\<rparr>"

definition addDependency :: "builder \<Rightarrow> cref \<Rightarrow> bool \<Rightarrow> string \<times> builder" where
  "addDependency b ref missing =
     (if \<not> missing then addResource b ref ''dependency'' []
      else (nodeID ''reference'' ref, put_node (reference_node ref ''dependency'' (sourceIDs b ref ''/exists'')) b))"

definition put_edge :: "graph_edge \<Rightarrow> builder \<Rightarrow> builder" where
  "put_edge e b = b\<lparr>b_edges := map_put (ge_id e) e (b_edges b)\<rparr>"

definition addEdge ::
  "string \<Rightarrow> string \<Rightarrow> string \<Rightarrow> string \<Rightarrow> attrs \<Rightarrow> string list \<Rightarrow> builder \<Rightarrow> builder" where
  "addEdge kind from to state attributes sources b =
     put_edge \<lparr>ge_id = stableID ''edge'' [kind, from, to], ge_type = kind, ge_from = from, ge_to = to, ge_state = state,
       ge_origin = ''observed'', ge_strength = [], ge_score = 0, ge_reasons = [], ge_attributes = attributes,
       ge_sourceIDs = uniqueSorted sources\<rparr> b"

definition addInferredEdge ::
  "string \<Rightarrow> string \<Rightarrow> string \<Rightarrow> int \<Rightarrow> candidate_reason list \<Rightarrow> attrs \<Rightarrow> string list \<Rightarrow> builder \<Rightarrow> builder" where
  "addInferredEdge kind from to score reasons attributes sources b =
     put_edge \<lparr>ge_id = stableID ''edge'' [''inferred'', kind, from, to], ge_type = kind, ge_from = from, ge_to = to,
       ge_state = ''proposed'', ge_origin = ''inferred'',
       ge_strength = (if score \<ge> gp_strongThreshold (b_policy b) then ''strong'' else ''possible''), ge_score = score,
       ge_reasons = reasons, ge_attributes = attributes, ge_sourceIDs = uniqueSorted sources\<rparr> b"

section \<open>Connecting services and workloads\<close>

definition attr :: "graph_node \<Rightarrow> string \<Rightarrow> any" where
  "attr n k = any_idx (gn_attributes n) k"

text \<open>A pod in the namespace of the node whose labels satisfy the selector.\<close>

definition pod_matches :: "graph_node \<Rightarrow> str_map \<Rightarrow> graph_node \<Rightarrow> bool" where
  "pod_matches node selector pod \<longleftrightarrow> cr_kind (gn_resource pod) = ''Pod'' \<and>
     cr_namespace (gn_resource pod) = cr_namespace (gn_resource node) \<and>
     labelsMatch selector (stringMap (attr pod ''labels''))"

record ranked =
  rk_id :: string
  rk_score :: int
  rk_reasons :: "candidate_reason list"
  rk_attrs :: attrs
  rk_sources :: "string list"

definition conflicts_value :: "(string \<times> string \<times> string) list \<Rightarrow> any" where
  "conflicts_value cs = AOther (print_map (map (\<lambda>(k, e, a). (k, print_map [(''expected'', e), (''actual'', a)])) cs)) None"

text \<open>One turn of the loop of \<open>inferServiceWorkloads\<close>: the candidate a workload gives, if any.\<close>

definition rank_workload :: "builder \<Rightarrow> graph_node \<Rightarrow> str_map \<Rightarrow> string \<Rightarrow> graph_node \<Rightarrow> ranked option" where
  "rank_workload b service selector workloadID workload =
     (if gn_type workload \<noteq> ''resource'' \<or> cr_namespace (gn_resource workload) \<noteq> cr_namespace (gn_resource service) \<or>
         \<not> isWorkloadKind (cr_kind (gn_resource workload)) then None
      else
        let tl = stringMap (attr workload ''templateLabels'');
            labels = (if tl = [] then stringMap (attr workload ''labels'') else tl);
            (score, matched, conflicts) = SelectorInferenceScore selector labels
        in if score < gp_possibleThreshold (b_policy b) \<or> matched = [] then None
           else
             let serviceSystem = systemIdentity (gn_attributes service);
                 workloadSystem = systemIdentity (gn_attributes workload)
             in if serviceSystem \<noteq> [] \<and> workloadSystem \<noteq> [] \<and> serviceSystem \<noteq> workloadSystem then None
                else
                  let selectorSources = sourceIDs b (gn_resource service) ''/selector'';
                      workloadSources = sourceIDs b (gn_resource workload) ''/templateLabels'';
                      sources = uniqueSorted (selectorSources @ workloadSources);
                      partly = \<lparr>rs_code = ''selector_partial_match'',
                        rs_label = ''selector matches '' @ itoa (int (length matched)) @ '' label(s) with '' @
                          itoa (int (length conflicts)) @ '' conflict(s)'', rs_sourceIDs = sources\<rparr>;
                      renamed = (if go_idx (stringMap (attr service ''annotations'')) ''kubechan.io/renamed-from'' =
                            cr_name (gn_resource workload)
                          then [\<lparr>rs_code = ''renamed_from'',
                            rs_label = ''Service was renamed from workload name '' @ cr_name (gn_resource workload),
                            rs_sourceIDs = sourceIDs b (gn_resource service) ''/annotations''\<rparr>] else []);
                      same = (if serviceSystem \<noteq> [] \<and> serviceSystem = workloadSystem
                          then [\<lparr>rs_code = ''same_system'', rs_label = ''resources share application identity'',
                            rs_sourceIDs = uniqueSorted (sourceIDs b (gn_resource service) ''/labels'' @
                              sourceIDs b (gn_resource workload) ''/labels'')\<rparr>] else [])
                  in Some \<lparr>rk_id = workloadID,
                       rk_score = score + (if renamed \<noteq> [] then 100 else 0) + (if same \<noteq> [] then 80 else 0),
                       rk_reasons = partly # renamed @ same,
                       rk_attrs = [(''matchedLabels'', AStrMap matched), (''conflictingLabels'', conflicts_value conflicts),
                         (''selector'', AStrMap selector)],
                       rk_sources = sources\<rparr>)"

definition better :: "ranked \<Rightarrow> ranked \<Rightarrow> bool" where
  "better c d = (if rk_score c \<noteq> rk_score d then rk_score c > rk_score d else rk_id c < rk_id d)"

definition inferServiceWorkloads :: "range_order \<Rightarrow> string \<Rightarrow> graph_node \<Rightarrow> str_map \<Rightarrow> builder \<Rightarrow> builder" where
  "inferServiceWorkloads ord serviceID service selector b =
     (let cands = range_nodes (ord [''inferServiceWorkloads'', serviceID] (node_keys b))
            (\<lambda>i w cs. case rank_workload b service selector i w of None \<Rightarrow> cs | Some c \<Rightarrow> cs @ [c]) (\<lambda>_. b) [];
          best = take (nat (gp_maxCandidatesPerGap (b_policy b))) (sort_slice better cands)
      in foldl (\<lambda>b c. addInferredEdge ''possible_selector_target'' serviceID (rk_id c) (rk_score c) (rk_reasons c)
            (rk_attrs c) (rk_sources c) b) b best)"

text \<open>The inner loop of \<open>connectServicesToPods\<close>, with the number of matching pods.\<close>

definition select_pods :: "range_order \<Rightarrow> string \<Rightarrow> graph_node \<Rightarrow> str_map \<Rightarrow> builder \<Rightarrow> builder \<times> nat" where
  "select_pods ord serviceID node selector b =
     range_nodes (ord [''selectPods'', serviceID] (node_keys b))
       (\<lambda>podID pod (b, matched). if pod_matches node selector pod
          then (addEdge ''selects'' serviceID podID ''resolved'' [(''selector'', AStrMap selector)]
                 (sourceIDs b (gn_resource node) ''/selector'') b, Suc matched)
          else (b, matched)) fst (b, 0)"

definition connect_service :: "range_order \<Rightarrow> string \<Rightarrow> graph_node \<Rightarrow> builder \<Rightarrow> builder" where
  "connect_service ord serviceID node b =
     (if gn_type node \<noteq> ''resource'' \<or> cr_kind (gn_resource node) \<noteq> ''Service'' then b
      else let selector = stringMap (attr node ''selector'')
        in if selector = [] then b
           else case select_pods ord serviceID node selector b of (b1, matched) \<Rightarrow>
             if matched = 0 then inferServiceWorkloads ord serviceID node selector 
                 (b1\<lparr>b_nodes := map_put serviceID (withState node ''degraded'') (b_nodes b1)\<rparr>)
             else b1)"

definition connectServicesToPods :: "range_order \<Rightarrow> builder \<Rightarrow> builder" where
  "connectServicesToPods ord b =
     range_nodes (ord [''connectServicesToPods''] (node_keys b)) (connect_service ord) (\<lambda>b. b) b"

definition connect_workload :: "range_order \<Rightarrow> string \<Rightarrow> graph_node \<Rightarrow> builder \<Rightarrow> builder" where
  "connect_workload ord workloadID workload b =
     (if \<not> isWorkloadKind (cr_kind (gn_resource workload)) then b
      else let labels = stringMap (attr workload ''templateLabels'')
        in if labels = [] then b
           else range_nodes (ord [''workloadPods'', workloadID] (node_keys b))
             (\<lambda>podID pod b. if pod_matches workload labels pod
                then addEdge ''manages'' workloadID podID ''resolved'' [(''templateLabels'', AStrMap labels)]
                       (sourceIDs b (gn_resource workload) ''/templateLabels'') b
                else b) (\<lambda>b. b) b)"

definition connectWorkloadsToPods :: "range_order \<Rightarrow> builder \<Rightarrow> builder" where
  "connectWorkloadsToPods ord b =
     range_nodes (ord [''connectWorkloadsToPods''] (node_keys b)) (connect_workload ord) (\<lambda>b. b) b"

section \<open>Ingresses and candidate services\<close>

definition selectorMatchesWorkload :: "builder \<Rightarrow> str_map \<Rightarrow> string \<Rightarrow> bool" where
  "selectorMatchesWorkload b selector namespace =
     (if selector = [] then False
      else list_ex (\<lambda>(i, node). cr_kind (gn_resource node) = ''Pod'' \<and> cr_namespace (gn_resource node) = namespace \<and>
        labelsMatch selector (stringMap (attr node ''labels''))) (b_nodes b))"

text \<open>One turn of the loop of \<open>rankServiceCandidates\<close>.\<close>

definition rank_service :: "string \<Rightarrow> string \<Rightarrow> cref \<Rightarrow> attrs \<Rightarrow> string \<Rightarrow> graph_node \<Rightarrow> builder \<Rightarrow> builder" where
  "rank_service source referenceID ref ingressPath candidateID node b =
     (if gn_type node \<noteq> ''resource'' \<or> cr_kind (gn_resource node) \<noteq> ''Service'' \<or>
         cr_namespace (gn_resource node) \<noteq> cr_namespace ref then b
      else
        let renamed = (if go_idx (stringMap (attr node ''annotations'')) ''kubechan.io/renamed-from'' = cr_name ref
              then [\<lparr>rs_code = ''renamed_from'', rs_label = ''Service was renamed from '' @ cr_name ref,
                rs_sourceIDs = sourceIDs b (gn_resource node) ''/annotations''\<rparr>] else []);
            selects = (if selectorMatchesWorkload b (stringMap (attr node ''selector'')) (cr_namespace (gn_resource node))
              then [\<lparr>rs_code = ''selects_workload'', rs_label = ''Selector matches the reported workload'',
                rs_sourceIDs = sourceIDs b (gn_resource node) ''/selector''\<rparr>] else []);
            port = (if serviceHasPort (attr node ''ports'') (any_idx ingressPath ''backendPort'')
              then [\<lparr>rs_code = ''matching_port'', rs_label = ''Service exposes the referenced port'',
                rs_sourceIDs = sourceIDs b (gn_resource node) ''/ports''\<rparr>] else []);
            score = (if renamed \<noteq> [] then 100 else 0) + (if selects \<noteq> [] then 40 else 0) + (if port \<noteq> [] then 20 else 0)
        in if score < (40 :: int) then b
           else let i = stableID ''candidate'' [referenceID, candidateID]
             in b\<lparr>b_candidates := map_put i \<lparr>gc_id = i, gc_sourceNodeID = source, gc_referenceNodeID = referenceID,
                  gc_candidateNodeID = candidateID, gc_score = score,
                  gc_strength = (if score \<ge> 100 then ''strong'' else ''possible''),
                  gc_reasons = renamed @ selects @ port\<rparr> (b_candidates b)\<rparr>)"

definition node_resource :: "builder \<Rightarrow> string \<Rightarrow> cref" where
  "node_resource b i = (case map_of (b_nodes b) i of Some n \<Rightarrow> gn_resource n | None \<Rightarrow> mk_cref [] [] [])"

definition rankServiceCandidates :: "range_order \<Rightarrow> string list \<Rightarrow> string \<Rightarrow> string \<Rightarrow> attrs \<Rightarrow> builder \<Rightarrow> builder" where
  "rankServiceCandidates ord tag source referenceID ingressPath b =
     range_nodes (ord (''rankServiceCandidates'' # tag) (node_keys b))
       (rank_service source referenceID (node_resource b referenceID) ingressPath) (\<lambda>b. b) b"

text \<open>One path of one rule of an Ingress.\<close>

definition connect_path :: "range_order \<Rightarrow> string \<Rightarrow> graph_node \<Rightarrow> nat \<Rightarrow> builder \<Rightarrow> nat \<times> any \<Rightarrow> builder" where
  "connect_path ord ingressID node ruleIndex b = (\<lambda>(pathIndex, rawPath).
     (let path = as_map rawPath; name = sprint (any_idx path ''backendService'')
      in if name = [] \<or> name = ''<nil>'' then b
         else
           let targetRef = mk_cref ''Service'' (cr_namespace (gn_resource node)) name;
               found = has_node b (nodeID ''resource'' targetRef);
               targetID = (if found then nodeID ''resource'' targetRef else nodeID ''reference'' targetRef);
               b1 = (if found then b else put_node (reference_node targetRef ''referenced'' []) b);
               pathPointer = ''/rules/'' @ itoa (int ruleIndex) @ ''/paths/'' @ itoa (int pathIndex) @ ''/backendService'';
               b2 = addEdge ''routes_to'' ingressID targetID (if found then ''resolved'' else ''broken'')
                 [(''path'', any_idx path ''path''), (''port'', any_idx path ''backendPort''), (''fieldPath'', AStr pathPointer)]
                 (sourceIDs b1 (gn_resource node) pathPointer) b1
           in if found then b2 else rankServiceCandidates ord [ingressID, pathPointer] ingressID targetID path b2))"

definition connect_rule :: "range_order \<Rightarrow> string \<Rightarrow> graph_node \<Rightarrow> builder \<Rightarrow> nat \<times> any \<Rightarrow> builder" where
  "connect_rule ord ingressID node b = (\<lambda>(ruleIndex, rawRule).
     foldl (connect_path ord ingressID node ruleIndex) b (enumerate 0 (anySlice (any_idx (as_map rawRule) ''paths''))))"

definition connect_ingress :: "range_order \<Rightarrow> string \<Rightarrow> graph_node \<Rightarrow> builder \<Rightarrow> builder" where
  "connect_ingress ord ingressID node b =
     (if gn_type node \<noteq> ''resource'' \<or> cr_kind (gn_resource node) \<noteq> ''Ingress'' then b
      else foldl (connect_rule ord ingressID node) b (enumerate 0 (anySlice (attr node ''rules''))))"

definition connectIngressesToServices :: "range_order \<Rightarrow> builder \<Rightarrow> builder" where
  "connectIngressesToServices ord b =
     range_nodes (ord [''connectIngressesToServices''] (node_keys b)) (connect_ingress ord) (\<lambda>b. b) b"

section \<open>Dependencies, autoscalers, endpoint slices and storage classes\<close>

definition dependency_edge :: "string \<Rightarrow> string" where
  "dependency_edge kind = (if kind = ''ConfigMap'' then ''configured_by'' else if kind = ''Secret'' then ''uses_secret''
     else if kind = ''PersistentVolumeClaim'' then ''mounts'' else ''references'')"

definition plain_node :: "cref \<Rightarrow> graph_node" where
  "plain_node ref = \<lparr>gn_id = nodeID ''resource'' ref, gn_type = ''resource'', gn_resource = ref, gn_state = ''present'',
     gn_role = ''dependency'', gn_attributes = [], gn_sourceIDs = []\<rparr>"

definition connect_dependency :: "string \<Rightarrow> graph_node \<Rightarrow> builder \<Rightarrow> nat \<times> any \<Rightarrow> builder" where
  "connect_dependency workloadID node b = (\<lambda>(index, raw).
     (let dep = as_map raw; kind = sprint (any_idx dep ''kind''); name = sprint (any_idx dep ''name'')
      in if kind = [] \<or> name = [] \<or> name = ''<nil>'' then b
         else
           let ref = mk_cref kind (cr_namespace (gn_resource node)) name;
               missing = (any_idx dep ''exists'' = ABool False);
               targetID = nodeID (if missing then ''reference'' else ''resource'') ref;
               pointer = ''/dependencies/'' @ itoa (int index);
               b1 = (if missing then put_node (reference_node ref ''dependency'' (sourceIDs b (gn_resource node) pointer)) b
                     else if has_node b targetID then b else put_node (plain_node ref) b)
           in addEdge (dependency_edge kind) workloadID targetID (edgeState missing)
                [(''fieldPath'', any_idx dep ''fieldPath'')] (sourceIDs b1 (gn_resource node) pointer) b1))"

definition connect_dependencies :: "string \<Rightarrow> graph_node \<Rightarrow> builder \<Rightarrow> builder" where
  "connect_dependencies workloadID node b =
     (if \<not> isWorkloadKind (cr_kind (gn_resource node)) then b
      else foldl (connect_dependency workloadID node) b (enumerate 0 (anySlice (attr node ''dependencies''))))"

definition connectWorkloadDependencies :: "range_order \<Rightarrow> builder \<Rightarrow> builder" where
  "connectWorkloadDependencies ord b =
     range_nodes (ord [''connectWorkloadDependencies''] (node_keys b)) connect_dependencies (\<lambda>b. b) b"

definition connect_autoscaler :: "string \<Rightarrow> graph_node \<Rightarrow> builder \<Rightarrow> builder" where
  "connect_autoscaler scalerID node b =
     (if cr_kind (gn_resource node) \<notin> set [''HorizontalPodAutoscaler'', ''ScaledObject''] then b
      else
        let direct = mapValue (attr node ''scaleTargetRef'');
            target = (if direct = [] then mapValue (any_idx (mapValue (attr node ''spec'')) ''scaleTargetRef'') else direct);
            kind = sprint (any_idx target ''kind''); name = sprint (any_idx target ''name'')
        in if kind = [] \<or> kind = ''<nil>'' \<or> name = [] \<or> name = ''<nil>'' then b
           else
             let ref = (mk_cref kind (cr_namespace (gn_resource node)) name)\<lparr>cr_apiGroup := ''apps''\<rparr>;
                 found = has_node b (nodeID ''resource'' ref);
                 b1 = (if found then b else put_node (reference_node ref ''referenced'' []) b)
             in addEdge ''scales'' scalerID (nodeID (if found then ''resource'' else ''reference'') ref)
                  (edgeState (\<not> found)) [] (sourceIDs b1 (gn_resource node) ''scaleTargetRef'') b1)"

definition connectAutoscalers :: "range_order \<Rightarrow> builder \<Rightarrow> builder" where
  "connectAutoscalers ord b =
     range_nodes (ord [''connectAutoscalers''] (node_keys b)) connect_autoscaler (\<lambda>b. b) b"

definition connect_slice :: "string \<Rightarrow> graph_node \<Rightarrow> builder \<Rightarrow> builder" where
  "connect_slice sliceID node b =
     (if cr_kind (gn_resource node) \<noteq> ''EndpointSlice'' then b
      else let serviceName = sprint (attr node ''serviceName'')
        in if serviceName = [] \<or> serviceName = ''<nil>'' then b
           else let serviceID = nodeID ''resource'' (mk_cref ''Service'' (cr_namespace (gn_resource node)) serviceName)
             in case map_of (b_nodes b) serviceID of None \<Rightarrow> b
                | Some service \<Rightarrow>
                    let none = (intValue (attr node ''readyEndpoints'') = 0);
                        b1 = (if none then b\<lparr>b_nodes := map_put serviceID (withState service ''degraded'') (b_nodes b)\<rparr> else b)
                    in addEdge ''has_endpoints'' serviceID sliceID (if none then ''empty'' else ''resolved'')
                         [(''readyEndpoints'', attr node ''readyEndpoints''), (''notReadyEndpoints'', attr node ''notReadyEndpoints'')]
                         (sourceIDs b1 (gn_resource node) []) b1)"

definition connectEndpointSlices :: "range_order \<Rightarrow> builder \<Rightarrow> builder" where
  "connectEndpointSlices ord b =
     range_nodes (ord [''connectEndpointSlices''] (node_keys b)) connect_slice (\<lambda>b. b) b"

definition connect_pvc :: "string \<Rightarrow> graph_node \<Rightarrow> builder \<Rightarrow> builder" where
  "connect_pvc pvcID node b =
     (if cr_kind (gn_resource node) \<noteq> ''PersistentVolumeClaim'' then b
      else let name = sprint (attr node ''storageClass'')
        in if name = [] \<or> name = ''<nil>'' then b
           else
             let ref = (mk_cref ''StorageClass'' [] name)\<lparr>cr_apiGroup := ''storage.k8s.io''\<rparr>;
                 missing = (attr node ''storageClassExists'' = ABool False);
                 b1 = (if missing then put_node (reference_node ref ''dependency'' []) b
                       else snd (addResource b ref ''dependency'' []))
             in addEdge ''uses_storage_class'' pvcID (nodeID (if missing then ''reference'' else ''resource'') ref)
                  (edgeState missing) [] (sourceIDs b1 (gn_resource node) ''/storageClass'') b1)"

definition connectPVCStorageClasses :: "range_order \<Rightarrow> builder \<Rightarrow> builder" where
  "connectPVCStorageClasses ord b =
     range_nodes (ord [''connectPVCStorageClasses''] (node_keys b)) connect_pvc (\<lambda>b. b) b"

section \<open>Bounding the graph\<close>

text \<open>The values of a map, in the order in which a range over it yields them.\<close>

definition range_values :: "range_order \<Rightarrow> string list \<Rightarrow> (string \<times> 'v) list \<Rightarrow> 'v list" where
  "range_values ord tag m = map (\<lambda>k. the (map_of m k)) (ord tag (map fst m))"

definition allSorted :: "range_order \<Rightarrow> builder \<Rightarrow> graph_node list \<times> graph_edge list" where
  "allSorted ord b =
     (sort_slice (\<lambda>m n. gn_id m < gn_id n) (range_values ord [''allNodes''] (b_nodes b)),
      sort_slice (\<lambda>e f. ge_id e < ge_id f) (range_values ord [''allEdges''] (b_edges b)))"

definition adjacent :: "graph_edge list \<Rightarrow> string \<Rightarrow> graph_edge list" where
  "adjacent es i = sort_slice (\<lambda>e f. ge_id e < ge_id f)
     (concat (map (\<lambda>e. (if ge_from e = i then [e] else []) @ (if ge_to e = i then [e] else [])) es))"

record traversal_state =
  ts_id :: string
  ts_depth :: int
  ts_inferredHops :: int

type_synonym seen_map = "(string \<times> traversal_state) list"

definition start_state :: "string \<Rightarrow> traversal_state" where
  "start_state i = \<lparr>ts_id = i, ts_depth = 0, ts_inferredHops = 0\<rparr>"

definition full :: "graph_policy \<Rightarrow> seen_map \<Rightarrow> bool" where
  "full p seen \<longleftrightarrow> int (length seen) \<ge> gp_maxNodes p"

definition is_seen :: "seen_map \<Rightarrow> string \<Rightarrow> bool" where
  "is_seen seen i \<longleftrightarrow> map_of seen i \<noteq> None"

text \<open>The state in which an edge leads on from \<open>current\<close>.\<close>

definition follow :: "traversal_state \<Rightarrow> graph_edge \<Rightarrow> traversal_state" where
  "follow current e = \<lparr>ts_id = (if ge_to e = ts_id current then ge_from e else ge_to e), ts_depth = ts_depth current + 1,
     ts_inferredHops = ts_inferredHops current + (if ge_origin e = ''inferred'' then 1 else 0)\<rparr>"

fun expand :: "graph_policy \<Rightarrow> traversal_state \<Rightarrow> graph_edge list \<Rightarrow> seen_map \<times> traversal_state list \<Rightarrow>
    seen_map \<times> traversal_state list" where
  "expand p current [] (seen, queue) = (seen, queue)"
| "expand p current (e # es) (seen, queue) =
     (let nxt = follow current e
      in if ts_depth nxt > gp_maxObservedDepth p \<or> ts_inferredHops nxt > gp_maxInferredHops p then expand p current es (seen, queue)
         else if is_seen seen (ts_id nxt) then expand p current es (seen, queue)
         else let seen' = map_put (ts_id nxt) nxt seen; queue' = queue @ [nxt]
           in if full p seen' then (seen', queue') else expand p current es (seen', queue'))"

lemma length_map_put: "length (map_put k v m) = (if map_of m k = None then Suc (length m) else length m)"
proof (induction m)
  case (Cons e m)
  then show ?case by (cases e) simp
qed simp

lemma expand_progress:
  "expand p current es (seen, queue) = (seen', queue') \<Longrightarrow>
   length seen \<le> length seen' \<and> length queue' + length seen = length queue + length seen'"
proof (induction es arbitrary: seen queue)
  case (Cons e es)
  let ?n = "follow current e"
  show ?case
  proof (cases "ts_depth ?n > gp_maxObservedDepth p \<or> ts_inferredHops ?n > gp_maxInferredHops p \<or> is_seen seen (ts_id ?n)")
    case True
    with Cons.prems have "expand p current es (seen, queue) = (seen', queue')" by (auto simp: Let_def split: if_splits)
    then show ?thesis by (rule Cons.IH)
  next
    case False
    then have len: "length (map_put (ts_id ?n) ?n seen) = Suc (length seen)" by (simp add: length_map_put is_seen_def)
    show ?thesis
    proof (cases "full p (map_put (ts_id ?n) ?n seen)")
      case True
      with False Cons.prems len show ?thesis by (auto simp: Let_def)
    next
      case nf: False
      with False Cons.prems have "expand p current es (map_put (ts_id ?n) ?n seen, queue @ [?n]) = (seen', queue')"
        by (auto simp: Let_def)
      from Cons.IH [OF this] len show ?thesis by simp
    qed
  qed
qed simp

text \<open>
  The breadth-first traversal. Every turn either sees a new node, of which there are at most
  \<open>MaxNodes\<close>, or shortens the queue.
\<close>

function traverse :: "graph_policy \<Rightarrow> (string \<Rightarrow> graph_edge list) \<Rightarrow> seen_map \<Rightarrow> traversal_state list \<Rightarrow> seen_map" where
  "traverse p adj seen [] = seen"
| "traverse p adj seen (current # queue) =
     (if full p seen then seen
      else case expand p current (adj (ts_id current)) (seen, queue) of (seen', queue') \<Rightarrow> traverse p adj seen' queue')"
  by pat_completeness auto

termination
proof (relation "measures [\<lambda>(p, adj, seen, queue). nat (gp_maxNodes p - int (length seen)), \<lambda>(p, adj, seen, queue). length queue]",
    goal_cases)
  case (2 p adj seen current queue seen' queue')
  then have "length seen \<le> length seen'" "length queue' + length seen = length queue + length seen'" "int (length seen) < gp_maxNodes p"
    using expand_progress [of p current "adj (ts_id current)" seen queue seen' queue'] by (simp_all add: full_def)
  then show ?case by (cases "length seen = length seen'") auto
qed simp

text \<open>Explicitly collected resources, then the neighbours of what is there, while there is room.\<close>

fun add_related :: "graph_policy \<Rightarrow> graph_node list \<Rightarrow> seen_map \<Rightarrow> seen_map" where
  "add_related p [] seen = seen"
| "add_related p (n # ns) seen =
     (if full p seen then seen
      else add_related p ns (if gn_role n = ''related'' then map_put (gn_id n) (start_state (gn_id n)) seen else seen))"

fun add_context :: "graph_policy \<Rightarrow> graph_edge list \<Rightarrow> seen_map \<Rightarrow> seen_map" where
  "add_context p [] seen = seen"
| "add_context p (e # es) seen =
     (if full p seen then seen
      else add_context p es
        (if is_seen seen (ge_from e) = is_seen seen (ge_to e) then seen
         else if is_seen seen (ge_from e) then map_put (ge_to e) (start_state (ge_to e)) seen
         else map_put (ge_from e) (start_state (ge_from e)) seen))"

definition visited :: "range_order \<Rightarrow> string \<Rightarrow> builder \<Rightarrow> seen_map" where
  "visited ord entry b = (case allSorted ord b of (allNodes, allEdges) \<Rightarrow>
     add_context (b_policy b) allEdges (add_related (b_policy b) allNodes
       (traverse (b_policy b) (adjacent allEdges) [(entry, start_state entry)] [start_state entry])))"

definition bounded :: "range_order \<Rightarrow> string \<Rightarrow> builder \<Rightarrow> graph_node list \<times> graph_edge list \<times> bool" where
  "bounded ord entry b = (case allSorted ord b of (allNodes, allEdges) \<Rightarrow>
     (let seen = visited ord entry b;
          nodes = filter (\<lambda>n. is_seen seen (gn_id n)) allNodes;
          edges = take (nat (gp_maxEdges (b_policy b)))
            (filter (\<lambda>e. is_seen seen (ge_from e) \<and> is_seen seen (ge_to e)) allEdges)
      in (nodes, edges, length nodes < length allNodes \<or> length edges < length allEdges)))"

section \<open>Building the graph\<close>

fun group_sources :: "evidence_source list \<Rightarrow> (string \<times> evidence_source list) list \<Rightarrow> (string \<times> evidence_source list) list" where
  "group_sources [] m = m"
| "group_sources (s # ss) m =
     (let key = graph_resourceKey (src_resource s)
      in group_sources ss (map_put key ((case map_of m key of None \<Rightarrow> [] | Some xs \<Rightarrow> xs) @ [s]) m))"

definition new_builder :: "evidence \<Rightarrow> graph_policy \<Rightarrow> builder" where
  "new_builder ev policy = \<lparr>b_ev = ev, b_policy = policy, b_nodes = [], b_edges = [], b_candidates = [],
     b_sources = group_sources (ev_sources ev) []\<rparr>"

definition add_related_resource :: "evidence \<Rightarrow> builder \<Rightarrow> related_resource_evidence \<Rightarrow> builder" where
  "add_related_resource ev b related =
     (let role0 = (if rre_discoveryOrigin related = ''automatic'' then ''discovered'' else ''related'');
          role = (if sameResource (rre_resource related) (ev_rootResource ev) then ''entry'' else role0)
      in snd (addResource b (rre_resource related) role (rre_spec related)))"

definition add_config_map :: "string \<Rightarrow> string \<Rightarrow> builder \<Rightarrow> config_map_ref \<Rightarrow> builder" where
  "add_config_map ns podID b cm =
     (let dep = mk_cref ''ConfigMap'' ns (cmr_name cm)
      in case addDependency b dep (cmr_missing cm) of (target, b1) \<Rightarrow>
           addEdge ''configured_by'' podID target (edgeState (cmr_missing cm)) [(''mountPaths'', AStrs (cmr_mountPaths cm))]
             (sourceIDs b1 dep ''/exists'') b1)"

definition add_secret :: "string \<Rightarrow> string \<Rightarrow> builder \<Rightarrow> secret_ref \<Rightarrow> builder" where
  "add_secret ns podID b secret =
     (let dep = mk_cref ''Secret'' ns (sec_name secret)
      in case addDependency b dep (sec_missing secret) of (target, b1) \<Rightarrow>
           addEdge ''uses_secret'' podID target (edgeState (sec_missing secret)) [] (sourceIDs b1 dep ''/exists'') b1)"

definition add_owners :: "evidence \<Rightarrow> string \<Rightarrow> pod_logs \<Rightarrow> cref \<Rightarrow> string \<Rightarrow> builder \<Rightarrow> builder" where
  "add_owners ev entry pod ref podID b =
     (let b1 = foldl (\<lambda>b owner. if has_node b (nodeID ''resource'' owner)
            then addEdge ''owns'' (nodeID ''resource'' owner) podID ''resolved'' [] (sourceIDs b ref ''/owners'') b else b)
          b (pl_owners pod)
      in if pl_owners pod = [] \<and> isWorkloadKind (cr_kind (ev_rootResource ev))
         then addEdge ''owns'' entry podID ''resolved'' [] [] b1 else b1)"

definition add_dependencies :: "pod_logs \<Rightarrow> cref \<Rightarrow> string \<Rightarrow> builder \<Rightarrow> builder" where
  "add_dependencies pod ref podID b =
     (case pl_dependencies pod of None \<Rightarrow> b
      | Some deps \<Rightarrow> foldl (add_secret (cr_namespace ref) podID)
          (foldl (add_config_map (cr_namespace ref) podID) b (pd_configMaps deps)) (pd_secrets deps))"

definition add_mounts :: "pod_logs \<Rightarrow> cref \<Rightarrow> string \<Rightarrow> builder \<Rightarrow> builder" where
  "add_mounts pod ref podID b =
     foldl (\<lambda>b pvcName. let pvcRef = mk_cref ''PersistentVolumeClaim'' (cr_namespace ref) pvcName
         in addEdge ''mounts'' podID (nodeID ''resource'' pvcRef) ''resolved'' [] (sourceIDs b pvcRef []) b)
       b (pl_pvcNames pod)"

definition add_pod :: "evidence \<Rightarrow> string \<Rightarrow> builder \<Rightarrow> pod_logs \<Rightarrow> builder" where
  "add_pod ev entry b pod =
     (let ref = mk_cref ''Pod'' (cr_namespace (ev_rootResource ev)) (pl_podName pod);
          state = (if pl_phase pod \<noteq> ''Running'' \<and> pl_phase pod \<noteq> ''Succeeded'' then ''degraded'' else ''healthy'')
      in case addResource b ref ''workload''
          [(''phase'', AStr (pl_phase pod)), (''labels'', AStrMap (pl_labels pod)), (''state'', AStr state)] of
        (podID, b1) \<Rightarrow> add_mounts pod ref podID (add_dependencies pod ref podID (add_owners ev entry pod ref podID b1)))"

definition add_pvc :: "evidence \<Rightarrow> builder \<Rightarrow> pvc_info \<Rightarrow> builder" where
  "add_pvc ev b pvc =
     (let ref = mk_cref ''PersistentVolumeClaim'' (cr_namespace (ev_rootResource ev)) (pi_name pvc);
          state = (if pi_phase pvc \<noteq> ''Bound'' then ''degraded'' else ''healthy'')
      in snd (addResource b ref ''dependency''
           [(''phase'', AStr (pi_phase pvc)), (''storageClass'', AStr (pi_storageClass pvc)), (''state'', AStr state)]))"

definition populate :: "evidence \<Rightarrow> graph_policy \<Rightarrow> builder" where
  "populate ev policy =
     (case addResource (new_builder ev policy) (ev_rootResource ev) ''entry'' [] of (entry, b1) \<Rightarrow>
        foldl (add_pvc ev) (foldl (add_pod ev entry) (foldl (add_related_resource ev) b1 (ev_relatedResourceEvidence ev))
          (ev_workloadPodLogs ev)) (ev_pvcInfos ev))"

definition connect_all :: "range_order \<Rightarrow> builder \<Rightarrow> builder" where
  "connect_all ord b =
     connectPVCStorageClasses ord (connectEndpointSlices ord (connectAutoscalers ord (connectWorkloadDependencies ord
       (connectIngressesToServices ord (connectWorkloadsToPods ord (connectServicesToPods ord b))))))"

definition BuildWithPolicy :: "range_order \<Rightarrow> evidence \<Rightarrow> graph_policy \<Rightarrow> investigation_graph" where
  "BuildWithPolicy ord ev policy =
     (let entry = nodeID ''resource'' (ev_rootResource ev);
          b = connect_all ord (populate ev policy);
          (nodes, edges, truncated) = bounded ord entry b;
          allowed = map gn_id nodes;
          cands = filter (\<lambda>c. gc_sourceNodeID c \<in> set allowed \<and> gc_candidateNodeID c \<in> set allowed)
            (range_values ord [''candidates''] (b_candidates b))
      in \<lparr>ig_schemaVersion = 2, ig_entryResourceID = entry, ig_policy = policy, ig_truncated = truncated, ig_nodes = nodes,
          ig_edges = edges, ig_candidates = sort_slice (\<lambda>c d. gc_id c < gc_id d) cands\<rparr>)"

definition Build :: "range_order \<Rightarrow> evidence \<Rightarrow> investigation_graph" where
  "Build ord ev = BuildWithPolicy ord ev DefaultPolicy"

end
