(* ===== verification/Worker_Cluster.thy ===== *)
theory Worker_Cluster
  imports Api_Client Graph_Engine
begin

text \<open>
  What the diagnostics worker reads from the cluster. The objects carry the fields
  \<open>diagnosticrun_reconciler.go\<close> looks at; the reads themselves are a parameter, the record \<open>worker\<close>: the
  controller-runtime client and, for pod logs and custom resources, the REST and dynamic clients. Reads look
  at a world \<open>'w\<close> and may fail. \<open>wk_error\<close> is the text of an error, \<open>wk_addr\<close> what \<open>fmt\<close>
  prints for a non-nil pointer that is stored in a specification (its address), and
  \<open>wk_timeString\<close> the text of a \<open>metav1.Time\<close>. \<open>wk_http\<close> is the POST request to the backend, which may change
  the world; \<open>wk_marshal\<close> and \<open>wk_encode\<close> are \<open>json.Marshal\<close> of the evidence and the error of encoding the body,
  \<open>wk_config\<close>, \<open>wk_dynNew\<close> and \<open>wk_postCtx\<close> the errors of the REST configuration, the dynamic client and the
  context of the request.
\<close>

section \<open>Objects\<close>

record volume =
  vol_name :: string
  vol_configMap :: "string option"
  vol_secret :: "string option"
  vol_pvc :: "string option"
  vol_projected :: "(string option \<times> string option) list"

record container =
  ct_envFrom :: "(string option \<times> string option) list"
  ct_env :: "(string option \<times> string option) option list"
  ct_mounts :: "(string \<times> string) list"

record pod_spec =
  sp_volumes :: "volume list"
  sp_initContainers :: "container list"
  sp_containers :: "container list"

record wpod =
  wp_meta :: object_meta
  wp_phase :: string
  wp_spec :: pod_spec

record wevent =
  we_kind :: string
  we_name :: string
  we_event :: k8s_event

record wcondition =
  wcd_type :: string
  wcd_status :: string
  wcd_reason :: string
  wcd_message :: string

text \<open>A Deployment, StatefulSet or DaemonSet.\<close>

record workload =
  wl_meta :: object_meta
  wl_replicas :: "int option"
  wl_selector :: str_map
  wl_templateLabels :: str_map
  wl_spec :: pod_spec
  wl_available :: int
  wl_ready :: int
  wl_current :: int
  wl_desired :: int
  wl_unavailable :: int
  wl_conditions :: "wcondition list"

record service_port =
  spt_name :: string
  spt_port :: int
  spt_targetPort :: string
  spt_protocol :: string

record wservice =
  ws_meta :: object_meta
  ws_type :: string
  ws_selector :: str_map
  ws_ports :: "service_port list"
  ws_clusterIP :: string

text \<open>An Ingress: the backend of a path is a service with a port number, or \<open>None\<close> for a resource backend.\<close>

record ingress_path =
  ip_path :: string
  ip_pathType :: "string option"
  ip_service :: "(string \<times> int) option"

record ingress =
  wi_meta :: object_meta
  wi_className :: "string option"
  wi_rules :: "(string \<times> ingress_path list option) list"

record config_map_obj =
  wc_meta :: object_meta
  wc_data :: str_map

record secret_obj =
  wse_meta :: object_meta
  wse_type :: string
  wse_data :: str_map

record pvc_obj =
  wv_meta :: object_meta
  wv_phase :: string
  wv_capacity :: "string option"
  wv_accessModes :: "string list"
  wv_storageClass :: "string option"
  wv_requested :: "string option"

record hpa_obj =
  wh_meta :: object_meta
  wh_targetAPIVersion :: string
  wh_targetKind :: string
  wh_targetName :: string
  wh_minReplicas :: "int option"
  wh_maxReplicas :: int
  wh_currentReplicas :: int
  wh_desiredReplicas :: int

record slice_obj =
  wes_meta :: object_meta
  wes_addressType :: string
  wes_endpoints :: "(bool option \<times> nat) list"

record cronjob_obj =
  wj_annotations :: str_map
  wj_schedule :: string
  wj_suspend :: "bool option"
  wj_active :: nat
  wj_lastScheduleTime :: "time option"
  wj_lastSuccessfulTime :: "time option"

record job_obj =
  jb_completions :: "int option"
  jb_succeeded :: int
  jb_failed :: int
  jb_active :: int
  jb_startTime :: "time option"
  jb_completionTime :: "time option"

section \<open>Evidence for the backend\<close>

text \<open>The body of the request that posts evidence; the payload is the JSON text of the evidence.\<close>

record evidence_post =
  ep_diagnosticRunId :: string
  ep_incidentId :: string
  ep_collectedAt :: string
  ep_collectorVersion :: string
  ep_payload :: string
  ep_payloadBytes :: int
  ep_collectionErrors :: "string list"

section \<open>Reads\<close>

type_synonym ('w, 'o) lister = "string \<Rightarrow> 'w \<Rightarrow> go_error + 'o list"
type_synonym ('w, 'o) getter = "string \<Rightarrow> string \<Rightarrow> 'w \<Rightarrow> go_error + 'o"

record 'w worker =
  wk_client :: "'w client"
  wk_runs :: "('w, diagnostic_run) kind_client"
  wk_events :: "('w, wevent) lister"
  wk_pods :: "('w, wpod) lister"
  wk_deployments :: "('w, workload) lister"
  wk_statefulSets :: "('w, workload) lister"
  wk_daemonSets :: "('w, workload) lister"
  wk_services :: "('w, wservice) lister"
  wk_ingresses :: "('w, ingress) lister"
  wk_hpas :: "('w, hpa_obj) lister"
  wk_slices :: "('w, slice_obj) lister"
  wk_deployment :: "('w, workload) getter"
  wk_statefulSet :: "('w, workload) getter"
  wk_daemonSet :: "('w, workload) getter"
  wk_service :: "('w, wservice) getter"
  wk_ingress :: "('w, ingress) getter"
  wk_hpa :: "('w, hpa_obj) getter"
  wk_slice :: "('w, slice_obj) getter"
  wk_configMap :: "('w, config_map_obj) getter"
  wk_secret :: "('w, secret_obj) getter"
  wk_pvc :: "('w, pvc_obj) getter"
  wk_storageClass :: "string \<Rightarrow> 'w \<Rightarrow> go_error + unit"
  wk_cronJob :: "('w, cronjob_obj) getter"
  wk_job :: "('w, job_obj) getter"
  wk_config :: "go_error option"
  wk_discovery :: discovery
  wk_dynNew :: "go_error option"
  wk_dynGet :: "gvr \<Rightarrow> string \<Rightarrow> string \<Rightarrow> 'w \<Rightarrow> go_error + attrs"
  wk_clientset :: "'w \<Rightarrow> go_error option"
  wk_logs :: "string \<Rightarrow> string \<Rightarrow> int \<Rightarrow> bool \<Rightarrow> 'w \<Rightarrow> go_error + string"
  wk_marshal :: "evidence \<Rightarrow> go_error + string"
  wk_encode :: "evidence_post \<Rightarrow> go_error option"
  wk_http :: "string \<Rightarrow> evidence_post \<Rightarrow> 'w \<Rightarrow> (go_error + int) \<times> 'w"
  wk_postCtx :: "go_error option"
  wk_backendURL :: string
  wk_error :: "go_error \<Rightarrow> string"
  wk_addr :: "string list \<Rightarrow> string"
  wk_timeString :: "time \<Rightarrow> string"
  wk_logTailLines :: int
  wk_prevLogLines :: int
  wk_collectorVersion :: string

abbreviation "items r \<equiv> (case r of Inl e \<Rightarrow> [] | Inr xs \<Rightarrow> xs)"

definition found :: "go_error + 'a \<Rightarrow> bool" where
  "found r = (case r of Inl e \<Rightarrow> False | Inr x \<Rightarrow> True)"

end
