(* ===== verification/Discovery.thy ===== *)
theory Discovery
  imports Worker_Cluster
begin

text \<open>
  Finding the resources that belong to an application: \<open>templateDependencyRefs\<close>,
  \<open>templateDependencyFields\<close> and \<open>discoverApplicationResources\<close> of \<open>diagnosticrun_reconciler.go\<close>. Sets of
  names that the code keeps in maps to \<open>bool\<close> are lists; \<open>ord\<close> is the order of a range over a map.
\<close>

section \<open>References of a pod template\<close>

definition add_dep :: "string \<Rightarrow> string \<Rightarrow> string option \<Rightarrow> (string \<times> cref) list \<Rightarrow> (string \<times> cref) list" where
  "add_dep namespace kind name m = (case name of None \<Rightarrow> m
     | Some n \<Rightarrow> if n = [] then m else map_put (kind @ ''/'' @ n) (mk_cref kind namespace n) m)"

definition volume_deps :: "string \<Rightarrow> (string \<times> cref) list \<Rightarrow> volume \<Rightarrow> (string \<times> cref) list" where
  "volume_deps ns m v = add_dep ns ''PersistentVolumeClaim'' (vol_pvc v) (add_dep ns ''Secret'' (vol_secret v)
     (add_dep ns ''ConfigMap'' (vol_configMap v) m))"

definition source_deps :: "string \<Rightarrow> (string \<times> cref) list \<Rightarrow> string option \<times> string option \<Rightarrow> (string \<times> cref) list" where
  "source_deps ns m s = add_dep ns ''Secret'' (snd s) (add_dep ns ''ConfigMap'' (fst s) m)"

definition container_deps :: "string \<Rightarrow> (string \<times> cref) list \<Rightarrow> container \<Rightarrow> (string \<times> cref) list" where
  "container_deps ns m c =
     foldl (\<lambda>m e. case e of None \<Rightarrow> m | Some s \<Rightarrow> source_deps ns m s) (foldl (source_deps ns) m (ct_envFrom c)) (ct_env c)"

definition template_deps :: "string \<Rightarrow> pod_spec \<Rightarrow> (string \<times> cref) list" where
  "template_deps ns spec =
     foldl (container_deps ns) (foldl (volume_deps ns) [] (sp_volumes spec)) (sp_initContainers spec @ sp_containers spec)"

definition kind_name_less :: "('a \<Rightarrow> string) \<Rightarrow> ('a \<Rightarrow> string) \<Rightarrow> 'a \<Rightarrow> 'a \<Rightarrow> bool" where
  "kind_name_less kind name a b = (if kind a \<noteq> kind b then kind a < kind b else name a < name b)"

definition templateDependencyRefs :: "range_order \<Rightarrow> string list \<Rightarrow> string \<Rightarrow> pod_spec \<Rightarrow> cref list" where
  "templateDependencyRefs ord tag ns spec =
     sort_slice (kind_name_less cr_kind cr_name) (range_values ord (''dependencyRefs'' # tag) (template_deps ns spec))"

definition dependency_exists :: "'w worker \<Rightarrow> string \<Rightarrow> cref \<Rightarrow> 'w \<Rightarrow> bool" where
  "dependency_exists r ns ref w =
     (if cr_kind ref = ''ConfigMap'' then found (wk_configMap r ns (cr_name ref) w)
      else if cr_kind ref = ''Secret'' then found (wk_secret r ns (cr_name ref) w)
      else if cr_kind ref = ''PersistentVolumeClaim'' then found (wk_pvc r ns (cr_name ref) w)
      else False)"

definition templateDependencyFields ::
  "'w worker \<Rightarrow> range_order \<Rightarrow> string list \<Rightarrow> string \<Rightarrow> pod_spec \<Rightarrow> 'w \<Rightarrow> any" where
  "templateDependencyFields r ord tag ns spec w = AMaps (map (\<lambda>ref.
     [(''kind'', AStr (cr_kind ref)), (''name'', AStr (cr_name ref)), (''exists'', ABool (dependency_exists r ns ref w)),
      (''fieldPath'', AStr ''/spec/template/spec'')]) (templateDependencyRefs ord tag ns spec))"

section \<open>Discovery\<close>

record related_resource_entry =
  re_kind :: string
  re_namespace :: string
  re_name :: string
  re_apiGroup :: string
  re_origin :: string

record workload_info =
  wo_ref :: cref
  wo_templateLabels :: str_map
  wo_dependencies :: "cref list"

definition isControllerKind :: "string \<Rightarrow> bool" where
  "isControllerKind kind \<longleftrightarrow> kind \<in> set [''Deployment'', ''StatefulSet'', ''DaemonSet'', ''Job'', ''CronJob'']"

definition apiGroupFromAPIVersion :: "string \<Rightarrow> string" where
  "apiGroupFromAPIVersion v = (if CHR ''/'' \<in> set v then takeWhile (\<lambda>c. c \<noteq> CHR ''/'') v else [])"

definition workload_infos :: "range_order \<Rightarrow> string \<Rightarrow> string \<Rightarrow> workload list \<Rightarrow> workload_info list" where
  "workload_infos ord ns kind ws = map (\<lambda>x.
     \<lparr>wo_ref = \<lparr>cr_namespace = ns, cr_kind = kind, cr_name = om_name (wl_meta x), cr_apiGroup = ''apps''\<rparr>,
      wo_templateLabels = wl_templateLabels x,
      wo_dependencies = templateDependencyRefs ord [''discover'', kind, om_name (wl_meta x)] ns (wl_spec x)\<rparr>) ws"

definition workload_key :: "string \<Rightarrow> string \<Rightarrow> string" where
  "workload_key kind name = to_lower kind @ ''/'' @ name"

definition info_key :: "workload_info \<Rightarrow> string" where
  "info_key x = workload_key (cr_kind (wo_ref x)) (cr_name (wo_ref x))"

text \<open>A service and a workload belong together when the inference score reaches the possible threshold.\<close>

definition compatible :: "wservice \<Rightarrow> workload_info \<Rightarrow> bool" where
  "compatible s x = (case SelectorInferenceScore (ws_selector s) (wo_templateLabels x) of
     (score, matched, _) \<Rightarrow> score \<ge> gp_possibleThreshold DefaultPolicy \<and> matched \<noteq> [])"

text \<open>One service in one pass: the selected services and workloads.\<close>

definition resolve_service :: "workload_info list \<Rightarrow> string list \<times> string list \<Rightarrow> wservice \<Rightarrow> string list \<times> string list" where
  "resolve_service xs = (\<lambda>(svcs, wls) s.
     (let name = om_name (ws_meta s);
          wls' = (if name \<in> set svcs then wls @ map info_key (filter (compatible s) xs) else wls);
          svcs' = (if list_ex (\<lambda>x. info_key x \<in> set wls' \<and> compatible s x) xs then svcs @ [name] else svcs)
      in (svcs', wls')))"

definition resolve_pass :: "workload_info list \<Rightarrow> wservice list \<Rightarrow> string list \<times> string list \<Rightarrow> string list \<times> string list" where
  "resolve_pass xs ss sel = foldl (resolve_service xs) sel ss"

definition ingress_services :: "ingress \<Rightarrow> string list" where
  "ingress_services i = concat (map (\<lambda>(host, http). case http of None \<Rightarrow> []
     | Some ps \<Rightarrow> concat (map (\<lambda>p. case ip_service p of None \<Rightarrow> [] | Some (n, _) \<Rightarrow> [n]) ps)) (wi_rules i))"

definition initial_selection ::
  "cref \<Rightarrow> workload_info list \<Rightarrow> ingress list \<Rightarrow> hpa_obj list \<Rightarrow> string list \<times> string list" where
  "initial_selection root xs ings hpas =
     ((if cr_kind root = ''Service'' then [cr_name root] else []) @
      (if cr_kind root = ''Ingress'' then concat (map ingress_services (filter (\<lambda>i. om_name (wi_meta i) = cr_name root) ings)) else []),
      (if isControllerKind (cr_kind root) then [workload_key (cr_kind root) (cr_name root)] else []) @
      (if cr_kind root = ''HorizontalPodAutoscaler''
       then map (\<lambda>h. workload_key (wh_targetKind h) (wh_targetName h)) (filter (\<lambda>h. om_name (wh_meta h) = cr_name root) hpas) else []) @
      (if cr_kind root \<in> set [''ConfigMap'', ''Secret'', ''PersistentVolumeClaim'']
       then map info_key (filter (\<lambda>x. list_ex (\<lambda>d. cr_kind d = cr_kind root \<and> cr_name d = cr_name root) (wo_dependencies x)) xs)
       else []))"

definition add_entry :: "string \<Rightarrow> string \<Rightarrow> string \<Rightarrow> string \<Rightarrow> (string \<times> related_resource_entry) list \<Rightarrow>
    (string \<times> related_resource_entry) list" where
  "add_entry ns kind name apiG m = (if name = [] then m
     else map_put (workload_key kind name) \<lparr>re_kind = kind, re_namespace = ns, re_name = name, re_apiGroup = apiG, re_origin = ''automatic''\<rparr> m)"

definition add_workload_entries ::
  "'w worker \<Rightarrow> string \<Rightarrow> hpa_obj list \<Rightarrow> string list \<Rightarrow> 'w \<Rightarrow> (string \<times> related_resource_entry) list \<Rightarrow> workload_info \<Rightarrow>
   (string \<times> related_resource_entry) list" where
  "add_workload_entries r ns hpas wls w m x =
     (if info_key x \<notin> set wls then m
      else
        let m1 = add_entry ns (cr_kind (wo_ref x)) (cr_name (wo_ref x)) (cr_apiGroup (wo_ref x)) m;
            m2 = foldl (\<lambda>m d. if dependency_exists r ns d w then add_entry ns (cr_kind d) (cr_name d) [] m else m) m1 (wo_dependencies x)
        in foldl (\<lambda>m h. if wh_targetKind h = cr_kind (wo_ref x) \<and> wh_targetName h = cr_name (wo_ref x)
             then add_entry ns ''HorizontalPodAutoscaler'' (om_name (wh_meta h)) ''autoscaling'' m else m) m2 hpas)"

definition LabelServiceName :: string where "LabelServiceName = ''kubernetes.io/service-name''"

definition discovered_entries ::
  "'w worker \<Rightarrow> string \<Rightarrow> workload_info list \<Rightarrow> wservice list \<Rightarrow> hpa_obj list \<Rightarrow> slice_obj list \<Rightarrow> string list \<times> string list \<Rightarrow> 'w \<Rightarrow>
   (string \<times> related_resource_entry) list" where
  "discovered_entries r ns xs ss hpas slices sel w = (case sel of (svcs, wls) \<Rightarrow>
     (let m1 = foldl (\<lambda>m s. if om_name (ws_meta s) \<in> set svcs then add_entry ns ''Service'' (om_name (ws_meta s)) [] m else m) [] ss;
          m2 = foldl (add_workload_entries r ns hpas wls w) m1 xs
      in foldl (\<lambda>m e. if go_idx (om_labels (wes_meta e)) LabelServiceName \<in> set svcs
           then add_entry ns ''EndpointSlice'' (om_name (wes_meta e)) ''discovery.k8s.io'' m else m) m2 slices))"

definition failure :: "go_error + 'a \<Rightarrow> go_error option" where
  "failure r = (case r of Inl e \<Rightarrow> Some e | Inr _ \<Rightarrow> None)"

text \<open>The errors of the seven lists, in the order in which the range over their labels comes up.\<close>

definition list_errors :: "'w worker \<Rightarrow> range_order \<Rightarrow> string \<Rightarrow> 'w \<Rightarrow> string list" where
  "list_errors r ord ns w =
     (let fails = [(''deployments'', failure (wk_deployments r ns w)), (''statefulsets'', failure (wk_statefulSets r ns w)),
            (''daemonsets'', failure (wk_daemonSets r ns w)), (''services'', failure (wk_services r ns w)),
            (''ingresses'', failure (wk_ingresses r ns w)), (''hpas'', failure (wk_hpas r ns w)),
            (''endpointslices'', failure (wk_slices r ns w))]
      in concat (map (\<lambda>l. case map_of fails l of
           Some (Some e) \<Rightarrow> [''discover '' @ l @ '' in '' @ ns @ '': '' @ wk_error r e] | _ \<Rightarrow> [])
         (ord [''discoverLists''] (map fst fails))))"

definition discoverApplicationResources ::
  "'w worker \<Rightarrow> range_order \<Rightarrow> cref \<Rightarrow> 'w \<Rightarrow> related_resource_entry list \<times> string list" where
  "discoverApplicationResources r ord root w =
     (let ns = cr_namespace root
      in if ns = [] then ([], [])
         else
           let errs = list_errors r ord ns w;
               xs = sort_slice (kind_name_less (\<lambda>x. cr_kind (wo_ref x)) (\<lambda>x. cr_name (wo_ref x)))
                 (workload_infos ord ns ''Deployment'' (items (wk_deployments r ns w)) @
                  workload_infos ord ns ''StatefulSet'' (items (wk_statefulSets r ns w)) @
                  workload_infos ord ns ''DaemonSet'' (items (wk_daemonSets r ns w)));
               ss = items (wk_services r ns w); ings = items (wk_ingresses r ns w);
               hpas = items (wk_hpas r ns w); slices = items (wk_slices r ns w);
               sel = (resolve_pass xs ss ^^ 3) (initial_selection root xs ings hpas);
               out = sort_slice (kind_name_less re_kind re_name)
                 (range_values ord [''entries''] (discovered_entries r ns xs ss hpas slices sel w));
               maxN = nat (gp_maxNodes DefaultPolicy)
           in if length out > maxN
              then (take maxN out, errs @ [''application discovery truncated at '' @ itoa (gp_maxNodes DefaultPolicy) @ '' resources''])
              else (out, errs))"

end
