(* ===== verification/Diagnostic_Run.thy ===== *)
theory Diagnostic_Run
  imports Discovery
begin

text \<open>
  The DiagnosticRun reconciler, \<open>diagnostics-worker/controllers/diagnosticrun_reconciler.go\<close>: it takes a
  pending run, collects the evidence of its incident from the cluster and marks the run as completed. A
  run-time panic is the error \<open>Panicked\<close>; it ends the reconciliation where it happens. \<open>t0\<close> and \<open>t1\<close> are
  the readings of the clock.
\<close>

section \<open>Specifications of resources\<close>

definition ptr :: "'w worker \<Rightarrow> string list \<Rightarrow> 'a option \<Rightarrow> any" where
  "ptr r tag v = (case v of None \<Rightarrow> AOther ''<nil>'' None | Some _ \<Rightarrow> AOther (wk_addr r tag) None)"

definition time_ptr :: "'w worker \<Rightarrow> time option \<Rightarrow> any" where
  "time_ptr r t = (case t of None \<Rightarrow> AOther ''<nil>'' None | Some x \<Rightarrow> AOther (wk_timeString r x) None)"

definition path_spec :: "ingress_path \<Rightarrow> (go_error + attrs)" where
  "path_spec p = (case ip_service p of
     None \<Rightarrow> Inl (Panicked ''nil pointer dereference: Backend.Service'')
   | Some (name, port) \<Rightarrow> Inr [(''path'', AStr (ip_path p)), (''pathType'', AStr (case ip_pathType p of None \<Rightarrow> [] | Some t \<Rightarrow> t)),
       (''backendService'', AStr name), (''backendPort'', AInt port)])"

text \<open>All results, or the first error.\<close>

fun all_or_error :: "('a \<Rightarrow> 'e + 'b) \<Rightarrow> 'a list \<Rightarrow> 'e + 'b list" where
  "all_or_error f [] = Inr []"
| "all_or_error f (x # xs) = (case f x of Inl e \<Rightarrow> Inl e
     | Inr y \<Rightarrow> (case all_or_error f xs of Inl e \<Rightarrow> Inl e | Inr ys \<Rightarrow> Inr (y # ys)))"

definition ingress_rule_spec :: "string \<times> ingress_path list option \<Rightarrow> go_error + attrs" where
  "ingress_rule_spec = (\<lambda>(host, http). case all_or_error path_spec (case http of None \<Rightarrow> [] | Some ps \<Rightarrow> ps) of
     Inl e \<Rightarrow> Inl e | Inr paths \<Rightarrow> Inr [(''host'', AStr host), (''paths'', AMaps paths)])"

definition ingress_spec :: "'w worker \<Rightarrow> ingress \<Rightarrow> go_error + attrs" where
  "ingress_spec r i = (case all_or_error ingress_rule_spec (wi_rules i) of
     Inl e \<Rightarrow> Inl e
   | Inr rules \<Rightarrow> Inr [(''ingressClassName'', case wi_className i of None \<Rightarrow> ANil | Some c \<Rightarrow> AOther (wk_addr r [''ingressClassName'']) None),
       (''rules'', AMaps rules), (''annotations'', AStrMap (om_annotations (wi_meta i))), (''labels'', AStrMap (om_labels (wi_meta i)))])"

definition service_spec :: "wservice \<Rightarrow> attrs" where
  "service_spec s =
     [(''type'', AStr (ws_type s)), (''selector'', AStrMap (ws_selector s)),
      (''ports'', AMaps (map (\<lambda>p. [(''name'', AStr (spt_name p)), (''port'', AInt (spt_port p)),
         (''targetPort'', AStr (spt_targetPort p)), (''protocol'', AStr (spt_protocol p))]) (ws_ports s))),
      (''clusterIP'', AStr (ws_clusterIP s)), (''annotations'', AStrMap (om_annotations (ws_meta s))),
      (''labels'', AStrMap (om_labels (ws_meta s)))]"

definition clip_value :: "nat \<Rightarrow> string \<Rightarrow> string \<Rightarrow> string" where
  "clip_value n mark v = (if length v > n then take n v @ mark else v)"

definition ellipsis :: string where "ellipsis = [CHR 0xE2, CHR 0x80, CHR 0xA6]"

definition config_map_spec :: "config_map_obj \<Rightarrow> attrs" where
  "config_map_spec c =
     [(''data'', AStrMap (map (\<lambda>(k, v). (k, clip_value 512 (ellipsis @ ''[truncated]'') v)) (wc_data c))),
      (''annotations'', AStrMap (om_annotations (wc_meta c))), (''labels'', AStrMap (om_labels (wc_meta c)))]"

definition secret_spec :: "secret_obj \<Rightarrow> attrs" where
  "secret_spec s = [(''exists'', ABool True), (''type'', AStr (wse_type s)), (''labels'', AStrMap (om_labels (wse_meta s))),
     (''annotations'', AStrMap (om_annotations (wse_meta s)))]"

definition summariseDeploymentConditions :: "wcondition list \<Rightarrow> any" where
  "summariseDeploymentConditions conds = AMaps (map (\<lambda>c. [(''type'', AStr (wcd_type c)), (''status'', AStr (wcd_status c)),
     (''reason'', AStr (wcd_reason c)), (''message'', AStr (wcd_message c))]) conds)"

definition deployment_spec :: "'w worker \<Rightarrow> range_order \<Rightarrow> string \<Rightarrow> workload \<Rightarrow> 'w \<Rightarrow> attrs" where
  "deployment_spec r ord ns d w =
     [(''replicas'', ptr r [''Deployment'', om_name (wl_meta d), ''replicas''] (wl_replicas d)), (''selector'', AStrMap (wl_selector d)),
      (''labels'', AStrMap (om_labels (wl_meta d))), (''templateLabels'', AStrMap (wl_templateLabels d)),
      (''dependencies'', templateDependencyFields r ord [''spec'', ''Deployment'', om_name (wl_meta d)] ns (wl_spec d) w),
      (''availableReplicas'', AInt (wl_available d)), (''readyReplicas'', AInt (wl_ready d)),
      (''conditions'', summariseDeploymentConditions (wl_conditions d))]"

definition stateful_set_spec :: "'w worker \<Rightarrow> range_order \<Rightarrow> string \<Rightarrow> workload \<Rightarrow> 'w \<Rightarrow> attrs" where
  "stateful_set_spec r ord ns d w =
     [(''replicas'', ptr r [''StatefulSet'', om_name (wl_meta d), ''replicas''] (wl_replicas d)),
      (''labels'', AStrMap (om_labels (wl_meta d))), (''templateLabels'', AStrMap (wl_templateLabels d)),
      (''dependencies'', templateDependencyFields r ord [''spec'', ''StatefulSet'', om_name (wl_meta d)] ns (wl_spec d) w),
      (''readyReplicas'', AInt (wl_ready d)), (''currentReplicas'', AInt (wl_current d))]"

definition daemon_set_spec :: "'w worker \<Rightarrow> range_order \<Rightarrow> string \<Rightarrow> workload \<Rightarrow> 'w \<Rightarrow> attrs" where
  "daemon_set_spec r ord ns d w =
     [(''desiredNumberScheduled'', AInt (wl_desired d)), (''labels'', AStrMap (om_labels (wl_meta d))),
      (''templateLabels'', AStrMap (wl_templateLabels d)),
      (''dependencies'', templateDependencyFields r ord [''spec'', ''DaemonSet'', om_name (wl_meta d)] ns (wl_spec d) w),
      (''numberReady'', AInt (wl_ready d)), (''numberUnavailable'', AInt (wl_unavailable d))]"

definition cron_job_spec :: "'w worker \<Rightarrow> string \<Rightarrow> cronjob_obj \<Rightarrow> attrs" where
  "cron_job_spec r name j =
     [(''schedule'', AStr (wj_schedule j)), (''suspend'', ptr r [''CronJob'', name, ''suspend''] (wj_suspend j)),
      (''activeJobs'', AInt (int (wj_active j))), (''lastScheduleTime'', ptr r [''CronJob'', name, ''lastScheduleTime''] (wj_lastScheduleTime j)),
      (''lastSuccessfulTime'', ptr r [''CronJob'', name, ''lastSuccessfulTime''] (wj_lastSuccessfulTime j)),
      (''annotations'', AStrMap (wj_annotations j))]"

definition job_spec :: "'w worker \<Rightarrow> string \<Rightarrow> job_obj \<Rightarrow> attrs" where
  "job_spec r name j =
     [(''completions'', ptr r [''Job'', name, ''completions''] (jb_completions j)), (''succeeded'', AInt (jb_succeeded j)),
      (''failed'', AInt (jb_failed j)), (''active'', AInt (jb_active j)), (''startTime'', time_ptr r (jb_startTime j)),
      (''completionTime'', time_ptr r (jb_completionTime j))]"

definition pvc_spec :: "'w worker \<Rightarrow> pvc_obj \<Rightarrow> 'w \<Rightarrow> attrs" where
  "pvc_spec r p w =
     (let cls = (case wv_storageClass p of None \<Rightarrow> [] | Some c \<Rightarrow> c);
          exists = (if cls \<noteq> [] then found (wk_storageClass r cls w) else True)
      in [(''phase'', AStr (wv_phase p)), (''capacity'', AStr (case wv_capacity p of None \<Rightarrow> [] | Some q \<Rightarrow> q)),
          (''accessModes'', AOther (print_slice (wv_accessModes p)) None), (''storageClass'', AStr cls),
          (''storageClassExists'', ABool exists), (''labels'', AStrMap (om_labels (wv_meta p)))])"

definition hpa_spec :: "'w worker \<Rightarrow> hpa_obj \<Rightarrow> attrs" where
  "hpa_spec r h =
     [(''labels'', AStrMap (om_labels (wh_meta h))),
      (''scaleTargetRef'', AMap [(''apiVersion'', AStr (wh_targetAPIVersion h)), (''kind'', AStr (wh_targetKind h)),
         (''name'', AStr (wh_targetName h))]),
      (''minReplicas'', ptr r [''HorizontalPodAutoscaler'', om_name (wh_meta h), ''minReplicas''] (wh_minReplicas h)),
      (''maxReplicas'', AInt (wh_maxReplicas h)), (''currentReplicas'', AInt (wh_currentReplicas h)),
      (''desiredReplicas'', AInt (wh_desiredReplicas h))]"

definition slice_spec :: "slice_obj \<Rightarrow> attrs" where
  "slice_spec e =
     (let ready = sum_list (map snd (filter (\<lambda>(c, n). c = Some True) (wes_endpoints e)));
          notReady = sum_list (map snd (filter (\<lambda>(c, n). c \<noteq> Some True) (wes_endpoints e)))
      in [(''labels'', AStrMap (om_labels (wes_meta e))), (''serviceName'', AStr (go_idx (om_labels (wes_meta e)) LabelServiceName)),
          (''addressType'', AStr (wes_addressType e)), (''readyEndpoints'', AInt (int ready)), (''notReadyEndpoints'', AInt (int notReady))])"

definition on_found :: "go_error + 'a \<Rightarrow> ('a \<Rightarrow> go_error + attrs) \<Rightarrow> go_error + attrs" where
  "on_found res f = (case res of Inl e \<Rightarrow> Inl e | Inr x \<Rightarrow> f x)"

text \<open>
  \<open>collectDynamicSpec\<close>: the first resource of the kind in the group that discovery lists, and the \<open>spec\<close> and \<open>status\<close> of the
  object; an error of the discovery itself is ignored with the lists it returned.
\<close>

fun dynamic_gvr :: "discovery \<Rightarrow> string \<Rightarrow> string \<Rightarrow> resource_lists \<Rightarrow> gvr option" where
  "dynamic_gvr dc kind apiG [] = None"
| "dynamic_gvr dc kind apiG ((gv, ress) # rls) = (case di_parse dc gv of
     Inl e \<Rightarrow> dynamic_gvr dc kind apiG rls
   | Inr (grp, version) \<Rightarrow>
       if grp \<noteq> apiG then dynamic_gvr dc kind apiG rls
       else (case find (\<lambda>res. to_lower (ap_kind res) = to_lower kind) ress of
           Some res \<Rightarrow> Some \<lparr>gv_group = grp, gv_version = version, gv_resource = ap_name res\<rparr>
         | None \<Rightarrow> dynamic_gvr dc kind apiG rls))"

definition spec_and_status :: "attrs \<Rightarrow> attrs" where
  "spec_and_status obj = concat (map (\<lambda>k. case map_of obj k of None \<Rightarrow> [] | Some v \<Rightarrow> [(k, v)]) [''spec'', ''status''])"

definition collectDynamicSpec :: "'w worker \<Rightarrow> string \<Rightarrow> string \<Rightarrow> string \<Rightarrow> string \<Rightarrow> 'w \<Rightarrow> go_error + attrs" where
  "collectDynamicSpec r ns kind name apiG w = (case wk_config r of
     Some e \<Rightarrow> Inl (Wrapf ''get rest config'' e)
   | None \<Rightarrow> (case di_lists (wk_discovery r) of
       Inl e \<Rightarrow> Inl (Wrapf ''discovery client'' e)
     | Inr rls \<Rightarrow> (case dynamic_gvr (wk_discovery r) kind apiG rls of
         None \<Rightarrow> Inl (Errorf (''kind '' @ quote kind @ '' apiGroup '' @ quote apiG @ '' not found in cluster''))
       | Some g \<Rightarrow> (case wk_dynNew r of
           Some e \<Rightarrow> Inl (Wrapf ''dynamic client'' e)
         | None \<Rightarrow> (case wk_dynGet r g ns name w of Inl e \<Rightarrow> Inl e | Inr obj \<Rightarrow> Inr (spec_and_status obj))))))"


definition collectResourceSpec ::
  "'w worker \<Rightarrow> range_order \<Rightarrow> string \<Rightarrow> string \<Rightarrow> string \<Rightarrow> string \<Rightarrow> 'w \<Rightarrow> go_error + attrs" where
  "collectResourceSpec r ord ns kind name apiG w =
     (if kind = ''Ingress'' then on_found (wk_ingress r ns name w) (ingress_spec r)
      else if kind = ''Service'' then on_found (wk_service r ns name w) (\<lambda>s. Inr (service_spec s))
      else if kind = ''ConfigMap'' then on_found (wk_configMap r ns name w) (\<lambda>c. Inr (config_map_spec c))
      else if kind = ''Secret'' then on_found (wk_secret r ns name w) (\<lambda>s. Inr (secret_spec s))
      else if kind = ''Deployment'' then on_found (wk_deployment r ns name w) (\<lambda>d. Inr (deployment_spec r ord ns d w))
      else if kind = ''StatefulSet'' then on_found (wk_statefulSet r ns name w) (\<lambda>d. Inr (stateful_set_spec r ord ns d w))
      else if kind = ''DaemonSet'' then on_found (wk_daemonSet r ns name w) (\<lambda>d. Inr (daemon_set_spec r ord ns d w))
      else if kind = ''CronJob'' then on_found (wk_cronJob r ns name w) (\<lambda>j. Inr (cron_job_spec r name j))
      else if kind = ''Job'' then on_found (wk_job r ns name w) (\<lambda>j. Inr (job_spec r name j))
      else if kind = ''PersistentVolumeClaim'' then on_found (wk_pvc r ns name w) (\<lambda>p. Inr (pvc_spec r p w))
      else if kind = ''HorizontalPodAutoscaler'' then on_found (wk_hpa r ns name w) (\<lambda>h. Inr (hpa_spec r h))
      else if kind = ''EndpointSlice'' then on_found (wk_slice r ns name w) (\<lambda>e. Inr (slice_spec e))
      else if apiG \<noteq> [] then collectDynamicSpec r ns kind name apiG w
      else Inr [])"

section \<open>Events, logs and dependencies of pods\<close>

definition collectEvents :: "'w worker \<Rightarrow> string \<Rightarrow> string \<Rightarrow> string \<Rightarrow> 'w \<Rightarrow> go_error + k8s_event list" where
  "collectEvents r ns kind name w = (case wk_events r ns w of Inl e \<Rightarrow> Inl e
     | Inr es \<Rightarrow> Inr (map we_event (filter (\<lambda>e. we_kind e = kind \<and> we_name e = name) es)))"

definition log_truncated :: "string \<Rightarrow> int \<Rightarrow> bool" where
  "log_truncated logs tailLines \<longleftrightarrow> int (length (split_all newline logs)) \<ge> tailLines"

definition collectPodLogs :: "'w worker \<Rightarrow> string \<Rightarrow> string \<Rightarrow> 'w \<Rightarrow> go_error + string \<times> bool" where
  "collectPodLogs r ns podName w = (case wk_clientset r w of Some e \<Rightarrow> Inl e
     | None \<Rightarrow> (case wk_logs r ns podName (wk_logTailLines r) False w of
          Inr logs \<Rightarrow> Inr (logs, log_truncated logs (wk_logTailLines r))
        | Inl _ \<Rightarrow> (case wk_logs r ns podName (wk_prevLogLines r) True w of Inl e \<Rightarrow> Inl e | Inr logs \<Rightarrow> Inr (logs, False))))"

definition appendUnique :: "string list \<Rightarrow> string \<Rightarrow> string list" where
  "appendUnique xs s = (if s \<in> set xs then xs else xs @ [s])"

text \<open>\<open>fst\<close>: the ConfigMaps a pod names, \<open>snd\<close>: its Secrets; the keys of the two maps of the code.\<close>

definition name_source :: "string list \<times> string list \<Rightarrow> string option \<times> string option \<Rightarrow> string list \<times> string list" where
  "name_source = (\<lambda>(cms, secs) (cm, sec). ((case cm of None \<Rightarrow> cms | Some n \<Rightarrow> appendUnique cms n),
     (case sec of None \<Rightarrow> secs | Some n \<Rightarrow> appendUnique secs n)))"

definition pod_names :: "pod_spec \<Rightarrow> string list \<times> string list" where
  "pod_names spec =
     (let vols = foldl (\<lambda>acc v. foldl name_source (name_source acc (vol_configMap v, vol_secret v)) (vol_projected v)) ([], []) (sp_volumes spec)
      in foldl (\<lambda>acc c. foldl (\<lambda>acc e. case e of None \<Rightarrow> acc | Some s \<Rightarrow> name_source acc s) (foldl name_source acc (ct_envFrom c)) (ct_env c))
           vols (sp_initContainers spec @ sp_containers spec))"

text \<open>The ConfigMap behind a volume, the last one when there are several.\<close>

definition volume_config_maps :: "pod_spec \<Rightarrow> str_map" where
  "volume_config_maps spec = foldl (\<lambda>m v. foldl (\<lambda>m (cm, sec). case cm of None \<Rightarrow> m | Some n \<Rightarrow> map_put (vol_name v) n m)
     (case vol_configMap v of None \<Rightarrow> m | Some n \<Rightarrow> map_put (vol_name v) n m) (vol_projected v)) [] (sp_volumes spec)"

definition mount_paths :: "pod_spec \<Rightarrow> string \<Rightarrow> string list" where
  "mount_paths spec cm = foldl (\<lambda>ps c. foldl (\<lambda>ps (vol, path). if map_of (volume_config_maps spec) vol = Some cm then appendUnique ps path else ps)
     ps (ct_mounts c)) [] (sp_initContainers spec @ sp_containers spec)"

definition config_map_dep :: "'w worker \<Rightarrow> range_order \<Rightarrow> string list \<Rightarrow> string \<Rightarrow> pod_spec \<Rightarrow> 'w \<Rightarrow> string \<Rightarrow> config_map_ref" where
  "config_map_dep r ord tag ns spec w name =
     (let base = \<lparr>cmr_name = name, cmr_missing = False, cmr_keys = [], cmr_data = [], cmr_mountPaths = mount_paths spec name\<rparr>
      in case wk_configMap r ns name w of
           Inl e \<Rightarrow> base\<lparr>cmr_missing := is_not_found e\<rparr>
         | Inr cm \<Rightarrow> base\<lparr>cmr_keys := ord (tag @ [''data'', name]) (map fst (wc_data cm)),
             cmr_data := map (\<lambda>(k, v). (k, clip_value 1024 ''...[truncated]'' v)) (wc_data cm)\<rparr>)"

definition secret_dep :: "'w worker \<Rightarrow> string \<Rightarrow> 'w \<Rightarrow> string \<Rightarrow> secret_ref" where
  "secret_dep r ns w name = \<lparr>sec_name = name, sec_missing = (case wk_secret r ns name w of Inl e \<Rightarrow> is_not_found e | Inr _ \<Rightarrow> False)\<rparr>"

definition collectPodDependencies :: "'w worker \<Rightarrow> range_order \<Rightarrow> string \<Rightarrow> wpod \<Rightarrow> 'w \<Rightarrow> pod_dependencies option" where
  "collectPodDependencies r ord ns pod w =
     (case pod_names (wp_spec pod) of (cms, secs) \<Rightarrow>
        if cms = [] \<and> secs = [] then None
        else
          let tag = [''podDependencies'', om_name (wp_meta pod)]
          in Some \<lparr>pd_configMaps = map (config_map_dep r ord tag ns (wp_spec pod) w) (ord (tag @ [''configMaps'']) cms),
               pd_secrets = map (secret_dep r ns w) (ord (tag @ [''secrets'']) secs)\<rparr>)"

definition podBelongsToWorkload :: "wpod \<Rightarrow> string \<Rightarrow> bool" where
  "podBelongsToWorkload pod workloadName \<longleftrightarrow>
     list_ex (\<lambda>o'. or_name o' = workloadName) (om_owners (wp_meta pod)) \<or>
     list_ex (\<lambda>l. go_idx (om_labels (wp_meta pod)) l = workloadName) [''app'', ''app.kubernetes.io/name'', ''app.kubernetes.io/instance'']"

definition discovery_selectors :: "'w worker \<Rightarrow> cref \<Rightarrow> 'w \<Rightarrow> str_map list" where
  "discovery_selectors r root w =
     (let ns = cr_namespace root;
          of_service = (\<lambda>name. case wk_service r ns name w of Inl e \<Rightarrow> [] | Inr s \<Rightarrow> [ws_selector s])
      in (if cr_kind root = ''Service'' then of_service (cr_name root) else []) @
         (if cr_kind root = ''Ingress'' then (case wk_ingress r ns (cr_name root) w of Inl e \<Rightarrow> []
            | Inr i \<Rightarrow> concat (map of_service (ingress_services i))) else []))"

definition pod_belongs :: "cref \<Rightarrow> str_map list \<Rightarrow> wpod \<Rightarrow> bool" where
  "pod_belongs root selectors pod \<longleftrightarrow> podBelongsToWorkload pod (cr_name root) \<or>
     list_ex (\<lambda>sel. case SelectorInferenceScore sel (om_labels (wp_meta pod)) of
       (score, matched, _) \<Rightarrow> score \<ge> gp_possibleThreshold DefaultPolicy \<and> matched \<noteq> []) selectors"

definition events_or_none :: "'w worker \<Rightarrow> string \<Rightarrow> string \<Rightarrow> string \<Rightarrow> 'w \<Rightarrow> k8s_event list" where
  "events_or_none r ns kind name w = items (collectEvents r ns kind name w)"

definition pod_claims :: "wpod \<Rightarrow> string list" where
  "pod_claims pod = concat (map (\<lambda>v. case vol_pvc v of None \<Rightarrow> [] | Some c \<Rightarrow> [c]) (sp_volumes (wp_spec pod)))"

definition pod_log_entry :: "'w worker \<Rightarrow> range_order \<Rightarrow> string \<Rightarrow> 'w \<Rightarrow> wpod \<Rightarrow> pod_logs" where
  "pod_log_entry r ord ns w pod =
     (let name = om_name (wp_meta pod); raw = wk_logs r ns name (wk_logTailLines r) False w
      in \<lparr>pl_podName = name, pl_phase = wp_phase pod, pl_labels = om_labels (wp_meta pod),
          pl_pvcNames = foldl appendUnique [] (pod_claims pod),
          pl_logs = (case raw of Inl e \<Rightarrow> [] | Inr l \<Rightarrow> l),
          pl_truncated = (case raw of Inl e \<Rightarrow> False | Inr l \<Rightarrow> log_truncated l (wk_logTailLines r)),
          pl_error = (case raw of Inl e \<Rightarrow> wk_error r e | Inr l \<Rightarrow> []),
          pl_events = events_or_none r ns ''Pod'' name w,
          pl_dependencies = collectPodDependencies r ord ns pod w,
          pl_owners = map (\<lambda>o'. \<lparr>cr_namespace = ns, cr_kind = or_kind o', cr_name = or_name o',
            cr_apiGroup = apiGroupFromAPIVersion (or_apiVersion o')\<rparr>) (om_owners (wp_meta pod))\<rparr>)"

definition pvc_entry :: "'w worker \<Rightarrow> string \<Rightarrow> 'w \<Rightarrow> string \<Rightarrow> pvc_info list" where
  "pvc_entry r ns w claim = (case wk_pvc r ns claim w of Inl e \<Rightarrow> []
     | Inr p \<Rightarrow> [\<lparr>pi_name = claim, pi_phase = wv_phase p, pi_storageClass = (case wv_storageClass p of None \<Rightarrow> [] | Some c \<Rightarrow> c),
         pi_requestedStorage = (case wv_requested p of None \<Rightarrow> [] | Some q \<Rightarrow> q),
         pi_events = events_or_none r ns ''PersistentVolumeClaim'' claim w\<rparr>])"

definition collectWorkloadPodLogs ::
  "'w worker \<Rightarrow> range_order \<Rightarrow> cref \<Rightarrow> 'w \<Rightarrow> go_error + pod_logs list \<times> pvc_info list" where
  "collectWorkloadPodLogs r ord root w =
     (let ns = cr_namespace root
      in case wk_pods r ns w of Inl e \<Rightarrow> Inl e
         | Inr pods \<Rightarrow> (case wk_clientset r w of Some e \<Rightarrow> Inl e
           | None \<Rightarrow>
               (let mine = filter (pod_belongs root (discovery_selectors r root w)) pods;
                    claims = foldl appendUnique [] (concat (map pod_claims mine))
                in Inr (map (pod_log_entry r ord ns w) mine, concat (map (pvc_entry r ns w) claims)))))"

section \<open>Collecting the evidence\<close>

text \<open>The member cases a run looks at: all of them, or the triggering one with the other unresolved ones.\<close>

fun triggered_cases :: "'w worker \<Rightarrow> string \<Rightarrow> string \<Rightarrow> 'w \<Rightarrow> string list \<Rightarrow> bool \<times> string list \<times> string list" where
  "triggered_cases r ns trigger w [] = (False, [], [])"
| "triggered_cases r ns trigger w (n # names) =
     (case triggered_cases r ns trigger w names of (hit, keep, errs) \<Rightarrow>
        (case api_get (c_problemCases (wk_client r)) ns n w of
           Inl e \<Rightarrow> (hit, keep, (''get problemcase '' @ n @ '': '' @ wk_error r e) # errs)
         | Inr pc \<Rightarrow>
             if n = trigger then (True, n # keep, errs)
             else if \<not> pc_resolved pc then (hit, n # keep, errs) else (hit, keep, errs)))"

definition selected_cases :: "'w worker \<Rightarrow> string \<Rightarrow> string \<Rightarrow> string \<Rightarrow> string list \<Rightarrow> 'w \<Rightarrow> string list \<times> string list" where
  "selected_cases r ns incidentName trigger members w =
     (if trigger = [] then (members, [])
      else case triggered_cases r ns trigger w members of (hit, keep, errs) \<Rightarrow>
        if hit then (keep, errs)
        else ([], errs @ [''trigger problemcase '' @ trigger @ '' is not a member of incident '' @ incidentName]))"

definition to_cref :: "string \<Rightarrow> resource_ref \<Rightarrow> cref" where
  "to_cref ns ref = \<lparr>cr_namespace = ns, cr_kind = rr_kind ref, cr_name = rr_name ref, cr_apiGroup = rr_apiGroup ref\<rparr>"

definition case_evidence :: "'w worker \<Rightarrow> string \<Rightarrow> 'w \<Rightarrow> string \<Rightarrow> problem_case_evidence list \<times> string list" where
  "case_evidence r ns w name =
     (case api_get (c_problemCases (wk_client r)) ns name w of
        Inl e \<Rightarrow> ([], [''get problemcase '' @ name @ '': '' @ wk_error r e])
      | Inr pc \<Rightarrow>
          (let ref = pcs_affectedResource (pc_spec pc);
               resourceNS = (if rr_namespace ref = [] then ns else rr_namespace ref);
               events = collectEvents r resourceNS (rr_kind ref) (rr_name ref) w;
               logs = (if rr_kind ref = ''Pod'' then collectPodLogs r resourceNS (rr_name ref) w else Inr ([], False))
           in ([\<lparr>pce_name = pc_name pc, pce_detector = pcs_detector (pc_spec pc), pce_severity = pcs_severity (pc_spec pc),
                 pce_symptoms = pcs_symptoms (pc_spec pc), pce_affectedResource = to_cref resourceNS ref, pce_events = items events,
                 pce_logs = (case logs of Inl e \<Rightarrow> [] | Inr (l, t) \<Rightarrow> l), pce_logsTruncated = (case logs of Inl e \<Rightarrow> False | Inr (l, t) \<Rightarrow> t)\<rparr>],
               (case events of Inl e \<Rightarrow> [''events for '' @ rr_kind ref @ ''/'' @ rr_name ref @ '': '' @ wk_error r e] | Inr _ \<Rightarrow> []) @
               (case logs of Inl e \<Rightarrow> [''logs for pod '' @ rr_name ref @ '': '' @ wk_error r e] | Inr _ \<Rightarrow> []))))"

definition rr_key :: "related_resource_entry \<Rightarrow> string \<times> string \<times> string" where
  "rr_key e = (re_kind e, re_namespace e, re_name e)"

text \<open>\<open>if !seen[k] { seen[k] = true; toCollect = append(toCollect, ...) }\<close>\<close>

definition add_unseen :: "related_resource_entry list \<Rightarrow> related_resource_entry \<Rightarrow> related_resource_entry list" where
  "add_unseen es e = (if rr_key e \<in> set (map rr_key es) then es else es @ [e])"

definition entries_to_collect ::
  "string \<Rightarrow> string \<Rightarrow> incident \<Rightarrow> related_resource_entry list \<Rightarrow> ingress list \<Rightarrow> related_resource_entry list" where
  "entries_to_collect ns rootNS inc automatic ings =
     (let root = ins_rootResource (inc_spec inc);
          es0 = [\<lparr>re_kind = rr_kind root, re_namespace = rootNS, re_name = rr_name root, re_apiGroup = rr_apiGroup root, re_origin = ''root''\<rparr>];
          es1 = foldl add_unseen es0 (map (\<lambda>rr. \<lparr>re_kind = rr_kind rr, re_namespace = (if rr_namespace rr = [] then ns else rr_namespace rr),
            re_name = rr_name rr, re_apiGroup = rr_apiGroup rr, re_origin = ''explicit''\<rparr>) (ins_relatedResources (inc_spec inc)));
          es2 = foldl add_unseen es1 automatic
      in foldl add_unseen es2 (map (\<lambda>i. \<lparr>re_kind = ''Ingress'', re_namespace = rootNS, re_name = om_name (wi_meta i),
            re_apiGroup = ''networking.k8s.io'', re_origin = ''automatic''\<rparr>) ings))"

definition related_evidence ::
  "'w worker \<Rightarrow> range_order \<Rightarrow> 'w \<Rightarrow> related_resource_entry \<Rightarrow> go_error + related_resource_evidence \<times> string list" where
  "related_evidence r ord w e =
     (let events = collectEvents r (re_namespace e) (re_kind e) (re_name e) w;
          spec = collectResourceSpec r ord (re_namespace e) (re_kind e) (re_name e) (re_apiGroup e) w;
          errs1 = (case events of Inl err \<Rightarrow> [''events for related '' @ re_kind e @ ''/'' @ re_name e @ '': '' @ wk_error r err] | Inr _ \<Rightarrow> []);
          base = \<lparr>rre_resource = \<lparr>cr_namespace = re_namespace e, cr_kind = re_kind e, cr_name = re_name e, cr_apiGroup = re_apiGroup e\<rparr>,
            rre_discoveryOrigin = re_origin e, rre_events = items events, rre_logs = [], rre_spec = []\<rparr>
      in case spec of
           Inr as \<Rightarrow> Inr (base\<lparr>rre_spec := as\<rparr>, errs1)
         | Inl err \<Rightarrow>
             if panics err then Inl err
             else Inr (base, errs1 @ (if re_origin e = ''root'' \<and> is_not_found err then []
               else [''spec for related '' @ re_kind e @ ''/'' @ re_name e @ '': '' @ wk_error r err])))"

definition collect :: "'w worker \<Rightarrow> range_order \<Rightarrow> time \<Rightarrow> string \<Rightarrow> string \<Rightarrow> string \<Rightarrow> string \<Rightarrow> 'w \<Rightarrow>
    go_error + evidence option \<times> string list" where
  "collect r ord t0 ns incidentName problemCaseRef drName w =
     (let ev0 = empty_evidence\<lparr>ev_diagnosticRunID := drName, ev_collectedAt := t0\<rparr>
      in case api_get (c_incidents (wk_client r)) ns incidentName w of
           Inl e \<Rightarrow> Inr (Some ev0, [''get incident: '' @ wk_error r e])
         | Inr inc \<Rightarrow>
             (let root = ins_rootResource (inc_spec inc);
                  rootRef = to_cref (rr_namespace root) root;
                  (names, errs1) = selected_cases r ns incidentName problemCaseRef (ins_problemCases (inc_spec inc)) w;
                  cases' = map (case_evidence r ns w) names;
                  rootNS = (if rr_namespace root = [] then ns else rr_namespace root);
                  rootEvents = collectEvents r rootNS (rr_kind root) (rr_name root) w;
                  pods = collectWorkloadPodLogs r ord rootRef w;
                  (automatic, errs2) = discoverApplicationResources r ord rootRef w;
                  ings = (if rootNS \<noteq> [] then wk_ingresses r rootNS w else Inr []);
                  entries = entries_to_collect ns rootNS inc automatic (items ings)
              in case all_or_error (related_evidence r ord w) entries of
                   Inl e \<Rightarrow> Inl e
                 | Inr related \<Rightarrow>
                     (let ev1 = ev0\<lparr>ev_incidentID := inc_name inc, ev_rootResource := rootRef, ev_rootResourceEvents := items rootEvents,
                            ev_problemCases := concat (map fst cases'),
                            ev_workloadPodLogs := (case pods of Inl e \<Rightarrow> [] | Inr (ps, _) \<Rightarrow> ps),
                            ev_pvcInfos := (case pods of Inl e \<Rightarrow> [] | Inr (_, vs) \<Rightarrow> vs),
                            ev_userMessage := ins_userMessage (inc_spec inc), ev_relatedResourceEvidence := map fst related,
                            ev_schemaVersion := 3\<rparr>;
                          ev2 = ev1\<lparr>ev_sources := BuildSourceCatalog ev1\<rparr>
                      in Inr (Some (ev2\<lparr>ev_graph := Some (Build ord ev2)\<rparr>),
                           errs1 @ concat (map snd cases') @
                           (case rootEvents of Inl e \<Rightarrow> [''events for root '' @ rr_kind root @ ''/'' @ rr_name root @ '': '' @ wk_error r e]
                            | Inr _ \<Rightarrow> []) @
                           (case pods of Inl e \<Rightarrow> [''pod logs for workload '' @ rr_name root @ '': '' @ wk_error r e] | Inr _ \<Rightarrow> []) @
                           errs2 @
                           (case ings of Inl e \<Rightarrow> [''auto-discover ingresses in '' @ rootNS @ '': '' @ wk_error r e] | Inr _ \<Rightarrow> []) @
                           concat (map snd related)))))"

section \<open>The reconciler\<close>

definition with_state :: "string \<Rightarrow> diagnostic_run \<Rightarrow> diagnostic_run" where
  "with_state st dr = dr\<lparr>dr_status := (dr_status dr)\<lparr>drt_state := st\<rparr>\<rparr>"

definition finished :: "'w worker \<Rightarrow> evidence option \<Rightarrow> string list \<Rightarrow> time \<Rightarrow> diagnostic_run \<Rightarrow> diagnostic_run" where
  "finished r ev errs t1 dr = dr\<lparr>dr_status := (dr_status dr)
     \<lparr>drt_state := (if errs \<noteq> [] \<and> ev = None then DiagnosticRunStateFailed else DiagnosticRunStateCompleted),
      drt_collectedAt := Some (metav1_now t1), drt_collectorVersion := wk_collectorVersion r, drt_collectionErrors := errs\<rparr>\<rparr>"

definition postEvidence :: "'w worker \<Rightarrow> diagnostic_run \<Rightarrow> evidence \<Rightarrow> string list \<Rightarrow> 'w \<Rightarrow> go_error option \<times> 'w" where
  "postEvidence r dr ev errs w = (case wk_marshal r ev of
     Inl e \<Rightarrow> (Some (Wrapf ''marshal evidence'' e), w)
   | Inr payload \<Rightarrow>
       (let body = \<lparr>ep_diagnosticRunId = om_name (dr_meta dr), ep_incidentId = drs_incidentRef (dr_spec dr),
              ep_collectedAt = rfc3339 (ev_collectedAt ev), ep_collectorVersion = wk_collectorVersion r,
              ep_payload = payload, ep_payloadBytes = int (length payload), ep_collectionErrors = errs\<rparr>;
            url = wk_backendURL r @ ''/internal/evidence''
        in case wk_encode r body of
             Some e \<Rightarrow> (Some e, w)
           | None \<Rightarrow> (case wk_http r url body w of
               (Inl e, w') \<Rightarrow> (Some (Wrapf (''POST '' @ url) e), w')
             | (Inr status, w') \<Rightarrow>
                 (case wk_postCtx r of
                    Some e \<Rightarrow> Some e
                  | None \<Rightarrow> if status \<ge> 300 then Some (Errorf (''backend returned '' @ format_int 10 status)) else None, w'))))"

definition DiagnosticRunReconciler_Reconcile ::
  "'w worker \<Rightarrow> range_order \<Rightarrow> time \<Rightarrow> time \<Rightarrow> namespaced_name \<Rightarrow> 'w \<Rightarrow> go_error option \<times> 'w" where
  "DiagnosticRunReconciler_Reconcile r ord t0 t1 req w =
     (case api_get (wk_runs r) (fst req) (snd req) w of
        Inl e \<Rightarrow> (if is_not_found e then None else Some e, w)
      | Inr dr \<Rightarrow>
          if drt_state (dr_status dr) \<noteq> DiagnosticRunStatePending then (None, w)
          else (case api_status_patch (wk_runs r) dr (with_state DiagnosticRunStateRunning dr) w of
              (Inl e, w1) \<Rightarrow> (Some (Wrapf ''patching state to running'' e), w1)
            | (Inr dr1, w1) \<Rightarrow>
                (let ns = om_namespace (dr_meta dr1);
                     incidentName = (if drs_incidentRef (dr_spec dr1) = [] then drs_problemCaseRef (dr_spec dr1) else drs_incidentRef (dr_spec dr1))
                 in case collect r ord t0 ns incidentName (drs_problemCaseRef (dr_spec dr1)) (om_name (dr_meta dr1)) w1 of
                      Inl e \<Rightarrow> (Some e, w1)
                    | Inr (ev, errs) \<Rightarrow>
                        (case api_status_patch (wk_runs r) dr1 (finished r ev errs t1 dr1) w1 of
                           (Inl e, w2) \<Rightarrow> (Some (Wrapf ''patching state to completed'' e), w2)
                         | (Inr dr2, w2) \<Rightarrow> (None, case ev of None \<Rightarrow> w2 | Some e \<Rightarrow> snd (postEvidence r dr2 e errs w2))))))"

text \<open>The event filter of \<open>SetupWithManager\<close>.\<close>

definition run_filter :: "diagnostic_run \<Rightarrow> bool" where
  "run_filter dr \<longleftrightarrow> drt_state (dr_status dr) = DiagnosticRunStatePending \<or> drt_state (dr_status dr) = []"

end
