(* ===== verification/Graph_Properties.thy ===== *)
theory Graph_Properties
  imports Graph_Engine
begin

text \<open>
  Correctness of the investigation graph: the builder's maps are keyed by the identifiers of what they
  hold and only grow (a contract shared by all passes, stated as the locale \<open>graph_pass\<close>), the result
  respects the bounds of the policy and contains the entry resource, bounding does not depend on the
  order in which maps are enumerated, and the scores of inferred edges.
\<close>

section \<open>The builder's invariant\<close>

definition keyed :: "('v \<Rightarrow> string) \<Rightarrow> (string \<times> 'v) list \<Rightarrow> bool" where
  "keyed key m \<longleftrightarrow> distinct (map fst m) \<and> (\<forall>(k, v) \<in> set m. key v = k)"

definition builder_ok :: "builder \<Rightarrow> bool" where
  "builder_ok b \<longleftrightarrow> keyed gn_id (b_nodes b) \<and> keyed ge_id (b_edges b) \<and> keyed gc_id (b_candidates b)"

definition grows :: "builder \<Rightarrow> builder \<Rightarrow> bool" where
  "grows b b' \<longleftrightarrow> (builder_ok b \<longrightarrow> builder_ok b' \<and> (\<forall>i. has_node b i \<longrightarrow> has_node b' i) \<and> b_policy b' = b_policy b)"

lemma keyed_map_put [keeps]: "keyed key m \<Longrightarrow> key v = k \<Longrightarrow> keyed key (map_put k v m)"
  using set_map_put_subset [of k v m] by (auto simp: keyed_def)

lemma keyed_map_of: "keyed key m \<Longrightarrow> map_of m k = Some v \<Longrightarrow> key v = k"
  by (auto simp: keyed_def dest: map_of_SomeD)

lemma grows_refl [simp]: "grows b b"
  by (simp add: grows_def)

lemma grows_trans: "grows a b \<Longrightarrow> grows b c \<Longrightarrow> grows a c"
  by (simp add: grows_def)

lemma grows_put_node [keeps]: "grows b (put_node n b)"
  by (auto simp: grows_def builder_ok_def put_node_def has_node_def intro: keeps)

lemma grows_put_edge [keeps]: "grows b (put_edge e b)"
  by (auto simp: grows_def builder_ok_def put_edge_def has_node_def intro: keeps)

lemma grows_put_candidate [keeps]: "gc_id c = i \<Longrightarrow> grows b (b\<lparr>b_candidates := map_put i c (b_candidates b)\<rparr>)"
  by (auto simp: grows_def builder_ok_def has_node_def intro: keeps)

lemma grows_put_at: "gn_id n = i \<Longrightarrow> grows b (b\<lparr>b_nodes := map_put i n (b_nodes b)\<rparr>)"
  using grows_put_node [of b n] by (simp add: put_node_def)

lemma grows_if_ok: "(builder_ok b \<Longrightarrow> grows b b') \<Longrightarrow> grows b b'"
  by (simp add: grows_def)

lemma stored_id: "builder_ok b \<Longrightarrow> map_of (b_nodes b) i = Some n \<Longrightarrow> gn_id n = i"
  by (auto simp: builder_ok_def dest: keyed_map_of)

lemma gn_id_withState [simp]: "gn_id (withState n st) = gn_id n"
  by (simp add: withState_def)

lemma grows_addResource [keeps]: "grows b (snd (addResource b ref role as))"
  by (simp add: addResource_def Let_def keeps split: prod.splits)

lemma grows_addDependency [keeps]: "grows b (snd (addDependency b ref missing))"
  by (simp add: addDependency_def keeps)

lemma grows_addEdge [keeps]: "grows a b \<Longrightarrow> grows a (addEdge k f t st as ss b)"
  unfolding addEdge_def by (rule grows_trans [OF _ grows_put_edge])

lemma grows_addInferredEdge [keeps]: "grows b (addInferredEdge k f t sc rs as ss b)"
  by (simp add: addInferredEdge_def keeps)

lemma foldl_grows: "(\<And>s x. grows s (f s x)) \<Longrightarrow> grows s (foldl f s xs)"
  by (induction xs arbitrary: s) (auto intro: grows_trans)

lemma range_nodes_grows:
  assumes "\<And>i n s. map_of (b_nodes (bld s)) i = Some n \<Longrightarrow> grows (bld s) (bld (f i n s))"
  shows "grows (bld s) (bld (range_nodes is f bld s))"
proof (induction "is" arbitrary: s)
  case (Cons i "is")
  show ?case
    using grows_trans [OF assms Cons.IH] Cons.IH by (cases "map_of (b_nodes (bld s)) i") auto
qed simp

section \<open>The passes\<close>

locale graph_pass =
  fixes pass :: "range_order \<Rightarrow> builder \<Rightarrow> builder"
  assumes pass_grows: "grows b (pass ord b)"
begin

lemma pass_ok: "builder_ok b \<Longrightarrow> builder_ok (pass ord b)"
  using pass_grows [of b ord] by (simp add: grows_def)

lemma pass_keeps_node: "builder_ok b \<Longrightarrow> has_node b i \<Longrightarrow> has_node (pass ord b) i"
  using pass_grows [of b ord] by (simp add: grows_def)

lemma after: "grows a b \<Longrightarrow> grows a (pass ord b)"
  by (rule grows_trans [OF _ pass_grows])

end

lemma range_pass:
  assumes "\<And>i n b. map_of (b_nodes b) i = Some n \<Longrightarrow> grows b (f i n b)"
  shows "grows b (range_nodes is f (\<lambda>b. b) b)"
  using range_nodes_grows [of "\<lambda>b. b"] assms by simp

lemma grows_inferServiceWorkloads [keeps]: "grows b (inferServiceWorkloads ord i n sel b)"
  unfolding inferServiceWorkloads_def Let_def by (intro foldl_grows keeps)

lemma grows_select_pods: "grows b (fst (select_pods ord i n sel b))"
proof -
  let ?f = "\<lambda>podID pod (b, matched). if pod_matches n sel pod
    then (addEdge ''selects'' i podID ''resolved'' [(''selector'', AStrMap sel)] (sourceIDs b (gn_resource n) ''/selector'') b, Suc matched)
    else (b, matched)"
  have "grows (fst s) (fst (?f j m s))" for j m s by (cases s) (simp add: keeps)
  then have "grows (fst (b, 0 :: nat)) (fst (range_nodes is ?f fst (b, 0)))" for "is" by (intro range_nodes_grows)
  then show ?thesis by (simp add: select_pods_def)
qed

lemma grows_connect_service:
  assumes "map_of (b_nodes b) i = Some n"
  shows "grows b (connect_service ord i n b)"
proof (rule grows_if_ok)
  assume ok: "builder_ok b"
  obtain b1 m where sel: "select_pods ord i n (stringMap (attr n ''selector'')) b = (b1, m)" by fastforce
  from grows_select_pods [of b ord i n "stringMap (attr n ''selector'')"] sel have g: "grows b b1" by simp
  have "grows b1 (b1\<lparr>b_nodes := map_put i (withState n st) (b_nodes b1)\<rparr>)" for st
    using stored_id [OF ok assms] by (intro grows_put_at) simp
  then have "grows b (inferServiceWorkloads ord i n se (b1\<lparr>b_nodes := map_put i (withState n st) (b_nodes b1)\<rparr>))" for se st
    by (rule grows_trans [OF grows_trans [OF g] grows_inferServiceWorkloads])
  with g sel show "grows b (connect_service ord i n b)"
    by (simp add: connect_service_def Let_def)
qed

interpretation services: graph_pass connectServicesToPods
  by unfold_locales (simp add: connectServicesToPods_def range_pass grows_connect_service)

interpretation workloads: graph_pass connectWorkloadsToPods
  by unfold_locales (auto simp: connectWorkloadsToPods_def connect_workload_def Let_def intro!: range_pass keeps)

lemma grows_rankServiceCandidates: "grows b (rankServiceCandidates ord tag s r p b)"
  unfolding rankServiceCandidates_def
  by (rule range_pass) (auto simp: rank_service_def Let_def intro!: keeps)

lemma grows_connect_path: "grows b (connect_path ord i n r b ip)"
proof (cases ip)
  case (Pair k raw)
  show ?thesis unfolding Pair connect_path_def Let_def prod.case
    by (auto intro: keeps grows_trans [OF _ grows_rankServiceCandidates])
qed

lemma grows_connect_rule: "grows b (connect_rule ord i n b ir)"
  by (cases ir) (simp add: connect_rule_def foldl_grows grows_connect_path)

interpretation ingresses: graph_pass connectIngressesToServices
  by unfold_locales
    (auto simp: connectIngressesToServices_def connect_ingress_def intro!: range_pass foldl_grows grows_connect_rule)

lemma grows_connect_dependency: "grows b (connect_dependency i n b ir)"
  by (cases ir) (auto simp: connect_dependency_def Let_def intro: keeps)

interpretation dependencies: graph_pass connectWorkloadDependencies
  by unfold_locales
    (auto simp: connectWorkloadDependencies_def connect_dependencies_def intro!: range_pass foldl_grows grows_connect_dependency)

interpretation autoscalers: graph_pass connectAutoscalers
  by unfold_locales
    (auto simp: connectAutoscalers_def connect_autoscaler_def Let_def intro!: range_pass keeps)

lemma grows_connect_slice: "grows b (connect_slice i n b)"
proof (rule grows_if_ok)
  assume ok: "builder_ok b"
  show "grows b (connect_slice i n b)"
    using stored_id [OF ok]
    by (auto simp: connect_slice_def Let_def split: option.splits intro!: grows_addEdge grows_put_at)
qed

interpretation slices: graph_pass connectEndpointSlices
  by unfold_locales (auto simp: connectEndpointSlices_def intro!: range_pass grows_connect_slice)

interpretation storage_classes: graph_pass connectPVCStorageClasses
  by unfold_locales
    (auto simp: connectPVCStorageClasses_def connect_pvc_def Let_def intro!: range_pass keeps)

lemma grows_connect_all: "grows b (connect_all ord b)"
  unfolding connect_all_def
  by (intro storage_classes.after slices.after autoscalers.after dependencies.after ingresses.after workloads.after services.pass_grows)

section \<open>Populating the builder\<close>

lemma builder_ok_new: "builder_ok (new_builder ev policy)"
  by (simp add: builder_ok_def new_builder_def keyed_def)

lemma addResource_node: "has_node (snd (addResource b ref role as)) (nodeID ''resource'' ref)"
  by (simp add: addResource_def Let_def has_node_def put_node_def split: prod.splits)

lemma fst_addResource [simp]: "fst (addResource b ref role as) = nodeID ''resource'' ref"
  by (simp add: addResource_def Let_def split: prod.splits)

lemma grows_add_dependency:
  assumes "addDependency b ref missing = (t, b1)"
  shows "grows b b1"
  using grows_addDependency [of b ref missing] assms by simp

lemma grows_foldl: "grows a b \<Longrightarrow> (\<And>s x. grows s (f s x)) \<Longrightarrow> grows a (foldl f b xs)"
  by (rule grows_trans [OF _ foldl_grows])

lemma grows_add_config_map: "grows b (add_config_map ns i b c)"
  by (auto simp: add_config_map_def Let_def intro: grows_addEdge grows_add_dependency split: prod.splits)

lemma grows_add_secret: "grows b (add_secret ns i b c)"
  by (auto simp: add_secret_def Let_def intro: grows_addEdge grows_add_dependency split: prod.splits)

lemma grows_pod_parts:
  "grows b (add_owners ev entry pod ref i b)" "grows b (add_dependencies pod ref i b)" "grows b (add_mounts pod ref i b)"
proof -
  show "grows b (add_owners ev entry pod ref i b)"
    unfolding add_owners_def Let_def
    by (cases "pl_owners pod = [] \<and> isWorkloadKind (cr_kind (ev_rootResource ev))")
      (auto intro!: grows_addEdge foldl_grows)
  show "grows b (add_dependencies pod ref i b)"
    unfolding add_dependencies_def
    by (cases "pl_dependencies pod") (auto intro!: grows_foldl grows_add_config_map grows_add_secret)
  show "grows b (add_mounts pod ref i b)"
    unfolding add_mounts_def Let_def by (auto intro!: foldl_grows grows_addEdge)
qed

lemma grows_add_pod: "grows b (add_pod ev entry b pod)"
proof -
  let ?ref = "mk_cref ''Pod'' (cr_namespace (ev_rootResource ev)) (pl_podName pod)"
  let ?as = "[(''phase'', AStr (pl_phase pod)), (''labels'', AStrMap (pl_labels pod)),
    (''state'', AStr (if pl_phase pod \<noteq> ''Running'' \<and> pl_phase pod \<noteq> ''Succeeded'' then ''degraded'' else ''healthy''))]"
  obtain i b1 where a: "addResource b ?ref ''workload'' ?as = (i, b1)" by fastforce
  have g: "grows b b1" using grows_addResource [of b ?ref "''workload''" ?as] a by simp
  have eq: "add_pod ev entry b pod =
      add_mounts pod ?ref i (add_dependencies pod ?ref i (add_owners ev entry pod ?ref i b1))"
    unfolding add_pod_def Let_def a by simp
  show ?thesis unfolding eq
    by (rule grows_trans [OF grows_trans [OF grows_trans [OF g grows_pod_parts(1)] grows_pod_parts(2)] grows_pod_parts(3)])
qed

lemma populate_ok:
  "builder_ok (populate ev policy) \<and> has_node (populate ev policy) (nodeID ''resource'' (ev_rootResource ev)) \<and>
   b_policy (populate ev policy) = policy"
proof -
  let ?b0 = "new_builder ev policy"
  obtain entry b1 where a: "addResource ?b0 (ev_rootResource ev) ''entry'' [] = (entry, b1)" by fastforce
  have "grows ?b0 b1" using grows_addResource [of ?b0 "ev_rootResource ev" "''entry''" "[]"] a by simp
  moreover have "b_policy ?b0 = policy" by (simp add: new_builder_def)
  ultimately have b1: "builder_ok b1" "b_policy b1 = policy" by (simp_all add: grows_def builder_ok_new)
  have "has_node b1 (nodeID ''resource'' (ev_rootResource ev))"
    using addResource_node [of ?b0 "ev_rootResource ev" "''entry''" "[]"] a by simp
  moreover have "grows b1 (populate ev policy)"
    by (auto simp: populate_def a add_related_resource_def add_pvc_def Let_def
        intro!: grows_trans [OF _ foldl_grows] foldl_grows keeps grows_add_pod)
  ultimately show ?thesis using b1 by (simp add: grows_def)
qed

lemma connected_ok:
  "builder_ok (connect_all ord (populate ev policy)) \<and>
   has_node (connect_all ord (populate ev policy)) (nodeID ''resource'' (ev_rootResource ev)) \<and>
   b_policy (connect_all ord (populate ev policy)) = policy"
  using grows_connect_all [of "populate ev policy" ord] populate_ok [of ev policy] by (simp add: grows_def)

section \<open>The traversal\<close>

text \<open>A walk from the entry along the edges, in either direction, with its length and its inferred steps.\<close>

inductive walk :: "graph_edge list \<Rightarrow> string \<Rightarrow> traversal_state \<Rightarrow> bool" for es entry where
  walk_start: "walk es entry (start_state entry)"
| walk_step: "walk es entry st \<Longrightarrow> e \<in> set es \<Longrightarrow> ge_from e = ts_id st \<or> ge_to e = ts_id st \<Longrightarrow> walk es entry (follow st e)"

definition within :: "graph_policy \<Rightarrow> traversal_state \<Rightarrow> bool" where
  "within p st \<longleftrightarrow> ts_depth st \<le> max 0 (gp_maxObservedDepth p) \<and> ts_inferredHops st \<le> max 0 (gp_maxInferredHops p)"

definition sound :: "graph_policy \<Rightarrow> graph_edge list \<Rightarrow> string \<Rightarrow> seen_map \<Rightarrow> bool" where
  "sound p es entry seen \<longleftrightarrow> (\<forall>(i, st) \<in> set seen. ts_id st = i \<and> walk es entry st \<and> within p st)"

definition room :: "graph_policy \<Rightarrow> seen_map \<Rightarrow> bool" where
  "room p seen \<longleftrightarrow> distinct (map fst seen) \<and> int (length seen) \<le> max 1 (gp_maxNodes p)"

lemma adjacent_iff: "e \<in> set (adjacent es i) \<longleftrightarrow> e \<in> set es \<and> (ge_from e = i \<or> ge_to e = i)"
  by (auto simp: adjacent_def)

lemma sound_put: "sound p es entry seen \<Longrightarrow> walk es entry st \<Longrightarrow> within p st \<Longrightarrow> sound p es entry (map_put (ts_id st) st seen)"
  using set_map_put_subset [of "ts_id st" st seen] by (auto simp: sound_def)

lemma room_put: "room p seen \<Longrightarrow> \<not> full p seen \<Longrightarrow> room p (map_put i st seen)"
  by (auto simp: room_def full_def length_map_put)

lemma is_seen_put [simp]: "is_seen (map_put i st seen) j \<longleftrightarrow> i = j \<or> is_seen seen j"
  by (auto simp: is_seen_def)

lemma seen_mono_put: "is_seen seen i \<Longrightarrow> is_seen (map_put j st seen) i"
  by simp

text \<open>What one expansion keeps.\<close>

lemma expand_keeps:
  assumes "expand p current fs (seen, queue) = (seen', queue')"
    and "set fs \<subseteq> {e \<in> set es. ge_from e = ts_id current \<or> ge_to e = ts_id current}"
    and "sound p es entry seen" and "walk es entry current" and "\<forall>st \<in> set queue. walk es entry st"
    and "room p seen" and "\<not> full p seen"
  shows "sound p es entry seen' \<and> (\<forall>st \<in> set queue'. walk es entry st) \<and> room p seen' \<and> (\<forall>i. is_seen seen i \<longrightarrow> is_seen seen' i)"
  using assms
proof (induction fs arbitrary: seen queue)
  case (Cons e fs)
  let ?n = "follow current e"
  show ?case
  proof (cases "ts_depth ?n > gp_maxObservedDepth p \<or> ts_inferredHops ?n > gp_maxInferredHops p \<or> is_seen seen (ts_id ?n)")
    case True
    with Cons.prems(1) have "expand p current fs (seen, queue) = (seen', queue')" by (auto simp: Let_def split: if_splits)
    from Cons.IH [OF this _ Cons.prems(3-7)] Cons.prems(2) show ?thesis by simp
  next
    case False
    let ?seen = "map_put (ts_id ?n) ?n seen"
    have w: "walk es entry ?n" using Cons.prems(2,4) by (auto intro: walk_step)
    have s: "sound p es entry ?seen"
      using False by (intro sound_put [OF Cons.prems(3) w]) (auto simp: within_def)
    have r: "room p ?seen" by (rule room_put [OF Cons.prems(6,7)])
    show ?thesis
    proof (cases "full p ?seen")
      case True
      with False Cons.prems s r w show ?thesis by (auto simp: Let_def)
    next
      case nf: False
      with False Cons.prems(1) have "expand p current fs (?seen, queue @ [?n]) = (seen', queue')" by (auto simp: Let_def)
      from Cons.IH [OF this _ s Cons.prems(4) _ r nf] Cons.prems(2,5) w show ?thesis by auto
    qed
  qed
qed simp

lemma traverse_keeps:
  assumes "sound p es entry seen" and "\<forall>st \<in> set queue. walk es entry st" and "room p seen"
  shows "sound p es entry (traverse p (adjacent es) seen queue) \<and> room p (traverse p (adjacent es) seen queue) \<and>
    (\<forall>i. is_seen seen i \<longrightarrow> is_seen (traverse p (adjacent es) seen queue) i)"
  using assms
proof (induction p "adjacent es" seen queue rule: traverse.induct)
  case (2 p seen current queue)
  show ?case
  proof (cases "full p seen")
    case False
    obtain seen' queue' where e: "expand p current (adjacent es (ts_id current)) (seen, queue) = (seen', queue')" by fastforce
    have "set (adjacent es (ts_id current)) \<subseteq> {e \<in> set es. ge_from e = ts_id current \<or> ge_to e = ts_id current}"
      by (auto simp: adjacent_iff)
    from expand_keeps [OF e this "2.prems"(1) _ _ "2.prems"(3) False] "2.prems"(2)
    have k: "sound p es entry seen'" "\<forall>st \<in> set queue'. walk es entry st" "room p seen'" "\<forall>i. is_seen seen i \<longrightarrow> is_seen seen' i"
      by auto
    from "2.hyps" [OF False e [symmetric] k(1-3)] k(4) False e show ?thesis by auto
  qed (use 2 in simp)
qed simp

lemma add_related_keeps:
  "room p seen \<Longrightarrow> room p (add_related p ns seen) \<and> (\<forall>i. is_seen seen i \<longrightarrow> is_seen (add_related p ns seen) i)"
proof (induction ns arbitrary: seen)
  case (Cons n ns)
  then show ?case
    using Cons.IH [of seen] Cons.IH [OF room_put [of p seen "gn_id n" "start_state (gn_id n)"]] by auto
qed simp

lemma add_context_keeps:
  "room p seen \<Longrightarrow> room p (add_context p es seen) \<and> (\<forall>i. is_seen seen i \<longrightarrow> is_seen (add_context p es seen) i)"
proof (induction es arbitrary: seen)
  case (Cons e es)
  then show ?case
    using Cons.IH [of seen] Cons.IH [OF room_put [of p seen "ge_to e" "start_state (ge_to e)"]]
      Cons.IH [OF room_put [of p seen "ge_from e" "start_state (ge_from e)"]] by auto
qed simp

definition traversed :: "range_order \<Rightarrow> string \<Rightarrow> builder \<Rightarrow> seen_map" where
  "traversed ord entry b =
     traverse (b_policy b) (adjacent (snd (allSorted ord b))) [(entry, start_state entry)] [start_state entry]"

lemma visited_alt:
  "visited ord entry b = add_context (b_policy b) (snd (allSorted ord b))
     (add_related (b_policy b) (fst (allSorted ord b)) (traversed ord entry b))"
  by (simp add: visited_def traversed_def split: prod.splits)

lemma traversed_ok:
  "sound (b_policy b) (snd (allSorted ord b)) entry (traversed ord entry b) \<and> room (b_policy b) (traversed ord entry b) \<and>
   is_seen (traversed ord entry b) entry"
proof -
  have "sound (b_policy b) (snd (allSorted ord b)) entry [(entry, start_state entry)]"
    using walk_start by (simp add: sound_def within_def start_state_def)
  moreover have "room (b_policy b) [(entry, start_state entry)]" "is_seen [(entry, start_state entry)] entry"
    by (simp_all add: room_def is_seen_def)
  ultimately show ?thesis
    unfolding traversed_def using traverse_keeps [of "b_policy b" "snd (allSorted ord b)" entry
      "[(entry, start_state entry)]" "[start_state entry]"] walk_start by (simp del: traverse.simps)
qed

lemma visited_ok: "room (b_policy b) (visited ord entry b) \<and> (\<forall>i. is_seen (traversed ord entry b) i \<longrightarrow> is_seen (visited ord entry b) i)"
  using traversed_ok [of b ord entry] add_related_keeps [of "b_policy b" "traversed ord entry b"]
    add_context_keeps [of "b_policy b"] by (simp add: visited_alt)

section \<open>Enumerating maps\<close>

lemma keyed_values:
  assumes "keyed key m"
  shows "map (\<lambda>k. the (map_of m k)) (map fst m) = map snd m" and "inj_on key (snd ` set m)" and "distinct (map snd m)"
proof -
  have d: "distinct (map fst m)" and k: "\<And>k v. (k, v) \<in> set m \<Longrightarrow> key v = k" using assms by (auto simp: keyed_def)
  show "map (\<lambda>k. the (map_of m k)) (map fst m) = map snd m" using d by (auto simp: map_of_eq_Some_iff)
  have fst: "fst e = key (snd e)" if "e \<in> set m" for e using k that by (cases e) auto
  have "map key (map snd m) = map fst m" using fst by simp
  with d have "distinct (map key (map snd m))" by metis
  then show "inj_on key (snd ` set m)" "distinct (map snd m)" unfolding distinct_map by simp_all
qed

lemma mset_range_values:
  assumes "permuting ord" and "keyed key m"
  shows "mset (range_values ord tag m) = mset (map snd m)"
proof -
  have "mset (range_values ord tag m) = image_mset (\<lambda>k. the (map_of m k)) (mset (ord tag (map fst m)))"
    by (simp add: range_values_def)
  also have "mset (ord tag (map fst m)) = mset (map fst m)" using assms(1) by (simp add: permuting_def)
  also have "image_mset (\<lambda>k. the (map_of m k)) (mset (map fst m)) = mset (map snd m)"
    by (metis keyed_values(1) [OF assms(2)] mset_map)
  finally show ?thesis .
qed

lemma sort_slice_unique:
  fixes key :: "'v \<Rightarrow> string"
  assumes "mset xs = mset ys" and "inj_on key (set xs)"
  shows "sort_slice (\<lambda>a b. key a < key b) xs = sort_slice (\<lambda>a b. key a < key b) ys"
proof -
  have "set xs = set ys" using assms(1) by (rule mset_eq_setD)
  then have "sort_slice (\<lambda>a b. key a < key b) xs = sort_key key xs" "sort_slice (\<lambda>a b. key a < key b) ys = sort_key key ys"
    using assms(2) by (simp_all add: sort_slice_key_unique)
  moreover have "sort_key key xs = sort_key key ys"
    using assms by (intro sort_key_inj_key_eq) simp_all
  ultimately show ?thesis by simp
qed

lemma sorted_values_unique:
  assumes "permuting ord" and "permuting ord'" and "keyed key m" and "keyed key m'" and "map_of m = map_of m'"
  shows "sort_slice (\<lambda>a b. key a < key b) (range_values ord tag m) = sort_slice (\<lambda>a b. key a < key b) (range_values ord' tag' m')"
proof (rule sort_slice_unique)
  have d: "distinct (map fst m)" "distinct (map fst m')" using assms(3,4) by (simp_all add: keyed_def)
  have "(k, v) \<in> set m \<longleftrightarrow> (k, v) \<in> set m'" for k v
    using map_put_distinct_iff [OF d(1), of k v] map_put_distinct_iff [OF d(2), of k v] assms(5) by simp
  then have "set m = set m'" by (auto simp: set_eq_iff)
  moreover have "distinct m" "distinct m'" using d by (simp_all add: distinct_map)
  ultimately have "mset m = mset m'" by (simp add: set_eq_iff_mset_eq_distinct)
  then show "mset (range_values ord tag m) = mset (range_values ord' tag' m')"
    by (simp add: mset_range_values [OF assms(1,3)] mset_range_values [OF assms(2,4)])
  have "set (range_values ord tag m) = snd ` set m"
    using mset_eq_setD [OF mset_range_values [OF assms(1,3), of tag]] by simp
  then show "inj_on key (set (range_values ord tag m))" using keyed_values(2) [OF assms(3)] by simp
qed

lemma sorted_values_strict:
  fixes key :: "'v \<Rightarrow> string"
  assumes "permuting ord" and "keyed key m"
  shows "sorted_wrt (\<lambda>a b. key a < key b) (sort_slice (\<lambda>a b. key a < key b) (range_values ord tag m))"
proof -
  let ?xs = "range_values ord tag m"
  note m = mset_range_values [OF assms, of tag]
  have set: "set ?xs = snd ` set m" using mset_eq_setD [OF m] by simp
  have "distinct ?xs" using keyed_values(3) [OF assms(2)] m by (metis mset_eq_imp_distinct_iff)
  moreover have inj: "inj_on key (set ?xs)" using keyed_values(2) [OF assms(2)] set by simp
  ultimately have "distinct (map key (sort_key key ?xs))" by (simp add: distinct_map)
  then have "sorted_wrt (<) (map key (sort_key key ?xs))" by (simp add: strict_sorted_iff)
  then show ?thesis using sort_slice_key_unique [OF inj] by (simp add: sorted_wrt_map)
qed

lemma allSorted_set:
  assumes "permuting ord" and "builder_ok b"
  shows "set (fst (allSorted ord b)) = snd ` set (b_nodes b)" and "set (snd (allSorted ord b)) = snd ` set (b_edges b)"
  using mset_eq_setD [OF mset_range_values [OF assms(1), of gn_id "b_nodes b"]]
    mset_eq_setD [OF mset_range_values [OF assms(1), of ge_id "b_edges b"]] assms(2)
  by (simp_all add: allSorted_def builder_ok_def)

section \<open>Properties\<close>

lemma filter_seen_le:
  assumes "sorted_wrt (\<lambda>a b. key a < (key b :: string)) xs" and "room p seen"
  shows "int (length (filter (\<lambda>x. is_seen seen (key x)) xs)) \<le> max 1 (gp_maxNodes p)"
proof -
  let ?ys = "filter (\<lambda>x. is_seen seen (key x)) xs"
  have "sorted_wrt (<) (map key ?ys)" using assms(1) by (simp add: sorted_wrt_map sorted_wrt_filter)
  then have "distinct (map key ?ys)" by (simp add: strict_sorted_iff)
  then have "length ?ys = card (set (map key ?ys))" by (metis distinct_card length_map)
  also have "\<dots> \<le> card (fst ` set seen)"
    by (rule card_mono) (auto simp: is_seen_def dest: map_of_SomeD intro: rev_image_eqI)
  also have "\<dots> \<le> length seen" by (metis card_length length_map list.set_map)
  finally show ?thesis using assms(2) by (simp add: room_def)
qed

lemma build_parts:
  assumes "b = connect_all ord (populate ev policy)" and "g = BuildWithPolicy ord ev policy"
    and "entry = nodeID ''resource'' (ev_rootResource ev)"
  shows "ig_nodes g = filter (\<lambda>n. is_seen (visited ord entry b) (gn_id n)) (fst (allSorted ord b))"
    and "ig_edges g = take (nat (gp_maxEdges policy)) (filter (\<lambda>e. is_seen (visited ord entry b) (ge_from e) \<and>
      is_seen (visited ord entry b) (ge_to e)) (snd (allSorted ord b)))"
    and "ig_truncated g \<longleftrightarrow> length (ig_nodes g) < length (fst (allSorted ord b)) \<or> length (ig_edges g) < length (snd (allSorted ord b))"
    and "ig_entryResourceID g = entry"
    and "set (ig_candidates g) = {c \<in> set (range_values ord [''candidates''] (b_candidates b)).
      gc_sourceNodeID c \<in> gn_id ` set (ig_nodes g) \<and> gc_candidateNodeID c \<in> gn_id ` set (ig_nodes g)}"
  using connected_ok [of ord ev policy]
  by (auto simp: assms BuildWithPolicy_def bounded_def Let_def split: prod.splits)

text \<open>
  C37. The graph stays within its policy: at most \<open>MaxNodes\<close> nodes (but always the entry) and at most
  \<open>MaxEdges\<close> edges, both listed by strictly increasing identifier; the entry resource is one of the nodes,
  and every candidate joins two nodes of the graph.
\<close>

theorem graph_within_policy:
  assumes "permuting ord" and "g = BuildWithPolicy ord ev policy"
  shows "int (length (ig_nodes g)) \<le> max 1 (gp_maxNodes policy) \<and> int (length (ig_edges g)) \<le> max 0 (gp_maxEdges policy) \<and>
    sorted_wrt (\<lambda>m n. gn_id m < gn_id n) (ig_nodes g) \<and> sorted_wrt (\<lambda>e f. ge_id e < ge_id f) (ig_edges g) \<and>
    ig_entryResourceID g \<in> gn_id ` set (ig_nodes g) \<and>
    (\<forall>c \<in> set (ig_candidates g). gc_sourceNodeID c \<in> gn_id ` set (ig_nodes g) \<and> gc_candidateNodeID c \<in> gn_id ` set (ig_nodes g))"
proof -
  define b where "b = connect_all ord (populate ev policy)"
  let ?entry = "nodeID ''resource'' (ev_rootResource ev)"
  note parts = build_parts [OF b_def assms(2) refl]
  have ok: "builder_ok b" "has_node b ?entry" "b_policy b = policy" using connected_ok by (simp_all add: b_def)
  have ns: "sorted_wrt (\<lambda>m n. gn_id m < gn_id n) (fst (allSorted ord b))"
    and es: "sorted_wrt (\<lambda>e f. ge_id e < ge_id f) (snd (allSorted ord b))"
    using sorted_values_strict [OF assms(1), of gn_id "b_nodes b"] sorted_values_strict [OF assms(1), of ge_id "b_edges b"] ok(1)
    by (simp_all add: allSorted_def builder_ok_def)
  have room: "room policy (visited ord ?entry b)" using visited_ok [of b ord ?entry] ok(3) by simp
  have "int (length (ig_nodes g)) \<le> max 1 (gp_maxNodes policy)" unfolding parts by (rule filter_seen_le [OF ns room])
  moreover have "int (length (ig_edges g)) \<le> max 0 (gp_maxEdges policy)" unfolding parts by simp
  moreover have "sorted_wrt (\<lambda>m n. gn_id m < gn_id n) (ig_nodes g)" unfolding parts using ns by (rule sorted_wrt_filter)
  moreover have "sorted_wrt (\<lambda>e f. ge_id e < ge_id f) (ig_edges g)"
    unfolding parts by (intro sorted_wrt_take sorted_wrt_filter es)
  moreover have "ig_entryResourceID g \<in> gn_id ` set (ig_nodes g)"
  proof -
    obtain n where n: "map_of (b_nodes b) ?entry = Some n" using ok(2) by (auto simp: has_node_def)
    have "n \<in> set (fst (allSorted ord b))" unfolding allSorted_set [OF assms(1) ok(1)]
      using map_of_SomeD [OF n] by (metis imageI snd_conv)
    moreover have "gn_id n = ?entry" by (rule stored_id [OF ok(1) n])
    moreover have "is_seen (visited ord ?entry b) ?entry" using visited_ok traversed_ok by blast
    ultimately show ?thesis unfolding parts by (intro image_eqI [of _ _ n]) simp_all
  qed
  ultimately show ?thesis unfolding parts(5) by blast
qed

definition sample_evidence :: evidence where
  "sample_evidence = empty_evidence\<lparr>ev_rootResource := mk_cref ''Deployment'' ''demo'' ''web''\<rparr>"

theorem graph_within_policy_witness:
  "''resource:apps:Deployment:demo:web'' \<in> gn_id ` set (ig_nodes (Build (\<lambda>_ ks. rev ks) sample_evidence)) \<and>
   length (ig_nodes (Build (\<lambda>_ ks. rev ks) sample_evidence)) \<le> 50"
proof -
  let ?g = "Build (\<lambda>_ ks. rev ks) sample_evidence"
  have p: "permuting (\<lambda>_ ks. rev ks)" by (simp add: permuting_def)
  have "ig_entryResourceID ?g = ''resource:apps:Deployment:demo:web''"
    by (simp add: Build_def BuildWithPolicy_def Let_def nodeID_def apiGroup_def sample_evidence_def mk_cref_def split: prod.splits)
  moreover from graph_within_policy [OF p, of ?g sample_evidence DefaultPolicy]
  have "int (length (ig_nodes ?g)) \<le> 50" "ig_entryResourceID ?g \<in> gn_id ` set (ig_nodes ?g)"
    by (simp_all add: Build_def DefaultPolicy_def)
  ultimately show ?thesis by simp
qed



lemma add_context_neighbour:
  assumes "\<not> full p (add_context p es seen)" and "e \<in> set es" and "room p seen"
    and "is_seen seen (ge_from e) \<or> is_seen seen (ge_to e)"
  shows "is_seen (add_context p es seen) (ge_from e) \<and> is_seen (add_context p es seen) (ge_to e)"
  using assms
proof (induction es arbitrary: seen)
  case (Cons f es)
  let ?s = "if is_seen seen (ge_from f) = is_seen seen (ge_to f) then seen
     else if is_seen seen (ge_from f) then map_put (ge_to f) (start_state (ge_to f)) seen
     else map_put (ge_from f) (start_state (ge_from f)) seen"
  have nf: "\<not> full p seen" and eq: "add_context p (f # es) seen = add_context p es ?s"
    using Cons.prems(1) by (auto split: if_splits)
  have room: "room p ?s" using Cons.prems(3) nf by (simp add: room_put)
  note keep = add_context_keeps [OF room, of es]
  show ?case
  proof (cases "e = f")
    case True
    with Cons.prems(4) have "is_seen ?s (ge_from e) \<and> is_seen ?s (ge_to e)" by auto
    with keep eq show ?thesis by simp
  next
    case False
    then have e: "e \<in> set es" using Cons.prems(2) by simp
    have "is_seen ?s (ge_from e) \<or> is_seen ?s (ge_to e)" using Cons.prems(4) by auto
    from Cons.IH [OF _ e room this] Cons.prems(1) eq show ?thesis by simp
  qed
qed simp

text \<open>
  The depth and the inferred hops of the policy bound the traversal, not the graph: every node the
  traversal finds has a walk from the entry within both limits, but while there is room the final pass
  adds the far end of every edge at such a node, however far away and inferred or not.
\<close>

theorem policy_limits_traversal_only:
  assumes "permuting ord" and "builder_ok b"
  shows "(\<forall>i. is_seen (traversed ord entry b) i \<longrightarrow>
      (\<exists>st. ts_id st = i \<and> walk (snd (allSorted ord b)) entry st \<and> within (b_policy b) st)) \<and>
    (\<forall>e. e \<in> snd ` set (b_edges b) \<and> is_seen (traversed ord entry b) (ge_from e) \<and> \<not> full (b_policy b) (visited ord entry b) \<longrightarrow>
      is_seen (visited ord entry b) (ge_to e))"
proof (intro conjI allI impI)
  fix i assume "is_seen (traversed ord entry b) i"
  then obtain st where "(i, st) \<in> set (traversed ord entry b)" by (auto simp: is_seen_def dest: map_of_SomeD)
  with traversed_ok [of b ord entry] show "\<exists>st. ts_id st = i \<and> walk (snd (allSorted ord b)) entry st \<and> within (b_policy b) st"
    by (auto simp: sound_def)
next
  fix e assume e: "e \<in> snd ` set (b_edges b) \<and> is_seen (traversed ord entry b) (ge_from e) \<and> \<not> full (b_policy b) (visited ord entry b)"
  let ?s = "add_related (b_policy b) (fst (allSorted ord b)) (traversed ord entry b)"
  have r: "room (b_policy b) ?s" "is_seen ?s (ge_from e)"
    using add_related_keeps [of "b_policy b" "traversed ord entry b"] traversed_ok [of b ord entry] e by auto
  show "is_seen (visited ord entry b) (ge_to e)"
    unfolding visited_alt using e r
    by (intro add_context_neighbour [THEN conjunct2]) (auto simp: visited_alt allSorted_set [OF assms])
qed

theorem policy_limits_traversal_only_witness:
  "is_seen (traversed (\<lambda>_ ks. ks) ''a'' (populate sample_evidence DefaultPolicy)) ''a'' \<and>
   (\<exists>st. ts_id st = ''a'' \<and> within (b_policy (populate sample_evidence DefaultPolicy)) st)"
proof -
  let ?b = "populate sample_evidence DefaultPolicy"
  have "permuting (\<lambda>_ ks. ks)" "builder_ok ?b" using populate_ok by (simp_all add: permuting_def)
  from policy_limits_traversal_only [OF this, of "''a''"] traversed_ok [of ?b "\<lambda>_ ks. ks" "''a''"] show ?thesis by blast
qed

lemma weight_pos: "0 < selectorKeyWeight k"
  by (simp add: selectorKeyWeight_def)

lemma weight_matched:
  "0 \<le> total_weight (selector_matched sel labels) \<and> total_weight (selector_matched sel labels) \<le> total_weight sel \<and>
   (total_weight (selector_matched sel labels) = total_weight sel \<longleftrightarrow> (\<forall>(k, v) \<in> set sel. map_of labels k = Some v))"
proof (induction sel)
  case (Cons kv sel)
  then show ?case
    using weight_pos [of "fst kv"] by (cases kv) (auto simp: total_weight_def selector_matched_def)
qed (simp add: total_weight_def selector_matched_def)

text \<open>
  Scores of inferred selector matches are percentages by weight: they lie between 0 and 100, and a
  score of 100 means that the selector is not empty and every one of its labels is on the workload, in
  which case the selector matches in Kubernetes' sense too.
\<close>

theorem selector_score_percentage:
  "0 \<le> fst (SelectorInferenceScore sel labels) \<and> fst (SelectorInferenceScore sel labels) \<le> 100 \<and>
   (fst (SelectorInferenceScore sel labels) = 100 \<longleftrightarrow> sel \<noteq> [] \<and> (\<forall>(k, v) \<in> set sel. map_of labels k = Some v)) \<and>
   (fst (SelectorInferenceScore sel labels) = 100 \<longrightarrow> labelsMatch sel labels)"
proof -
  let ?m = "total_weight (selector_matched sel labels)" and ?t = "total_weight sel"
  have b: "0 \<le> ?m" "?m \<le> ?t" and all: "?m = ?t \<longleftrightarrow> (\<forall>(k, v) \<in> set sel. map_of labels k = Some v)"
    using weight_matched [of sel labels] by auto
  have t: "?t = 0 \<longleftrightarrow> sel = []"
  proof (cases sel)
    case (Cons kv r)
    have "0 \<le> total_weight r" using weight_matched [of r labels] by linarith
    with Cons weight_pos [of "fst kv"] show ?thesis by (cases kv) (simp add: total_weight_def)
  qed (simp add: total_weight_def)
  have s: "fst (SelectorInferenceScore sel labels) = (if ?t = 0 \<or> ?m = 0 then 0 else ?m * 100 div ?t)"
    by (simp add: SelectorInferenceScore_def Let_def)
  have full: "?m * 100 div ?t = 100 \<longleftrightarrow> ?m = ?t" if "?t \<noteq> 0"
  proof -
    have "?m < ?t \<Longrightarrow> ?m * 100 div ?t < 100"
      using b by (subst int_div_less_iff) linarith+
    with b that show ?thesis by (cases "?m = ?t") auto
  qed
  have "0 \<le> ?m * 100 div ?t \<and> ?m * 100 div ?t \<le> 100" if "?t \<noteq> 0"
  proof -
    have "?m * 100 div ?t < 101" using b that by (subst int_div_less_iff) linarith+
    moreover have "0 < ?t" using b that by linarith
    then have "0 \<le> ?m * 100 div ?t" using b by (simp add: pos_imp_zdiv_nonneg_iff)
    ultimately show ?thesis by simp
  qed
  moreover have "sel \<noteq> [] \<Longrightarrow> \<forall>(k, v) \<in> set sel. map_of labels k = Some v \<Longrightarrow> labelsMatch sel labels"
    by (auto simp: labelsMatch_def list_all_iff go_idx_def)
  ultimately show ?thesis using full all t b by (auto simp: s)
qed

theorem selector_score_percentage_witness:
  "fst (SelectorInferenceScore [(''app'', ''web'')] [(''app'', ''web''), (''tier'', ''x'')]) = 100 \<and>
   labelsMatch [(''app'', ''web'')] [(''app'', ''web''), (''tier'', ''x'')]"
proof -
  have "fst (SelectorInferenceScore [(''app'', ''web'')] [(''app'', ''web''), (''tier'', ''x'')]) = 100"
    using selector_score_percentage [of "[(''app'', ''web'')]" "[(''app'', ''web''), (''tier'', ''x'')]"] by simp
  with selector_score_percentage [of "[(''app'', ''web'')]" "[(''app'', ''web''), (''tier'', ''x'')]"] show ?thesis by simp
qed

section \<open>Where the graph is not what it is meant to be\<close>

definition node_of :: "cref \<Rightarrow> string \<Rightarrow> attrs \<Rightarrow> string \<times> graph_node" where
  "node_of ref role as = (nodeID ''resource'' ref, \<lparr>gn_id = nodeID ''resource'' ref, gn_type = ''resource'', gn_resource = ref,
     gn_state = ''present'', gn_role = role, gn_attributes = as, gn_sourceIDs = []\<rparr>)"

definition route_to :: "string \<Rightarrow> attrs" where
  "route_to name = [(''rules'', AMaps [[(''paths'', AMaps [[(''backendService'', AStr name)]])]])]"

definition two_ingresses :: builder where
  "two_ingresses = (new_builder sample_evidence DefaultPolicy)\<lparr>b_nodes :=
     [node_of (mk_cref ''Ingress'' ''demo'' ''a'') ''discovered'' (route_to ''web''),
      node_of (mk_cref ''Ingress'' ''demo'' ''b'') ''discovered'' (route_to ''web''),
      node_of (mk_cref ''Service'' ''demo'' ''web-svc'') ''discovered''
        [(''annotations'', AStrMap [(''kubechan.io/renamed-from'', ''web'')])]]\<rparr>"

text \<open>The ingress a candidate is attributed to, through the operations of the pass.\<close>

definition attributed :: "builder \<Rightarrow> string \<Rightarrow> string option" where
  "attributed b i = map_option gc_sourceNodeID (map_of (b_candidates b) i)"

lemma builder_parts [simp]:
  "b_nodes (addEdge k f t st as ss b) = b_nodes b" "attributed (addEdge k f t st as ss b) = attributed b"
  "b_nodes (put_node n b) = map_put (gn_id n) n (b_nodes b)" "attributed (put_node n b) = attributed b"
  "b_nodes (rank_service s r ref p i n b) = b_nodes b"
  by (auto simp: addEdge_def put_edge_def put_node_def rank_service_def attributed_def Let_def)

lemma attributed_rank_service:
  "attributed (rank_service s r ref p i n b) =
    (if gn_type n = ''resource'' \<and> cr_kind (gn_resource n) = ''Service'' \<and> cr_namespace (gn_resource n) = cr_namespace ref \<and>
        go_idx (stringMap (attr n ''annotations'')) ''kubechan.io/renamed-from'' = cr_name ref
     then (attributed b)(stableID ''candidate'' [r, i] \<mapsto> s)
     else attributed (rank_service s r ref p i n b))"
  by (auto simp: rank_service_def attributed_def Let_def)

lemma rank_service_other:
  "gn_type n \<noteq> ''resource'' \<or> cr_kind (gn_resource n) \<noteq> ''Service'' \<Longrightarrow> rank_service s r ref p i n b = b"
  unfolding rank_service_def by (rule if_P) blast

lemmas graph_eval = new_builder_def node_of_def nodeID_def apiGroup_def mk_cref_def node_keys_def attr_def any_idx_def
  route_to_def has_node_def reference_node_def node_resource_def go_idx_def

lemma ingress_attribution:
  assumes "b_nodes b = b_nodes two_ingresses \<or> b_nodes b = b_nodes two_ingresses @
      [(''reference:core:Service:demo:web'', reference_node (mk_cref ''Service'' ''demo'' ''web'') ''referenced'' [])]"
    and "ord = (\<lambda>_ ks. ks) \<or> ord = (\<lambda>_ ks. rev ks)" and "n = snd (node_of (mk_cref ''Ingress'' ''demo'' x) ''discovered'' (route_to ''web''))"
  shows "attributed (connect_ingress ord i n b) = (attributed b)(stableID ''candidate''
      [''reference:core:Service:demo:web'', ''resource:core:Service:demo:web-svc''] \<mapsto> i)"
    and "b_nodes (connect_ingress ord i n b) = b_nodes two_ingresses @
      [(''reference:core:Service:demo:web'', reference_node (mk_cref ''Service'' ''demo'' ''web'') ''referenced'' [])]"
proof -
  show "attributed (connect_ingress ord i n b) = (attributed b)(stableID ''candidate''
      [''reference:core:Service:demo:web'', ''resource:core:Service:demo:web-svc''] \<mapsto> i)"
    using assms(1,2) unfolding assms(3)
    by (elim disjE; simp add: connect_ingress_def connect_rule_def connect_path_def rankServiceCandidates_def two_ingresses_def
        graph_eval Let_def rank_service_other attributed_rank_service)
  show "b_nodes (connect_ingress ord i n b) = b_nodes two_ingresses @
      [(''reference:core:Service:demo:web'', reference_node (mk_cref ''Service'' ''demo'' ''web'') ''referenced'' [])]"
    using assms(1,2) unfolding assms(3)
    by (elim disjE; simp add: connect_ingress_def connect_rule_def connect_path_def rankServiceCandidates_def two_ingresses_def
        graph_eval Let_def rank_service_other)
qed

lemma connect_ingress_other: "cr_kind (gn_resource n) \<noteq> ''Ingress'' \<Longrightarrow> connect_ingress ord i n b = b"
  by (simp add: connect_ingress_def)

lemma two_ingresses_nodes:
  "b_nodes two_ingresses =
     [(''resource:networking.k8s.io:Ingress:demo:a'', snd (node_of (mk_cref ''Ingress'' ''demo'' ''a'') ''discovered'' (route_to ''web''))),
      (''resource:networking.k8s.io:Ingress:demo:b'', snd (node_of (mk_cref ''Ingress'' ''demo'' ''b'') ''discovered'' (route_to ''web''))),
      (''resource:core:Service:demo:web-svc'', snd (node_of (mk_cref ''Service'' ''demo'' ''web-svc'') ''discovered''
        [(''annotations'', AStrMap [(''kubechan.io/renamed-from'', ''web'')])]))]"
  by (simp add: two_ingresses_def graph_eval)

lemma service_is_no_ingress:
  "connect_ingress ord i (snd (node_of (mk_cref ''Service'' ns n) role as)) b = b"
  by (rule connect_ingress_other) (simp add: node_of_def mk_cref_def)

text \<open>
  The candidates of a graph depend on the order in which Go enumerates maps: when two ingresses route
  to the same missing service, the candidate that could replace it is attributed to whichever
  ingress comes up last.
\<close>

theorem candidate_depends_on_map_order:
  "\<exists>i. attributed (connectIngressesToServices (\<lambda>_ ks. ks) two_ingresses) i = Some ''resource:networking.k8s.io:Ingress:demo:b'' \<and>
     attributed (connectIngressesToServices (\<lambda>_ ks. rev ks) two_ingresses) i = Some ''resource:networking.k8s.io:Ingress:demo:a''"
  by (rule exI [of _ "stableID ''candidate'' [''reference:core:Service:demo:web'', ''resource:core:Service:demo:web-svc'']"])
    (simp add: connectIngressesToServices_def node_keys_def two_ingresses_nodes ingress_attribution service_is_no_ingress)

definition lost_volume :: evidence where
  "lost_volume = empty_evidence\<lparr>ev_rootResource := mk_cref ''Pod'' ''demo'' ''web-0'', ev_workloadPodLogs :=
     [\<lparr>pl_podName = ''web-0'', pl_phase = ''Pending'', pl_labels = [], pl_pvcNames = [''data''], pl_logs = [], pl_truncated = False,
       pl_error = [], pl_events = [], pl_dependencies = None, pl_owners = []\<rparr>]\<rparr>"

definition lost_pod :: graph_node where
  "lost_pod = \<lparr>gn_id = ''resource:core:Pod:demo:web-0'', gn_type = ''resource'', gn_resource = mk_cref ''Pod'' ''demo'' ''web-0'',
     gn_state = ''degraded'', gn_role = ''workload'', gn_attributes = [(''phase'', AStr ''Pending''), (''labels'', AStrMap [])],
     gn_sourceIDs = []\<rparr>"

definition lost_mount :: graph_edge where
  "lost_mount = \<lparr>ge_id = stableID ''edge'' [''mounts'', ''resource:core:Pod:demo:web-0'', ''resource:core:PersistentVolumeClaim:demo:data''],
     ge_type = ''mounts'', ge_from = ''resource:core:Pod:demo:web-0'', ge_to = ''resource:core:PersistentVolumeClaim:demo:data'',
     ge_state = ''resolved'', ge_origin = ''observed'', ge_strength = [], ge_score = 0, ge_reasons = [], ge_attributes = [],
     ge_sourceIDs = []\<rparr>"

lemma sourceIDs_none: "b_sources b = [] \<Longrightarrow> sourceIDs b ref p = []"
  by (simp add: sourceIDs_def uniqueSorted_def sort_slice_def)

lemma populate_lost:
  "populate lost_volume DefaultPolicy = (new_builder lost_volume DefaultPolicy)
     \<lparr>b_nodes := [(gn_id lost_pod, lost_pod)], b_edges := [(ge_id lost_mount, lost_mount)]\<rparr>"
  by (simp add: populate_def add_pod_def add_owners_def add_dependencies_def add_mounts_def addResource_def addEdge_def put_edge_def
      put_node_def lost_volume_def lost_pod_def lost_mount_def graph_eval empty_evidence_def Let_def sourceIDs_none
      withoutState_def isWorkloadKind_def uniqueSorted_def sort_slice_def)

lemma connect_lost: "connect_all (\<lambda>_ ks. ks) (populate lost_volume DefaultPolicy) = populate lost_volume DefaultPolicy"
  by (simp add: populate_lost connect_all_def connectServicesToPods_def connectWorkloadsToPods_def connectIngressesToServices_def
      connectWorkloadDependencies_def connectAutoscalers_def connectEndpointSlices_def connectPVCStorageClasses_def node_keys_def
      connect_service_def connect_workload_def connect_ingress_def connect_dependencies_def connect_autoscaler_def connect_slice_def
      connect_pvc_def lost_pod_def mk_cref_def isWorkloadKind_def)

text \<open>
  A pod whose claim could not be read is shown as mounting it all the same: the graph has an edge,
  marked as resolved, to a claim that is not among its nodes.
\<close>

theorem mount_edge_can_dangle:
  "ig_edges (Build (\<lambda>_ ks. ks) lost_volume) = [lost_mount] \<and> ge_state lost_mount = ''resolved'' \<and>
   ge_to lost_mount \<notin> gn_id ` set (ig_nodes (Build (\<lambda>_ ks. ks) lost_volume))"
proof -
  have e: "nodeID ''resource'' (ev_rootResource lost_volume) = ''resource:core:Pod:demo:web-0''"
    by (simp add: lost_volume_def graph_eval)
  have s: "allSorted (\<lambda>_ ks. ks) (populate lost_volume DefaultPolicy) = ([lost_pod], [lost_mount])"
    by (simp add: populate_lost allSorted_def range_values_def sort_slice_def)
  let ?a = "''resource:core:Pod:demo:web-0''" and ?c = "''resource:core:PersistentVolumeClaim:demo:data''"
  let ?st = "\<lparr>ts_id = ?c, ts_depth = 1, ts_inferredHops = 0\<rparr>"
  let ?seen = "[(?a, start_state ?a), (?c, ?st)]"
  have p: "b_policy (populate lost_volume DefaultPolicy) = DefaultPolicy" by (simp add: populate_ok)
  have adj: "adjacent [lost_mount] ?a = [lost_mount]" "adjacent [lost_mount] ?c = [lost_mount]"
    by (simp_all add: adjacent_def sort_slice_def lost_mount_def)
  have "follow (start_state ?a) lost_mount = ?st" "follow ?st lost_mount = \<lparr>ts_id = ?a, ts_depth = 2, ts_inferredHops = 0\<rparr>"
    by (simp_all add: follow_def start_state_def lost_mount_def)
  then have x: "expand DefaultPolicy (start_state ?a) [lost_mount] ([(?a, start_state ?a)], []) = (?seen, [?st])"
    "expand DefaultPolicy ?st [lost_mount] (?seen, []) = (?seen, [])"
    by (simp_all add: DefaultPolicy_def full_def is_seen_def Let_def)
  have nf: "\<not> full DefaultPolicy [(?a, start_state ?a)]" "\<not> full DefaultPolicy ?seen"
    by (simp_all add: full_def DefaultPolicy_def)
  have t: "traverse DefaultPolicy (adjacent [lost_mount]) [(?a, start_state ?a)] [start_state ?a] = ?seen"
  proof -
    have "ts_id (start_state ?a) = ?a" by (simp add: start_state_def)
    then show ?thesis by (simp only: traverse.simps nf x adj if_False prod.case traversal_state.simps)
  qed
  have seen: "is_seen ?seen ?a" "is_seen ?seen ?c" by (simp_all add: is_seen_def)
  have ends: "ge_from lost_mount = ?a" "ge_to lost_mount = ?c" "gn_id lost_pod = ?a" "gn_role lost_pod = ''workload''"
    "ge_state lost_mount = ''resolved''"
    by (simp_all add: lost_mount_def lost_pod_def)
  have r: "add_related DefaultPolicy [lost_pod] ?seen = ?seen" "add_context DefaultPolicy [lost_mount] ?seen = ?seen"
    unfolding add_related.simps add_context.simps ends using nf seen by auto
  have v: "visited (\<lambda>_ ks. ks) ?a (populate lost_volume DefaultPolicy) = ?seen"
    unfolding visited_def s prod.case p t r ..
  have b: "bounded (\<lambda>_ ks. ks) ?a (populate lost_volume DefaultPolicy) = ([lost_pod], [lost_mount], False)"
    unfolding bounded_def s prod.case Let_def v p filter.simps ends using seen by (simp add: DefaultPolicy_def)
  show ?thesis
    unfolding Build_def BuildWithPolicy_def Let_def e connect_lost b prod.case by (simp add: ends)
qed

end
