(* ===== verification/Diagnostic_Properties.thy ===== *)
theory Diagnostic_Properties
  imports Diagnostic_Run Mem_Client Graph_Properties
begin

text \<open>
  Properties of diagnostic runs: the states of a run, the panic that leaves a run in the state running, the
  resources that are collected, and that the data of Secrets never reaches the evidence.
\<close>

section \<open>Discovery does not depend on the order of maps\<close>

lemma kind_name_less_key:
  "kind_name_less k n = (\<lambda>a b. [k a, n a] < [k b, n b])"
  by (auto simp: kind_name_less_def fun_eq_iff)

lemma kind_name_sort_unique:
  assumes "mset xs = mset ys" and "inj_on (\<lambda>a. [k a, n a]) (set xs)"
  shows "sort_slice (kind_name_less k n) xs = sort_slice (kind_name_less k n) ys"
proof -
  let ?key = "\<lambda>a. [k a, n a]"
  have "set xs = set ys" using assms(1) by (rule mset_eq_setD)
  then have inj: "inj_on ?key (set ys)" using assms(2) by simp
  note sort_slice_key_unique [OF assms(2)] sort_slice_key_unique [OF inj]
  moreover have "sort_key ?key xs = sort_key ?key ys"
    using assms by (intro sort_key_inj_key_eq) simp_all
  ultimately show ?thesis by (simp add: kind_name_less_key)
qed

lemma kind_name_sorted:
  assumes "distinct xs" and "inj_on (\<lambda>a. [k a, n a]) (set xs)"
  shows "sorted_wrt (kind_name_less k n) (sort_slice (kind_name_less k n) xs)"
proof -
  let ?key = "\<lambda>a. [k a, n a]"
  have "distinct (map ?key (sort_key ?key xs))" using assms by (simp add: distinct_map)
  then have "sorted_wrt (<) (map ?key (sort_key ?key xs))" by (simp add: strict_sorted_iff)
  then show ?thesis
    using sort_slice_key_unique [OF assms(2)] by (simp add: sorted_wrt_map kind_name_less_key)
qed

text \<open>The references of a template are keyed by kind and name.\<close>

definition dep_key :: "cref \<Rightarrow> string" where "dep_key c = cr_kind c @ ''/'' @ cr_name c"

lemma keyed_add_dep: "keyed dep_key m \<Longrightarrow> keyed dep_key (add_dep ns kind name m)"
  by (auto simp: add_dep_def dep_key_def mk_cref_def split: option.splits intro: keyed_map_put)

lemma keyed_foldl: "keyed key m \<Longrightarrow> (\<And>m x. keyed key m \<Longrightarrow> keyed key (f m x)) \<Longrightarrow> keyed key (foldl f m xs)"
  by (induction xs arbitrary: m) auto

lemma keyed_source_deps: "keyed dep_key m \<Longrightarrow> keyed dep_key (source_deps ns m s)"
  unfolding source_deps_def by (intro keyed_add_dep)

lemma keyed_container_deps: "keyed dep_key m \<Longrightarrow> keyed dep_key (container_deps ns m c)"
  unfolding container_deps_def by (intro keyed_foldl) (auto intro: keyed_source_deps split: option.split)

lemma keyed_volume_deps: "keyed dep_key m \<Longrightarrow> keyed dep_key (volume_deps ns m v)"
  unfolding volume_deps_def by (intro keyed_add_dep)

lemma keyed_template_deps: "keyed dep_key (template_deps ns spec)"
  unfolding template_deps_def
  by (intro keyed_foldl keyed_container_deps keyed_volume_deps) (simp add: keyed_def)

lemma keyed_range_unique:
  assumes "permuting ord" and "permuting ord'" and "keyed key m" and "\<And>a b. k a = k b \<Longrightarrow> n a = n b \<Longrightarrow> key a = key b"
  shows "sort_slice (kind_name_less k n) (range_values ord tag m) = sort_slice (kind_name_less k n) (range_values ord' tag' m)"
proof (rule kind_name_sort_unique)
  show "mset (range_values ord tag m) = mset (range_values ord' tag' m)"
    by (simp add: mset_range_values [OF assms(1,3)] mset_range_values [OF assms(2,3)])
  have set: "set (range_values ord tag m) = snd ` set m"
    using mset_eq_setD [OF mset_range_values [OF assms(1,3), of tag]] by simp
  show "inj_on (\<lambda>a. [k a, n a]) (set (range_values ord tag m))"
    unfolding set
  proof (rule inj_onI)
    fix a b assume "a \<in> snd ` set m" "b \<in> snd ` set m" "[k a, n a] = [k b, n b]"
    moreover from this have "key a = key b" by (intro assms(4)) simp_all
    ultimately show "a = b" using keyed_values(2) [OF assms(3)] by (meson inj_onD)
  qed
qed

lemma templateDependencyRefs_unique:
  "permuting ord \<Longrightarrow> permuting ord' \<Longrightarrow> templateDependencyRefs ord tag ns spec = templateDependencyRefs ord' tag ns spec"
  unfolding templateDependencyRefs_def
  by (rule keyed_range_unique [OF _ _ keyed_template_deps]) (simp_all add: dep_key_def)

definition entry_key :: "related_resource_entry \<Rightarrow> string" where
  "entry_key e = workload_key (re_kind e) (re_name e)"

definition entries_ok :: "string \<Rightarrow> (string \<times> related_resource_entry) list \<Rightarrow> bool" where
  "entries_ok ns m \<longleftrightarrow> keyed entry_key m \<and>
     (\<forall>e \<in> snd ` set m. re_namespace e = ns \<and> re_origin e = ''automatic'' \<and> re_name e \<noteq> [])"

lemma entries_ok_add: "entries_ok ns m \<Longrightarrow> entries_ok ns (add_entry ns kind name g m)"
proof -
  assume ok: "entries_ok ns m"
  let ?e = "\<lparr>re_kind = kind, re_namespace = ns, re_name = name, re_apiGroup = g, re_origin = ''automatic''\<rparr>"
  show ?thesis
    using ok set_map_put_subset [of "workload_key kind name" ?e m]
      keyed_map_put [of entry_key m ?e "workload_key kind name"]
    by (auto simp: entries_ok_def add_entry_def entry_key_def)
qed

lemma entries_ok_foldl: "entries_ok ns m \<Longrightarrow> (\<And>m x. entries_ok ns m \<Longrightarrow> entries_ok ns (f m x)) \<Longrightarrow> entries_ok ns (foldl f m xs)"
  by (induction xs arbitrary: m) auto

lemma entries_ok_discovered: "entries_ok ns (discovered_entries r ns xs ss hpas slices sel w)"
proof -
  have "entries_ok ns []" by (simp add: entries_ok_def keyed_def)
  then show ?thesis
    unfolding discovered_entries_def Let_def add_workload_entries_def
    by (auto split: prod.splits intro!: entries_ok_foldl entries_ok_add)
qed

text \<open>
  C36. What discovery finds is bounded and reproducible: at most fifty resources, all of them in the
  namespace of the root, marked as found automatically and listed by strictly increasing kind and name;
  and the list is the same whatever the order in which Go enumerates its maps.
\<close>

theorem discovery_bounded_deterministic:
  assumes "permuting ord" and "permuting ord'"
  shows "fst (discoverApplicationResources r ord root w) = fst (discoverApplicationResources r ord' root w) \<and>
    length (fst (discoverApplicationResources r ord root w)) \<le> 50 \<and>
    sorted_wrt (kind_name_less re_kind re_name) (fst (discoverApplicationResources r ord root w)) \<and>
    (\<forall>e \<in> set (fst (discoverApplicationResources r ord root w)).
      re_namespace e = cr_namespace root \<and> re_origin e = ''automatic'' \<and> re_name e \<noteq> [])"
proof -
  let ?ns = "cr_namespace root"
  define out :: "range_order \<Rightarrow> (string \<times> related_resource_entry) list \<Rightarrow> related_resource_entry list"
    where "out = (\<lambda>ord m. sort_slice (kind_name_less re_kind re_name) (range_values ord [''entries''] m))"
  define xs where "xs = sort_slice (kind_name_less (\<lambda>x. cr_kind (wo_ref x)) (\<lambda>x. cr_name (wo_ref x)))
     (workload_infos ord ?ns ''Deployment'' (items (wk_deployments r ?ns w)) @
      workload_infos ord ?ns ''StatefulSet'' (items (wk_statefulSets r ?ns w)) @
      workload_infos ord ?ns ''DaemonSet'' (items (wk_daemonSets r ?ns w)))"
  define m where "m = discovered_entries r ?ns xs (items (wk_services r ?ns w)) (items (wk_hpas r ?ns w)) (items (wk_slices r ?ns w))
    ((resolve_pass xs (items (wk_services r ?ns w)) ^^ 3) (initial_selection root xs (items (wk_ingresses r ?ns w)) (items (wk_hpas r ?ns w)))) w"
  have ok: "entries_ok ?ns m" unfolding m_def by (rule entries_ok_discovered)
  have infos: "workload_infos ord' ?ns kind ws = workload_infos ord ?ns kind ws" for kind ws
    unfolding workload_infos_def by (simp add: templateDependencyRefs_unique [OF assms(2,1)])
  have d: "fst (discoverApplicationResources r p root w) = (if ?ns = [] then [] else take 50 (out p m))"
    if "p = ord \<or> p = ord'" for p
    using that unfolding discoverApplicationResources_def Let_def out_def m_def xs_def
    by (auto simp: infos DefaultPolicy_def)
  have key: "keyed entry_key m" using ok by (simp add: entries_ok_def)
  have same: "out ord' m = out ord m"
    unfolding out_def by (rule keyed_range_unique [OF assms(2,1) key]) (simp add: entry_key_def)
  have set: "set (range_values ord [''entries''] m) = snd ` set m"
    using mset_eq_setD [OF mset_range_values [OF assms(1) key]] by simp
  have "sorted_wrt (kind_name_less re_kind re_name) (out ord m)"
    unfolding out_def
  proof (rule kind_name_sorted)
    show "distinct (range_values ord [''entries''] m)"
      using keyed_values(3) [OF key] mset_range_values [OF assms(1) key] by (metis mset_eq_imp_distinct_iff)
    show "inj_on (\<lambda>e. [re_kind e, re_name e]) (set (range_values ord [''entries''] m))"
      unfolding set using keyed_values(2) [OF key] by (auto simp: inj_on_def entry_key_def)
  qed
  moreover have "\<forall>e \<in> set (out ord m). re_namespace e = ?ns \<and> re_origin e = ''automatic'' \<and> re_name e \<noteq> []"
    using ok by (simp add: out_def set entries_ok_def)
  ultimately show ?thesis
    using d [of ord] d [of ord'] same by (auto simp: sorted_wrt_take dest!: in_set_takeD)
qed

section \<open>The resources that are collected\<close>

lemma add_unseen_keys:
  "set (map rr_key (add_unseen es e)) = insert (rr_key e) (set (map rr_key es))"
  "distinct (map rr_key es) \<Longrightarrow> distinct (map rr_key (add_unseen es e))"
  by (auto simp: add_unseen_def)

lemma foldl_add_unseen:
  "set (map rr_key (foldl add_unseen es xs)) = set (map rr_key es) \<union> set (map rr_key xs)"
  "distinct (map rr_key es) \<Longrightarrow> distinct (map rr_key (foldl add_unseen es xs))"
proof (induction xs arbitrary: es)
  case (Cons x xs)
  { case 1 show ?case using Cons(1) [of "add_unseen es x"] add_unseen_keys(1) [of es x] by simp }
  { case 2 show ?case using Cons(2) [OF add_unseen_keys(2) [OF 2]] by simp }
qed simp_all

lemma foldl_add_unseen_hd: "es \<noteq> [] \<Longrightarrow> hd (foldl add_unseen es xs) = hd es \<and> foldl add_unseen es xs \<noteq> []"
  by (induction xs arbitrary: es) (auto simp: add_unseen_def)

lemma entries_to_collect_keys:
  "rr_key ` set (entries_to_collect ns rootNS inc automatic ings) =
     {(rr_kind (ins_rootResource (inc_spec inc)), rootNS, rr_name (ins_rootResource (inc_spec inc)))} \<union>
     {(rr_kind rr, if rr_namespace rr = [] then ns else rr_namespace rr, rr_name rr) | rr. rr \<in> set (ins_relatedResources (inc_spec inc))} \<union>
     rr_key ` set automatic \<union> {(''Ingress'', rootNS, om_name (wi_meta i)) | i. i \<in> set ings}"
proof -
  have keys: "rr_key ` set (foldl add_unseen es xs) = rr_key ` set es \<union> rr_key ` set xs" for es xs
    using foldl_add_unseen(1) [of es xs] by simp
  show ?thesis
    unfolding entries_to_collect_def Let_def keys
    by (simp add: setcompr_eq_image image_image rr_key_def [of "\<lparr>re_kind = _, re_namespace = _, re_name = _, re_apiGroup = _, re_origin = _\<rparr>"])
qed

text \<open>
  C35. Every resource is collected exactly once: the list starts with the root, has no two entries of the
  same kind, namespace and name, and covers the root, the resources the user named, the discovered ones
  and every Ingress of the namespace of the root.
\<close>

theorem collected_exactly_once:
  "distinct (map rr_key (entries_to_collect ns rootNS inc automatic ings)) \<and>
   re_origin (hd (entries_to_collect ns rootNS inc automatic ings)) = ''root'' \<and>
   rr_key ` set (entries_to_collect ns rootNS inc automatic ings) =
     {(rr_kind (ins_rootResource (inc_spec inc)), rootNS, rr_name (ins_rootResource (inc_spec inc)))} \<union>
     {(rr_kind rr, if rr_namespace rr = [] then ns else rr_namespace rr, rr_name rr) | rr. rr \<in> set (ins_relatedResources (inc_spec inc))} \<union>
     rr_key ` set automatic \<union>
     {(''Ingress'', rootNS, om_name (wi_meta i)) | i. i \<in> set ings}"
proof (intro conjI entries_to_collect_keys)
  show "distinct (map rr_key (entries_to_collect ns rootNS inc automatic ings))"
    unfolding entries_to_collect_def Let_def by (intro foldl_add_unseen(2)) simp
  show "re_origin (hd (entries_to_collect ns rootNS inc automatic ings)) = ''root''"
    unfolding entries_to_collect_def Let_def by (simp add: foldl_add_unseen_hd)
qed

section \<open>Outcomes of a run\<close>

lemma collect_evidence: "collect r ord t0 ns inc pc dr w = Inr (ev, errs) \<Longrightarrow> \<exists>e. ev = Some e"
  unfolding collect_def Let_def by (auto split: sum.splits prod.splits)

lemma run_patch_outcome:
  assumes "run_laws c view" and "view w (meta_key (dr_meta b)) = Some b" and "dr_meta x = dr_meta b" and "dr_spec x = dr_spec b"
  obtains e w' where "api_status_patch c b x w = (Inl e, w')" and "view w' = view w"
  | w' where "api_status_patch c b x w = (Inr x, w')" and "view w' = (view w)(meta_key (dr_meta b) \<mapsto> x)"
  by (rule status_patch_outcome [OF assms(1) [unfolded run_laws_def], of w b x]) (use assms that in auto)

definition run_incident :: "diagnostic_run \<Rightarrow> string" where
  "run_incident dr = (if drs_incidentRef (dr_spec dr) = [] then drs_problemCaseRef (dr_spec dr) else drs_incidentRef (dr_spec dr))"

text \<open>A run that has been marked as running: the rest of the reconciliation.\<close>

definition after_running ::
  "'w worker \<Rightarrow> range_order \<Rightarrow> time \<Rightarrow> time \<Rightarrow> diagnostic_run \<Rightarrow> 'w \<Rightarrow> go_error option \<times> 'w" where
  "after_running r ord t0 t1 dr1 w1 =
     (case collect r ord t0 (om_namespace (dr_meta dr1)) (run_incident dr1) (drs_problemCaseRef (dr_spec dr1)) (om_name (dr_meta dr1)) w1 of
        Inl e \<Rightarrow> (Some e, w1)
      | Inr (ev, errs) \<Rightarrow>
          (case api_status_patch (wk_runs r) dr1 (finished r ev errs t1 dr1) w1 of
             (Inl e, w2) \<Rightarrow> (Some (Wrapf ''patching state to completed'' e), w2)
           | (Inr dr2, w2) \<Rightarrow> (None, case ev of None \<Rightarrow> w2 | Some e \<Rightarrow> snd (postEvidence r dr2 e errs w2))))"

lemma Reconcile_pending:
  "api_get (wk_runs r) (fst req) (snd req) w = Inr dr \<Longrightarrow> drt_state (dr_status dr) = DiagnosticRunStatePending \<Longrightarrow>
   DiagnosticRunReconciler_Reconcile r ord t0 t1 req w =
     (case api_status_patch (wk_runs r) dr (with_state DiagnosticRunStateRunning dr) w of
        (Inl e, w1) \<Rightarrow> (Some (Wrapf ''patching state to running'' e), w1)
      | (Inr dr1, w1) \<Rightarrow> after_running r ord t0 t1 dr1 w1)"
  by (simp add: DiagnosticRunReconciler_Reconcile_def after_running_def run_incident_def Let_def split: prod.split sum.split)

lemma after_running_outcome:
  assumes laws: "run_laws (wk_runs r) view"
    and stored: "view w1 (meta_key (dr_meta dr1)) = Some dr1" and run: "after_running r ord t0 t1 dr1 w1 = (err, w')"
  shows "(err \<noteq> None \<and> view w' = view w1) \<or>
    (\<exists>ev errs w2. collect r ord t0 (om_namespace (dr_meta dr1)) (run_incident dr1) (drs_problemCaseRef (dr_spec dr1)) (om_name (dr_meta dr1)) w1 =
         Inr (Some ev, errs) \<and> err = None \<and> view w2 = (view w1)(meta_key (dr_meta dr1) \<mapsto> finished r (Some ev) errs t1 dr1) \<and>
         w' = snd (postEvidence r (finished r (Some ev) errs t1 dr1) ev errs w2))"
proof (cases "collect r ord t0 (om_namespace (dr_meta dr1)) (run_incident dr1) (drs_problemCaseRef (dr_spec dr1)) (om_name (dr_meta dr1)) w1")
  case (Inl e)
  then show ?thesis using run by (auto simp: after_running_def)
next
  case (Inr c)
  obtain ev errs where c: "c = (Some ev, errs)" using Inr collect_evidence by (metis prod.collapse)
  have same: "dr_meta (finished r (Some ev) errs t1 dr1) = dr_meta dr1" "dr_spec (finished r (Some ev) errs t1 dr1) = dr_spec dr1"
    by (simp_all add: finished_def)
  show ?thesis
    by (cases rule: run_patch_outcome [OF laws stored same]) (use Inr c run in \<open>auto simp: after_running_def\<close>)
qed

text \<open>A pending run: the two writes of the reconciliation, and what is posted after them.\<close>

lemma pending_outcome:
  assumes laws: "run_laws (wk_runs r) view"
    and get: "api_get (wk_runs r) (fst req) (snd req) w = Inr dr" and pending: "drt_state (dr_status dr) = DiagnosticRunStatePending"
    and run: "DiagnosticRunReconciler_Reconcile r ord t0 t1 req w = (err, w')"
  obtains "err \<noteq> None" and "view w' = view w"
  | w1 where "err \<noteq> None" and "view w1 = (view w)(req \<mapsto> with_state DiagnosticRunStateRunning dr)" and "view w' = view w1"
  | ev errs w1 w2 where "err = None" and "view w1 = (view w)(req \<mapsto> with_state DiagnosticRunStateRunning dr)"
      and "collect r ord t0 (fst req) (run_incident dr) (drs_problemCaseRef (dr_spec dr)) (snd req) w1 = Inr (Some ev, errs)"
      and "view w2 = (view w)(req \<mapsto> finished r (Some ev) errs t1 (with_state DiagnosticRunStateRunning dr))"
      and "w' = snd (postEvidence r (finished r (Some ev) errs t1 (with_state DiagnosticRunStateRunning dr)) ev errs w2)"
proof -
  note K = laws [unfolded run_laws_def]
  have stored: "view w req = Some dr" using kind_laws_get [OF K get] by simp
  have key: "meta_key (dr_meta dr) = req" using kind_laws_keyed [OF K, of w req] stored by simp
  let ?dr1 = "with_state DiagnosticRunStateRunning dr"
  have meta: "dr_meta ?dr1 = dr_meta dr" "dr_spec ?dr1 = dr_spec dr" by (simp_all add: with_state_def)
  show thesis
  proof (cases rule: run_patch_outcome [OF laws _ meta, of w])
    case 1
    show ?case using stored key by simp
  next
    case (2 e w1)
    with run that(1) show ?thesis by (auto simp: Reconcile_pending [OF get pending])
  next
    case (3 w1)
    then have after: "after_running r ord t0 t1 ?dr1 w1 = (err, w')" and v1: "view w1 = (view w)(req \<mapsto> ?dr1)"
      using run key by (simp_all add: Reconcile_pending [OF get pending])
    have stored1: "view w1 (meta_key (dr_meta ?dr1)) = Some ?dr1" using v1 key by (simp add: meta)
    have names: "om_namespace (dr_meta dr) = fst req" "om_name (dr_meta dr) = snd req" using key by (auto simp: meta_key_def)
    have inc: "run_incident ?dr1 = run_incident dr" by (simp add: run_incident_def meta)
    show ?thesis
      using after_running_outcome [OF laws stored1 after] that(2) [OF _ v1] that(3) [OF _ v1]
      unfolding meta names key inc v1 fun_upd_upd by blast
  qed
qed


section \<open>Panics\<close>

lemma all_or_error_Inl: "all_or_error f xs = Inl e \<Longrightarrow> \<exists>x \<in> set xs. f x = Inl e"
  by (induction xs) (auto split: sum.splits)

lemma all_or_error_fails: "x \<in> set xs \<Longrightarrow> f x = Inl e \<Longrightarrow> \<exists>e'. all_or_error f xs = Inl e'"
  by (induction xs) (auto split: sum.splits)

lemma all_or_error_panics:
  assumes "x \<in> set xs" and "f x = Inl e" and "\<And>y e. y \<in> set xs \<Longrightarrow> f y = Inl e \<Longrightarrow> panics e"
  shows "\<exists>e. all_or_error f xs = Inl e \<and> panics e"
  using all_or_error_fails [of x xs f e] all_or_error_Inl [of f xs] assms by blast

text \<open>An Ingress rule with a path whose backend is a resource instead of a service.\<close>

definition resource_backend :: "ingress \<Rightarrow> bool" where
  "resource_backend i \<longleftrightarrow> list_ex (\<lambda>(host, http). case http of None \<Rightarrow> False | Some ps \<Rightarrow> list_ex (\<lambda>p. ip_service p = None) ps) (wi_rules i)"

lemma path_spec_panics: "path_spec p = Inl e \<Longrightarrow> panics e"
  by (auto simp: path_spec_def split: option.splits)

lemma rule_spec_panics: "ingress_rule_spec rl = Inl e \<Longrightarrow> panics e"
  by (auto simp: ingress_rule_spec_def split: prod.splits sum.splits dest!: all_or_error_Inl path_spec_panics)

lemma ingress_spec_panics:
  assumes "resource_backend i"
  shows "\<exists>e. ingress_spec r i = Inl e \<and> panics e"
proof -
  obtain host ps p where rl: "(host, Some ps) \<in> set (wi_rules i)" and p: "p \<in> set ps" "ip_service p = None"
    using assms by (auto simp: resource_backend_def list_ex_iff split: option.splits)
  have "path_spec p = Inl (Panicked ''nil pointer dereference: Backend.Service'')" using p(2) by (simp add: path_spec_def)
  from all_or_error_panics [of p ps path_spec, OF p(1) this] obtain e where "all_or_error path_spec ps = Inl e" using path_spec_panics by blast
  then have "ingress_rule_spec (host, Some ps) = Inl e" by (simp add: ingress_rule_spec_def)
  from all_or_error_panics [of _ _ ingress_rule_spec, OF rl this] rule_spec_panics
  obtain e' where "all_or_error ingress_rule_spec (wi_rules i) = Inl e'" "panics e'" by blast
  then show ?thesis by (simp add: ingress_spec_def)
qed

lemma related_evidence_Inl: "related_evidence r ord w e = Inl err \<Longrightarrow> panics err"
  by (auto simp: related_evidence_def Let_def split: sum.splits if_splits)

lemma collect_panics:
  assumes inc: "api_get (c_incidents (wk_client r)) ns incName w = Inr inc"
    and ns: "rootNS = (if rr_namespace (ins_rootResource (inc_spec inc)) = [] then ns else rr_namespace (ins_rootResource (inc_spec inc)))"
    and "rootNS \<noteq> []" and ings: "wk_ingresses r rootNS w = Inr ings" and i: "i \<in> set ings" "resource_backend i"
    and get: "wk_ingress r rootNS (om_name (wi_meta i)) w = Inr i"
  shows "\<exists>e. collect r ord t0 ns incName pc dr w = Inl e \<and> panics e"
proof -
  let ?root = "ins_rootResource (inc_spec inc)"
  let ?es = "entries_to_collect ns rootNS inc (fst (discoverApplicationResources r ord (to_cref (rr_namespace ?root) ?root) w)) ings"
  have "(''Ingress'', rootNS, om_name (wi_meta i)) \<in> rr_key ` set ?es"
    unfolding entries_to_collect_keys using i(1) by blast
  then obtain x where x: "(''Ingress'', rootNS, om_name (wi_meta i)) = rr_key x" "x \<in> set ?es" by (rule imageE)
  from ingress_spec_panics [OF i(2), of r] obtain e where e: "ingress_spec r i = Inl e" "panics e" by blast
  have "related_evidence r ord w x = Inl e"
    using x(1) e get by (simp add: related_evidence_def Let_def rr_key_def collectResourceSpec_def on_found_def)
  with x(2) have "\<exists>e. all_or_error (related_evidence r ord w) ?es = Inl e \<and> panics e"
    by (rule all_or_error_panics) (rule related_evidence_Inl)
  with inc ns assms(3) ings show ?thesis
    by (auto simp: collect_def Let_def split: prod.split)
qed

text \<open>
  A run for an incident whose namespace holds an Ingress with a resource backend never completes: the
  collection dereferences the service of every backend, the panic ends the reconciliation after the run
  was marked as running, and no later reconciliation touches a running run.
\<close>

theorem resource_backend_strands_run:
  assumes "api_get (wk_runs r) (fst req) (snd req) w = Inr dr" and "drt_state (dr_status dr) = DiagnosticRunStatePending"
    and "api_status_patch (wk_runs r) dr (with_state DiagnosticRunStateRunning dr) w = (Inr dr1, w1)"
    and "dr1 = with_state DiagnosticRunStateRunning dr" and "api_get (wk_runs r) (fst req) (snd req) w1 = Inr dr1"
    and "api_get (c_incidents (wk_client r)) (om_namespace (dr_meta dr)) (run_incident dr) w1 = Inr inc"
    and "rr_namespace (ins_rootResource (inc_spec inc)) \<noteq> []"
    and "wk_ingresses r (rr_namespace (ins_rootResource (inc_spec inc))) w1 = Inr ings"
    and "i \<in> set ings" and "resource_backend i"
    and "wk_ingress r (rr_namespace (ins_rootResource (inc_spec inc))) (om_name (wi_meta i)) w1 = Inr i"
  shows "(\<exists>e. panics e \<and> DiagnosticRunReconciler_Reconcile r ord t0 t1 req w = (Some e, w1)) \<and>
    DiagnosticRunReconciler_Reconcile r ord' t0' t1' req w1 = (None, w1)"
proof
  have same: "dr_meta dr1 = dr_meta dr" "run_incident dr1 = run_incident dr"
    using assms(4) by (simp_all add: with_state_def run_incident_def)
  obtain e where e: "panics e"
    "collect r ord t0 (om_namespace (dr_meta dr1)) (run_incident dr1) (drs_problemCaseRef (dr_spec dr1)) (om_name (dr_meta dr1)) w1 = Inl e"
    using collect_panics [OF assms(6) _ assms(7-11)] assms(7) unfolding same by (metis (full_types))
  then have "DiagnosticRunReconciler_Reconcile r ord t0 t1 req w = (Some e, w1)"
    by (simp add: Reconcile_pending [OF assms(1,2)] assms(3) after_running_def)
  with e(1) show "\<exists>e. panics e \<and> DiagnosticRunReconciler_Reconcile r ord t0 t1 req w = (Some e, w1)" by blast
  have "drt_state (dr_status dr1) \<noteq> DiagnosticRunStatePending"
    using assms(4) by (simp add: with_state_def DiagnosticRunStateRunning_def DiagnosticRunStatePending_def)
  with assms(5) show "DiagnosticRunReconciler_Reconcile r ord' t0' t1' req w1 = (None, w1)"
    by (simp add: DiagnosticRunReconciler_Reconcile_def)
qed

section \<open>The data of Secrets\<close>

text \<open>A read of a Secret without the data of the Secret.\<close>

definition without_data :: "go_error + secret_obj \<Rightarrow> go_error + secret_obj" where
  "without_data res = (case res of Inl e \<Rightarrow> Inl e | Inr s \<Rightarrow> Inr (s\<lparr>wse_data := []\<rparr>))"

definition same_but_data :: "'w worker \<Rightarrow> ('w, secret_obj) getter \<Rightarrow> bool" where
  "same_but_data r f \<longleftrightarrow> (\<forall>ns n w. without_data (f ns n w) = without_data (wk_secret r ns n w))"

lemma same_found: "without_data a = without_data b \<Longrightarrow> found a = found b"
  by (auto simp: without_data_def found_def split: sum.splits)

lemma same_secret_spec:
  "without_data a = without_data b \<Longrightarrow> on_found a (\<lambda>s. Inr (secret_spec s)) = on_found b (\<lambda>s. Inr (secret_spec s))"
  by (auto simp: without_data_def on_found_def secret_spec_def split: sum.splits elim: secret_obj.cases)
    (metis secret_obj.surjective secret_obj.update_convs(3) secret_obj.select_convs)+

lemma same_missing:
  "without_data a = without_data b \<Longrightarrow>
   (case a of Inl e \<Rightarrow> is_not_found e | Inr _ \<Rightarrow> False) = (case b of Inl e \<Rightarrow> is_not_found e | Inr _ \<Rightarrow> False)"
  by (auto simp: without_data_def split: sum.splits)

lemma secret_reads:
  assumes "same_but_data r f"
  shows "dependency_exists (r\<lparr>wk_secret := f\<rparr>) = dependency_exists r"
    and "secret_dep (r\<lparr>wk_secret := f\<rparr>) = secret_dep r"
    and "on_found (f ns n w) (\<lambda>s. Inr (secret_spec s)) = on_found (wk_secret r ns n w) (\<lambda>s. Inr (secret_spec s))"
proof -
  have same: "without_data (f ns n w) = without_data (wk_secret r ns n w)" for ns n w
    using assms by (simp add: same_but_data_def)
  show "dependency_exists (r\<lparr>wk_secret := f\<rparr>) = dependency_exists r"
    by (intro ext) (simp add: dependency_exists_def same_found [OF same])
  show "secret_dep (r\<lparr>wk_secret := f\<rparr>) = secret_dep r"
    by (intro ext) (simp add: secret_dep_def same_missing [OF same])
  show "on_found (f ns n w) (\<lambda>s. Inr (secret_spec s)) = on_found (wk_secret r ns n w) (\<lambda>s. Inr (secret_spec s))"
    by (rule same_secret_spec [OF same])
qed

text \<open>The other reads of a worker with different Secrets.\<close>

lemma other_reads:
  "wk_client (r\<lparr>wk_secret := f\<rparr>) = wk_client r" "wk_runs (r\<lparr>wk_secret := f\<rparr>) = wk_runs r"
  "wk_events (r\<lparr>wk_secret := f\<rparr>) = wk_events r" "wk_pods (r\<lparr>wk_secret := f\<rparr>) = wk_pods r"
  "wk_deployments (r\<lparr>wk_secret := f\<rparr>) = wk_deployments r" "wk_statefulSets (r\<lparr>wk_secret := f\<rparr>) = wk_statefulSets r"
  "wk_daemonSets (r\<lparr>wk_secret := f\<rparr>) = wk_daemonSets r" "wk_services (r\<lparr>wk_secret := f\<rparr>) = wk_services r"
  "wk_ingresses (r\<lparr>wk_secret := f\<rparr>) = wk_ingresses r" "wk_hpas (r\<lparr>wk_secret := f\<rparr>) = wk_hpas r"
  "wk_slices (r\<lparr>wk_secret := f\<rparr>) = wk_slices r" "wk_deployment (r\<lparr>wk_secret := f\<rparr>) = wk_deployment r"
  "wk_statefulSet (r\<lparr>wk_secret := f\<rparr>) = wk_statefulSet r" "wk_daemonSet (r\<lparr>wk_secret := f\<rparr>) = wk_daemonSet r"
  "wk_service (r\<lparr>wk_secret := f\<rparr>) = wk_service r" "wk_ingress (r\<lparr>wk_secret := f\<rparr>) = wk_ingress r"
  "wk_hpa (r\<lparr>wk_secret := f\<rparr>) = wk_hpa r" "wk_slice (r\<lparr>wk_secret := f\<rparr>) = wk_slice r"
  "wk_configMap (r\<lparr>wk_secret := f\<rparr>) = wk_configMap r" "wk_pvc (r\<lparr>wk_secret := f\<rparr>) = wk_pvc r"
  "wk_storageClass (r\<lparr>wk_secret := f\<rparr>) = wk_storageClass r" "wk_cronJob (r\<lparr>wk_secret := f\<rparr>) = wk_cronJob r"
  "wk_job (r\<lparr>wk_secret := f\<rparr>) = wk_job r" "wk_config (r\<lparr>wk_secret := f\<rparr>) = wk_config r"
  "wk_discovery (r\<lparr>wk_secret := f\<rparr>) = wk_discovery r" "wk_dynNew (r\<lparr>wk_secret := f\<rparr>) = wk_dynNew r"
  "wk_dynGet (r\<lparr>wk_secret := f\<rparr>) = wk_dynGet r" "wk_marshal (r\<lparr>wk_secret := f\<rparr>) = wk_marshal r"
  "wk_encode (r\<lparr>wk_secret := f\<rparr>) = wk_encode r" "wk_http (r\<lparr>wk_secret := f\<rparr>) = wk_http r"
  "wk_postCtx (r\<lparr>wk_secret := f\<rparr>) = wk_postCtx r" "wk_backendURL (r\<lparr>wk_secret := f\<rparr>) = wk_backendURL r"
  "wk_clientset (r\<lparr>wk_secret := f\<rparr>) = wk_clientset r" "wk_logs (r\<lparr>wk_secret := f\<rparr>) = wk_logs r"
  "wk_error (r\<lparr>wk_secret := f\<rparr>) = wk_error r"
  "wk_addr (r\<lparr>wk_secret := f\<rparr>) = wk_addr r" "wk_timeString (r\<lparr>wk_secret := f\<rparr>) = wk_timeString r"
  "wk_logTailLines (r\<lparr>wk_secret := f\<rparr>) = wk_logTailLines r" "wk_prevLogLines (r\<lparr>wk_secret := f\<rparr>) = wk_prevLogLines r"
  "wk_collectorVersion (r\<lparr>wk_secret := f\<rparr>) = wk_collectorVersion r"
  by simp_all

lemma secret_free_reads:
  shows "collectEvents (r\<lparr>wk_secret := f\<rparr>) = collectEvents r" and "collectPodLogs (r\<lparr>wk_secret := f\<rparr>) = collectPodLogs r"
    and "selected_cases (r\<lparr>wk_secret := f\<rparr>) = selected_cases r" and "discovery_selectors (r\<lparr>wk_secret := f\<rparr>) = discovery_selectors r"
    and "list_errors (r\<lparr>wk_secret := f\<rparr>) = list_errors r" and "config_map_dep (r\<lparr>wk_secret := f\<rparr>) = config_map_dep r"
proof -
  have "triggered_cases (r\<lparr>wk_secret := f\<rparr>) ns tr w names = triggered_cases r ns tr w names" for ns tr w names
    by (induction names) (unfold triggered_cases.simps other_reads, simp_all)
  then show "selected_cases (r\<lparr>wk_secret := f\<rparr>) = selected_cases r" by (intro ext) (simp add: selected_cases_def)
qed (unfold collectEvents_def collectPodLogs_def discovery_selectors_def list_errors_def config_map_dep_def other_reads, (rule refl)+)

lemma secret_free_cases:
  "case_evidence (r\<lparr>wk_secret := f\<rparr>) = case_evidence r" "pvc_entry (r\<lparr>wk_secret := f\<rparr>) = pvc_entry r" "events_or_none (r\<lparr>wk_secret := f\<rparr>) = events_or_none r"
  unfolding case_evidence_def pvc_entry_def events_or_none_def secret_free_reads other_reads by (rule refl)+

lemma secret_free_specs:
  assumes "same_but_data r f"
  shows "collectResourceSpec (r\<lparr>wk_secret := f\<rparr>) = collectResourceSpec r"
proof (intro ext)
  fix ord ns kind name g w
  note reads = ingress_spec_def hpa_spec_def pvc_spec_def cron_job_spec_def job_spec_def ptr_def time_ptr_def
    deployment_spec_def stateful_set_spec_def daemon_set_spec_def templateDependencyFields_def collectDynamicSpec_def other_reads secret_reads(1) [OF assms]
  have "ingress_spec (r\<lparr>wk_secret := f\<rparr>) = ingress_spec r" "hpa_spec (r\<lparr>wk_secret := f\<rparr>) = hpa_spec r" "pvc_spec (r\<lparr>wk_secret := f\<rparr>) = pvc_spec r"
    "cron_job_spec (r\<lparr>wk_secret := f\<rparr>) = cron_job_spec r" "job_spec (r\<lparr>wk_secret := f\<rparr>) = job_spec r"
    "deployment_spec (r\<lparr>wk_secret := f\<rparr>) = deployment_spec r" "stateful_set_spec (r\<lparr>wk_secret := f\<rparr>) = stateful_set_spec r"
    "daemon_set_spec (r\<lparr>wk_secret := f\<rparr>) = daemon_set_spec r" "collectDynamicSpec (r\<lparr>wk_secret := f\<rparr>) = collectDynamicSpec r"
    unfolding reads by (rule refl)+
  then show "collectResourceSpec (r\<lparr>wk_secret := f\<rparr>) ord ns kind name g w = collectResourceSpec r ord ns kind name g w"
    by (simp add: collectResourceSpec_def secret_reads(3) [OF assms])
qed

lemma secret_free_discovery:
  assumes "same_but_data r f"
  shows "discoverApplicationResources (r\<lparr>wk_secret := f\<rparr>) = discoverApplicationResources r"
proof -
  have entries: "discovered_entries (r\<lparr>wk_secret := f\<rparr>) = discovered_entries r"
    unfolding discovered_entries_def add_workload_entries_def secret_reads(1) [OF assms] by (rule refl)
  show ?thesis
    unfolding discoverApplicationResources_def entries secret_free_reads other_reads by (rule refl)
qed

lemma secret_free_pods:
  assumes "same_but_data r f"
  shows "collectWorkloadPodLogs (r\<lparr>wk_secret := f\<rparr>) = collectWorkloadPodLogs r"
proof -
  have deps: "collectPodDependencies (r\<lparr>wk_secret := f\<rparr>) = collectPodDependencies r"
    by (intro ext) (unfold collectPodDependencies_def secret_reads(2) [OF assms] secret_free_reads, rule refl)
  show ?thesis
    unfolding collectWorkloadPodLogs_def pod_log_entry_def deps secret_free_reads secret_free_cases other_reads by (rule refl)
qed

text \<open>
  C34. The data of Secrets does not flow into the evidence: replacing the data of every Secret by anything
  else leaves the evidence, the collection errors and the whole reconciliation as they are.
\<close>

theorem secret_data_not_collected:
  assumes "same_but_data r f"
  shows "collect (r\<lparr>wk_secret := f\<rparr>) ord t0 ns inc pc dr w = collect r ord t0 ns inc pc dr w \<and>
    DiagnosticRunReconciler_Reconcile (r\<lparr>wk_secret := f\<rparr>) ord t0 t1 req w = DiagnosticRunReconciler_Reconcile r ord t0 t1 req w"
proof -
  have related: "related_evidence (r\<lparr>wk_secret := f\<rparr>) = related_evidence r"
    by (intro ext) (unfold related_evidence_def secret_free_reads secret_free_specs [OF assms] other_reads, rule refl)
  have collect: "collect (r\<lparr>wk_secret := f\<rparr>) = collect r"
    by (intro ext) (unfold collect_def related secret_free_reads secret_free_cases secret_free_discovery [OF assms]
        secret_free_pods [OF assms] other_reads, rule refl)
  show ?thesis
    unfolding DiagnosticRunReconciler_Reconcile_def finished_def postEvidence_def collect other_reads by (intro conjI refl)
qed

section \<open>A sample cluster\<close>

text \<open>
  A worker over the in-memory client, in a cluster with one Ingress whose only path has a resource
  backend, one Secret, and nothing else; and a world with an incident and a pending run for it.
\<close>

definition sample_ingress :: ingress where
  "sample_ingress = \<lparr>wi_meta = empty_meta\<lparr>om_namespace := ''demo'', om_name := ''files''\<rparr>, wi_className = None,
     wi_rules = [(''example.org'', Some [\<lparr>ip_path = ''/'', ip_pathType = None, ip_service = None\<rparr>])]\<rparr>"

definition sample_secret :: "string \<Rightarrow> secret_obj" where
  "sample_secret v = \<lparr>wse_meta = empty_meta\<lparr>om_namespace := ''demo'', om_name := ''token''\<rparr>, wse_type = ''Opaque'', wse_data = [(''key'', v)]\<rparr>"

definition sample_worker :: "mem worker" where
  "sample_worker = \<lparr>wk_client = mem_client, wk_runs = mem_runs, wk_events = (\<lambda>_ _. Inr []), wk_pods = (\<lambda>_ _. Inr []),
     wk_deployments = (\<lambda>_ _. Inr []), wk_statefulSets = (\<lambda>_ _. Inr []), wk_daemonSets = (\<lambda>_ _. Inr []),
     wk_services = (\<lambda>_ _. Inr []), wk_ingresses = (\<lambda>ns _. Inr (if ns = ''demo'' then [sample_ingress] else [])),
     wk_hpas = (\<lambda>_ _. Inr []), wk_slices = (\<lambda>_ _. Inr []), wk_deployment = (\<lambda>_ _ _. Inl NotFound),
     wk_statefulSet = (\<lambda>_ _ _. Inl NotFound), wk_daemonSet = (\<lambda>_ _ _. Inl NotFound), wk_service = (\<lambda>_ _ _. Inl NotFound),
     wk_ingress = (\<lambda>ns n _. if ns = ''demo'' \<and> n = ''files'' then Inr sample_ingress else Inl NotFound),
     wk_hpa = (\<lambda>_ _ _. Inl NotFound), wk_slice = (\<lambda>_ _ _. Inl NotFound), wk_configMap = (\<lambda>_ _ _. Inl NotFound),
     wk_secret = (\<lambda>ns n _. if ns = ''demo'' \<and> n = ''token'' then Inr (sample_secret ''s3cret'') else Inl NotFound),
     wk_pvc = (\<lambda>_ _ _. Inl NotFound), wk_storageClass = (\<lambda>_ _. Inl NotFound), wk_cronJob = (\<lambda>_ _ _. Inl NotFound),
     wk_job = (\<lambda>_ _ _. Inl NotFound), wk_config = None, wk_discovery = \<lparr>di_lists = Inr [], di_parse = (\<lambda>_. Inl NotFound)\<rparr>, wk_dynNew = None, wk_dynGet = (\<lambda>_ _ _ _. Inl NotFound), wk_clientset = (\<lambda>_. None),
     wk_logs = (\<lambda>_ _ _ _ _. Inl NotFound), wk_marshal = (\<lambda>_. Inr ''{}''), wk_encode = (\<lambda>_. None), wk_http = (\<lambda>_ _ w. (Inr 201, w)), wk_postCtx = None, wk_backendURL = ''http://backend'', wk_error = (\<lambda>_. ''error''),
     wk_addr = (\<lambda>_. ''0xc000''), wk_timeString = (\<lambda>_. ''now''), wk_logTailLines = 100, wk_prevLogLines = 50,
     wk_collectorVersion = ''v1''\<rparr>"

definition sample_run :: diagnostic_run where
  "sample_run = \<lparr>dr_meta = empty_meta\<lparr>om_namespace := ''kubechan'', om_name := ''run''\<rparr>,
     dr_spec = \<lparr>drs_incidentRef = ''inc'', drs_problemCaseRef = [], drs_requestedAt = None\<rparr>,
     dr_status = \<lparr>drt_state = DiagnosticRunStatePending, drt_collectedAt = None, drt_collectorVersion = [], drt_evidenceRef = [],
       drt_collectionErrors = [], drt_redactionSummary = None, drt_logTruncationInfo = None, drt_analysisState = [],
       drt_analysisResultRef = []\<rparr>\<rparr>"

definition sample_run_incident :: incident where
  "sample_run_incident = \<lparr>inc_meta = empty_meta\<lparr>om_namespace := ''kubechan'', om_name := ''inc''\<rparr>,
     inc_spec = \<lparr>ins_rootResource = \<lparr>rr_namespace = ''demo'', rr_kind = ''Deployment'', rr_name = ''web'', rr_apiGroup = ''apps'', rr_evidenceSlices = []\<rparr>,
       ins_problemCases = [], ins_source = ''manual'', ins_userMessage = [], ins_relatedResources = [], ins_falsePositive = False\<rparr>,
     inc_status = empty_incident_status\<rparr>"

definition sample_world :: mem where
  "sample_world = empty_mem\<lparr>m_incidents := [sample_run_incident], m_runs := [sample_run]\<rparr>"

abbreviation "sample_runs \<equiv> (\<lambda>w. tab_find dr_meta (m_runs w))"

lemmas sample_eval = sample_worker_def sample_world_def sample_run_def sample_run_incident_def sample_ingress_def sample_secret_def
  run_incident_def with_state_def mem_eval

theorem discovery_bounded_deterministic_witness:
  "permuting (\<lambda>tag ks. ks) \<and> permuting (\<lambda>tag ks. rev ks) \<and>
   length (fst (discoverApplicationResources sample_worker (\<lambda>tag ks. ks) (mk_cref ''Ingress'' ''demo'' ''files'') sample_world)) \<le> 50"
proof (intro conjI)
  show i: "permuting (\<lambda>tag ks. ks)" "permuting (\<lambda>tag ks. rev ks)" by (simp_all add: permuting_def)
  show "length (fst (discoverApplicationResources sample_worker (\<lambda>tag ks. ks) (mk_cref ''Ingress'' ''demo'' ''files'') sample_world)) \<le> 50"
    by (rule conjunct1 [OF conjunct2 [OF discovery_bounded_deterministic [OF i]]])
qed


theorem resource_backend_strands_run_witness:
  "\<exists>e. panics e \<and> fst (DiagnosticRunReconciler_Reconcile sample_worker (\<lambda>tag ks. ks) 0 0 (''kubechan'', ''run'') sample_world) = Some e"
proof -
  let ?w1 = "sample_world\<lparr>m_runs := [with_state DiagnosticRunStateRunning sample_run]\<rparr>"
  have h: "api_get (wk_runs sample_worker) ''kubechan'' ''run'' sample_world = Inr sample_run"
    "drt_state (dr_status sample_run) = DiagnosticRunStatePending"
    "api_status_patch (wk_runs sample_worker) sample_run (with_state DiagnosticRunStateRunning sample_run) sample_world =
       (Inr (with_state DiagnosticRunStateRunning sample_run), ?w1)"
    "api_get (wk_runs sample_worker) ''kubechan'' ''run'' ?w1 = Inr (with_state DiagnosticRunStateRunning sample_run)"
    "api_get (c_incidents (wk_client sample_worker)) (om_namespace (dr_meta sample_run)) (run_incident sample_run) ?w1 = Inr sample_run_incident"
    "rr_namespace (ins_rootResource (inc_spec sample_run_incident)) = ''demo''"
    "wk_ingresses sample_worker ''demo'' ?w1 = Inr [sample_ingress]" "resource_backend sample_ingress"
    "wk_ingress sample_worker ''demo'' (om_name (wi_meta sample_ingress)) ?w1 = Inr sample_ingress"
    by (simp_all add: sample_eval resource_backend_def Let_def)
  have "(\<exists>e. panics e \<and> DiagnosticRunReconciler_Reconcile sample_worker (\<lambda>tag ks. ks) 0 0 (''kubechan'', ''run'') sample_world = (Some e, ?w1)) \<and>
    DiagnosticRunReconciler_Reconcile sample_worker (\<lambda>tag ks. ks) 0 0 (''kubechan'', ''run'') ?w1 = (None, ?w1)"
    by (rule resource_backend_strands_run [where dr = sample_run and inc = sample_run_incident and ings = "[sample_ingress]" and i = sample_ingress])
      (simp_all add: h)
  then show ?thesis by auto
qed

theorem secret_data_not_collected_witness:
  "collect (sample_worker\<lparr>wk_secret := \<lambda>ns n _. if ns = ''demo'' \<and> n = ''token'' then Inr (sample_secret ''other'') else Inl NotFound\<rparr>)
     (\<lambda>tag ks. ks) 0 ''kubechan'' ''inc'' [] ''run'' sample_world =
   collect sample_worker (\<lambda>tag ks. ks) 0 ''kubechan'' ''inc'' [] ''run'' sample_world"
proof -
  have "same_but_data sample_worker (\<lambda>ns n _. if ns = ''demo'' \<and> n = ''token'' then Inr (sample_secret ''other'') else Inl NotFound)"
    by (simp add: same_but_data_def without_data_def sample_eval)
  from secret_data_not_collected [OF this] show ?thesis by blast
qed

end
