(* ===== verification/Backend_Http.thy ===== *)
theory Backend_Http
  imports Prelude
begin

text \<open>
  What the handlers of \<open>backend-api/handler\<close> share (\<open>helpers.go\<close>): the reply a handler writes, the
  identity that the authentication middleware puts into the request context, and the identifiers in
  request paths. A reply is a status with a JSON value, or a status with an error message; a message
  keeps the Go error it was formatted from.
\<close>

datatype message = Text string | With_error string go_error

datatype 'b reply = Json int 'b | Error int message

definition writeJSON :: "int \<Rightarrow> 'b \<Rightarrow> 'b reply" where "writeJSON status v = Json status v"

definition writeError :: "int \<Rightarrow> message \<Rightarrow> 'b reply" where "writeError status msg = Error status msg"

lemmas reply_defs [simp] = writeJSON_def writeError_def

fun rp_status :: "'b reply \<Rightarrow> int" where
  "rp_status (Json s _) = s"
| "rp_status (Error s _) = s"

definition namespacedName :: "string \<Rightarrow> string \<Rightarrow> string \<times> string" where
  "namespacedName ident defaultNamespace =
     (if CHR ''/'' \<in> set ident
      then (takeWhile (\<lambda>c. c \<noteq> CHR ''/'') ident, tl (dropWhile (\<lambda>c. c \<noteq> CHR ''/'') ident))
      else (defaultNamespace, ident))"

lemma namespacedName_simps [simp]:
  "CHR ''/'' \<notin> set ns \<Longrightarrow> namespacedName (ns @ ''/'' @ name) d = (ns, name)"
  "CHR ''/'' \<notin> set name \<Longrightarrow> namespacedName name d = (d, name)"
  by (auto simp: namespacedName_def takeWhile_append dropWhile_append)

text \<open>The fields the middleware injects; a context without them gives empty strings.\<close>

record caller =
  ca_userID :: string
  ca_username :: string
  ca_role :: string

definition no_caller :: caller where "no_caller = \<lparr>ca_userID = [], ca_username = [], ca_role = []\<rparr>"

definition UserFromCtx :: "caller \<Rightarrow> string \<times> string \<times> string" where
  "UserFromCtx c = (ca_userID c, ca_username c, ca_role c)"

abbreviation is_admin :: "caller \<Rightarrow> bool" where "is_admin c \<equiv> ca_role c = ''admin''"

text \<open>\<open>strings.TrimPrefix\<close>, \<open>strings.TrimSpace\<close> for ASCII white space, \<open>strings.HasSuffix\<close> and \<open>strings.Contains\<close>.\<close>

definition trim_prefix :: "string \<Rightarrow> string \<Rightarrow> string" where
  "trim_prefix p s = (if take (length p) s = p then drop (length p) s else s)"

definition is_space :: "char \<Rightarrow> bool" where
  "is_space c \<longleftrightarrow> is_blank c \<or> c = CHR 0x0A"

definition trim_space :: "string \<Rightarrow> string" where
  "trim_space s = rev (dropWhile is_space (rev (dropWhile is_space s)))"

definition has_suffix :: "string \<Rightarrow> string \<Rightarrow> bool" where
  "has_suffix p s \<longleftrightarrow> drop (length s - length p) s = p"

fun contains :: "string \<Rightarrow> string \<Rightarrow> bool" where
  "contains p [] = (p = [])"
| "contains p (c # cs) = (take (length p) (c # cs) = p \<or> contains p cs)"

lemma trim_prefix_app [simp]: "trim_prefix p (p @ s) = s"
  by (simp add: trim_prefix_def)

text \<open>Whether the text of a database error contains a word.\<close>

fun err_contains :: "string \<Rightarrow> go_error \<Rightarrow> bool" where
  "err_contains p (Errorf s) = contains p s"
| "err_contains p (ApiFailure s) = contains p s"
| "err_contains p (Wrapf m e) = (contains p m \<or> err_contains p e)"
| "err_contains p _ = False"

end
