(* ===== verification/Database.thy ===== *)
theory Database
  imports Backend_Http Evidence
begin

text \<open>
  The SQLite database of the backend: the tables of \<open>backend-api/db/migrations\<close> as lists of rows, and the
  meaning of the SQL statements the handlers send. A statement may fail for reasons of its own: \<open>flt\<close>
  maps the name of a statement to the error it returns. Constraints of the schema (primary and unique keys,
  checks, references) make a statement fail and change nothing. References are checked only on
  connections on which \<open>PRAGMA foreign_keys\<close> is set, which \<open>Open\<close> does for one connection of the pool:
  \<open>fk\<close> says whether the connection of a statement does. \<open>None\<close> in place of a row is \<open>sql.ErrNoRows\<close>.
\<close>

section \<open>Tables\<close>

record user_row =
  u_id :: string
  u_username :: string
  u_hash :: string
  u_role :: string
  u_createdAt :: string

record request_row =
  q_id :: string
  q_incident :: "string option"
  q_run :: string
  q_requestedAt :: string
  q_status :: string
  q_dispatchedAt :: "string option"
  q_completedAt :: "string option"
  q_source :: string
  q_triggeredBy :: "string option"

record result_row =
  r_id :: string
  r_incident :: "string option"
  r_run :: string
  r_model :: string
  r_runtime :: string
  r_status :: string
  r_rootCause :: "string option"
  r_confidence :: "int option"
  r_payload :: string
  r_prompt :: "string option"
  r_needsMoreInfo :: int
  r_suggested :: "string option"
  r_createdAt :: string
  r_rating :: "string option"

record evidence_row =
  e_id :: string
  e_run :: string
  e_problemCase :: string
  e_incident :: "string option"
  e_collectedAt :: string
  e_collectorVersion :: string
  e_logTruncated :: int
  e_payload :: string
  e_payloadBytes :: int
  e_redaction :: "string option"
  e_truncation :: "string option"
  e_errors :: "string option"
  e_createdAt :: string

record owner_row =
  o_incident :: string
  o_namespace :: string
  o_owner :: string

record llm_row =
  l_user :: string
  l_provider :: string
  l_credentials :: attrs

record database =
  db_users :: "user_row list"
  db_requests :: "request_row list"
  db_results :: "result_row list"
  db_evidence :: "evidence_row list"
  db_owners :: "owner_row list"
  db_llm :: "llm_row list"
  db_settings :: str_map

definition empty_db :: database where
  "empty_db = \<lparr>db_users = [], db_requests = [], db_results = [], db_evidence = [], db_owners = [], db_llm = [], db_settings = []\<rparr>"

text \<open>The values the checks of the schema admit.\<close>

definition role_check :: "string list" where "role_check = [''admin'', ''viewer'']"
definition provider_check :: "string list" where "provider_check = [''bedrock'', ''copilot'', ''openai'', ''anthropic'']"

definition rating_check :: "string option list" where "rating_check = [None, Some ''up'', Some ''down'']"

section \<open>Statements\<close>

type_synonym db_faults = "string \<Rightarrow> go_error option"

definition no_faults :: db_faults where "no_faults = (\<lambda>_. None)"

text \<open>A query, and a statement that changes the database and reports the number of rows it touched.\<close>

definition db_query :: "db_faults \<Rightarrow> string \<Rightarrow> 'a \<Rightarrow> go_error + 'a" where
  "db_query flt label v = (case flt label of Some e \<Rightarrow> Inl e | None \<Rightarrow> Inr v)"

definition db_exec :: "db_faults \<Rightarrow> string \<Rightarrow> (database \<Rightarrow> (go_error + nat) \<times> database) \<Rightarrow> database \<Rightarrow> (go_error + nat) \<times> database" where
  "db_exec flt label f d = (case flt label of Some e \<Rightarrow> (Inl e, d) | None \<Rightarrow> f d)"

lemma no_faults_simps [simp]: "db_query no_faults l v = Inr v" "db_exec no_faults l f d = f d"
  by (simp_all add: db_query_def db_exec_def no_faults_def)

definition unique_violation :: "string \<Rightarrow> go_error" where
  "unique_violation col = Errorf (''constraint failed: UNIQUE constraint failed: '' @ col)"

definition check_violation :: "string \<Rightarrow> go_error" where
  "check_violation c = Errorf (''constraint failed: CHECK constraint failed: '' @ c)"

definition reference_violation :: go_error where
  "reference_violation = Errorf ''constraint failed: FOREIGN KEY constraint failed''"

text \<open>The text of an instant as \<open>datetime\<close> prints it.\<close>

definition sqlite_datetime :: "time \<Rightarrow> string" where
  "sqlite_datetime t = map (\<lambda>c. if c = CHR ''T'' then CHR '' '' else c) (butlast (rfc3339 t))"

subsection \<open>Users\<close>

definition insert_user :: "user_row \<Rightarrow> database \<Rightarrow> (go_error + nat) \<times> database" where
  "insert_user u d =
     (if u_id u \<in> set (map u_id (db_users d)) then (Inl (unique_violation ''users.id''), d)
      else if u_username u \<in> set (map u_username (db_users d)) then (Inl (unique_violation ''users.username''), d)
      else if u_role u \<notin> set role_check then (Inl (check_violation ''role''), d)
      else (Inr 1, d\<lparr>db_users := db_users d @ [u]\<rparr>))"

definition find_user :: "string \<Rightarrow> database \<Rightarrow> user_row option" where
  "find_user i d = find (\<lambda>u. u_id u = i) (db_users d)"

definition find_username :: "string \<Rightarrow> database \<Rightarrow> user_row option" where
  "find_username n d = find (\<lambda>u. u_username u = n) (db_users d)"

definition admins :: "database \<Rightarrow> user_row list" where
  "admins d = filter (\<lambda>u. u_role u = ''admin'') (db_users d)"

definition references_user :: "string \<Rightarrow> database \<Rightarrow> bool" where
  "references_user i d \<longleftrightarrow> list_ex (\<lambda>q. q_triggeredBy q = Some i) (db_requests d) \<or> list_ex (\<lambda>o'. o_owner o' = i) (db_owners d)"

definition delete_user :: "bool \<Rightarrow> string \<Rightarrow> database \<Rightarrow> (go_error + nat) \<times> database" where
  "delete_user fk i d =
     (if fk \<and> find_user i d \<noteq> None \<and> references_user i d then (Inl reference_violation, d)
      else (Inr (length (filter (\<lambda>u. u_id u = i) (db_users d))),
        d\<lparr>db_users := filter (\<lambda>u. u_id u \<noteq> i) (db_users d),
          db_llm := (if fk then filter (\<lambda>l. l_user l \<noteq> i) (db_llm d) else db_llm d)\<rparr>))"

subsection \<open>Analysis requests, results and evidence\<close>

definition insert_request :: "bool \<Rightarrow> request_row \<Rightarrow> database \<Rightarrow> (go_error + nat) \<times> database" where
  "insert_request fk q d =
     (if q_id q \<in> set (map q_id (db_requests d)) then (Inl (unique_violation ''analysis_requests.id''), d)
      else if fk \<and> (case q_triggeredBy q of None \<Rightarrow> False | Some u \<Rightarrow> find_user u d = None) then (Inl reference_violation, d)
      else (Inr 1, d\<lparr>db_requests := db_requests d @ [q]\<rparr>))"

definition update_requests :: "(request_row \<Rightarrow> bool) \<Rightarrow> (request_row \<Rightarrow> request_row) \<Rightarrow> database \<Rightarrow> (go_error + nat) \<times> database" where
  "update_requests p f d = (Inr (length (filter p (db_requests d))),
     d\<lparr>db_requests := map (\<lambda>q. if p q then f q else q) (db_requests d)\<rparr>)"

definition insert_result :: "result_row \<Rightarrow> database \<Rightarrow> (go_error + nat) \<times> database" where
  "insert_result r d =
     (if r_id r \<in> set (map r_id (db_results d)) then (Inl (unique_violation ''analysis_results.id''), d)
      else if r_rating r \<notin> set rating_check then (Inl (check_violation ''user_rating''), d)
      else (Inr 1, d\<lparr>db_results := db_results d @ [r]\<rparr>))"

definition insert_evidence :: "evidence_row \<Rightarrow> database \<Rightarrow> (go_error + nat) \<times> database" where
  "insert_evidence e d =
     (if e_id e \<in> set (map e_id (db_evidence d)) then (Inl (unique_violation ''evidence.id''), d)
      else (Inr 1, d\<lparr>db_evidence := db_evidence d @ [e]\<rparr>))"

text \<open>\<open>ORDER BY created_at DESC LIMIT 1\<close>: the first row with the latest time stamp.\<close>

fun latest :: "('r \<Rightarrow> string) \<Rightarrow> 'r list \<Rightarrow> 'r option" where
  "latest k [] = None"
| "latest k (x # xs) = (case latest k xs of None \<Rightarrow> Some x | Some y \<Rightarrow> if k x < k y then Some y else Some x)"

subsection \<open>Owners and settings\<close>

definition insert_owner :: "bool \<Rightarrow> owner_row \<Rightarrow> database \<Rightarrow> (go_error + nat) \<times> database" where
  "insert_owner fk r d =
     (if o_incident r \<in> set (map o_incident (db_owners d)) then (Inl (unique_violation ''manual_incident_owners.incident_id''), d)
      else if fk \<and> find_user (o_owner r) d = None then (Inl reference_violation, d)
      else (Inr 1, d\<lparr>db_owners := db_owners d @ [r]\<rparr>))"

definition find_owner :: "string \<Rightarrow> database \<Rightarrow> owner_row option" where
  "find_owner inc d = find (\<lambda>r. o_incident r = inc) (db_owners d)"

definition find_llm :: "string \<Rightarrow> database \<Rightarrow> llm_row option" where
  "find_llm u d = find (\<lambda>l. l_user l = u) (db_llm d)"

definition upsert_llm :: "bool \<Rightarrow> llm_row \<Rightarrow> database \<Rightarrow> (go_error + nat) \<times> database" where
  "upsert_llm fk r d =
     (if l_provider r \<notin> set provider_check then (Inl (check_violation ''provider''), d)
      else if find_llm (l_user r) d = None
        then (if fk \<and> find_user (l_user r) d = None then (Inl reference_violation, d)
              else (Inr 1, d\<lparr>db_llm := db_llm d @ [r]\<rparr>))
        else (Inr 1, d\<lparr>db_llm := map (\<lambda>l. if l_user l = l_user r then r else l) (db_llm d)\<rparr>))"

definition update_setting :: "string \<Rightarrow> string \<Rightarrow> database \<Rightarrow> (go_error + nat) \<times> database" where
  "update_setting k v d = (Inr (length (filter (\<lambda>(k', _). k' = k) (db_settings d))),
     d\<lparr>db_settings := map (\<lambda>(k', v'). (k', if k' = k then v else v')) (db_settings d)\<rparr>)"

section \<open>The schema\<close>

text \<open>What the keys and checks of the schema guarantee of every database.\<close>

definition schema_ok :: "database \<Rightarrow> bool" where
  "schema_ok d \<longleftrightarrow> distinct (map u_id (db_users d)) \<and> distinct (map u_username (db_users d)) \<and>
     (\<forall>u \<in> set (db_users d). u_role u \<in> set role_check) \<and>
     distinct (map q_id (db_requests d)) \<and> distinct (map r_id (db_results d)) \<and> distinct (map e_id (db_evidence d)) \<and>
     distinct (map o_incident (db_owners d)) \<and> distinct (map l_user (db_llm d)) \<and>
     (\<forall>l \<in> set (db_llm d). l_provider l \<in> set provider_check) \<and> (\<forall>r \<in> set (db_results d). r_rating r \<in> set rating_check)"

lemma db_exec_Inr: "db_exec flt l f d = (Inr n, d') \<longleftrightarrow> flt l = None \<and> f d = (Inr n, d')"
  by (auto simp: db_exec_def split: option.splits)

named_theorems schema_keeps "statements that keep the schema"

lemma schema_exec [schema_keeps]:
  "schema_ok d \<Longrightarrow> (\<And>d. schema_ok d \<Longrightarrow> schema_ok (snd (f d))) \<Longrightarrow> schema_ok (snd (db_exec flt l f d))"
  by (simp add: db_exec_def split: option.split)

lemma schema_inserts [schema_keeps]:
  "schema_ok d \<Longrightarrow> schema_ok (snd (insert_user u d))" "schema_ok d \<Longrightarrow> schema_ok (snd (insert_request fk q d))"
  "schema_ok d \<Longrightarrow> schema_ok (snd (insert_result r d))" "schema_ok d \<Longrightarrow> schema_ok (snd (insert_evidence e d))"
  "schema_ok d \<Longrightarrow> schema_ok (snd (insert_owner fk ow d))"
  by (auto simp: schema_ok_def insert_user_def insert_request_def insert_result_def insert_evidence_def insert_owner_def)

lemma find_snoc: "find P (xs @ [x]) = (case find P xs of Some y \<Rightarrow> Some y | None \<Rightarrow> if P x then Some x else None)"
  by (induction xs) auto

lemma find_unique: "distinct (map k xs) \<Longrightarrow> x \<in> set xs \<Longrightarrow> find (\<lambda>y. k y = k x) xs = Some x"
  by (induction xs) (auto simp: image_iff)

lemma find_SomeD: "find P xs = Some x \<Longrightarrow> x \<in> set xs \<and> P x"
  by (auto simp: find_Some_iff)

lemma find_None: "find P xs = None \<longleftrightarrow> (\<forall>x \<in> set xs. \<not> P x)"
  by (auto simp: find_None_iff)

lemma map_update_key:
  "(\<And>x. P x \<Longrightarrow> k (g x) = k x) \<Longrightarrow> map (k \<circ> (\<lambda>x. if P x then g x else x)) xs = map k xs"
  by (induction xs) auto

lemma schema_upsert [schema_keeps]: "schema_ok d \<Longrightarrow> schema_ok (snd (upsert_llm fk r d))"
  by (auto simp: schema_ok_def upsert_llm_def find_llm_def find_None map_update_key)

lemma schema_deletes [schema_keeps]:
  "schema_ok d \<Longrightarrow> schema_ok (snd (delete_user fk i d))"
  by (auto simp: schema_ok_def delete_user_def distinct_map_filter)

lemma schema_update_requests [schema_keeps]:
  "schema_ok d \<Longrightarrow> (\<And>q. q_id (f q) = q_id q) \<Longrightarrow> schema_ok (snd (update_requests p f d))"
  by (simp add: schema_ok_def update_requests_def map_update_key)

lemma schema_update_setting [schema_keeps]: "schema_ok d \<Longrightarrow> schema_ok (snd (update_setting k v d))"
  by (simp add: schema_ok_def update_setting_def)

end
