(* ===== verification/Ws_Hub.thy ===== *)
theory Ws_Hub
  imports Api_Types "HOL-Library.Sublist"
begin

text \<open>
  The WebSocket hub of \<open>backend-api/ws\<close>: \<open>hub.go\<close> keeps the set of connected clients, \<open>client.go\<close> a
  buffered channel per client that its write pump empties, and \<open>events.go\<close> the messages. A client is
  a number; sending on a closed channel and closing a closed channel panic, which is the result
  \<open>None\<close>. Two step relations describe the running hub. \<open>hub_step\<close> takes a broadcast as one step next to
  connections, disconnections (which the read pump may trigger at any time) and deliveries;
  \<open>hub_log\<close> and \<open>hub_sent\<close> record what was broadcast and what each write pump has taken. \<open>hub_conc\<close>
  interleaves the sends of several broadcasts that hold the read lock together, while
  \<open>register\<close> and \<open>unregister\<close> need the write lock and wait until no broadcast is under way.
\<close>

section \<open>Events\<close>

definition EventProblemCaseCreated :: string where "EventProblemCaseCreated = ''ProblemCase.Created''"
definition EventProblemCaseUpdated :: string where "EventProblemCaseUpdated = ''ProblemCase.Updated''"
definition EventProblemCaseResolved :: string where "EventProblemCaseResolved = ''ProblemCase.Resolved''"
definition EventIncidentCreated :: string where "EventIncidentCreated = ''Incident.Created''"
definition EventIncidentUpdated :: string where "EventIncidentUpdated = ''Incident.Updated''"
definition EventIncidentResolved :: string where "EventIncidentResolved = ''Incident.Resolved''"
definition EventDiagnosticRunStateChanged :: string where
  "EventDiagnosticRunStateChanged = ''DiagnosticRun.StateChanged''"
definition EventAnalysisResultCompleted :: string where "EventAnalysisResultCompleted = ''AnalysisResult.Completed''"
definition EventAnalysisResultFailed :: string where "EventAnalysisResultFailed = ''AnalysisResult.Failed''"
definition EventKubeChanStateUpdated :: string where "EventKubeChanStateUpdated = ''KubeChanState.Updated''"

record problem_case_event =
  pe_namespace :: string
  pe_name :: string
  pe_severity :: string
  pe_state :: string
  pe_detector :: string

record incident_event =
  ie_namespace :: string
  ie_name :: string
  ie_state :: string
  ie_rootResourceKind :: string
  ie_rootResourceName :: string
  ie_activeProblemCases :: int

record diagnostic_run_event =
  de_namespace :: string
  de_name :: string
  de_state :: string
  de_incidentRef :: string

record analysis_result_event =
  ae_id :: string
  ae_incidentId :: string
  ae_status :: string
  ae_errorMessage :: string

record kubechan_state_event =
  ke_moodLevel :: int
  ke_openIncidentCount :: int
  ke_pokeCount :: int

text \<open>A message: the type of its \<open>BaseEvent\<close> and the payload.\<close>

datatype ws_event =
    ProblemCaseEvent string problem_case_event
  | IncidentEvent string incident_event
  | DiagnosticRunEvent string diagnostic_run_event
  | AnalysisResultEvent string analysis_result_event
  | KubeChanStateEvent string kubechan_state_event

section \<open>The hub\<close>

definition sendBufSize :: nat where "sendBufSize = 256"

record 'm hub =
  hub_clients :: "nat list"
  hub_next :: nat
  hub_send :: "nat \<Rightarrow> 'm list"
  hub_closed :: "nat \<Rightarrow> bool"
  hub_log :: "'m list"
  hub_sent :: "nat \<Rightarrow> 'm list"

definition NewHub :: "'m hub" where
  "NewHub = \<lparr>hub_clients = [], hub_next = 0, hub_send = (\<lambda>_. []), hub_closed = (\<lambda>_. False), hub_log = [],
     hub_sent = (\<lambda>_. [])\<rparr>"

definition register :: "nat \<Rightarrow> 'm hub \<Rightarrow> 'm hub" where
  "register c h = h\<lparr>hub_clients := (if c \<in> set (hub_clients h) then hub_clients h else hub_clients h @ [c])\<rparr>"

definition unregister :: "nat \<Rightarrow> 'm hub \<Rightarrow> 'm hub option" where
  "unregister c h =
     (if c \<in> set (hub_clients h)
      then (if hub_closed h c then None
            else Some (h\<lparr>hub_clients := filter (\<lambda>x. x \<noteq> c) (hub_clients h), hub_closed := (hub_closed h)(c := True)\<rparr>))
      else Some h)"

text \<open>The non-blocking send of \<open>Broadcast\<close>: a full buffer drops the message.\<close>

definition try_send :: "'m \<Rightarrow> nat \<Rightarrow> 'm hub \<Rightarrow> 'm hub option" where
  "try_send msg c h =
     (if hub_closed h c then None
      else if length (hub_send h c) < sendBufSize
        then Some (h\<lparr>hub_send := (hub_send h)(c := hub_send h c @ [msg])\<rparr>)
      else Some h)"

fun send_all :: "'m \<Rightarrow> nat list \<Rightarrow> 'm hub \<Rightarrow> 'm hub option" where
  "send_all msg [] h = Some h"
| "send_all msg (c # cs) h = (case try_send msg c h of None \<Rightarrow> None | Some h' \<Rightarrow> send_all msg cs h')"

definition Broadcast :: "'m \<Rightarrow> 'm hub \<Rightarrow> 'm hub option" where
  "Broadcast msg h = map_option (hub_log_update (\<lambda>l. l @ [msg])) (send_all msg (hub_clients h) h)"

text \<open>\<open>ServeWS\<close>: once the connection is upgraded, a new client with an empty channel is registered.\<close>

definition ServeWS :: "bool \<Rightarrow> 'm hub \<Rightarrow> 'm hub" where
  "ServeWS upgraded h =
     (if upgraded then register (hub_next h) (h\<lparr>hub_next := Suc (hub_next h)\<rparr>) else h)"

text \<open>\<open>ServeWSWithAuth\<close>: \<open>validate\<close> stands for \<open>validateWSToken\<close>; \<open>None\<close> is the 401 response.\<close>

definition ServeWSWithAuth :: "bool \<Rightarrow> (string \<Rightarrow> bool) \<Rightarrow> string \<Rightarrow> 'm hub \<Rightarrow> 'm hub option" where
  "ServeWSWithAuth upgraded validate token h =
     (if token = [] then None else if \<not> validate token then None else Some (ServeWS upgraded h))"

text \<open>A turn of \<open>writePump\<close> that takes a message.\<close>

definition writePump :: "nat \<Rightarrow> 'm hub \<Rightarrow> 'm hub" where
  "writePump c h = (case hub_send h c of [] \<Rightarrow> h
     | m # ms \<Rightarrow> h\<lparr>hub_send := (hub_send h)(c := ms), hub_sent := (hub_sent h)(c := hub_sent h c @ [m])\<rparr>)"

inductive hub_step :: "'m hub \<Rightarrow> 'm hub \<Rightarrow> bool" where
  hs_connect: "hub_step h (ServeWS upgraded h)"
| hs_unregister: "unregister c h = Some h' \<Longrightarrow> hub_step h h'"
| hs_broadcast: "Broadcast msg h = Some h' \<Longrightarrow> hub_step h h'"
| hs_write: "hub_step h (writePump c h)"

inductive hub_reach :: "'m hub \<Rightarrow> bool" where
  hr_new: "hub_reach NewHub"
| hr_step: "hub_reach h \<Longrightarrow> hub_step h h' \<Longrightarrow> hub_reach h'"

text \<open>
  The hub with the broadcasts that hold the read lock: the message of each and the clients it has yet
  to visit, in the order in which the range over the map yields them.
\<close>

type_synonym 'm running_hub = "'m hub \<times> ('m \<times> nat list) list"

inductive hub_conc :: "'m running_hub \<Rightarrow> 'm running_hub \<Rightarrow> bool" where
  hc_connect: "hub_conc (h, []) (ServeWS upgraded h, [])"
| hc_unregister: "unregister c h = Some h' \<Longrightarrow> hub_conc (h, []) (h', [])"
| hc_begin: "set cs = set (hub_clients h) \<Longrightarrow> distinct cs \<Longrightarrow> hub_conc (h, bs) (h, bs @ [(msg, cs)])"
| hc_send: "try_send msg c h = Some h' \<Longrightarrow> hub_conc (h, bs @ (msg, c # cs) # bs') (h', bs @ (msg, cs) # bs')"
| hc_finish: "hub_conc (h, bs @ (msg, []) # bs') (h, bs @ bs')"
| hc_write: "hub_conc (h, bs) (writePump c h, bs)"

inductive hub_conc_reach :: "'m running_hub \<Rightarrow> bool" where
  hcr_new: "hub_conc_reach (NewHub, [])"
| hcr_step: "hub_conc_reach r \<Longrightarrow> hub_conc r r' \<Longrightarrow> hub_conc_reach r'"

section \<open>Invariants\<close>

definition hub_safe :: "'m hub \<Rightarrow> bool" where
  "hub_safe h \<longleftrightarrow> distinct (hub_clients h) \<and>
     (\<forall>c. c \<in> set (hub_clients h) \<longrightarrow> \<not> hub_closed h c \<and> c < hub_next h) \<and>
     (\<forall>c. length (hub_send h c) \<le> sendBufSize) \<and>
     (\<forall>c. hub_next h \<le> c \<longrightarrow> \<not> hub_closed h c)"

definition conc_safe :: "'m running_hub \<Rightarrow> bool" where
  "conc_safe r \<longleftrightarrow> hub_safe (fst r) \<and> (\<forall>(msg, cs) \<in> set (snd r). set cs \<subseteq> set (hub_clients (fst r)))"

definition hub_ok :: "'m hub \<Rightarrow> bool" where
  "hub_ok h \<longleftrightarrow> hub_safe h \<and> (\<forall>c. subseq (hub_sent h c @ hub_send h c) (hub_log h))"

lemma hub_safe_new: "hub_safe NewHub"
  by (simp add: hub_safe_def NewHub_def)

lemma hub_safe_ServeWS [keeps]: "hub_safe h \<Longrightarrow> hub_safe (ServeWS upgraded h)"
  by (auto simp: hub_safe_def ServeWS_def register_def less_Suc_eq dest: leD)

lemma hub_safe_unregister [keeps]: "hub_safe h \<Longrightarrow> unregister c h = Some h' \<Longrightarrow> hub_safe h'"
  by (auto simp: hub_safe_def unregister_def split: if_splits)

lemma hub_safe_try_send [keeps]: "hub_safe h \<Longrightarrow> try_send msg c h = Some h' \<Longrightarrow> hub_safe h'"
  by (auto simp: hub_safe_def try_send_def split: if_splits)

lemma hub_safe_writePump [keeps]: "hub_safe h \<Longrightarrow> hub_safe (writePump c h)"
proof (cases "hub_send h c")
  case (Cons m ms)
  assume h: "hub_safe h"
  then have "length (m # ms) \<le> sendBufSize" using Cons by (metis hub_safe_def)
  with h Cons show ?thesis by (simp add: hub_safe_def writePump_def)
qed (simp add: writePump_def)

lemma clients_kept:
  "hub_clients (writePump c h) = hub_clients h"
  "try_send msg c h = Some h' \<Longrightarrow> hub_clients h' = hub_clients h"
  by (auto simp: writePump_def try_send_def split: list.splits if_splits)

lemma hub_conc_reach_safe: "hub_conc_reach r \<Longrightarrow> conc_safe r"
proof (induction rule: hub_conc_reach.induct)
  case hcr_new
  show ?case by (simp add: conc_safe_def hub_safe_new)
next
  case (hcr_step r r')
  from hcr_step.hyps(2) show ?case
  proof cases
    case (hc_send msg c h h' bs cs bs')
    with hcr_step.IH clients_kept(2) [OF hc_send(3)] show ?thesis
      by (auto simp: conc_safe_def intro: keeps)
  qed (use hcr_step.IH in \<open>auto simp: conc_safe_def clients_kept(1) intro: keeps\<close>)
qed

text \<open>What sending to a list of clients does.\<close>

lemma send_all_result:
  assumes "distinct cs" and "\<forall>c \<in> set cs. \<not> hub_closed h c"
  shows "send_all msg cs h = Some (h\<lparr>hub_send := (\<lambda>c. if c \<in> set cs \<and> length (hub_send h c) < sendBufSize
    then hub_send h c @ [msg] else hub_send h c)\<rparr>)"
  using assms
proof (induction cs arbitrary: h)
  case (Cons c cs)
  let ?h = "if length (hub_send h c) < sendBufSize then h\<lparr>hub_send := (hub_send h)(c := hub_send h c @ [msg])\<rparr> else h"
  have "try_send msg c h = Some ?h" using Cons.prems by (simp add: try_send_def)
  moreover have "send_all msg cs ?h = Some (?h\<lparr>hub_send := (\<lambda>x. if x \<in> set cs \<and> length (hub_send ?h x) < sendBufSize
      then hub_send ?h x @ [msg] else hub_send ?h x)\<rparr>)"
    using Cons.prems by (intro Cons.IH) (auto split: if_splits)
  ultimately show ?case using Cons.prems(1) by (auto intro!: arg_cong [where f = "\<lambda>f. h\<lparr>hub_send := f\<rparr>"])
qed simp

lemma Broadcast_result:
  assumes "hub_ok h"
  shows "Broadcast msg h = Some (h\<lparr>hub_send := (\<lambda>c. if c \<in> set (hub_clients h) \<and> length (hub_send h c) < sendBufSize
    then hub_send h c @ [msg] else hub_send h c), hub_log := hub_log h @ [msg]\<rparr>)"
  using assms by (subst Broadcast_def, subst send_all_result) (simp_all add: hub_ok_def hub_safe_def)

lemma hub_ok_ServeWS [keeps]: "hub_ok h \<Longrightarrow> hub_ok (ServeWS upgraded h)"
  using hub_safe_ServeWS [of h upgraded] by (auto simp: hub_ok_def ServeWS_def register_def)

lemma hub_ok_unregister [keeps]: "hub_ok h \<Longrightarrow> unregister c h = Some h' \<Longrightarrow> hub_ok h'"
  using hub_safe_unregister [of h c h'] by (auto simp: hub_ok_def unregister_def split: if_splits)

lemma hub_ok_Broadcast [keeps]:
  assumes "hub_ok h" and "Broadcast msg h = Some h'"
  shows "hub_ok h'"
proof -
  have "subseq (hub_sent h c @ hub_send h c) (hub_log h)" for c using assms(1) by (simp add: hub_ok_def)
  then have "subseq (hub_sent h c @ hub_send h c @ [msg]) (hub_log h @ [msg])"
    "subseq (hub_sent h c @ hub_send h c) (hub_log h @ [msg])" for c
    using list_emb_append_mono [of "(=)" "hub_sent h c @ hub_send h c" "hub_log h" "[msg]" "[msg]"]
    by (simp_all add: list_emb_prefix)
  with assms show ?thesis by (auto simp: Broadcast_result hub_ok_def hub_safe_def)
qed

lemma hub_ok_writePump [keeps]: "hub_ok h \<Longrightarrow> hub_ok (writePump c h)"
proof (cases "hub_send h c")
  case (Cons m ms)
  assume h: "hub_ok h"
  then have "subseq (hub_sent h c @ m # ms) (hub_log h)" using Cons by (metis hub_ok_def)
  with h Cons hub_safe_writePump [of h c] show ?thesis by (simp add: hub_ok_def writePump_def)
qed (simp add: writePump_def)

lemma hub_reach_ok: "hub_reach h \<Longrightarrow> hub_ok h"
proof (induction rule: hub_reach.induct)
  case hr_new
  show ?case using hub_safe_new by (simp add: hub_ok_def NewHub_def)
next
  case (hr_step h h')
  from hr_step.hyps(2) hr_step.IH show ?case by cases (auto intro: keeps)
qed

section \<open>Properties\<close>

text \<open>
  C30. The hub never panics: whatever the interleaving of connections, disconnections, deliveries and
  the single sends of concurrent broadcasts, no message is sent on a closed channel and no channel is
  closed twice, every client a broadcast has yet to visit is still connected, and no send buffer
  ever holds more than 256 messages.
\<close>

theorem hub_never_panics:
  assumes "hub_conc_reach (h, bs)"
  shows "(\<forall>msg c cs. (msg, c # cs) \<in> set bs \<longrightarrow> c \<in> set (hub_clients h) \<and> try_send msg c h \<noteq> None) \<and>
    unregister c h \<noteq> None \<and> length (hub_send h c) \<le> 256"
proof -
  have safe: "hub_safe h" and "\<forall>(msg, cs) \<in> set bs. set cs \<subseteq> set (hub_clients h)"
    using hub_conc_reach_safe [OF assms] by (simp_all add: conc_safe_def)
  moreover have "c \<in> set (hub_clients h) \<Longrightarrow> try_send msg c h \<noteq> None" for msg c
    using safe by (simp add: hub_safe_def try_send_def)
  moreover have "unregister c h \<noteq> None" "length (hub_send h c) \<le> 256"
    using safe by (simp_all add: hub_safe_def unregister_def sendBufSize_def)
  ultimately show ?thesis by fastforce
qed

theorem hub_never_panics_witness:
  "\<exists>h. hub_conc_reach (h, [(''hello'', [0])]) \<and> try_send ''hello'' 0 h \<noteq> None"
proof -
  let ?h = "ServeWS True (NewHub :: string hub)"
  have "hub_conc_reach (?h, [])" by (rule hcr_step [OF hcr_new hc_connect])
  then have r: "hub_conc_reach (?h, [] @ [(''hello'', [0])])"
    by (rule hcr_step, intro hc_begin) (simp_all add: ServeWS_def register_def NewHub_def)
  with hub_never_panics [OF r, of 0] show ?thesis by (intro exI [of _ ?h]) simp
qed



end
