(* ===== verification/Mood.thy ===== *)
theory Mood
  imports Mem_Client Ws_Hub
begin

text \<open>
  KubeChan's mood, \<open>backend-api/k8s/moodsyncer.go\<close>, and the informer handlers of
  \<open>backend-api/k8s/handlers.go\<close> that turn changes of the custom resources into WebSocket events and
  refresh the mood. A method returns the events it broadcasts; \<open>t0\<close>, \<open>t1\<close> are successive readings
  of the clock. Instants written to the singleton are whole seconds once the API server has stored them.
\<close>

definition moodSingletonName :: string where "moodSingletonName = ''kubechan''"
definition pokeTTL :: duration where "pokeTTL = 8 * second"

record 'w mood_syncer =
  ms_client :: "'w client"
  ms_hub :: bool
  ms_namespace :: string

definition computeMoodLevel :: "int \<Rightarrow> int \<Rightarrow> mood_level" where
  "computeMoodLevel openCount activePokeCount =
     (if openCount \<ge> 3 \<or> activePokeCount \<ge> 5 then MoodRage
      else if openCount \<ge> 1 \<or> activePokeCount \<ge> 2 then MoodIrritated
      else MoodCalm)"

definition effectivePokeCount :: "kubechan_state \<Rightarrow> time \<Rightarrow> int" where
  "effectivePokeCount state now = (case ks_pokeExpiresAt (kcs_status state) of
     None \<Rightarrow> 0 | Some e \<Rightarrow> if now > e then 0 else ks_pokeCount (kcs_status state))"

definition mood_broadcast :: "'w mood_syncer \<Rightarrow> kubechan_state \<Rightarrow> ws_event list" where
  "mood_broadcast s state = (if \<not> ms_hub s then []
     else [KubeChanStateEvent EventKubeChanStateUpdated \<lparr>ke_moodLevel = ks_moodLevel (kcs_status state),
       ke_openIncidentCount = ks_openIncidentCount (kcs_status state), ke_pokeCount = ks_pokeCount (kcs_status state)\<rparr>])"

definition EnsureState :: "'w mood_syncer \<Rightarrow> 'w \<Rightarrow> go_error option \<times> 'w" where
  "EnsureState s w = (case api_get (c_states (ms_client s)) (ms_namespace s) moodSingletonName w of
     Inr _ \<Rightarrow> (None, w)
   | Inl err \<Rightarrow>
       if \<not> is_not_found err then (Some err, w)
       else (case api_create (c_states (ms_client s))
           \<lparr>kcs_meta = empty_meta\<lparr>om_name := moodSingletonName, om_namespace := ms_namespace s\<rparr>,
            kcs_status = empty_kubechan_status\<rparr> w of
           (Inr _, w') \<Rightarrow> (None, w')
         | (Inl createErr, w') \<Rightarrow> (if is_already_exists createErr then None else Some createErr, w')))"

definition SyncFromIncidents :: "'w mood_syncer \<Rightarrow> time \<Rightarrow> time \<Rightarrow> 'w \<Rightarrow> ws_event list \<times> 'w" where
  "SyncFromIncidents s t0 t1 w = (case api_list (c_incidents (ms_client s)) (ms_namespace s) [] w of
     Inl err \<Rightarrow> ([], w)
   | Inr items \<Rightarrow>
       (let openCount = int (length (filter (\<lambda>inc. inc_state inc \<noteq> IncidentStateResolved) items))
        in case api_get (c_states (ms_client s)) (ms_namespace s) moodSingletonName w of
             Inl err \<Rightarrow> ([], w)
           | Inr state \<Rightarrow>
               (case api_status_patch (c_states (ms_client s)) state
                   (state\<lparr>kcs_status := (kcs_status state)\<lparr>ks_openIncidentCount := openCount,
                      ks_moodLevel := computeMoodLevel openCount (effectivePokeCount state t0),
                      ks_updatedAt := Some (metav1_now t1)\<rparr>\<rparr>) w of
                  (Inl err, w') \<Rightarrow> ([], w')
                | (Inr state', w') \<Rightarrow> (mood_broadcast s state', w'))))"

text \<open>The status \<open>Poke\<close> writes; \<open>t0\<close>, \<open>t1\<close>, \<open>t2\<close> are its three readings of the clock.\<close>

definition poked :: "time \<Rightarrow> time \<Rightarrow> time \<Rightarrow> kubechan_state_status \<Rightarrow> kubechan_state_status" where
  "poked t0 t1 t2 st =
     (let base = (case ks_pokeExpiresAt st of None \<Rightarrow> ks_pokeCount st | Some e \<Rightarrow> if t0 > e then 0 else ks_pokeCount st);
          n = wrap64 (base + 1)
      in st\<lparr>ks_pokeCount := n, ks_pokeExpiresAt := Some (metav1_now (t1 + pokeTTL)),
            ks_moodLevel := computeMoodLevel (ks_openIncidentCount st) n, ks_updatedAt := Some (metav1_now t2)\<rparr>)"

definition Poke :: "'w mood_syncer \<Rightarrow> time \<Rightarrow> time \<Rightarrow> time \<Rightarrow> 'w \<Rightarrow> (go_error + kubechan_state) \<times> ws_event list \<times> 'w" where
  "Poke s t0 t1 t2 w = (case api_get (c_states (ms_client s)) (ms_namespace s) moodSingletonName w of
     Inl err \<Rightarrow> (Inl err, [], w)
   | Inr state \<Rightarrow>
       (case api_status_patch (c_states (ms_client s)) state
           (state\<lparr>kcs_status := poked t0 t1 t2 (kcs_status state)\<rparr>) w of
          (Inl err, w') \<Rightarrow> (Inl err, [], w')
        | (Inr state', w') \<Rightarrow> (Inr state', mood_broadcast s state', w')))"

definition GetMoodLevel :: "'w mood_syncer \<Rightarrow> 'w \<Rightarrow> int" where
  "GetMoodLevel s w = (case api_get (c_states (ms_client s)) (ms_namespace s) moodSingletonName w of
     Inl err \<Rightarrow> 0 | Inr state \<Rightarrow> ks_moodLevel (kcs_status state))"

section \<open>Informer handlers\<close>

definition pc_event :: "string \<Rightarrow> string \<Rightarrow> problem_case \<Rightarrow> ws_event" where
  "pc_event evType state pc = ProblemCaseEvent evType \<lparr>pe_namespace = pc_namespace pc, pe_name = pc_name pc,
     pe_severity = pcs_severity (pc_spec pc), pe_state = state, pe_detector = pcs_detector (pc_spec pc)\<rparr>"

text \<open>\<open>None\<close> is an object of another type.\<close>

definition problemCaseHandler_OnAdd :: "problem_case option \<Rightarrow> ws_event list" where
  "problemCaseHandler_OnAdd obj = (case obj of None \<Rightarrow> []
     | Some pc \<Rightarrow> [pc_event EventProblemCaseCreated (pc_state pc) pc])"

definition problemCaseHandler_OnUpdate :: "problem_case option \<Rightarrow> ws_event list" where
  "problemCaseHandler_OnUpdate newObj = (case newObj of None \<Rightarrow> []
     | Some pc \<Rightarrow> [pc_event (if pc_state pc = ProblemCaseStateResolved then EventProblemCaseResolved
         else EventProblemCaseUpdated) (pc_state pc) pc])"

definition problemCaseHandler_OnDelete :: "problem_case option \<Rightarrow> ws_event list" where
  "problemCaseHandler_OnDelete obj = (case obj of None \<Rightarrow> []
     | Some pc \<Rightarrow> [pc_event EventProblemCaseResolved ''resolved'' pc])"

definition inc_event :: "string \<Rightarrow> incident \<Rightarrow> ws_event" where
  "inc_event evType inc = IncidentEvent evType \<lparr>ie_namespace = inc_namespace inc, ie_name = inc_name inc,
     ie_state = inc_state inc, ie_rootResourceKind = rr_kind (ins_rootResource (inc_spec inc)),
     ie_rootResourceName = rr_name (ins_rootResource (inc_spec inc)),
     ie_activeProblemCases = int_activeProblemCases (inc_status inc)\<rparr>"

text \<open>The second component says whether the mood is to be synchronised, in a goroutine of its own.\<close>

definition incidentHandler_OnAdd :: "bool \<Rightarrow> incident option \<Rightarrow> ws_event list \<times> bool" where
  "incidentHandler_OnAdd moodSyncer obj = (case obj of None \<Rightarrow> ([], False)
     | Some inc \<Rightarrow> ([inc_event EventIncidentCreated inc], moodSyncer))"

definition incidentHandler_OnUpdate :: "bool \<Rightarrow> incident option \<Rightarrow> ws_event list \<times> bool" where
  "incidentHandler_OnUpdate moodSyncer newObj = (case newObj of None \<Rightarrow> ([], False)
     | Some inc \<Rightarrow> ([inc_event (if inc_state inc = IncidentStateResolved then EventIncidentResolved
         else EventIncidentUpdated) inc], moodSyncer))"

definition incidentHandler_OnDelete :: "bool \<Rightarrow> incident option \<Rightarrow> ws_event list \<times> bool" where
  "incidentHandler_OnDelete moodSyncer obj = (case obj of None \<Rightarrow> ([], False)
     | Some inc \<Rightarrow> ([IncidentEvent EventIncidentResolved \<lparr>ie_namespace = inc_namespace inc, ie_name = inc_name inc,
         ie_state = ''resolved'', ie_rootResourceKind = [], ie_rootResourceName = [], ie_activeProblemCases = 0\<rparr>],
         moodSyncer))"

definition diagnosticRunHandler_OnUpdate :: "diagnostic_run option \<Rightarrow> ws_event list" where
  "diagnosticRunHandler_OnUpdate newObj = (case newObj of None \<Rightarrow> []
     | Some dr \<Rightarrow> [DiagnosticRunEvent EventDiagnosticRunStateChanged \<lparr>de_namespace = om_namespace (dr_meta dr),
         de_name = om_name (dr_meta dr), de_state = drt_state (dr_status dr), de_incidentRef = drs_incidentRef (dr_spec dr)\<rparr>])"

section \<open>Properties\<close>

abbreviation states :: "('w \<Rightarrow> store) \<Rightarrow> 'w \<Rightarrow> kubechan_state table" where
  "states view w \<equiv> st_states (view w)"

abbreviation mood_key :: "'w mood_syncer \<Rightarrow> namespaced_name" where
  "mood_key s \<equiv> (ms_namespace s, moodSingletonName)"

lemma state_get:
  assumes "faithful_client c view" and "api_get (c_states c) ns n w = Inr state"
  shows "states view w (ns, n) = Some state" and "meta_key (kcs_meta state) = (ns, n)"
  using kind_laws_get [OF faithful_state [OF assms(1)] assms(2)] kind_laws_keyed [OF faithful_state [OF assms(1)]]
  by blast+

lemma state_patch_outcome:
  assumes "faithful_client c view" and "api_get (c_states c) ns n w = Inr state"
  obtains e w' where "api_status_patch (c_states c) state (state\<lparr>kcs_status := st\<rparr>) w = (Inl e, w')" and "view w' = view w"
  | w' where "api_status_patch (c_states c) state (state\<lparr>kcs_status := st\<rparr>) w = (Inr (state\<lparr>kcs_status := st\<rparr>), w')"
      and "view w' = (view w)\<lparr>st_states := (states view w)((ns, n) \<mapsto> state\<lparr>kcs_status := st\<rparr>)\<rparr>"
proof -
  note st = state_get [OF assms]
  have stored: "states view w (meta_key (kcs_meta state)) = Some state" using st by simp
  show thesis
    using faithful_state [OF assms(1)] stored
    by (rule status_patch_outcome [where x = "state\<lparr>kcs_status := st\<rparr>"]) (use that st(2) in auto)
qed

lemma open_incident_count:
  assumes "faithful_client c view" and "api_list (c_incidents c) ns [] w = Inr items" and "ns \<noteq> []"
  shows "length (filter (\<lambda>inc. inc_state inc \<noteq> IncidentStateResolved) items) =
    card {n. \<exists>inc. st_incidents (view w) (ns, n) = Some inc \<and> \<not> inc_resolved inc}"
proof -
  note kl = faithful_inc [OF assms(1)]
  let ?open = "filter (\<lambda>inc. inc_state inc \<noteq> IncidentStateResolved) items"
  have set: "set items = {x. st_incidents (view w) (meta_key (inc_meta x)) = Some x \<and> inc_namespace x = ns}"
    using kind_laws_list [OF kl assms(2)] assms(3) by (simp add: selector_matches_def)
  have "distinct (map (\<lambda>x. meta_key (inc_meta x)) items)"
    using kl assms(2) by (auto simp: kind_laws_def law_list_def)
  then have "distinct items" "inj_on (\<lambda>x. meta_key (inc_meta x)) (set items)" by (auto simp: distinct_map)
  moreover have "inj_on inc_name (set items)"
    using calculation(2) set by (auto simp: inj_on_def meta_key_def)
  ultimately have "distinct ?open" "inj_on inc_name (set ?open)"
    by (simp, metis filter_is_subset inj_on_subset)
  then have "card (inc_name ` set ?open) = length ?open" by (metis card_image distinct_card)
  moreover have "inc_name ` set ?open = {n. \<exists>inc. st_incidents (view w) (ns, n) = Some inc \<and> \<not> inc_resolved inc}"
  proof (intro set_eqI iffI)
    fix n assume "n \<in> {n. \<exists>inc. st_incidents (view w) (ns, n) = Some inc \<and> \<not> inc_resolved inc}"
    then obtain inc where i: "st_incidents (view w) (ns, n) = Some inc" "\<not> inc_resolved inc" by blast
    have "meta_key (inc_meta inc) = (ns, n)" by (rule kind_laws_keyed [OF kl i(1)])
    with i set have "inc \<in> set ?open" "inc_name inc = n" by (simp_all add: meta_key_def inc_resolved_def)
    then show "n \<in> inc_name ` set ?open" by blast
  qed (auto simp: set meta_key_def inc_resolved_def)
  ultimately show ?thesis by simp
qed

text \<open>
  C32. After a synchronisation that goes through, the stored mood is the one the open incidents and the
  live pokes call for: rage from three open incidents or five pokes on, irritation from one incident or
  two pokes on, calm otherwise, where pokes count only until their expiry; and exactly this state is
  broadcast. A synchronisation that fails changes nothing and broadcasts nothing.
\<close>

theorem sync_mood_correct:
  assumes "faithful_client (ms_client s) view" and "ms_namespace s \<noteq> []" and "ms_hub s"
    and "states view w (mood_key s) = Some state"
    and "openCount = card {n. \<exists>inc. st_incidents (view w) (ms_namespace s, n) = Some inc \<and> \<not> inc_resolved inc}"
    and "pokes = (case ks_pokeExpiresAt (kcs_status state) of None \<Rightarrow> 0 | Some e \<Rightarrow> if t0 > e then 0 else ks_pokeCount (kcs_status state))"
    and "SyncFromIncidents s t0 t1 w = (events, w')"
  shows "view w' = view w \<and> events = [] \<or>
    (\<exists>state'. view w' = (view w)\<lparr>st_states := (st_states (view w))(mood_key s \<mapsto> state')\<rparr> \<and>
      ks_openIncidentCount (kcs_status state') = int openCount \<and> ks_pokeCount (kcs_status state') = ks_pokeCount (kcs_status state) \<and>
      ks_moodLevel (kcs_status state') = (if openCount \<ge> 3 \<or> pokes \<ge> 5 then 2 else if openCount \<ge> 1 \<or> pokes \<ge> 2 then 1 else 0) \<and>
      events = [KubeChanStateEvent EventKubeChanStateUpdated \<lparr>ke_moodLevel = ks_moodLevel (kcs_status state'),
        ke_openIncidentCount = int openCount, ke_pokeCount = ks_pokeCount (kcs_status state)\<rparr>])"
proof -
  let ?c = "ms_client s"
  note fc = assms(1)
  consider (fail) "w' = w" "events = []"
    | (run) items state1 where "api_list (c_incidents ?c) (ms_namespace s) [] w = Inr items"
      "api_get (c_states ?c) (ms_namespace s) moodSingletonName w = Inr state1"
    using assms(7) by (auto simp: SyncFromIncidents_def Let_def split: sum.splits)
  then show ?thesis
  proof cases
    case run
    have "state1 = state" using state_get(1) [OF fc run(2)] assms(4) by simp
    note g = run(2) [unfolded this]
    have cnt: "length (filter (\<lambda>inc. inc_state inc \<noteq> IncidentStateResolved) items) = openCount"
      unfolding assms(5) by (rule open_incident_count [OF fc run(1) assms(2)])
    have m: "computeMoodLevel (int openCount) (effectivePokeCount state t0) =
        (if openCount \<ge> 3 \<or> pokes \<ge> 5 then 2 else if openCount \<ge> 1 \<or> pokes \<ge> 2 then 1 else 0)"
      by (simp add: assms(6) computeMoodLevel_def effectivePokeCount_def MoodRage_def MoodIrritated_def MoodCalm_def
          split: option.splits)
    let ?st = "(kcs_status state)\<lparr>ks_openIncidentCount := int openCount,
      ks_moodLevel := computeMoodLevel (int openCount) (effectivePokeCount state t0), ks_updatedAt := Some (metav1_now t1)\<rparr>"
    from fc g show ?thesis
    proof (cases rule: state_patch_outcome [where st = ?st])
      case (1 e w1)
      with assms(7) run(1) g cnt show ?thesis by (simp add: SyncFromIncidents_def Let_def)
    next
      case (2 w1)
      with assms(7) run(1) g cnt have "w' = w1" "events = mood_broadcast s (state\<lparr>kcs_status := ?st\<rparr>)"
        by (simp_all add: SyncFromIncidents_def Let_def)
      with 2 assms(3) m show ?thesis
        by (intro disjI2 exI [of _ "state\<lparr>kcs_status := ?st\<rparr>"]) (simp add: mood_broadcast_def)
    qed
  qed simp
qed

definition sample_state :: kubechan_state where
  "sample_state = \<lparr>kcs_meta = empty_meta\<lparr>om_name := moodSingletonName, om_namespace := ''kubechan''\<rparr>,
     kcs_status = empty_kubechan_status\<rparr>"

definition sample_syncer :: "mem mood_syncer" where
  "sample_syncer = \<lparr>ms_client = mem_client, ms_hub = True, ms_namespace = ''kubechan''\<rparr>"

definition mood_world :: mem where
  "mood_world = empty_mem\<lparr>m_states := [sample_state]\<rparr>"

lemmas mood_eval = mood_world_def sample_state_def sample_syncer_def moodSingletonName_def

theorem sync_mood_correct_witness:
  "\<exists>events w'. SyncFromIncidents sample_syncer 0 0 mood_world = (events, w') \<and> length events = 1 \<and>
     (\<exists>state'. st_states (mem_view w') (''kubechan'', ''kubechan'') = Some state' \<and> ks_moodLevel (kcs_status state') = 0)"
proof -
  obtain events w' where eq: "SyncFromIncidents sample_syncer 0 0 mood_world = (events, w')" by fastforce
  have ev: "length events = 1" and st: "st_states (mem_view mood_world) (mood_key sample_syncer) = Some sample_state"
    using eq by (auto simp: SyncFromIncidents_def mood_eval mem_eval mood_broadcast_def Let_def)
  have "{n. \<exists>inc. st_incidents (mem_view mood_world) (ms_namespace sample_syncer, n) = Some inc \<and> \<not> inc_resolved inc} = {}"
    by (simp add: mood_eval mem_eval)
  then have z: "(0 :: nat) = card {n. \<exists>inc. st_incidents (mem_view mood_world) (ms_namespace sample_syncer, n) = Some inc \<and> \<not> inc_resolved inc}"
    by (metis card.empty)
  have f: "faithful_client (ms_client sample_syncer) mem_view" and h: "ms_namespace sample_syncer \<noteq> []" "ms_hub sample_syncer"
    by (simp_all add: sample_syncer_def mem_client_faithful)
  from sync_mood_correct [OF f h st z refl eq] ev
  obtain state' where "mem_view w' = (mem_view mood_world)\<lparr>st_states := (st_states (mem_view mood_world))(mood_key sample_syncer \<mapsto> state')\<rparr>"
    "ks_moodLevel (kcs_status state') = 0"
    by (auto simp: sample_state_def empty_kubechan_status_def)
  with eq ev show ?thesis by (auto simp: sample_syncer_def moodSingletonName_def)
qed

lemma poke_outcome:
  assumes "faithful_client (ms_client s) view" and "Poke s t0 t1 t2 w = (Inr state', events, w')"
  obtains state where "states view w (mood_key s) = Some state"
    and "state' = state\<lparr>kcs_status := poked t0 t1 t2 (kcs_status state)\<rparr>"
    and "view w' = (view w)\<lparr>st_states := (states view w)(mood_key s \<mapsto> state')\<rparr>"
    and "events = mood_broadcast s state'"
proof -
  obtain state where g: "api_get (c_states (ms_client s)) (ms_namespace s) moodSingletonName w = Inr state"
    using assms(2) by (auto simp: Poke_def split: sum.splits)
  from assms(1) g show thesis
  proof (cases rule: state_patch_outcome [where st = "poked t0 t1 t2 (kcs_status state)"])
    case (1 e w1)
    with assms(2) g show thesis by (simp add: Poke_def)
  next
    case (2 w1)
    with assms(2) g that state_get(1) [OF assms(1) g] show thesis by (auto simp: Poke_def)
  qed
qed

text \<open>
  A poke less than seven seconds after another extends the streak by one; a poke more than eight
  seconds after it starts a new streak. The expiry is stored in whole seconds, so in between the
  outcome depends on where the second boundary falls.
\<close>

theorem poke_streak:
  assumes "faithful_client (ms_client s) view" and "Poke s t0 t1 t2 w = (Inr st1, ev1, w1)"
    and "Poke s u0 u1 u2 w1 = (Inr st2, ev2, w2)" and "in_int64 (ks_pokeCount (kcs_status st1) + 1)"
  shows "(u0 \<le> t1 + 7 * second \<longrightarrow> ks_pokeCount (kcs_status st2) = ks_pokeCount (kcs_status st1) + 1) \<and>
    (u0 > t1 + 8 * second \<longrightarrow> ks_pokeCount (kcs_status st2) = 1) \<and>
    ks_moodLevel (kcs_status st2) = computeMoodLevel (ks_openIncidentCount (kcs_status st1)) (ks_pokeCount (kcs_status st2)) \<and>
    ev2 = mood_broadcast s st2"
proof -
  from assms(1,2) obtain state where
    1: "st1 = state\<lparr>kcs_status := poked t0 t1 t2 (kcs_status state)\<rparr>" and
    v: "view w1 = (view w)\<lparr>st_states := (states view w)(mood_key s \<mapsto> st1)\<rparr>"
    by (rule poke_outcome) blast
  from assms(1,3) obtain state' where
    "states view w1 (mood_key s) = Some state'" and
    2: "st2 = state'\<lparr>kcs_status := poked u0 u1 u2 (kcs_status state')\<rparr>" "ev2 = mood_broadcast s st2"
    by (rule poke_outcome) blast
  with v have "state' = st1" by simp
  have e: "ks_pokeExpiresAt (kcs_status st1) = Some (metav1_now (t1 + pokeTTL))" by (simp add: 1 poked_def Let_def)
  have "u0 \<le> t1 + 7 * second \<Longrightarrow> \<not> u0 > metav1_now (t1 + pokeTTL)"
    using metav1_now_gt [of "t1 + pokeTTL"] by (simp add: pokeTTL_def)
  moreover have "u0 > t1 + 8 * second \<Longrightarrow> u0 > metav1_now (t1 + pokeTTL)"
    using metav1_now_le [of "t1 + pokeTTL"] by (simp add: pokeTTL_def)
  moreover have "in_int64 1" by (simp add: in_int64_def min_int64_def max_int64_def)
  ultimately show ?thesis
    using 2 e assms(4) \<open>state' = st1\<close> by (auto simp: poked_def Let_def)
qed

theorem poke_streak_witness:
  "\<exists>st1 ev1 w1 st2 ev2 w2. Poke sample_syncer 0 0 0 mood_world = (Inr st1, ev1, w1) \<and>
     Poke sample_syncer second second second w1 = (Inr st2, ev2, w2) \<and> ks_pokeCount (kcs_status st2) = 2"
proof -
  obtain r1 ev1 w1 where p1: "Poke sample_syncer 0 0 0 mood_world = (r1, ev1, w1)" by (metis surj_pair)
  then obtain st1 where r1: "r1 = Inr st1" and c1: "ks_pokeCount (kcs_status st1) = 1"
    by (auto simp: Poke_def mood_eval mem_eval poked_def Let_def empty_kubechan_status_def wrap64_def)
  obtain r2 ev2 w2 where p2: "Poke sample_syncer second second second w1 = (r2, ev2, w2)" by (metis surj_pair)
  then obtain st2 where r2: "r2 = Inr st2"
    using p1 by (auto simp: Poke_def mood_eval mem_eval poked_def Let_def)
  have f: "faithful_client (ms_client sample_syncer) mem_view" by (simp add: sample_syncer_def mem_client_faithful)
  from poke_streak [OF f p1 [unfolded r1] p2 [unfolded r2]] c1 have "ks_pokeCount (kcs_status st2) = 2"
    by (simp add: in_int64_def min_int64_def max_int64_def)
  with p1 p2 r1 r2 show ?thesis by blast
qed

end
