(* ===== verification/Incident_Handlers.thy ===== *)
theory Incident_Handlers
  imports Database Mood
begin

text \<open>
  The handlers that read and change the custom resources: \<open>backend-api/handler/incidents.go\<close>,
  \<open>manual_incident.go\<close>, \<open>augment.go\<close>, the analyses started in \<open>analysis.go\<close>, \<open>problemcases.go\<close>,
  \<open>exclusion_rules.go\<close> and \<open>kubechan.go\<close>. A handler takes the caller that the middleware put into the
  context, the decoded body or the decoding error, and the database and the cluster; it returns the reply
  and the new state. Fresh UUIDs and the clock are arguments.
\<close>

section \<open>The client\<close>

text \<open>What the handlers use of the Kubernetes client beside the typed clients of the reconcilers.\<close>

record 'w backend_client =
  bk_client :: "'w client"
  bk_runs :: "('w, diagnostic_run) kind_client"
  bk_updateStatus :: "incident \<Rightarrow> 'w \<Rightarrow> (go_error + incident) \<times> 'w"
  bk_deleteRule :: "exclusion_rule \<Rightarrow> 'w \<Rightarrow> go_error option \<times> 'w"

abbreviation bk_incidents :: "'w backend_client \<Rightarrow> ('w, incident) kind_client" where
  "bk_incidents b \<equiv> c_incidents (bk_client b)"

section \<open>Incidents\<close>

record incident_view =
  iv_incident :: incident
  iv_ownerUsername :: string

abbreviation is_manual :: "incident \<Rightarrow> bool" where "is_manual inc \<equiv> ins_source (inc_spec inc) = ''manual''"

text \<open>The join of owners and users: incident, name of the owner, identity of the owner.\<close>

definition owner_rows :: "database \<Rightarrow> (string \<times> string \<times> string) list" where
  "owner_rows d = List.map_filter (\<lambda>r. map_option (\<lambda>u. (o_incident r, u_username u, o_owner r)) (find_user (o_owner r) d)) (db_owners d)"

text \<open>The two maps of \<open>List\<close>, empty when there is no database or the query fails.\<close>

definition owner_maps :: "db_faults \<Rightarrow> database option \<Rightarrow> (string \<times> string \<times> string) list" where
  "owner_maps flt dbo = (case dbo of None \<Rightarrow> []
     | Some d \<Rightarrow> (case db_query flt ''select owners'' (owner_rows d) of Inl e \<Rightarrow> []
         | Inr rows \<Rightarrow> fold (\<lambda>(inc, name, uid). map_put inc (name, uid)) rows []))"

definition incident_views :: "caller \<Rightarrow> (string \<times> string \<times> string) list \<Rightarrow> incident list \<Rightarrow> incident_view list" where
  "incident_views c owners items = List.map_filter (\<lambda>inc.
     if is_manual inc
     then let (username, ownerID) = (case map_of owners (inc_name inc) of Some o' \<Rightarrow> o' | None \<Rightarrow> ([], []))
       in if ca_role c \<noteq> ''admin'' \<and> ownerID \<noteq> ca_userID c then None
          else Some \<lparr>iv_incident = inc, iv_ownerUsername = username\<rparr>
     else Some \<lparr>iv_incident = inc, iv_ownerUsername = []\<rparr>) items"

definition Incidents_List :: "'w backend_client \<Rightarrow> string \<Rightarrow> db_faults \<Rightarrow> caller \<Rightarrow> string \<Rightarrow> string \<Rightarrow> database option \<Rightarrow> 'w \<Rightarrow>
    incident_view list reply" where
  "Incidents_List b defaultNS flt c nsParam state dbo w =
     (case api_list (bk_incidents b) (if nsParam = [] then defaultNS else nsParam) [] w of
        Inl e \<Rightarrow> writeError 500 (With_error [] e)
      | Inr items \<Rightarrow> writeJSON 200 (incident_views c (owner_maps flt dbo)
          (if state \<noteq> [] then filter (\<lambda>inc. inc_state inc = state) items else items)))"

text \<open>The row of an owner as \<open>Get\<close> reads it: empty strings when there is none or the query fails.\<close>

definition read_owner :: "db_faults \<Rightarrow> string \<Rightarrow> database \<Rightarrow> string \<times> string" where
  "read_owner flt name d = (case db_query flt ''select owner'' (map_of (owner_rows d) name) of
     Inr (Some (username, ownerID)) \<Rightarrow> (ownerID, username) | _ \<Rightarrow> ([], []))"

definition Incidents_Get :: "'w backend_client \<Rightarrow> string \<Rightarrow> db_faults \<Rightarrow> caller \<Rightarrow> string \<Rightarrow> database option \<Rightarrow> 'w \<Rightarrow> incident_view reply" where
  "Incidents_Get b defaultNS flt c ident dbo w =
     (case namespacedName ident defaultNS of (ns, name) \<Rightarrow>
        (case api_get (bk_incidents b) ns name w of
           Inl err \<Rightarrow> if is_not_found err then writeError 404 (Text ''incident not found'') else writeError 500 (With_error [] err)
         | Inr inc \<Rightarrow>
             (case dbo of
                Some d \<Rightarrow>
                  if is_manual inc
                  then (case read_owner flt name d of (ownerID, ownerUsername) \<Rightarrow>
                      if ca_role c \<noteq> ''admin'' \<and> ownerID \<noteq> ca_userID c then writeError 403 (Text ''incident not found'')
                      else writeJSON 200 \<lparr>iv_incident = inc, iv_ownerUsername = ownerUsername\<rparr>)
                  else writeJSON 200 \<lparr>iv_incident = inc, iv_ownerUsername = []\<rparr>
              | None \<Rightarrow> writeJSON 200 \<lparr>iv_incident = inc, iv_ownerUsername = []\<rparr>)))"

definition checkManualIncidentAccess :: "db_faults \<Rightarrow> caller \<Rightarrow> string \<Rightarrow> database option \<Rightarrow> bool" where
  "checkManualIncidentAccess flt c incName dbo = (case dbo of None \<Rightarrow> True
     | Some d \<Rightarrow> ca_role c = ''admin'' \<or>
         (case db_query flt ''select owner id'' (find_owner incName d) of
            Inl e \<Rightarrow> False | Inr None \<Rightarrow> True | Inr (Some r) \<Rightarrow> o_owner r = ca_userID c))"

definition resolved_at :: "time \<Rightarrow> incident \<Rightarrow> incident" where
  "resolved_at t inc = inc\<lparr>inc_status := (inc_status inc)\<lparr>int_state := IncidentStateResolved, int_resolvedAt := Some (metav1_now t)\<rparr>\<rparr>"

definition MarkFalsePositive :: "'w backend_client \<Rightarrow> string \<Rightarrow> db_faults \<Rightarrow> caller \<Rightarrow> time \<Rightarrow> string \<Rightarrow> database option \<Rightarrow> 'w \<Rightarrow>
    incident reply \<times> 'w" where
  "MarkFalsePositive b defaultNS flt c now ident dbo w =
     (case namespacedName ident defaultNS of (ns, name) \<Rightarrow>
        (case api_get (bk_incidents b) ns name w of
           Inl err \<Rightarrow> (if is_not_found err then writeError 404 (Text ''incident not found'') else writeError 500 (With_error [] err), w)
         | Inr inc \<Rightarrow>
             if \<not> is_manual inc then (writeError 400 (Text ''only manual incidents can be marked as false positive''), w)
             else if \<not> checkManualIncidentAccess flt c name dbo then (writeError 403 (Text ''incident not found''), w)
             else (case api_patch (bk_incidents b) inc (inc\<lparr>inc_spec := (inc_spec inc)\<lparr>ins_falsePositive := True\<rparr>\<rparr>) w of
                 (Inl e, w1) \<Rightarrow> (writeError 500 (With_error [] e), w1)
               | (Inr inc1, w1) \<Rightarrow>
                   if inc_state inc1 \<noteq> IncidentStateResolved
                   then (case bk_updateStatus b (resolved_at now inc1) w1 of
                       (Inl e, w2) \<Rightarrow> (writeError 500 (With_error [] e), w2)
                     | (Inr inc2, w2) \<Rightarrow> (writeJSON 200 inc2, w2))
                   else (writeJSON 200 inc1, w1))))"

definition Incidents_Resolve :: "'w backend_client \<Rightarrow> string \<Rightarrow> db_faults \<Rightarrow> caller \<Rightarrow> time \<Rightarrow> string \<Rightarrow> database option \<Rightarrow> 'w \<Rightarrow>
    incident reply \<times> 'w" where
  "Incidents_Resolve b defaultNS flt c now ident dbo w =
     (case namespacedName ident defaultNS of (ns, name) \<Rightarrow>
        (case api_get (bk_incidents b) ns name w of
           Inl err \<Rightarrow> (if is_not_found err then writeError 404 (Text ''incident not found'') else writeError 500 (With_error [] err), w)
         | Inr inc \<Rightarrow>
             if is_manual inc \<and> \<not> checkManualIncidentAccess flt c name dbo then (writeError 403 (Text ''incident not found''), w)
             else if inc_state inc = IncidentStateResolved then (writeJSON 200 inc, w)
             else (case bk_updateStatus b (resolved_at now inc) w of
                 (Inl e, w1) \<Rightarrow> (writeError 500 (With_error [] e), w1)
               | (Inr inc1, w1) \<Rightarrow> (writeJSON 200 inc1, w1))))"

section \<open>Starting an analysis\<close>

definition latestActiveProblemCase :: "'w client \<Rightarrow> incident \<Rightarrow> 'w \<Rightarrow> string" where
  "latestActiveProblemCase c inc w =
     (case fold (\<lambda>name latest. case api_get (c_problemCases c) (inc_namespace inc) name w of
          Inl e \<Rightarrow> latest
        | Inr pc \<Rightarrow> if pc_state pc = ProblemCaseStateResolved then latest
            else (case latest of None \<Rightarrow> Some pc
              | Some l \<Rightarrow> (case pct_lastSeen (pc_status pc) of None \<Rightarrow> latest
                  | Some t \<Rightarrow> (case pct_lastSeen (pc_status l) of None \<Rightarrow> Some pc | Some t' \<Rightarrow> if t > t' then Some pc else latest))))
        (inc_members inc) None of
      None \<Rightarrow> [] | Some pc \<Rightarrow> pc_name pc)"

record analyze_response =
  an_diagnosticRunID :: string
  an_analysisRequestID :: string

definition empty_run_status :: diagnostic_run_status where
  "empty_run_status = \<lparr>drt_state = [], drt_collectedAt = None, drt_collectorVersion = [], drt_evidenceRef = [], drt_collectionErrors = [],
     drt_redactionSummary = None, drt_logTruncationInfo = None, drt_analysisState = [], drt_analysisResultRef = []\<rparr>"

definition new_run :: "string \<Rightarrow> string \<Rightarrow> string \<Rightarrow> time \<Rightarrow> diagnostic_run" where
  "new_run ns incName pcRef now =
     \<lparr>dr_meta = empty_meta\<lparr>om_generateName := ''dr-'' @ incName @ ''-'', om_namespace := ns\<rparr>,
      dr_spec = \<lparr>drs_incidentRef = incName, drs_problemCaseRef = pcRef, drs_requestedAt = Some (metav1_now now)\<rparr>, dr_status = empty_run_status\<rparr>"

definition run_pending :: "diagnostic_run \<Rightarrow> diagnostic_run" where
  "run_pending dr = dr\<lparr>dr_status := (dr_status dr)\<lparr>drt_state := DiagnosticRunStatePending\<rparr>\<rparr>"

text \<open>
  The part that \<open>Analyze\<close>, \<open>Augment\<close> and \<open>Create\<close> have in common: create the run, mark it as pending, insert
  the analysis request. \<open>what\<close> are the words of the error messages.
\<close>

definition pending_request :: "string \<Rightarrow> string \<Rightarrow> string \<Rightarrow> time \<Rightarrow> string \<Rightarrow> string \<Rightarrow> request_row" where
  "pending_request reqID incName run t source userID =
     \<lparr>q_id = reqID, q_incident = Some incName, q_run = run, q_requestedAt = rfc3339 t, q_status = ''pending'', q_dispatchedAt = None,
      q_completedAt = None, q_source = source, q_triggeredBy = Some userID\<rparr>"

definition start_run :: "'w backend_client \<Rightarrow> db_faults \<Rightarrow> bool \<Rightarrow> caller \<Rightarrow> string \<Rightarrow> string \<Rightarrow> string \<Rightarrow> string \<Rightarrow> string \<times> string \<times> string \<Rightarrow>
    string \<Rightarrow> time \<Rightarrow> time \<Rightarrow> database \<times> 'w \<Rightarrow> (int \<times> message + analyze_response) \<times> database \<times> 'w" where
  "start_run b flt fk c ns incName pcRef source what reqID now t = (\<lambda>(d, w). case what of (m1, m2, m3) \<Rightarrow>
     (case api_create (bk_runs b) (new_run ns incName pcRef now) w of
        (Inl e, w1) \<Rightarrow> (Inl (500, With_error m1 e), d, w1)
      | (Inr dr, w1) \<Rightarrow>
          (case api_status_patch (bk_runs b) dr (run_pending dr) w1 of
             (Inl e, w2) \<Rightarrow> (Inl (500, With_error m2 e), d, w2)
           | (Inr dr', w2) \<Rightarrow>
               (case db_exec flt ''insert request'' (insert_request fk (pending_request reqID incName (om_name (dr_meta dr')) t source (ca_userID c))) d of
                  (Inl e, d') \<Rightarrow> (Inl (500, With_error m3 e), d', w2)
                | (Inr _, d') \<Rightarrow> (Inr \<lparr>an_diagnosticRunID = om_name (dr_meta dr'), an_analysisRequestID = reqID\<rparr>, d', w2)))))"

definition run_messages :: "string \<times> string \<times> string" where
  "run_messages = (''creating DiagnosticRun: '', ''patching DiagnosticRun status: '', ''inserting analysis_request: '')"

definition accepted :: "(int \<times> message + analyze_response) \<times> 's \<Rightarrow> analyze_response reply \<times> 's" where
  "accepted r = (case r of (Inl (status, msg), s) \<Rightarrow> (writeError status msg, s) | (Inr resp, s) \<Rightarrow> (writeJSON 202 resp, s))"

definition Analyze :: "'w backend_client \<Rightarrow> string \<Rightarrow> db_faults \<Rightarrow> bool \<Rightarrow> caller \<Rightarrow> string \<Rightarrow> time \<Rightarrow> time \<Rightarrow> string \<Rightarrow> database \<times> 'w \<Rightarrow>
    analyze_response reply \<times> database \<times> 'w" where
  "Analyze b defaultNS flt fk c reqID now t ident = (\<lambda>(d, w).
     case namespacedName ident defaultNS of (ns, name) \<Rightarrow>
       (case api_get (bk_incidents b) ns name w of
          Inl e \<Rightarrow> (writeError 404 (Text ''incident not found''), d, w)
        | Inr inc \<Rightarrow>
            if is_manual inc \<and> ca_role c \<noteq> ''admin'' \<and>
               \<not> (case db_query flt ''select owner id'' (find_owner name d) of Inr (Some r) \<Rightarrow> o_owner r = ca_userID c | _ \<Rightarrow> False)
            then (writeError 403 (Text ''incident not found''), d, w)
            else accepted (start_run b flt fk c ns name (latestActiveProblemCase (bk_client b) inc w) ''auto'' run_messages reqID now t (d, w))))"

section \<open>Manual incidents\<close>

record related_resource_in =
  ri_kind :: string
  ri_name :: string
  ri_namespace :: string
  ri_apiGroup :: string
  ri_evidenceSlices :: "string list"

definition to_ref :: "related_resource_in \<Rightarrow> string \<Rightarrow> resource_ref" where
  "to_ref r ns = \<lparr>rr_namespace = ns, rr_kind = ri_kind r, rr_name = ri_name r, rr_apiGroup = ri_apiGroup r, rr_evidenceSlices = ri_evidenceSlices r\<rparr>"

record manual_incident_request =
  mi_namespace :: string
  mi_resourceKind :: string
  mi_resourceName :: string
  mi_userMessage :: string
  mi_relatedResources :: "related_resource_in list"

record manual_incident_response =
  mr_incidentID :: string
  mr_diagnosticRunID :: string
  mr_analysisRequestID :: string

definition manual_error :: "manual_incident_request \<Rightarrow> string option" where
  "manual_error req =
     (if mi_resourceKind req = [] then Some ''resourceKind is required''
      else if mi_resourceName req = [] then Some ''resourceName is required''
      else if trim_space (mi_userMessage req) = [] then Some ''userMessage is required''
      else if length (trim_space (mi_userMessage req)) < 10 then Some ''userMessage must be at least 10 characters''
      else None)"

definition related_refs :: "string \<Rightarrow> related_resource_in list \<Rightarrow> resource_ref list" where
  "related_refs rootNS rrs = map (\<lambda>r. to_ref r (if ri_namespace r = [] then rootNS else ri_namespace r))
     (filter (\<lambda>r. ri_kind r \<noteq> [] \<and> ri_name r \<noteq> []) rrs)"

definition manual_incident :: "string \<Rightarrow> manual_incident_request \<Rightarrow> incident" where
  "manual_incident incNS req =
     (let rootNS = (if mi_namespace req = [] then incNS else mi_namespace req)
      in \<lparr>inc_meta = empty_meta\<lparr>om_generateName := ''manual-'', om_namespace := incNS\<rparr>,
          inc_spec = \<lparr>ins_rootResource = mk_ref rootNS (mi_resourceKind req) (mi_resourceName req), ins_problemCases = [],
            ins_source = ''manual'', ins_userMessage = mi_userMessage req,
            ins_relatedResources = related_refs rootNS (mi_relatedResources req), ins_falsePositive = False\<rparr>,
          inc_status = empty_incident_status\<rparr>)"

definition opened_at :: "time \<Rightarrow> incident \<Rightarrow> incident" where
  "opened_at t inc = inc\<lparr>inc_status := (inc_status inc)\<lparr>int_state := IncidentStateOpen, int_openedAt := Some (metav1_now t)\<rparr>\<rparr>"

definition manual_messages :: "string \<times> string \<times> string" where
  "manual_messages = (''creating diagnostic run: '', ''patching diagnostic run status: '', ''inserting analysis request: '')"

definition ManualIncident_Create :: "'w backend_client \<Rightarrow> string \<Rightarrow> db_faults \<Rightarrow> bool \<Rightarrow> caller \<Rightarrow> string \<Rightarrow> time \<Rightarrow> time \<Rightarrow>
    go_error + manual_incident_request \<Rightarrow> database \<times> 'w \<Rightarrow> manual_incident_response reply \<times> database \<times> 'w" where
  "ManualIncident_Create b incNS flt fk c reqID now t body = (\<lambda>(d, w). case body of
     Inl e \<Rightarrow> (writeError 400 (Text ''invalid JSON body''), d, w)
   | Inr req \<Rightarrow> (case manual_error req of
       Some msg \<Rightarrow> (writeError 400 (Text msg), d, w)
     | None \<Rightarrow>
         (case api_create (bk_incidents b) (manual_incident incNS req) w of
            (Inl e, w1) \<Rightarrow> (writeError 500 (With_error ''creating incident: '' e), d, w1)
          | (Inr inc0, w1) \<Rightarrow>
              (case api_status_patch (bk_incidents b) inc0 (opened_at now inc0) w1 of (opened, w1') \<Rightarrow>
               let inc = (case opened of Inr x \<Rightarrow> x | Inl _ \<Rightarrow> opened_at now inc0) in
               case start_run b flt fk c incNS (inc_name inc) [] ''manual'' manual_messages reqID now t (d, w1') of
                 (Inl (status, msg), d1, w2) \<Rightarrow> (writeError status msg, d1, w2)
               | (Inr resp, d1, w2) \<Rightarrow>
                   (let response = writeJSON 201 \<lparr>mr_incidentID = incNS @ ''/'' @ inc_name inc, mr_diagnosticRunID = an_diagnosticRunID resp,
                      mr_analysisRequestID = reqID\<rparr>
                    in if ca_userID c = [] then (response, d1, w2)
                       else (case db_exec flt ''insert owner'' (insert_owner fk \<lparr>o_incident = inc_name inc, o_namespace = incNS, o_owner = ca_userID c\<rparr>) d1 of
                           (Inl e, d2) \<Rightarrow> (writeError 500 (With_error ''recording incident owner: '' e), d2, w2)
                         | (Inr _, d2) \<Rightarrow> (response, d2, w2)))))))"

section \<open>Augmenting an incident\<close>

abbreviation ref_key :: "resource_ref \<Rightarrow> string \<times> string \<times> string" where
  "ref_key r \<equiv> (rr_kind r, rr_namespace r, rr_name r)"

definition merge_resources :: "related_resource_in list \<Rightarrow> resource_ref list \<Rightarrow> resource_ref list" where
  "merge_resources new old = fold (\<lambda>r rs. if ref_key (to_ref r (ri_namespace r)) \<in> set (map ref_key rs) then rs else rs @ [to_ref r (ri_namespace r)]) new old"

definition Augment :: "'w backend_client \<Rightarrow> string \<Rightarrow> db_faults \<Rightarrow> bool \<Rightarrow> caller \<Rightarrow> string \<Rightarrow> time \<Rightarrow> time \<Rightarrow> string \<Rightarrow>
    go_error + related_resource_in list \<Rightarrow> database \<times> 'w \<Rightarrow> analyze_response reply \<times> database \<times> 'w" where
  "Augment b defaultNS flt fk c reqID now t ident body = (\<lambda>(d, w).
     case namespacedName ident defaultNS of (ns, name) \<Rightarrow> (case body of
       Inl e \<Rightarrow> (writeError 400 (Text ''invalid JSON body''), d, w)
     | Inr new \<Rightarrow>
         if new = [] then (writeError 400 (Text ''relatedResources must not be empty''), d, w)
         else (case api_get (bk_incidents b) ns name w of
             Inl e \<Rightarrow> (writeError 404 (Text ''incident not found''), d, w)
           | Inr inc \<Rightarrow>
               (case api_patch (bk_incidents b) inc
                   (inc\<lparr>inc_spec := (inc_spec inc)\<lparr>ins_relatedResources := merge_resources new (ins_relatedResources (inc_spec inc))\<rparr>\<rparr>) w of
                  (Inl e, w1) \<Rightarrow> (writeError 500 (With_error ''patching incident: '' e), d, w1)
                | (Inr inc1, w1) \<Rightarrow>
                    accepted (start_run b flt fk c ns name (latestActiveProblemCase (bk_client b) inc1 w1) ''auto'' run_messages reqID now t (d, w1))))))"

section \<open>Problem cases\<close>

definition ProblemCases_List :: "'w client \<Rightarrow> string \<Rightarrow> string \<Rightarrow> string \<Rightarrow> string \<Rightarrow> 'w \<Rightarrow> problem_case list reply" where
  "ProblemCases_List c defaultNS nsParam severity state w =
     (case api_list (c_problemCases c) (if nsParam = [] then defaultNS else nsParam) [] w of
        Inl e \<Rightarrow> writeError 500 (With_error [] e)
      | Inr items \<Rightarrow> writeJSON 200 (if severity \<noteq> [] \<or> state \<noteq> []
          then filter (\<lambda>pc. \<not> (severity \<noteq> [] \<and> pcs_severity (pc_spec pc) \<noteq> severity) \<and> \<not> (state \<noteq> [] \<and> pc_state pc \<noteq> state)) items else items))"

definition ProblemCases_Get :: "'w client \<Rightarrow> string \<Rightarrow> string \<Rightarrow> 'w \<Rightarrow> problem_case reply" where
  "ProblemCases_Get c defaultNS ident w =
     (case namespacedName ident defaultNS of (ns, name) \<Rightarrow>
        (case api_get (c_problemCases c) ns name w of
           Inl err \<Rightarrow> if is_not_found err then writeError 404 (Text ''problemcase not found'') else writeError 500 (With_error [] err)
         | Inr pc \<Rightarrow> writeJSON 200 pc))"

section \<open>Exclusion rules\<close>

record exclusion_rule_response =
  xo_name :: string
  xo_spec :: exclusion_rule_spec
  xo_status :: exclusion_rule_status

definition rule_response :: "exclusion_rule \<Rightarrow> exclusion_rule_response" where
  "rule_response rule = \<lparr>xo_name = rule_name rule, xo_spec = rule_spec rule, xo_status = rule_status rule\<rparr>"

definition Rules_List :: "'w backend_client \<Rightarrow> string \<Rightarrow> 'w \<Rightarrow> exclusion_rule_response list reply" where
  "Rules_List b defaultNS w = (case api_list (c_rules (bk_client b)) defaultNS [] w of
     Inl e \<Rightarrow> writeError 500 (With_error ''listing exclusion rules: '' e) | Inr items \<Rightarrow> writeJSON 200 (map rule_response items))"

record create_rule_request =
  xq_name :: string
  xq_spec :: exclusion_rule_spec

definition rule_error :: "create_rule_request \<Rightarrow> string option" where
  "rule_error req =
     (if trim_space (xr_description (xq_spec req)) = [] then Some ''spec.description is required''
      else if xr_targetResources (xq_spec req) = [] \<and> xr_selector (xq_spec req) = None
        then Some ''at least one of spec.targetResources or spec.selector must be set''
      else if trim_space (xq_name req) = [] then Some ''name is required'' else None)"

definition Rules_Create :: "'w backend_client \<Rightarrow> string \<Rightarrow> go_error + create_rule_request \<Rightarrow> 'w \<Rightarrow> exclusion_rule_response reply \<times> 'w" where
  "Rules_Create b defaultNS body w = (case body of
     Inl e \<Rightarrow> (writeError 400 (Text ''invalid JSON body''), w)
   | Inr req \<Rightarrow> (case rule_error req of
       Some msg \<Rightarrow> (writeError 400 (Text msg), w)
     | None \<Rightarrow>
         (case api_create (c_rules (bk_client b)) \<lparr>rule_meta = empty_meta\<lparr>om_name := xq_name req, om_namespace := defaultNS\<rparr>,
             rule_spec = (xq_spec req)\<lparr>xr_enabled := True\<rparr>, rule_status = \<lparr>xt_lastMatchedAt = None, xt_suppressedCount = 0\<rparr>\<rparr> w of
            (Inl e, w') \<Rightarrow> (writeError 500 (With_error ''creating exclusion rule: '' e), w')
          | (Inr rule, w') \<Rightarrow> (writeJSON 201 (rule_response rule), w'))))"

definition SetEnabled :: "'w backend_client \<Rightarrow> string \<Rightarrow> string \<Rightarrow> go_error + bool \<Rightarrow> 'w \<Rightarrow> exclusion_rule_response reply \<times> 'w" where
  "SetEnabled b defaultNS name body w = (case body of
     Inl e \<Rightarrow> (writeError 400 (Text ''invalid JSON body''), w)
   | Inr enabled \<Rightarrow>
       (case api_get (c_rules (bk_client b)) defaultNS name w of
          Inl e \<Rightarrow> (writeError 404 (Text ''exclusion rule not found''), w)
        | Inr rule \<Rightarrow>
            (case api_patch (c_rules (bk_client b)) rule (rule\<lparr>rule_spec := (rule_spec rule)\<lparr>xr_enabled := enabled\<rparr>\<rparr>) w of
               (Inl e, w') \<Rightarrow> (writeError 500 (With_error ''patching exclusion rule: '' e), w')
             | (Inr rule', w') \<Rightarrow> (writeJSON 200 (rule_response rule'), w'))))"

definition Rules_Delete :: "'w backend_client \<Rightarrow> string \<Rightarrow> string \<Rightarrow> 'w \<Rightarrow> unit reply \<times> 'w" where
  "Rules_Delete b defaultNS name w = (case api_get (c_rules (bk_client b)) defaultNS name w of
     Inl e \<Rightarrow> (writeError 404 (Text ''exclusion rule not found''), w)
   | Inr rule \<Rightarrow>
       (case bk_deleteRule b rule w of
          (Some e, w') \<Rightarrow> (writeError 500 (With_error ''deleting exclusion rule: '' e), w')
        | (None, w') \<Rightarrow> (writeJSON 204 (), w')))"

section \<open>The persona\<close>

definition KubeChan_GetState :: "'w mood_syncer \<Rightarrow> 'w \<Rightarrow> (string \<times> int) list reply" where
  "KubeChan_GetState s w = writeJSON 200 [(''moodLevel'', GetMoodLevel s w)]"

definition KubeChan_Poke :: "'w mood_syncer \<Rightarrow> time \<Rightarrow> time \<Rightarrow> time \<Rightarrow> 'w \<Rightarrow> (string \<times> int) list reply \<times> ws_event list \<times> 'w" where
  "KubeChan_Poke s t0 t1 t2 w = (case Poke s t0 t1 t2 w of
     (Inl e, evs, w') \<Rightarrow> (writeError 500 (With_error [] e), evs, w')
   | (Inr st, evs, w') \<Rightarrow> (writeJSON 200 [(''moodLevel'', ks_moodLevel (kcs_status st)), (''pokeCount'', ks_pokeCount (kcs_status st))], evs, w'))"

end
