(* ===== verification/Backend_Settings.thy ===== *)
theory Backend_Settings
  imports Database Watcher_Config
begin

text \<open>
  Settings, retention and migrations of the backend: \<open>backend-api/db/db.go\<close>, \<open>db/pruner.go\<close>,
  \<open>handler/settings.go\<close>, \<open>handler/llm_settings.go\<close> and \<open>handler/llm_models.go\<close>. A setting is stored as the
  JSON text of its value; \<open>marshal\<close> is \<open>json.Marshal\<close> on the values of a decoded body, \<open>unmarshal\<close>
  is \<open>json.Unmarshal\<close> into a value of any type, and reading an integer from JSON text is written out.
  The credentials of a user are stored as the JSON text of a map that only \<open>Put\<close> writes: the column holds the
  map. The order in which Go ranges over a map is \<open>ord\<close>.
\<close>

section \<open>Migrations\<close>

text \<open>The tracking table beside the rest of the database, which a script changes.\<close>

record 's migration_state =
  mg_applied :: "string list"
  mg_data :: 's

definition migration_files :: "(string \<times> bool) list \<Rightarrow> string list" where
  "migration_files entries = sort (map fst (filter (\<lambda>(name, isDir). \<not> isDir \<and> has_suffix ''.sql'' name) entries))"

fun run_files :: "db_faults \<Rightarrow> (string \<Rightarrow> go_error + 'c) \<Rightarrow> ('c \<Rightarrow> 's \<Rightarrow> go_error option \<times> 's) \<Rightarrow>
    string list \<Rightarrow> 's migration_state \<Rightarrow> go_error option \<times> 's migration_state" where
  "run_files flt readFile exec [] st = (None, st)"
| "run_files flt readFile exec (f # fs) st =
     (case db_query flt (''check '' @ f) (length (filter (\<lambda>x. x = f) (mg_applied st))) of
        Inl e \<Rightarrow> (Some (Wrapf (''checking migration '' @ f) e), st)
      | Inr n \<Rightarrow>
          if n > 0 then run_files flt readFile exec fs st
          else (case readFile (''migrations/'' @ f) of
              Inl e \<Rightarrow> (Some (Wrapf (''reading migration '' @ f) e), st)
            | Inr content \<Rightarrow>
                (case exec content (mg_data st) of
                   (Some e, s) \<Rightarrow> (Some (Wrapf (''applying migration '' @ f) e), st\<lparr>mg_data := s\<rparr>)
                 | (None, s) \<Rightarrow>
                     (case flt (''record '' @ f) of
                        Some e \<Rightarrow> (Some (Wrapf (''recording migration '' @ f) e), st\<lparr>mg_data := s\<rparr>)
                      | None \<Rightarrow> run_files flt readFile exec fs \<lparr>mg_applied = mg_applied st @ [f], mg_data = s\<rparr>))))"

definition runMigrations :: "db_faults \<Rightarrow> go_error + (string \<times> bool) list \<Rightarrow> (string \<Rightarrow> go_error + 'c) \<Rightarrow>
    ('c \<Rightarrow> 's \<Rightarrow> go_error option \<times> 's) \<Rightarrow> 's migration_state \<Rightarrow> go_error option \<times> 's migration_state" where
  "runMigrations flt entries readFile exec st = (case flt ''create schema_migrations'' of
     Some e \<Rightarrow> (Some (Wrapf ''creating schema_migrations'' e), st)
   | None \<Rightarrow> (case entries of Inl e \<Rightarrow> (Some (Wrapf ''reading migrations dir'' e), st)
       | Inr es \<Rightarrow> run_files flt readFile exec (migration_files es) st))"

section \<open>Single settings\<close>

definition ErrNoRows :: go_error where "ErrNoRows = Errorf ''sql: no rows in result set''"

definition SettingGet :: "db_faults \<Rightarrow> string \<Rightarrow> database \<Rightarrow> go_error + string" where
  "SettingGet flt key d = (case db_query flt ''select setting'' (map_of (db_settings d) key) of
     Inl e \<Rightarrow> Inl e | Inr None \<Rightarrow> Inl ErrNoRows | Inr (Some v) \<Rightarrow> Inr v)"

definition SettingSet :: "db_faults \<Rightarrow> string \<Rightarrow> string \<Rightarrow> database \<Rightarrow> go_error option \<times> database" where
  "SettingSet flt key v d = (case db_exec flt ''update setting'' (update_setting key v) d of
     (Inl e, d') \<Rightarrow> (Some e, d') | (Inr _, d') \<Rightarrow> (None, d'))"

definition SettingsAll :: "db_faults \<Rightarrow> database \<Rightarrow> go_error + str_map" where
  "SettingsAll flt d = (case db_query flt ''select settings'' (db_settings d) of
     Inl e \<Rightarrow> Inl e | Inr rows \<Rightarrow> Inr (fold (\<lambda>(k, v). map_put k v) rows []))"

section \<open>The settings handlers\<close>

definition allowedSettingKeys :: "string list" where
  "allowedSettingKeys = [''persona.enabled'', ''persona.idle_chatter'', ''persona.idle_interval_secs'', ''bedrock.model_id'',
     ''bedrock.region'', ''bedrock.thinking_budget'', ''evidence.retention_days'', ''analysis.retention_days'',
     ''detector.debounce_window_secs'', ''detector.pending_threshold_secs'', ''detector.unavailable_threshold_secs'']"

definition Settings_Get :: "(string \<Rightarrow> go_error + any) \<Rightarrow> bool \<Rightarrow> db_faults \<Rightarrow> database \<Rightarrow> attrs reply" where
  "Settings_Get unmarshal personaAllowed flt d = (case db_query flt ''select settings'' (db_settings d) of
     Inl e \<Rightarrow> writeError 500 (With_error [] e)
   | Inr rows \<Rightarrow> writeJSON 200 (map_put ''persona.allowed'' (ABool personaAllowed)
       (fold (\<lambda>(k, v). map_put k (case unmarshal v of Inl _ \<Rightarrow> AStr v | Inr x \<Rightarrow> x)) rows [])))"

fun write_settings :: "(any \<Rightarrow> go_error + string) \<Rightarrow> db_faults \<Rightarrow> attrs \<Rightarrow> string list \<Rightarrow> database \<Rightarrow>
    (string \<times> string) list reply \<times> database" where
  "write_settings marshal flt body [] d = (writeJSON 200 [(''status'', ''updated'')], d)"
| "write_settings marshal flt body (k # ks) d = (case marshal (any_idx body k) of
     Inl e \<Rightarrow> (writeError 400 (Text (''cannot encode value for key: '' @ k)), d)
   | Inr encoded \<Rightarrow>
       (case db_exec flt ''update setting'' (update_setting k encoded) d of
          (Inl e, d') \<Rightarrow> (writeError 500 (With_error [] e), d')
        | (Inr _, d') \<Rightarrow> write_settings marshal flt body ks d'))"

definition Settings_Update :: "range_order \<Rightarrow> (any \<Rightarrow> go_error + string) \<Rightarrow> bool \<Rightarrow> db_faults \<Rightarrow>
    go_error + attrs \<Rightarrow> database \<Rightarrow> (string \<times> string) list reply \<times> database" where
  "Settings_Update ord marshal personaAllowed flt body d = (case body of
     Inl e \<Rightarrow> (writeError 400 (Text ''invalid JSON body''), d)
   | Inr b \<Rightarrow>
       (case find (\<lambda>k. k \<notin> set allowedSettingKeys) (ord [''known''] (map fst b)) of
          Some k \<Rightarrow> (writeError 400 (Text (''unknown setting key: '' @ k)), d)
        | None \<Rightarrow>
            if \<not> personaAllowed \<and> list_ex (\<lambda>k. k = ''persona.enabled'' \<or> k = ''persona.idle_chatter'') (ord [''persona''] (map fst b))
            then (writeError 403 (Text ''persona is disabled at the deployment level''), d)
            else write_settings marshal flt b (ord [''write''] (map fst b)) d))"

definition IdleMessage :: "unit reply" where
  "IdleMessage = writeError 501 (Text ''llm-gateway not yet implemented (Phase 3B)'')"

text \<open>
  \<open>json.Unmarshal\<close> into an \<open>int64\<close>: white space around a number without fraction and exponent that is in
  range; \<open>null\<close> leaves the variable at zero; everything else is a syntax or a type error.
\<close>

definition is_json_space :: "char \<Rightarrow> bool" where
  "is_json_space c \<longleftrightarrow> c = CHR '' '' \<or> c = CHR 0x09 \<or> c = CHR 0x0A \<or> c = CHR 0x0D"

definition json_integer :: "string \<Rightarrow> bool" where
  "json_integer s = (let ds = (case s of c # cs \<Rightarrow> if c = CHR ''-'' then cs else s | [] \<Rightarrow> [])
     in ds \<noteq> [] \<and> list_all is_digit ds \<and> (hd ds = CHR ''0'' \<longrightarrow> length ds = 1))"

definition json_int64 :: "string \<Rightarrow> int option" where
  "json_int64 s = (let t = rev (dropWhile is_json_space (rev (dropWhile is_json_space s)))
     in if t = ''null'' then Some 0 else if json_integer t then parse_int64 t else None)"

definition read_threshold :: "string \<times> string \<Rightarrow> (string \<times> int) list \<Rightarrow> (string \<times> int) list" where
  "read_threshold row vals = (case row of (k, v) \<Rightarrow>
     (case json_int64 v of Some n \<Rightarrow> if n > 0 then map_put k n vals else vals | None \<Rightarrow> vals))"

definition GetDetectorConfig :: "db_faults \<Rightarrow> database \<Rightarrow> remote_settings reply" where
  "GetDetectorConfig flt d =
     (let defaults = [(''detector.debounce_window_secs'', 30), (''detector.pending_threshold_secs'', 300),
        (''detector.unavailable_threshold_secs'', 300)];
          vals = (case db_query flt ''select detector settings'' (filter (\<lambda>(k, _). k \<in> set (map fst defaults)) (db_settings d)) of
             Inl e \<Rightarrow> defaults | Inr rows \<Rightarrow> fold read_threshold rows defaults);
          val = (\<lambda>k. case map_of vals k of Some n \<Rightarrow> n | None \<Rightarrow> 0)
      in writeJSON 200 \<lparr>rs_debounceWindowSecs = val ''detector.debounce_window_secs'',
           rs_pendingThresholdSecs = val ''detector.pending_threshold_secs'',
           rs_unavailableThresholdSecs = val ''detector.unavailable_threshold_secs''\<rparr>)"

section \<open>Retention\<close>

definition readSettingInt :: "db_faults \<Rightarrow> string \<Rightarrow> int \<Rightarrow> database \<Rightarrow> int" where
  "readSettingInt flt key fallback d = (case SettingGet flt key d of
     Inl e \<Rightarrow> fallback
   | Inr raw \<Rightarrow> (case parse_int64 raw of None \<Rightarrow> fallback | Some n \<Rightarrow> if n \<le> 0 then fallback else n))"

definition day :: duration where "day = 24 * hour"

text \<open>
  \<open>datetime('now', '-n days')\<close>: \<open>None\<close> before the year 0, where the text starts with a minus sign or is
  \<open>NULL\<close> and no row compares below it.
\<close>

definition year_zero :: time where "year_zero = - 719528 * day"

definition prune_cutoff :: "time \<Rightarrow> int \<Rightarrow> string option" where
  "prune_cutoff now n = (if now - n * day < year_zero then None else Some (sqlite_datetime (now - n * day)))"

definition older :: "string option \<Rightarrow> string \<Rightarrow> bool" where
  "older cutoff s = (case cutoff of None \<Rightarrow> False | Some c \<Rightarrow> s < c)"

text \<open>\<open>prune\<close>: three deletions, whose errors are only logged.\<close>

definition deleted :: "db_faults \<Rightarrow> string \<Rightarrow> (database \<Rightarrow> database) \<Rightarrow> database \<Rightarrow> database" where
  "deleted flt label f d = (case flt label of Some e \<Rightarrow> d | None \<Rightarrow> f d)"

definition prune :: "db_faults \<Rightarrow> time \<Rightarrow> time \<Rightarrow> time \<Rightarrow> database \<Rightarrow> database" where
  "prune flt t1 t2 t3 d =
     (let evidenceDays = readSettingInt flt ''evidence.retention_days'' 7 d;
          analysisDays = readSettingInt flt ''analysis.retention_days'' 30 d;
          d1 = deleted flt ''prune evidence'' (\<lambda>d. d\<lparr>db_evidence := filter (\<lambda>e. \<not> older (prune_cutoff t1 evidenceDays) (e_createdAt e)) (db_evidence d)\<rparr>) d;
          d2 = deleted flt ''prune results'' (\<lambda>d. d\<lparr>db_results := filter (\<lambda>r. \<not> older (prune_cutoff t2 analysisDays) (r_createdAt r)) (db_results d)\<rparr>) d1
      in deleted flt ''prune requests'' (\<lambda>d. d\<lparr>db_requests := filter (\<lambda>q. \<not> (case q_completedAt q of None \<Rightarrow> False
           | Some s \<Rightarrow> older (prune_cutoff t3 analysisDays) s)) (db_requests d)\<rparr>) d2)"

text \<open>\<open>StartPruner\<close>: once at the start, then once per tick.\<close>

definition StartPruner :: "db_faults \<Rightarrow> time \<Rightarrow> time list \<Rightarrow> database \<Rightarrow> database" where
  "StartPruner flt start ticks d = fold (\<lambda>t. prune flt t t t) (start # ticks) d"

section \<open>Settings of the language model\<close>

definition providerSecretFields :: "string \<Rightarrow> string list" where
  "providerSecretFields p = (if p = ''bedrock'' then [''bearerToken'', ''accessKeyId'', ''secretAccessKey'', ''sessionToken'']
     else if p = ''copilot'' then [''token''] else if p = ''openai'' then [''apiKey''] else if p = ''anthropic'' then [''apiKey''] else [])"

record llm_settings_response =
  ls_provider :: string
  ls_configured :: bool
  ls_credFields :: attrs

definition mask_field :: "string \<Rightarrow> string \<times> any \<Rightarrow> string \<times> any" where
  "mask_field provider kv = (case kv of (k, v) \<Rightarrow>
     (k, if k \<in> set (providerSecretFields provider) then (case v of AStr s \<Rightarrow> if s \<noteq> [] then AStr ''***'' else v | _ \<Rightarrow> v) else v))"

definition LLM_Get :: "db_faults \<Rightarrow> caller \<Rightarrow> database \<Rightarrow> llm_settings_response reply" where
  "LLM_Get flt c d = (case db_query flt ''select llm settings'' (find_llm (ca_userID c) d) of
     Inl e \<Rightarrow> writeError 500 (With_error [] e)
   | Inr None \<Rightarrow> writeJSON 200 \<lparr>ls_provider = ''bedrock'', ls_configured = False, ls_credFields = []\<rparr>
   | Inr (Some row) \<Rightarrow> writeJSON 200 \<lparr>ls_provider = l_provider row, ls_configured = l_credentials row \<noteq> [],
       ls_credFields = map (mask_field (l_provider row)) (l_credentials row)\<rparr>)"

record llm_settings_put_request =
  lp_provider :: string
  lp_credentials :: attrs

definition allowedProviders :: "string list" where
  "allowedProviders = [''bedrock'', ''copilot'', ''openai'', ''anthropic'']"

definition keep_field :: "attrs \<Rightarrow> string \<Rightarrow> attrs \<Rightarrow> attrs" where
  "keep_field existing field creds = (case map_of creds field of
     Some _ \<Rightarrow> creds
   | None \<Rightarrow> (case map_of existing field of Some v \<Rightarrow> map_put field v creds | None \<Rightarrow> creds))"

definition merge_credentials :: "range_order \<Rightarrow> string \<Rightarrow> llm_row option \<Rightarrow> attrs \<Rightarrow> attrs" where
  "merge_credentials ord provider stored creds = (case stored of
     Some row \<Rightarrow> if l_provider row = provider then fold (keep_field (l_credentials row)) (ord [''secrets''] (providerSecretFields provider)) creds
       else creds
   | None \<Rightarrow> creds)"

definition string_or_empty :: "any \<Rightarrow> string" where
  "string_or_empty v = (case v of AStr s \<Rightarrow> s | _ \<Rightarrow> [])"

definition LLM_Put :: "range_order \<Rightarrow> db_faults \<Rightarrow> bool \<Rightarrow> caller \<Rightarrow> go_error + llm_settings_put_request \<Rightarrow>
    database \<Rightarrow> (string \<times> string) list reply \<times> database" where
  "LLM_Put ord flt fk c body d = (case body of
     Inl e \<Rightarrow> (writeError 400 (Text ''invalid JSON body''), d)
   | Inr req \<Rightarrow>
       if lp_provider req \<notin> set allowedProviders
       then (writeError 400 (Text ''provider must be one of: bedrock, copilot, openai, anthropic''), d)
       else (let stored = (case db_query flt ''select llm settings'' (find_llm (ca_userID c) d) of Inl e \<Rightarrow> None | Inr r \<Rightarrow> r);
                 creds = merge_credentials ord (lp_provider req) stored (lp_credentials req);
                 key = string_or_empty (any_idx creds ''apiKey'')
             in if (lp_provider req = ''openai'' \<or> lp_provider req = ''anthropic'') \<and> (key = [] \<or> key = ''***'')
                then (writeError 400 (Text ''apiKey is required for this provider''), d)
                else (case db_exec flt ''upsert llm settings'' (upsert_llm fk \<lparr>l_user = ca_userID c, l_provider = lp_provider req, l_credentials = creds\<rparr>) d of
                    (Inl e, d') \<Rightarrow> (writeError 500 (With_error [] e), d')
                  | (Inr _, d') \<Rightarrow> (writeJSON 200 [(''status'', ''ok'')], d'))))"

section \<open>The models on offer\<close>

record llm_model_entry =
  lm_id :: string
  lm_label :: string

definition mk_model :: "string \<Rightarrow> string \<Rightarrow> llm_model_entry" where
  "mk_model i l = \<lparr>lm_id = i, lm_label = l\<rparr>"

definition llmModels :: "(string \<times> llm_model_entry list) list" where
  "llmModels = [
     (''openai'', [mk_model ''gpt-4.1'' ''GPT-4.1'',
       mk_model ''gpt-4.1-mini'' ''GPT-4.1 mini'',
       mk_model ''gpt-4.1-nano'' ''GPT-4.1 nano'',
       mk_model ''gpt-4o'' ''GPT-4o'']),
     (''anthropic'', [mk_model ''claude-sonnet-4-6'' ''Claude Sonnet 4.6'',
       mk_model ''claude-sonnet-4-5'' ''Claude Sonnet 4.5'',
       mk_model ''claude-haiku-4-5'' ''Claude Haiku 4.5'',
       mk_model ''claude-opus-4-6'' ''Claude Opus 4.6'']),
     (''copilot'', [mk_model ''gpt-4.1'' ''GPT-4.1'',
       mk_model ''gpt-5-mini'' ''GPT-5 mini'',
       mk_model ''gpt-5.2'' ''GPT-5.2'',
       mk_model ''gpt-5.2-codex'' ''GPT-5.2 Codex'',
       mk_model ''gpt-5.3-codex'' ''GPT-5.3 Codex'',
       mk_model ''gpt-5.4'' ''GPT-5.4'',
       mk_model ''gpt-5.4-mini'' ''GPT-5.4 mini'',
       mk_model ''gpt-5.5'' ''GPT-5.5'',
       mk_model ''claude-haiku-4.5'' ''Claude Haiku 4.5'',
       mk_model ''claude-sonnet-4.5'' ''Claude Sonnet 4.5'',
       mk_model ''claude-sonnet-4.6'' ''Claude Sonnet 4.6'',
       mk_model ''claude-opus-4.5'' ''Claude Opus 4.5'',
       mk_model ''claude-opus-4.6'' ''Claude Opus 4.6'',
       mk_model ''claude-opus-4.7'' ''Claude Opus 4.7'',
       mk_model ''gemini-2.5-pro'' ''Gemini 2.5 Pro'',
       mk_model ''gemini-3-flash'' ''Gemini 3 Flash'',
       mk_model ''gemini-3.1-pro'' ''Gemini 3.1 Pro'',
       mk_model ''grok-code-fast-1'' ''Grok Code Fast 1'']),
     (''bedrock'', [mk_model ''qwen3-32b'' ''Qwen3 32B'',
       mk_model ''qwen3-235b'' ''Qwen3 235B'',
       mk_model ''claude-sonnet-6'' ''Claude Sonnet 4.6''])]"

definition GetLLMModels :: "(string \<times> llm_model_entry list) list reply" where
  "GetLLMModels = writeJSON 200 llmModels"

end
