(* ===== verification/Analysis_Lifecycle.thy ===== *)
theory Analysis_Lifecycle
  imports Incident_Handlers Backend_Settings
begin

text \<open>
  The life cycle of an analysis in the backend: evidence arrives (\<open>backend-api/handler/internal.go\<close>), a goroutine
  asks the LLM gateway and stores the result, the analyses are read, rated and deleted (\<open>analysis.go\<close>,
  \<open>diagnosticruns.go\<close>), and requests that were left pending are marked at the next start
  (\<open>startup/recovery.go\<close>). The gateway, the JSON texts that are only stored, and \<open>json_extract\<close> of SQLite
  are parameters. A 64-bit float is only copied; it is represented by its bits.
\<close>

section \<open>Evidence\<close>

record evidence_request =
  er_runID :: string
  er_problemCaseID :: string
  er_incidentID :: string
  er_collectedAt :: time
  er_collectorVersion :: string
  er_payload :: string
  er_payloadBytes :: int
  er_logTruncated :: bool
  er_redaction :: "redaction_summary option"
  er_truncation :: "log_truncation_info option"
  er_errors :: "string list"

record suggested_resource =
  sr_kind :: string
  sr_apiGroup :: string
  sr_reason :: string

text \<open>The answer of the gateway: the fields the backend reads, and the JSON text of the whole.\<close>

record llm_response =
  lr_model :: string
  lr_rootCause :: string
  lr_confidence :: int
  lr_needsMoreInfo :: bool
  lr_suggested :: "suggested_resource list"
  lr_exclusionRule :: "string option"
  lr_prompt :: string
  lr_json :: string

record llm_request =
  lq_evidenceID :: string
  lq_runID :: string
  lq_incidentID :: string
  lq_incidentSource :: string
  lq_reanalysisCount :: int
  lq_moodLevel :: int
  lq_userMessage :: string
  lq_provider :: string
  lq_credentials :: attrs
  lq_personaEnabled :: bool
  lq_payload :: attrs

text \<open>The HTTP exchange: no answer, or a status with the decoded body.\<close>

datatype gateway_reply = Gw_failed go_error | Gw_reply int "go_error + llm_response"

record json_texts =
  js_redaction :: "redaction_summary option \<Rightarrow> string"
  js_truncation :: "log_truncation_info option \<Rightarrow> string"
  js_errors :: "string list \<Rightarrow> string"
  js_suggested :: "suggested_resource list \<Rightarrow> string"
  js_payload :: "string \<Rightarrow> go_error + attrs"
  js_request :: "llm_request \<Rightarrow> go_error option"

datatype hub_message =
    Analysis_InProgress string
  | Analysis_Failed string
  | Analysis_Completed string string string string int bool "suggested_resource list" "string option"

record 'w internal =
  in_backend :: "'w backend_client"
  in_namespace :: string
  in_gatewayURL :: string
  in_hub :: bool
  in_mood :: "'w mood_syncer option"
  in_personaAllowed :: bool

definition nullStr :: "string \<Rightarrow> string option" where
  "nullStr s = (if s = [] then None else Some s)"

definition nullBytes :: "string \<Rightarrow> string option" where
  "nullBytes s = (if s = [] \<or> s = ''null'' then None else Some s)"

definition evidence_row_of :: "json_texts \<Rightarrow> string \<Rightarrow> time \<Rightarrow> evidence_request \<Rightarrow> evidence_row" where
  "evidence_row_of js evidenceID now req =
     \<lparr>e_id = evidenceID, e_run = er_runID req, e_problemCase = er_problemCaseID req, e_incident = nullStr (er_incidentID req),
      e_collectedAt = rfc3339 (er_collectedAt req), e_collectorVersion = er_collectorVersion req,
      e_logTruncated = (if er_logTruncated req then 1 else 0), e_payload = er_payload req, e_payloadBytes = er_payloadBytes req,
      e_redaction = nullBytes (js_redaction js (er_redaction req)), e_truncation = nullBytes (js_truncation js (er_truncation req)),
      e_errors = nullBytes (js_errors js (er_errors req)), e_createdAt = sqlite_datetime now\<rparr>"

text \<open>The status that \<open>ReceiveEvidence\<close> writes on the run.\<close>

definition evidence_received :: "bool \<Rightarrow> string \<Rightarrow> time \<Rightarrow> evidence_request \<Rightarrow> diagnostic_run_status \<Rightarrow> diagnostic_run_status" where
  "evidence_received dispatch evidenceID now req st = st
     \<lparr>drt_collectedAt := Some (metav1_now now), drt_collectorVersion := er_collectorVersion req, drt_evidenceRef := evidenceID,
      drt_state := DiagnosticRunStateCompleted,
      drt_collectionErrors := (if er_errors req \<noteq> [] then er_errors req else drt_collectionErrors st),
      drt_redactionSummary := (if er_redaction req \<noteq> None then er_redaction req else drt_redactionSummary st),
      drt_logTruncationInfo := (if er_truncation req \<noteq> None then er_truncation req else drt_logTruncationInfo st),
      drt_analysisState := (if dispatch then DiagnosticRunAnalysisStateInProgress else drt_analysisState st)\<rparr>"

definition mark_in_progress :: "db_faults \<Rightarrow> string \<Rightarrow> time \<Rightarrow> database \<Rightarrow> database" where
  "mark_in_progress flt run t d = snd (db_exec flt ''requests in progress'' (update_requests
     (\<lambda>q. q_run q = run \<and> (q_status q = ''pending'' \<or> q_status q = ''dispatched''))
     (\<lambda>q. q\<lparr>q_status := ''in_progress'', q_dispatchedAt := Some (rfc3339 t)\<rparr>)) d)"

text \<open>
  The reply, the messages for the hub, whether the goroutine \<open>dispatchAnalysis\<close> is started, and the new state.
\<close>

definition ReceiveEvidence :: "'w internal \<Rightarrow> json_texts \<Rightarrow> db_faults \<Rightarrow> string \<Rightarrow> time \<Rightarrow> go_error + evidence_request \<Rightarrow> database \<times> 'w \<Rightarrow>
    (string \<times> string) list reply \<times> hub_message list \<times> bool \<times> database \<times> 'w" where
  "ReceiveEvidence h js flt evidenceID now body = (\<lambda>(d, w). case body of
     Inl e \<Rightarrow> (writeError 400 (Text ''invalid JSON body''), [], False, d, w)
   | Inr req \<Rightarrow>
       if er_runID req = [] then (writeError 400 (Text ''diagnosticRunId is required''), [], False, d, w)
       else (case db_exec flt ''insert evidence'' (insert_evidence (evidence_row_of js evidenceID now req)) d of
           (Inl e, d1) \<Rightarrow> (writeError 500 (With_error ''inserting evidence: '' e), [], False, d1, w)
         | (Inr _, d1) \<Rightarrow>
             (let dispatch = in_gatewayURL h \<noteq> [];
                  d2 = (if dispatch then mark_in_progress flt (er_runID req) now d1 else d1);
                  w1 = (case api_get (bk_runs (in_backend h)) (in_namespace h) (er_runID req) w of
                      Inl e \<Rightarrow> w
                    | Inr dr \<Rightarrow> snd (api_status_patch (bk_runs (in_backend h)) dr
                        (dr\<lparr>dr_status := evidence_received dispatch evidenceID now req (dr_status dr)\<rparr>) w))
              in (writeJSON 201 [(''evidenceId'', evidenceID)],
                  if dispatch \<and> in_hub h then [Analysis_InProgress (er_runID req)] else [], dispatch, d2, w1))))"

section \<open>The analysis\<close>

definition patchAnalysisState :: "'w internal \<Rightarrow> db_faults \<Rightarrow> string \<Rightarrow> string \<Rightarrow> string \<Rightarrow> time \<Rightarrow> database \<times> 'w \<Rightarrow>
    hub_message list \<times> database \<times> 'w" where
  "patchAnalysisState h flt drName state resultRef t = (\<lambda>(d, w).
     let d1 = snd (db_exec flt ''settle requests'' (update_requests (\<lambda>q. q_run q = drName)
               (\<lambda>q. q\<lparr>q_status := state, q_completedAt := Some (rfc3339 t)\<rparr>)) d);
         w1 = (case api_get (bk_runs (in_backend h)) (in_namespace h) drName w of
             Inl e \<Rightarrow> w
           | Inr dr \<Rightarrow> snd (api_status_patch (bk_runs (in_backend h)) dr
               (dr\<lparr>dr_status := (dr_status dr)\<lparr>drt_analysisState := state,
                  drt_analysisResultRef := (if resultRef \<noteq> [] then resultRef else drt_analysisResultRef (dr_status dr))\<rparr>\<rparr>) w))
     in (if state = DiagnosticRunAnalysisStateFailed \<and> in_hub h then [Analysis_Failed drName] else [], d1, w1))"

definition prior_count :: "db_faults \<Rightarrow> string \<Rightarrow> database \<Rightarrow> int" where
  "prior_count flt incidentID d = (if incidentID = [] then 0
     else case db_query flt ''count results'' (int (length (filter (\<lambda>r. r_incident r = Some incidentID) (db_results d)))) of
       Inl e \<Rightarrow> 0 | Inr n \<Rightarrow> n)"

definition incident_source :: "'w internal \<Rightarrow> string \<Rightarrow> 'w \<Rightarrow> string" where
  "incident_source h incidentID w = (if incidentID = [] then ''auto''
     else case api_get (bk_incidents (in_backend h)) (in_namespace h) incidentID w of
       Inl e \<Rightarrow> ''auto'' | Inr inc \<Rightarrow> if ins_source (inc_spec inc) \<noteq> [] then ins_source (inc_spec inc) else ''auto'')"

definition triggering_settings :: "db_faults \<Rightarrow> string \<Rightarrow> database \<Rightarrow> string \<times> attrs" where
  "triggering_settings flt run d =
     (case db_query flt ''select triggered_by'' (find (\<lambda>q. q_run q = run) (db_requests d)) of
        Inr (Some q) \<Rightarrow>
          (case q_triggeredBy q of
             Some u \<Rightarrow> if u = [] then ([], [])
               else (case db_query flt ''select llm settings'' (find_llm u d) of
                   Inr (Some l) \<Rightarrow> (l_provider l, l_credentials l) | _ \<Rightarrow> ([], []))
           | None \<Rightarrow> ([], []))
      | _ \<Rightarrow> ([], []))"

text \<open>\<open>json.Unmarshal\<close> into a \<open>bool\<close> that starts as false.\<close>

definition json_true :: "string \<Rightarrow> bool" where
  "json_true s \<longleftrightarrow> rev (dropWhile is_json_space (rev (dropWhile is_json_space s))) = ''true''"

definition persona_enabled :: "'w internal \<Rightarrow> db_faults \<Rightarrow> database \<Rightarrow> bool" where
  "persona_enabled h flt d = (in_personaAllowed h \<and> (case SettingGet flt ''persona.enabled'' d of Inl e \<Rightarrow> False | Inr v \<Rightarrow> json_true v))"

definition gateway_request :: "'w internal \<Rightarrow> db_faults \<Rightarrow> string \<Rightarrow> evidence_request \<Rightarrow> attrs \<Rightarrow> database \<times> 'w \<Rightarrow> llm_request" where
  "gateway_request h flt evidenceID req payload = (\<lambda>(d, w). case triggering_settings flt (er_runID req) d of (provider, credentials) \<Rightarrow>
     \<lparr>lq_evidenceID = evidenceID, lq_runID = er_runID req, lq_incidentID = er_incidentID req,
      lq_incidentSource = incident_source h (er_incidentID req) w, lq_reanalysisCount = prior_count flt (er_incidentID req) d,
      lq_moodLevel = (case in_mood h of None \<Rightarrow> 0 | Some s \<Rightarrow> GetMoodLevel s w),
      lq_userMessage = string_or_empty (any_idx payload ''userMessage''), lq_provider = provider, lq_credentials = credentials,
      lq_personaEnabled = persona_enabled h flt d, lq_payload = payload\<rparr>)"

definition result_row_of :: "json_texts \<Rightarrow> string \<Rightarrow> string \<Rightarrow> time \<Rightarrow> evidence_request \<Rightarrow> llm_response \<Rightarrow> result_row" where
  "result_row_of js analysisID provider now req result =
     \<lparr>r_id = analysisID, r_incident = nullStr (er_incidentID req), r_run = er_runID req, r_model = lr_model result,
      r_runtime = (if provider = [] then ''bedrock'' else provider), r_status = ''completed'', r_rootCause = Some (lr_rootCause result),
      r_confidence = Some (lr_confidence result), r_payload = lr_json result, r_prompt = nullStr (lr_prompt result),
      r_needsMoreInfo = (if lr_needsMoreInfo result then 1 else 0), r_suggested = nullBytes (js_suggested js (lr_suggested result)),
      r_createdAt = sqlite_datetime now, r_rating = None\<rparr>"

definition dispatchAnalysis :: "'w internal \<Rightarrow> json_texts \<Rightarrow> (llm_request \<Rightarrow> gateway_reply) \<Rightarrow> db_faults \<Rightarrow> string \<Rightarrow> time \<Rightarrow> string \<Rightarrow>
    evidence_request \<Rightarrow> database \<times> 'w \<Rightarrow> hub_message list \<times> database \<times> 'w" where
  "dispatchAnalysis h js gateway flt analysisID now evidenceID req s =
     (let fail = patchAnalysisState h flt (er_runID req) DiagnosticRunAnalysisStateFailed [] now s
      in case js_payload js (er_payload req) of
        Inl e \<Rightarrow> fail
      | Inr payload \<Rightarrow>
          (let body = gateway_request h flt evidenceID req payload s
           in case js_request js body of
                Some e \<Rightarrow> ([], s)
              | None \<Rightarrow>
                  (case gateway body of
                     Gw_failed e \<Rightarrow> fail
                   | Gw_reply code decoded \<Rightarrow>
                       if code \<noteq> 200 then fail
                       else (case decoded of
                           Inl e \<Rightarrow> fail
                         | Inr result \<Rightarrow>
                             (case db_exec flt ''insert result'' (insert_result (result_row_of js analysisID (lq_provider body) now req result)) (fst s) of
                                (Inl e, d1) \<Rightarrow> patchAnalysisState h flt (er_runID req) DiagnosticRunAnalysisStateFailed [] now (d1, snd s)
                              | (Inr _, d1) \<Rightarrow>
                                  (case patchAnalysisState h flt (er_runID req) DiagnosticRunAnalysisStateCompleted analysisID now (d1, snd s) of
                                     (msgs, s2) \<Rightarrow>
                                       (msgs @ (if in_hub h then [Analysis_Completed (er_runID req) analysisID (er_incidentID req) (lr_rootCause result)
                                          (lr_confidence result) (lr_needsMoreInfo result) (lr_suggested result) (lr_exclusionRule result)] else []), s2)))))))"

section \<open>Recovery\<close>

definition RecoverPendingRequests :: "db_faults \<Rightarrow> (string \<Rightarrow> time) \<Rightarrow> database \<Rightarrow> go_error option \<times> database" where
  "RecoverPendingRequests flt clock d =
     (case db_query flt ''select pending'' (map q_id (filter (\<lambda>q. q_status q = ''pending'') (db_requests d))) of
        Inl e \<Rightarrow> (Some e, d)
      | Inr ids \<Rightarrow> (None, fold (\<lambda>i d. snd (db_exec flt (''recover '' @ i) (update_requests (\<lambda>q. q_id q = i \<and> q_status q = ''pending'')
          (\<lambda>q. q\<lparr>q_status := ''dispatched'', q_dispatchedAt := Some (rfc3339 (clock i))\<rparr>)) d)) ids d))"

section \<open>Reading analyses\<close>

text \<open>What \<open>json_extract\<close> finds in a stored answer.\<close>

record payload_fields =
  pf_confidence :: "int option"
  pf_falsePositive :: "int option"
  pf_exclusionRule :: "string option"

definition str_or_empty :: "string option \<Rightarrow> string" where
  "str_or_empty v = (case v of None \<Rightarrow> [] | Some s \<Rightarrow> s)"

definition coalesce :: "'a option \<Rightarrow> 'a option \<Rightarrow> 'a option" where
  "coalesce a b = (case a of None \<Rightarrow> b | Some _ \<Rightarrow> a)"

record analysis_view =
  av_id :: string
  av_incidentID :: string
  av_runID :: string
  av_model :: string
  av_status :: string
  av_rootCause :: string
  av_confidence :: int
  av_payload :: any
  av_rating :: string
  av_createdAt :: string

definition payload_value :: "(string \<Rightarrow> go_error + any) \<Rightarrow> string \<Rightarrow> any" where
  "payload_value unmarshal s = (case unmarshal s of Inl e \<Rightarrow> ANil | Inr v \<Rightarrow> v)"

definition analysis_view_of :: "(string \<Rightarrow> payload_fields) \<Rightarrow> (string \<Rightarrow> go_error + any) \<Rightarrow> result_row \<Rightarrow> analysis_view" where
  "analysis_view_of extract unmarshal r =
     \<lparr>av_id = r_id r, av_incidentID = str_or_empty (r_incident r), av_runID = r_run r, av_model = r_model r, av_status = r_status r,
      av_rootCause = str_or_empty (r_rootCause r),
      av_confidence = (case coalesce (pf_confidence (extract (r_payload r))) (r_confidence r) of None \<Rightarrow> 0 | Some x \<Rightarrow> x),
      av_payload = payload_value unmarshal (r_payload r), av_rating = str_or_empty (r_rating r), av_createdAt = r_createdAt r\<rparr>"

definition result_reply :: "(string \<Rightarrow> payload_fields) \<Rightarrow> (string \<Rightarrow> go_error + any) \<Rightarrow> string \<Rightarrow> go_error + result_row option \<Rightarrow> analysis_view reply" where
  "result_reply extract unmarshal missing row = (case row of
     Inl e \<Rightarrow> writeError 500 (With_error [] e)
   | Inr None \<Rightarrow> writeError 404 (Text missing)
   | Inr (Some r) \<Rightarrow> writeJSON 200 (analysis_view_of extract unmarshal r))"

definition GetAnalysisResult :: "(string \<Rightarrow> payload_fields) \<Rightarrow> (string \<Rightarrow> go_error + any) \<Rightarrow> db_faults \<Rightarrow> string \<Rightarrow> database \<Rightarrow> analysis_view reply" where
  "GetAnalysisResult extract unmarshal flt ident d = result_reply extract unmarshal ''analysis result not found''
     (db_query flt ''select result'' (find (\<lambda>r. r_id r = ident) (db_results d)))"

record evidence_view =
  vv_id :: string
  vv_runID :: string
  vv_incidentID :: "string option"
  vv_collectedAt :: string
  vv_collectorVersion :: string
  vv_payload :: any
  vv_createdAt :: string

definition evidence_reply :: "(string \<Rightarrow> go_error + any) \<Rightarrow> bool \<Rightarrow> string \<Rightarrow> go_error + evidence_row option \<Rightarrow> evidence_view reply" where
  "evidence_reply unmarshal withIncident missing row = (case row of
     Inl e \<Rightarrow> writeError 500 (With_error [] e)
   | Inr None \<Rightarrow> writeError 404 (Text missing)
   | Inr (Some e) \<Rightarrow> writeJSON 200 \<lparr>vv_id = e_id e, vv_runID = e_run e,
       vv_incidentID = (if withIncident then Some (str_or_empty (e_incident e)) else None), vv_collectedAt = e_collectedAt e,
       vv_collectorVersion = e_collectorVersion e, vv_payload = payload_value unmarshal (e_payload e), vv_createdAt = e_createdAt e\<rparr>)"

definition Analysis_GetEvidence :: "(string \<Rightarrow> go_error + any) \<Rightarrow> db_faults \<Rightarrow> string \<Rightarrow> string \<Rightarrow> database \<Rightarrow> evidence_view reply" where
  "Analysis_GetEvidence unmarshal flt defaultNS ident d = (case namespacedName ident defaultNS of (_, name) \<Rightarrow>
     evidence_reply unmarshal False ''no evidence found''
       (db_query flt ''select evidence'' (latest e_createdAt (filter (\<lambda>e. e_incident e = Some name) (db_evidence d)))))"

record rating_view =
  rv_id :: string
  rv_incidentID :: string
  rv_rootCause :: string
  rv_confidence :: int
  rv_rating :: string

definition update_rating :: "string \<Rightarrow> string \<Rightarrow> database \<Rightarrow> (go_error + nat) \<times> database" where
  "update_rating ident rating d = (if Some rating \<notin> set rating_check then (Inl (check_violation ''user_rating''), d) else (Inr (length (filter (\<lambda>r. r_id r = ident) (db_results d))),
     d\<lparr>db_results := map (\<lambda>r. if r_id r = ident then r\<lparr>r_rating := Some rating\<rparr> else r) (db_results d)\<rparr>))"

definition RateAnalysisResult :: "db_faults \<Rightarrow> string \<Rightarrow> go_error + string \<Rightarrow> database \<Rightarrow> rating_view reply \<times> database" where
  "RateAnalysisResult flt ident body d = (case body of
     Inl e \<Rightarrow> (writeError 400 (Text ''invalid JSON body''), d)
   | Inr rating \<Rightarrow>
       if rating \<noteq> ''up'' \<and> rating \<noteq> ''down'' then (writeError 400 (Text (''rating must be 'up' or 'down'' @ [CHR 0x27])), d)
       else (case db_exec flt ''rate result'' (update_rating ident rating) d of
           (Inl e, d') \<Rightarrow> (writeError 500 (With_error [] e), d')
         | (Inr n, d') \<Rightarrow>
             if n = 0 then (writeError 404 (Text ''analysis result not found''), d')
             else (case db_query flt ''select rated'' (find (\<lambda>r. r_id r = ident) (db_results d')) of
                 Inr (Some r) \<Rightarrow> (writeJSON 200 \<lparr>rv_id = r_id r, rv_incidentID = str_or_empty (r_incident r), rv_rootCause = str_or_empty (r_rootCause r),
                   rv_confidence = (case r_confidence r of None \<Rightarrow> 0 | Some x \<Rightarrow> x), rv_rating = str_or_empty (r_rating r)\<rparr>, d')
               | _ \<Rightarrow> (writeJSON 200 \<lparr>rv_id = [], rv_incidentID = [], rv_rootCause = [], rv_confidence = 0, rv_rating = []\<rparr>, d'))))"

section \<open>Diagnostic runs\<close>

record run_view =
  rw_run :: diagnostic_run
  rw_triggeredBy :: "(string \<times> string) option"

text \<open>The left join of the first request of a run with the user that triggered it.\<close>

definition attribution :: "db_faults \<Rightarrow> string \<Rightarrow> database \<Rightarrow> (string \<times> string) option" where
  "attribution flt run d = (case db_query flt ''select attribution'' (find (\<lambda>q. q_run q = run) (db_requests d)) of
     Inr (Some q) \<Rightarrow>
       (case q_triggeredBy q of
          Some u \<Rightarrow> if u = [] then None else Some (u, case find_user u d of None \<Rightarrow> [] | Some x \<Rightarrow> u_username x)
        | None \<Rightarrow> None)
   | _ \<Rightarrow> None)"

definition Runs_Get :: "'w backend_client \<Rightarrow> db_faults \<Rightarrow> string \<Rightarrow> string \<Rightarrow> database \<times> 'w \<Rightarrow> run_view reply" where
  "Runs_Get b flt defaultNS ident = (\<lambda>(d, w). case namespacedName ident defaultNS of (ns, name) \<Rightarrow>
     (case api_get (bk_runs b) ns name w of
        Inl err \<Rightarrow> if is_not_found err then writeError 404 (Text ''diagnosticrun not found'') else writeError 500 (With_error [] err)
      | Inr dr \<Rightarrow> writeJSON 200 \<lparr>rw_run = dr, rw_triggeredBy = attribution flt name d\<rparr>))"

record run_summary =
  rm_runID :: string
  rm_incidentID :: string
  rm_problemCaseRef :: string
  rm_requestedAt :: string
  rm_status :: string
  rm_resultID :: "string option"
  rm_rootCause :: "string option"
  rm_confidence :: "int option"
  rm_model :: "string option"
  rm_createdAt :: "string option"
  rm_needsMoreInfo :: "bool option"
  rm_suggested :: "string option"
  rm_falsePositive :: bool
  rm_exclusionRule :: "string option"

text \<open>The state of the run on the cluster overrides the state of the request once the analysis has begun.\<close>

definition shown_status :: "diagnostic_run \<Rightarrow> string \<Rightarrow> string" where
  "shown_status dr status = (let a = drt_analysisState (dr_status dr)
     in if a \<in> {DiagnosticRunAnalysisStateInProgress, DiagnosticRunAnalysisStateCompleted, DiagnosticRunAnalysisStateFailed} then a else status)"

definition summary_of :: "'w backend_client \<Rightarrow> (string \<Rightarrow> payload_fields) \<Rightarrow> string \<Rightarrow> database \<times> 'w \<Rightarrow> request_row \<Rightarrow> run_summary" where
  "summary_of b extract defaultNS = (\<lambda>(d, w) q.
     let res = latest r_createdAt (filter (\<lambda>r. r_run r = q_run q) (db_results d));
         fields = map_option (\<lambda>r. extract (r_payload r)) res;
         dr = api_get (bk_runs b) defaultNS (q_run q) w
     in \<lparr>rm_runID = q_run q, rm_incidentID = str_or_empty (q_incident q),
         rm_problemCaseRef = (case dr of Inl e \<Rightarrow> [] | Inr x \<Rightarrow> drs_problemCaseRef (dr_spec x)), rm_requestedAt = q_requestedAt q,
         rm_status = (case dr of Inl e \<Rightarrow> q_status q | Inr x \<Rightarrow> shown_status x (q_status q)),
         rm_resultID = map_option r_id res, rm_rootCause = Option.bind res r_rootCause,
         rm_confidence = Option.bind res (\<lambda>r. coalesce (pf_confidence (extract (r_payload r))) (r_confidence r)),
         rm_model = map_option r_model res, rm_createdAt = map_option r_createdAt res,
         rm_needsMoreInfo = map_option (\<lambda>r. r_needsMoreInfo r \<noteq> 0) res,
         rm_suggested = Option.bind res (\<lambda>r. if r_suggested r = Some [] then None else r_suggested r),
         rm_falsePositive = (case Option.bind fields pf_falsePositive of None \<Rightarrow> False | Some n \<Rightarrow> n \<noteq> 0),
         rm_exclusionRule = (case Option.bind fields pf_exclusionRule of None \<Rightarrow> None | Some s \<Rightarrow> if s = [] \<or> s = ''null'' then None else Some s)\<rparr>)"

text \<open>\<open>ORDER BY requested_at DESC\<close>, rows with the same time stamp in the order of insertion.\<close>

definition newest_first :: "request_row list \<Rightarrow> request_row list" where
  "newest_first qs = rev (sort_key q_requestedAt (rev qs))"

definition Runs_List :: "'w backend_client \<Rightarrow> (string \<Rightarrow> payload_fields) \<Rightarrow> db_faults \<Rightarrow> string \<Rightarrow> string \<Rightarrow> database \<times> 'w \<Rightarrow> run_summary list reply" where
  "Runs_List b extract flt defaultNS incidentID s =
     (case db_query flt ''select runs'' (take 100 (newest_first
         (filter (\<lambda>q. incidentID = [] \<or> q_incident q = Some incidentID) (db_requests (fst s))))) of
        Inl e \<Rightarrow> writeError 500 (With_error [] e)
      | Inr rows \<Rightarrow> writeJSON 200 (map (summary_of b extract defaultNS s) rows))"

definition Runs_GetEvidence :: "(string \<Rightarrow> go_error + any) \<Rightarrow> db_faults \<Rightarrow> string \<Rightarrow> database \<Rightarrow> evidence_view reply" where
  "Runs_GetEvidence unmarshal flt run d = evidence_reply unmarshal True ''no evidence found for this diagnostic run''
     (db_query flt ''select evidence'' (latest e_createdAt (filter (\<lambda>e. e_run e = run) (db_evidence d))))"

definition Runs_GetAnalysisResult :: "(string \<Rightarrow> payload_fields) \<Rightarrow> (string \<Rightarrow> go_error + any) \<Rightarrow> db_faults \<Rightarrow> string \<Rightarrow> database \<Rightarrow> analysis_view reply" where
  "Runs_GetAnalysisResult extract unmarshal flt run d = result_reply extract unmarshal ''no analysis result found for this diagnostic run''
     (db_query flt ''select result'' (latest r_createdAt (filter (\<lambda>r. r_run r = run) (db_results d))))"

section \<open>Deleting runs\<close>

definition run_deletions :: "string \<Rightarrow> (string \<times> (database \<Rightarrow> database)) list" where
  "run_deletions run =
     [(''delete results '' @ run, \<lambda>d. d\<lparr>db_results := filter (\<lambda>r. r_run r \<noteq> run) (db_results d)\<rparr>),
      (''delete requests '' @ run, \<lambda>d. d\<lparr>db_requests := filter (\<lambda>q. q_run q \<noteq> run) (db_requests d)\<rparr>),
      (''delete evidence '' @ run, \<lambda>d. d\<lparr>db_evidence := filter (\<lambda>e. e_run e \<noteq> run) (db_evidence d)\<rparr>)]"

text \<open>Statements of a transaction, up to the first error.\<close>

fun exec_all :: "db_faults \<Rightarrow> (string \<times> (database \<Rightarrow> database)) list \<Rightarrow> database \<Rightarrow> go_error + database" where
  "exec_all flt [] d = Inr d"
| "exec_all flt ((label, f) # stmts) d = (case flt label of Some e \<Rightarrow> Inl e | None \<Rightarrow> exec_all flt stmts (f d))"

definition deleteRunFromDB :: "db_faults \<Rightarrow> string \<Rightarrow> database \<Rightarrow> go_error + database" where
  "deleteRunFromDB flt run d = exec_all flt (run_deletions run) d"

fun delete_runs :: "db_faults \<Rightarrow> string list \<Rightarrow> database \<Rightarrow> go_error + database" where
  "delete_runs flt [] d = Inr d"
| "delete_runs flt (run # runs) d = (case deleteRunFromDB flt run d of Inl e \<Rightarrow> Inl e | Inr d' \<Rightarrow> delete_runs flt runs d')"

text \<open>\<open>BeginTx\<close>, the statements, \<open>Commit\<close>; an error on the way rolls back.\<close>

definition transaction :: "db_faults \<Rightarrow> (database \<Rightarrow> go_error + database) \<Rightarrow> 'b reply \<Rightarrow> database \<Rightarrow> 'b reply \<times> database" where
  "transaction flt body done' d = (case flt ''begin'' of
     Some e \<Rightarrow> (writeError 500 (With_error [] e), d)
   | None \<Rightarrow> (case body d of
       Inl e \<Rightarrow> (writeError 500 (With_error [] e), d)
     | Inr d' \<Rightarrow> (case flt ''commit'' of Some e \<Rightarrow> (writeError 500 (With_error [] e), d) | None \<Rightarrow> (done', d'))))"

definition Runs_Delete :: "db_faults \<Rightarrow> string \<Rightarrow> database \<Rightarrow> unit reply \<times> database" where
  "Runs_Delete flt run d = transaction flt (deleteRunFromDB flt run) (writeJSON 204 ()) d"

definition BulkDelete :: "db_faults \<Rightarrow> go_error + string list \<Rightarrow> database \<Rightarrow> int reply \<times> database" where
  "BulkDelete flt body d = (case body of
     Inl e \<Rightarrow> (writeError 400 (Text ''body must be {\"ids\":[\"...\"]}''), d)
   | Inr runs \<Rightarrow>
       if runs = [] then (writeError 400 (Text ''body must be {\"ids\":[\"...\"]}''), d)
       else transaction flt (delete_runs flt runs) (writeJSON 200 (int (length runs))) d)"

end
