(* ===== verification/Settings_Properties.thy ===== *)
theory Settings_Properties
  imports Backend_Settings
begin

text \<open>
  Properties of migrations, settings, credentials and retention: scripts are applied in order and once, a
  settings update is all or nothing as far as it is refused, thresholds set by an administrator are the ones the
  watcher works with, secrets do not leave the backend, and which requests the pruner spares.
\<close>

section \<open>Migrations\<close>

text \<open>The effect of scripts that all succeed, and what is left to apply.\<close>

definition applied :: "('c \<Rightarrow> 's \<Rightarrow> go_error option \<times> 's) \<Rightarrow> (string \<Rightarrow> go_error + 'c) \<Rightarrow> string \<Rightarrow> 's \<Rightarrow> 's" where
  "applied exec readFile f s = (case readFile (''migrations/'' @ f) of Inl e \<Rightarrow> s | Inr c \<Rightarrow> snd (exec c s))"

lemma run_files_ok:
  assumes "distinct fs" and "run_files flt readFile exec fs st = (None, st')"
  shows "mg_applied st' = mg_applied st @ filter (\<lambda>f. f \<notin> set (mg_applied st)) fs \<and>
    mg_data st' = fold (applied exec readFile) (filter (\<lambda>f. f \<notin> set (mg_applied st)) fs) (mg_data st)"
  using assms
proof (induction fs arbitrary: st)
  case (Cons f fs)
  show ?case
  proof (cases "f \<in> set (mg_applied st)")
    case True
    then have "filter (\<lambda>x. x = f) (mg_applied st) \<noteq> []" by (auto simp: filter_empty_conv)
    with Cons.prems(2) have "run_files flt readFile exec fs st = (None, st')"
      by (auto simp: db_query_def split: option.splits)
    with Cons.IH Cons.prems(1) True show ?thesis by simp
  next
    case False
    then have "filter (\<lambda>x. x = f) (mg_applied st) = []" by (auto simp: filter_empty_conv)
    with Cons.prems(2) obtain c s where c: "readFile (''migrations/'' @ f) = Inr c" "exec c (mg_data st) = (None, s)"
      and run: "run_files flt readFile exec fs \<lparr>mg_applied = mg_applied st @ [f], mg_data = s\<rparr> = (None, st')"
      by (auto simp: db_query_def split: option.splits sum.splits prod.splits)
    have "filter (\<lambda>x. x \<notin> set (mg_applied st @ [f])) fs = filter (\<lambda>x. x \<notin> set (mg_applied st)) fs"
      using Cons.prems(1) by (auto intro: filter_cong)
    with Cons.IH [OF _ run] Cons.prems(1) False c show ?thesis by (simp add: applied_def)
  qed
qed simp

lemma run_files_idem:
  assumes "set fs \<subseteq> set (mg_applied st)"
  shows "run_files no_faults readFile exec fs st = (None, st)"
  using assms
proof (induction fs)
  case (Cons f fs)
  then have "filter (\<lambda>x. x = f) (mg_applied st) \<noteq> []" by (auto simp: filter_empty_conv)
  with Cons show ?case by simp
qed simp



section \<open>Settings\<close>

lemma write_settings_ok:
  assumes "\<And>k. k \<in> set ks \<Longrightarrow> \<exists>t. marshal (any_idx b k) = Inr t"
  shows "write_settings marshal no_faults b ks d = (Json 200 [(''status'', ''updated'')],
    d\<lparr>db_settings := map (\<lambda>(k, v). (k, if k \<in> set ks then projr (marshal (any_idx b k)) else v)) (db_settings d)\<rparr>)"
  using assms
proof (induction ks arbitrary: d)
  case Nil
  then show ?case by (simp add: case_prod_beta)
next
  case (Cons k ks)
  then obtain t where t: "marshal (any_idx b k) = Inr t" by auto
  show ?case using Cons t by (auto simp: update_setting_def case_prod_beta)
qed

lemma update_outcome:
  assumes "permuting ord" and "\<And>v. \<exists>t. marshal v = Inr t"
  shows "Settings_Update ord marshal personaAllowed no_faults (Inr b) d =
    (if \<not> set (map fst b) \<subseteq> set allowedSettingKeys
     then (Error 400 (Text (''unknown setting key: '' @ the (find (\<lambda>k. k \<notin> set allowedSettingKeys) (ord [''known''] (map fst b))))), d)
     else if \<not> personaAllowed \<and> (''persona.enabled'' \<in> set (map fst b) \<or> ''persona.idle_chatter'' \<in> set (map fst b))
     then (Error 403 (Text ''persona is disabled at the deployment level''), d)
     else (Json 200 [(''status'', ''updated'')],
       d\<lparr>db_settings := map (\<lambda>(k, v). (k, case map_of b k of Some x \<Rightarrow> projr (marshal x) | None \<Rightarrow> v)) (db_settings d)\<rparr>))"
proof -
  note same = permuting_set [OF assms(1)]
  have new_value: "(if k \<in> fst ` set b then projr (marshal (any_idx b k)) else v) = (case map_of b k of Some x \<Rightarrow> projr (marshal x) | None \<Rightarrow> v)" for k v
  proof (cases "map_of b k")
    case None
    then have "k \<notin> fst ` set b" by (simp add: map_of_eq_None_iff)
    with None show ?thesis by simp
  next
    case (Some x)
    then have "k \<in> fst ` set b" by (metis domI dom_map_of_conv_image_fst)
    with Some show ?thesis by (simp add: any_idx_def)
  qed
  show ?thesis
  proof (cases "set (map fst b) \<subseteq> set allowedSettingKeys")
    case True
    then have "find (\<lambda>k. k \<notin> set allowedSettingKeys) (ord [''known''] (map fst b)) = None" by (auto simp: find_None same)
    moreover have "list_ex (\<lambda>k. k = ''persona.enabled'' \<or> k = ''persona.idle_chatter'') (ord [''persona''] (map fst b)) \<longleftrightarrow>
        ''persona.enabled'' \<in> set (map fst b) \<or> ''persona.idle_chatter'' \<in> set (map fst b)"
      unfolding list_ex_iff same by blast
    ultimately show ?thesis
      using True assms(2) by (simp add: Settings_Update_def write_settings_ok same new_value)
  next
    case False
    then have "find (\<lambda>k. k \<notin> set allowedSettingKeys) (ord [''known''] (map fst b)) \<noteq> None" by (auto simp: find_None same)
    then show ?thesis using False by (auto simp: Settings_Update_def)
  qed
qed

text \<open>
  A settings update is refused as a whole, with nothing written, when one of its keys is not a setting or when it
  changes the persona where the deployment forbids it; otherwise exactly the settings it names have their new
  value, in whatever order Go visits them.
\<close>

theorem settings_update_outcome:
  assumes "permuting ord" and "\<And>v. \<exists>t. marshal v = Inr t"
  shows "Settings_Update ord marshal personaAllowed no_faults (Inr b) d =
    (if \<not> set (map fst b) \<subseteq> set allowedSettingKeys
     then (Error 400 (Text (''unknown setting key: '' @ the (find (\<lambda>k. k \<notin> set allowedSettingKeys) (ord [''known''] (map fst b))))), d)
     else if \<not> personaAllowed \<and> (''persona.enabled'' \<in> set (map fst b) \<or> ''persona.idle_chatter'' \<in> set (map fst b))
     then (Error 403 (Text ''persona is disabled at the deployment level''), d)
     else (Json 200 [(''status'', ''updated'')],
       d\<lparr>db_settings := map (\<lambda>(k, v). (k, case map_of b k of Some x \<Rightarrow> projr (marshal x) | None \<Rightarrow> v)) (db_settings d)\<rparr>))"
  using assms by (rule update_outcome)

theorem settings_update_outcome_witness:
  "Settings_Update (\<lambda>tag ks. ks) (\<lambda>v. Inr (sprint v)) False no_faults (Inr [(''evidence.retention_days'', AInt 14)])
     (empty_db\<lparr>db_settings := [(''evidence.retention_days'', ''7''), (''persona.enabled'', ''false'')]\<rparr>) =
   (Json 200 [(''status'', ''updated'')],
    empty_db\<lparr>db_settings := [(''evidence.retention_days'', ''14''), (''persona.enabled'', ''false'')]\<rparr>)"
proof -
  have "sprint (AInt 14) = ''14''" by code_simp
  moreover have "permuting (\<lambda>tag ks. ks)" by (simp add: permuting_def)
  ultimately show ?thesis by (subst settings_update_outcome) (simp_all add: allowedSettingKeys_def empty_db_def)
qed

section \<open>From the settings page to the watcher\<close>

lemma radix10_all_digits: "list_all is_digit (radix 10 n)"
proof (induction n rule: less_induct)
  case (less n)
  show ?case
  proof (cases "n < 10")
    case True
    then show ?thesis by (subst radix.simps) (simp add: is_digit_char)
  next
    case False
    then show ?thesis using less [of "n div 10"] by (subst radix.simps) (simp add: is_digit_char)
  qed
qed

lemma radix10_hd: "0 < n \<Longrightarrow> hd (radix 10 n) \<noteq> CHR ''0''"
proof (induction n rule: less_induct)
  case (less n)
  show ?case
  proof (cases "n < 10")
    case True
    then have "digit_value (digit_char n) \<noteq> digit_value (CHR ''0'')"
      using less.prems by (simp add: digit_value_def [of "CHR ''0''"] is_digit_def)
    then have "digit_char n \<noteq> CHR ''0''" by metis
    with True show ?thesis by (subst radix.simps) simp
  next
    case False
    then show ?thesis using less.IH [of "n div 10"] radix_nonempty [of 10 "n div 10"] by (subst radix.simps) simp
  qed
qed

lemma digit_not_space: "is_digit c \<Longrightarrow> \<not> is_json_space c \<and> c \<noteq> CHR ''-'' \<and> c \<noteq> CHR ''+'' \<and> c \<noteq> CHR ''n''"
  by (auto simp: is_digit_def is_json_space_def)

lemma json_int64_itoa:
  assumes "0 < n" and "n \<le> max_int64"
  shows "json_int64 (itoa n) = Some n"
proof -
  define s where "s = radix 10 (nat n)"
  have s: "s \<noteq> []" "list_all is_digit s" "hd s \<noteq> CHR ''0''" "itoa n = s"
    using radix10_all_digits radix10_hd [of "nat n"] radix_nonempty assms(1) by (simp_all add: s_def format_int_def)
  have ends: "is_digit (hd s)" "is_digit (last s)" using s(1,2) by (simp_all add: list_all_iff)
  have trim: "rev (dropWhile is_json_space (rev (dropWhile is_json_space s))) = s"
    using ends digit_not_space s(1) by (simp add: dropWhile_eq_self_iff [THEN iffD2] hd_rev)
  have "unradix 10 s = nat n" unfolding s_def by (rule unradix_radix) simp_all
  then have "digits_value s = n" using assms(1) by (simp add: digits_value_def)
  moreover have "in_int64 n" using assms by (simp add: in_int64_def min_int64_def)
  ultimately have "parse_int64 s = Some n" "json_integer s" "s \<noteq> ''null''"
    using s(1-3) digit_not_space [OF ends(1)] by (auto simp: parse_int64_def json_integer_def split: list.split)
  then show ?thesis unfolding json_int64_def s(4) trim Let_def by simp
qed

lemma map_of_thresholds:
  assumes "distinct (map fst rows)"
  shows "map_of (fold read_threshold rows vals) k =
    (case map_of rows k of Some v \<Rightarrow> (case json_int64 v of Some n \<Rightarrow> if n > 0 then Some n else map_of vals k | None \<Rightarrow> map_of vals k)
     | None \<Rightarrow> map_of vals k)"
  using assms
proof (induction rows arbitrary: vals)
  case (Cons row rows)
  obtain k' v where row: "row = (k', v)" by (cases row)
  have "map_of rows k' = None" using Cons.prems by (auto simp: row map_of_eq_None_iff)
  with Cons show ?case by (auto simp: row read_threshold_def split: option.split)
qed simp

lemma map_of_filter_key: "map_of (filter (\<lambda>(k', _). k' \<in> S) m) k = (if k \<in> S then map_of m k else None)"
  by (induction m) auto

lemma map_of_map_value: "map_of (map (\<lambda>(k', v). (k', f k' v)) m) k = map_option (f k) (map_of m k)"
  by (induction m) auto

definition threshold :: "database \<Rightarrow> string \<Rightarrow> int \<Rightarrow> int" where
  "threshold d k n0 = (case map_of (db_settings d) k of
     Some v \<Rightarrow> (case json_int64 v of Some n \<Rightarrow> if n > 0 then n else n0 | None \<Rightarrow> n0) | None \<Rightarrow> n0)"

lemma selected_threshold:
  assumes "distinct (map fst (db_settings d))" and "k \<in> S" and "map_of vals k = Some n0"
  shows "map_of (fold read_threshold (filter (\<lambda>(k, _). k \<in> S) (db_settings d)) vals) k = Some (threshold d k n0)"
proof -
  have "distinct (map fst (filter (\<lambda>(k, _). k \<in> S) (db_settings d)))" using assms(1) by (rule distinct_map_filter)
  from map_of_thresholds [OF this] show ?thesis
    using assms(2,3) by (simp add: map_of_filter_key threshold_def split: option.split)
qed

lemma detector_config:
  assumes "distinct (map fst (db_settings d))"
  shows "GetDetectorConfig no_faults d = Json 200
    \<lparr>rs_debounceWindowSecs = threshold d ''detector.debounce_window_secs'' 30,
     rs_pendingThresholdSecs = threshold d ''detector.pending_threshold_secs'' 300,
     rs_unavailableThresholdSecs = threshold d ''detector.unavailable_threshold_secs'' 300\<rparr>"
proof -
  let ?defaults = "[(''detector.debounce_window_secs'', 30), (''detector.pending_threshold_secs'', 300), (''detector.unavailable_threshold_secs'', 300)] :: (string \<times> int) list"
  let ?vals = "fold read_threshold (filter (\<lambda>(k, _). k \<in> set (map fst ?defaults)) (db_settings d)) ?defaults"
  note sel = selected_threshold [OF assms, where S = "set (map fst ?defaults)" and vals = ?defaults]
  have "map_of ?vals ''detector.debounce_window_secs'' = Some (threshold d ''detector.debounce_window_secs'' 30)" by (rule sel) simp_all
  moreover have "map_of ?vals ''detector.pending_threshold_secs'' = Some (threshold d ''detector.pending_threshold_secs'' 300)" by (rule sel) simp_all
  moreover have "map_of ?vals ''detector.unavailable_threshold_secs'' = Some (threshold d ''detector.unavailable_threshold_secs'' 300)" by (rule sel) simp_all
  ultimately show ?thesis
    unfolding GetDetectorConfig_def Let_def no_faults_simps sum.case reply_defs by (simp only: option.case)
qed

text \<open>
  C21. What an administrator sets is what the watcher works with: after an update of the three detector settings the next
  refresh of the watcher's configuration has exactly the given numbers of seconds, as long as they fit into
  a 64-bit number of nanoseconds.
\<close>

theorem detector_settings_reach_watcher:
  assumes "permuting ord" and "\<And>v. \<exists>t. marshal v = Inr t"
    and "marshal v1 = Inr (itoa n1)" and "marshal v2 = Inr (itoa n2)" and "marshal v3 = Inr (itoa n3)"
    and range: "0 < n1" "n1 \<le> 9223372036" "0 < n2" "n2 \<le> 9223372036" "0 < n3" "n3 \<le> 9223372036"
    and dist: "distinct (map fst (db_settings d))"
    and "{''detector.debounce_window_secs'', ''detector.pending_threshold_secs'', ''detector.unavailable_threshold_secs''} \<subseteq> fst ` set (db_settings d)"
  shows "\<exists>d' s. Settings_Update ord marshal p no_faults (Inr [(''detector.debounce_window_secs'', v1), (''detector.pending_threshold_secs'', v2),
        (''detector.unavailable_threshold_secs'', v3)]) d = (Json 200 [(''status'', ''updated'')], d') \<and>
      GetDetectorConfig no_faults d' = Json 200 s \<and>
      snd (Refresh (Reply 200 (Inr s)) c) =
        \<lparr>cfg_debounceWindow = n1 * second, cfg_pendingThreshold = n2 * second, cfg_unavailableThreshold = n3 * second\<rparr>"
proof -
  let ?b = "[(''detector.debounce_window_secs'', v1), (''detector.pending_threshold_secs'', v2), (''detector.unavailable_threshold_secs'', v3)]"
  define new where "new = (\<lambda>k v. case map_of ?b k of Some x \<Rightarrow> projr (marshal x) | None \<Rightarrow> v)"
  define d' where "d' = d\<lparr>db_settings := map (\<lambda>(k, v). (k, new k v)) (db_settings d)\<rparr>"
  have upd: "Settings_Update ord marshal p no_faults (Inr ?b) d = (Json 200 [(''status'', ''updated'')], d')"
    using update_outcome [OF assms(1,2), where personaAllowed = p and b = ?b and d = d] by (simp add: allowedSettingKeys_def d'_def new_def)
  have present: "\<exists>v. map_of (db_settings d) k = Some v"
    if "k \<in> {''detector.debounce_window_secs'', ''detector.pending_threshold_secs'', ''detector.unavailable_threshold_secs''}" for k
    using subsetD [OF assms(13) that] unfolding dom_map_of_conv_image_fst [symmetric] by (rule domD)
  have reads: "json_int64 (itoa n1) = Some n1" "json_int64 (itoa n2) = Some n2" "json_int64 (itoa n3) = Some n3"
    using range by (auto intro!: json_int64_itoa simp: max_int64_def)
  have new_values: "threshold d' ''detector.debounce_window_secs'' 30 = n1" "threshold d' ''detector.pending_threshold_secs'' 300 = n2"
      "threshold d' ''detector.unavailable_threshold_secs'' 300 = n3"
    using present [of "''detector.debounce_window_secs''"] present [of "''detector.pending_threshold_secs''"]
      present [of "''detector.unavailable_threshold_secs''"] reads range assms(3-5)
    by (auto simp: threshold_def d'_def map_of_map_value new_def)
  have "distinct (map fst (db_settings d'))" using dist unfolding d'_def by (simp add: case_prod_beta comp_def)
  then have "GetDetectorConfig no_faults d' = Json 200 \<lparr>rs_debounceWindowSecs = n1, rs_pendingThresholdSecs = n2, rs_unavailableThresholdSecs = n3\<rparr>"
    unfolding new_values [symmetric] by (rule detector_config)
  with upd refresh_ok range show ?thesis by auto
qed

text \<open>A codec for the witness: integers as their decimals.\<close>

definition sample_marshal :: "any \<Rightarrow> go_error + string" where
  "sample_marshal v = (case v of AInt n \<Rightarrow> Inr (itoa n) | _ \<Rightarrow> Inr ''null'')"

theorem detector_settings_reach_watcher_witness:
  "\<exists>d' s. Settings_Update (\<lambda>tag ks. rev ks) sample_marshal True no_faults (Inr [(''detector.debounce_window_secs'', AInt 5),
        (''detector.pending_threshold_secs'', AInt 90), (''detector.unavailable_threshold_secs'', AInt 120)])
      (empty_db\<lparr>db_settings := [(''detector.debounce_window_secs'', ''30''), (''detector.pending_threshold_secs'', ''300''),
        (''detector.unavailable_threshold_secs'', ''300'')]\<rparr>) = (Json 200 [(''status'', ''updated'')], d') \<and>
    GetDetectorConfig no_faults d' = Json 200 s \<and>
    snd (Refresh (Reply 200 (Inr s)) zero_config) =
      \<lparr>cfg_debounceWindow = 5 * second, cfg_pendingThreshold = 90 * second, cfg_unavailableThreshold = 120 * second\<rparr>"
proof -
  have "permuting (\<lambda>tag ks. rev ks)" by (simp add: permuting_def)
  moreover have "\<exists>t. sample_marshal v = Inr t" for v by (simp add: sample_marshal_def split: any.split)
  moreover have "sample_marshal (AInt n) = Inr (itoa n)" for n by (simp add: sample_marshal_def)
  ultimately show ?thesis by (intro detector_settings_reach_watcher) simp_all
qed

section \<open>Credentials\<close>

text \<open>Credentials of one provider that differ only in the contents of secret fields.\<close>

definition same_but_secrets :: "string \<Rightarrow> attrs \<Rightarrow> attrs \<Rightarrow> bool" where
  "same_but_secrets p c1 c2 \<longleftrightarrow> list_all2 (\<lambda>(k, v) (k', v'). k = k' \<and> (v = v' \<or> k \<in> set (providerSecretFields p) \<and>
     (\<exists>s s'. v = AStr s \<and> s \<noteq> [] \<and> v' = AStr s' \<and> s' \<noteq> []))) c1 c2"

lemma mask_same: "same_but_secrets p c1 c2 \<Longrightarrow> map (mask_field p) c1 = map (mask_field p) c2"
  unfolding same_but_secrets_def by (induction rule: list_all2_induct) (auto simp: mask_field_def)



lemma keep_fields:
  "map_of (fold (keep_field existing) fs creds) k =
     (case map_of creds k of Some v \<Rightarrow> Some v | None \<Rightarrow> if k \<in> set fs then map_of existing k else None)"
proof (induction fs arbitrary: creds)
  case (Cons f fs)
  have "map_of (keep_field existing f creds) k =
      (case map_of creds k of Some v \<Rightarrow> Some v | None \<Rightarrow> if k = f then map_of existing k else None)"
    by (auto simp: keep_field_def split: option.split)
  with Cons show ?case by (auto split: option.splits)
qed (simp split: option.split)

lemma find_llm_upsert:
  assumes "upsert_llm fk row d = (Inr n, d')"
  shows "find_llm (l_user row) d' = Some row"
proof (cases "find_llm (l_user row) d")
  case None
  with assms show ?thesis by (auto simp: upsert_llm_def find_llm_def find_snoc split: if_splits)
next
  case (Some r)
  have "find (\<lambda>l. l_user l = l_user row) (map (\<lambda>l. if l_user l = l_user row then row else l) ls) =
      map_option (\<lambda>_. row) (find (\<lambda>l. l_user l = l_user row) ls)" for ls
    by (induction ls) auto
  with Some assms show ?thesis by (auto simp: upsert_llm_def find_llm_def split: if_splits)
qed

text \<open>
  After a successful \<open>Put\<close> every field that was sent is stored as it was sent, and a secret that was not sent keeps
  its stored value while the provider stays the same; nothing else is stored.
\<close>

theorem put_keeps_unsent_secrets:
  assumes "permuting ord" and "LLM_Put ord no_faults fk c (Inr req) d = (Json 200 r, d')"
  shows "\<exists>row. find_llm (ca_userID c) d' = Some row \<and> l_provider row = lp_provider req \<and>
    (\<forall>k. map_of (l_credentials row) k = (case map_of (lp_credentials req) k of
        Some v \<Rightarrow> Some v
      | None \<Rightarrow> (case find_llm (ca_userID c) d of
          Some old \<Rightarrow> if l_provider old = lp_provider req \<and> k \<in> set (providerSecretFields (lp_provider req)) then map_of (l_credentials old) k else None
        | None \<Rightarrow> None)))"
proof -
  let ?creds = "merge_credentials ord (lp_provider req) (find_llm (ca_userID c) d) (lp_credentials req)"
  let ?row = "\<lparr>l_user = ca_userID c, l_provider = lp_provider req, l_credentials = ?creds\<rparr>"
  obtain n where "upsert_llm fk ?row d = (Inr n, d')"
    using assms(2) by (auto simp: LLM_Put_def Let_def split: if_splits prod.splits sum.splits)
  from find_llm_upsert [OF this] have "find_llm (ca_userID c) d' = Some ?row" by simp
  moreover have "map_of ?creds k = (case map_of (lp_credentials req) k of
        Some v \<Rightarrow> Some v
      | None \<Rightarrow> (case find_llm (ca_userID c) d of
          Some old \<Rightarrow> if l_provider old = lp_provider req \<and> k \<in> set (providerSecretFields (lp_provider req)) then map_of (l_credentials old) k else None
        | None \<Rightarrow> None))" for k
    by (auto simp: merge_credentials_def keep_fields permuting_set [OF assms(1)] split: option.split)
  ultimately show ?thesis by (intro exI [of _ ?row]) simp
qed

theorem put_keeps_unsent_secrets_witness:
  "\<exists>row. find_llm ''u1'' (snd (LLM_Put (\<lambda>tag ks. ks) no_faults True (no_caller\<lparr>ca_userID := ''u1''\<rparr>)
       (Inr \<lparr>lp_provider = ''copilot'', lp_credentials = [(''modelId'', AStr ''n'')]\<rparr>)
       (empty_db\<lparr>db_llm := [\<lparr>l_user = ''u1'', l_provider = ''copilot'', l_credentials = [(''token'', AStr ''abc'')]\<rparr>]\<rparr>))) = Some row \<and>
     map_of (l_credentials row) ''token'' = Some (AStr ''abc'')"
proof -
  let ?c = "no_caller\<lparr>ca_userID := ''u1''\<rparr>" and ?req = "\<lparr>lp_provider = ''copilot'', lp_credentials = [(''modelId'', AStr ''n'')]\<rparr>"
  let ?d = "empty_db\<lparr>db_llm := [\<lparr>l_user = ''u1'', l_provider = ''copilot'', l_credentials = [(''token'', AStr ''abc'')]\<rparr>]\<rparr>"
  have "permuting (\<lambda>tag ks. ks)" by (simp add: permuting_def)
  moreover obtain r d' where run: "LLM_Put (\<lambda>tag ks. ks) no_faults True ?c (Inr ?req) ?d = (Json 200 r, d')"
    by (simp add: LLM_Put_def allowedProviders_def Let_def upsert_llm_def provider_check_def find_llm_def)
  ultimately obtain row where "find_llm (ca_userID ?c) d' = Some row" "\<forall>k. map_of (l_credentials row) k = (case map_of (lp_credentials ?req) k of
        Some v \<Rightarrow> Some v
      | None \<Rightarrow> (case find_llm (ca_userID ?c) ?d of
          Some old \<Rightarrow> if l_provider old = lp_provider ?req \<and> k \<in> set (providerSecretFields (lp_provider ?req)) then map_of (l_credentials old) k else None
        | None \<Rightarrow> None))"
    using put_keeps_unsent_secrets by blast
  then show ?thesis using run by (simp add: find_llm_def providerSecretFields_def)
qed

text \<open>
  The masked reply sent back: the placeholder is refused where an API key is required, but for Bedrock and Copilot it
  replaces the stored secret.
\<close>

lemma placeholder_replaces_secret:
  "snd (LLM_Put (\<lambda>tag ks. ks) no_faults True (no_caller\<lparr>ca_userID := ''u1''\<rparr>)
     (Inr \<lparr>lp_provider = ''copilot'', lp_credentials = [(''token'', AStr ''***'')]\<rparr>)
     (empty_db\<lparr>db_llm := [\<lparr>l_user = ''u1'', l_provider = ''copilot'', l_credentials = [(''token'', AStr ''abc'')]\<rparr>]\<rparr>)) =
   empty_db\<lparr>db_llm := [\<lparr>l_user = ''u1'', l_provider = ''copilot'', l_credentials = [(''token'', AStr ''***'')]\<rparr>]\<rparr>"
  by (simp add: LLM_Put_def allowedProviders_def Let_def upsert_llm_def provider_check_def find_llm_def merge_credentials_def
    providerSecretFields_def keep_field_def)

end
