(* ===== verification/Auth_Users.thy ===== *)
theory Auth_Users
  imports Database Worker_Cluster "HOL-Library.Countable"
begin

text \<open>
  Authentication and user management: \<open>backend-api/handler/auth.go\<close> and
  \<open>backend-api/startup/admin_bootstrap.go\<close>. The JWT library and bcrypt are parameters, as is the source of
  random bytes; \<open>jwt_laws\<close> and \<open>bcrypt_laws\<close> state what the code relies on. Environment variables, the
  clock and fresh UUIDs are arguments.
\<close>

section \<open>Tokens\<close>

text \<open>The claims the code reads; a claim that is missing or not a string is \<open>None\<close>.\<close>

record jwt_claims =
  cl_sub :: "string option"
  cl_username :: "string option"
  cl_role :: "string option"
  cl_exp :: int
  cl_iat :: int

record jwt =
  jw_sign :: "string \<Rightarrow> jwt_claims \<Rightarrow> go_error + string"
  jw_parse :: "string \<Rightarrow> time \<Rightarrow> string \<Rightarrow> go_error + jwt_claims"

text \<open>A token is not empty; signed with the key, it is read back until it expires, and not after.\<close>

definition jwt_laws :: "jwt \<Rightarrow> bool" where
  "jwt_laws j \<longleftrightarrow> (\<forall>key c tok now. jw_sign j key c = Inr tok \<longrightarrow> tok \<noteq> [] \<and>
     (unix now < cl_exp c \<longrightarrow> jw_parse j key now tok = Inr c) \<and>
     (cl_exp c \<le> unix now \<longrightarrow> (\<exists>e. jw_parse j key now tok = Inl e)))"

definition jwtTTL :: "string \<Rightarrow> duration" where
  "jwtTTL env = (case parse_int64 env of
     None \<Rightarrow> wrap64 (24 * hour) | Some h \<Rightarrow> wrap64 ((if h \<le> 0 then 24 else h) * hour))"

definition signToken :: "jwt \<Rightarrow> string \<Rightarrow> string \<Rightarrow> time \<Rightarrow> time \<Rightarrow> string \<Rightarrow> string \<Rightarrow> string \<Rightarrow> go_error + string" where
  "signToken j key ttlEnv t1 t2 userID username role =
     jw_sign j key \<lparr>cl_sub = Some userID, cl_username = Some username, cl_role = Some role,
       cl_exp = unix (t1 + jwtTTL ttlEnv), cl_iat = unix t2\<rparr>"

definition claim_string :: "string option \<Rightarrow> string" where
  "claim_string v = (case v of None \<Rightarrow> [] | Some s \<Rightarrow> s)"

definition parseToken :: "jwt \<Rightarrow> string \<Rightarrow> time \<Rightarrow> string \<Rightarrow> go_error + string \<times> string \<times> string" where
  "parseToken j key now raw = (case jw_parse j key now raw of Inl e \<Rightarrow> Inl e
     | Inr c \<Rightarrow> Inr (claim_string (cl_sub c), claim_string (cl_username c), claim_string (cl_role c)))"

definition ValidateJWTSecret :: "string \<Rightarrow> go_error option" where
  "ValidateJWTSecret s = (if length s < 32
     then Some (Errorf ''JWT_SECRET must be at least 32 bytes; set it via the kubechan-jwt-secret K8s Secret'') else None)"

section \<open>Middleware\<close>

type_synonym ('s, 'b) handler = "caller \<Rightarrow> 's \<Rightarrow> 'b reply \<times> 's"

definition RequireAuth :: "jwt \<Rightarrow> string \<Rightarrow> time \<Rightarrow> string \<Rightarrow> ('s, 'b) handler \<Rightarrow> 's \<Rightarrow> 'b reply \<times> 's" where
  "RequireAuth j key now header next' s =
     (let raw = trim_prefix ''Bearer '' header
      in if raw = [] then (writeError 401 (Text ''missing authentication token''), s)
         else (case parseToken j key now raw of
             Inl e \<Rightarrow> (writeError 401 (Text ''invalid or expired token''), s)
           | Inr (userID, username, role) \<Rightarrow>
               if userID = [] then (writeError 401 (Text ''invalid or expired token''), s)
               else next' \<lparr>ca_userID = userID, ca_username = username, ca_role = role\<rparr> s))"

definition RequireAdmin :: "jwt \<Rightarrow> string \<Rightarrow> time \<Rightarrow> string \<Rightarrow> ('s, 'b) handler \<Rightarrow> 's \<Rightarrow> 'b reply \<times> 's" where
  "RequireAdmin j key now header next' = RequireAuth j key now header
     (\<lambda>c s. if ca_role c \<noteq> ''admin'' then (writeError 403 (Text ''admin role required''), s) else next' c s)"

section \<open>Login\<close>

record bcrypt =
  bc_generate :: "string \<Rightarrow> go_error + string"
  bc_compare :: "string \<Rightarrow> string \<Rightarrow> go_error option"

definition bcrypt_laws :: "bcrypt \<Rightarrow> bool" where
  "bcrypt_laws b \<longleftrightarrow> (\<forall>p h. bc_generate b p = Inr h \<longrightarrow> bc_compare b h p = None)"

record login_request =
  lr_username :: string
  lr_password :: string

record login_response =
  lo_token :: string
  lo_role :: string
  lo_username :: string

definition Login :: "jwt \<Rightarrow> bcrypt \<Rightarrow> string \<Rightarrow> string \<Rightarrow> time \<Rightarrow> time \<Rightarrow> db_faults \<Rightarrow> go_error + login_request \<Rightarrow>
    database \<Rightarrow> login_response reply" where
  "Login j b key ttlEnv t1 t2 flt body d = (case body of
     Inl e \<Rightarrow> writeError 400 (Text ''invalid JSON body'')
   | Inr req \<Rightarrow>
       if lr_username req = [] \<or> lr_password req = [] then writeError 400 (Text ''username and password are required'')
       else (case db_query flt ''select user'' (find_username (lr_username req) d) of
           Inr (Some u) \<Rightarrow>
             (case bc_compare b (u_hash u) (lr_password req) of
                Some e \<Rightarrow> writeError 401 (Text ''invalid credentials'')
              | None \<Rightarrow>
                  (case signToken j key ttlEnv t1 t2 (u_id u) (lr_username req) (u_role u) of
                     Inl e \<Rightarrow> writeError 500 (Text ''could not issue token'')
                   | Inr tok \<Rightarrow> writeJSON 200 \<lparr>lo_token = tok, lo_role = u_role u, lo_username = lr_username req\<rparr>))
         | _ \<Rightarrow> writeError 401 (Text ''invalid credentials'')))"

definition Me :: "caller \<Rightarrow> (string \<times> string) list reply" where
  "Me c = (case UserFromCtx c of (userID, username, role) \<Rightarrow>
     writeJSON 200 [(''userId'', userID), (''username'', username), (''role'', role)])"

section \<open>Users\<close>

record create_user_request =
  cu_username :: string
  cu_password :: string
  cu_role :: string

record user_response =
  ur_id :: string
  ur_username :: string
  ur_role :: string
  ur_createdAt :: string

definition Users_Create :: "bcrypt \<Rightarrow> string \<Rightarrow> time \<Rightarrow> db_faults \<Rightarrow> go_error + create_user_request \<Rightarrow> database \<Rightarrow>
    user_response reply \<times> database" where
  "Users_Create b uuid now flt body d = (case body of
     Inl e \<Rightarrow> (writeError 400 (Text ''invalid JSON body''), d)
   | Inr req \<Rightarrow>
       if cu_username req = [] then (writeError 400 (Text ''username is required''), d)
       else if length (cu_password req) < 8 then (writeError 400 (Text ''password must be at least 8 characters''), d)
       else if cu_role req \<noteq> ''admin'' \<and> cu_role req \<noteq> ''viewer'' then (writeError 400 (Text (''role must be 'admin' or 'viewer'' @ [CHR 0x27])), d)
       else (case bc_generate b (cu_password req) of
           Inl e \<Rightarrow> (writeError 500 (Text ''could not hash password''), d)
         | Inr h \<Rightarrow>
             (case db_exec flt ''insert user'' (insert_user \<lparr>u_id = uuid, u_username = cu_username req, u_hash = h,
                 u_role = cu_role req, u_createdAt = sqlite_datetime now\<rparr>) d of
                (Inl e, d') \<Rightarrow>
                  (if err_contains ''UNIQUE'' e then writeError 409 (Text ''username already taken'') else writeError 500 (With_error [] e), d')
              | (Inr _, d') \<Rightarrow> (writeJSON 201 \<lparr>ur_id = uuid, ur_username = cu_username req, ur_role = cu_role req, ur_createdAt = []\<rparr>, d'))))"

definition Users_List :: "db_faults \<Rightarrow> database \<Rightarrow> user_response list reply" where
  "Users_List flt d = (case db_query flt ''select users'' (sort_key u_createdAt (db_users d)) of
     Inl e \<Rightarrow> writeError 500 (With_error [] e)
   | Inr us \<Rightarrow> writeJSON 200 (map (\<lambda>u. \<lparr>ur_id = u_id u, ur_username = u_username u, ur_role = u_role u, ur_createdAt = u_createdAt u\<rparr>) us))"

text \<open>What \<open>Delete\<close> decides from its two reads: a reply, or to go on with the deletion.\<close>

definition delete_check :: "db_faults \<Rightarrow> string \<Rightarrow> database \<Rightarrow> unit reply option" where
  "delete_check flt targetID d =
     (if targetID = [] then Some (writeError 400 (Text ''user id is required''))
      else (case db_query flt ''count admins'' (length (admins d)) of
          Inl e \<Rightarrow> Some (writeError 500 (With_error [] e))
        | Inr adminCount \<Rightarrow>
            (case db_query flt ''select role'' (find_user targetID d) of
               Inl e \<Rightarrow> Some (writeError 500 (With_error [] e))
             | Inr None \<Rightarrow> Some (writeError 404 (Text ''user not found''))
             | Inr (Some u) \<Rightarrow>
                 if u_role u = ''admin'' \<and> adminCount \<le> 1 then Some (writeError 409 (Text ''cannot delete the last admin user'')) else None)))"

definition delete_exec :: "db_faults \<Rightarrow> bool \<Rightarrow> string \<Rightarrow> database \<Rightarrow> unit reply \<times> database" where
  "delete_exec flt fk targetID d = (case db_exec flt ''delete user'' (delete_user fk targetID) d of
     (Inl e, d') \<Rightarrow> (writeError 500 (With_error [] e), d') | (Inr _, d') \<Rightarrow> (writeJSON 204 (), d'))"

definition Users_Delete :: "db_faults \<Rightarrow> bool \<Rightarrow> string \<Rightarrow> database \<Rightarrow> unit reply \<times> database" where
  "Users_Delete flt fk targetID d = (case delete_check flt targetID d of
     Some r \<Rightarrow> (r, d) | None \<Rightarrow> delete_exec flt fk targetID d)"

section \<open>The first administrator\<close>

definition b64_alphabet :: string where
  "b64_alphabet = ''ABCDEFGHIJKLMNOPQRSTUVWXYZabcdefghijklmnopqrstuvwxyz0123456789-_''"

definition b64 :: "nat \<Rightarrow> char" where "b64 n = b64_alphabet ! (n mod 64)"

text \<open>\<open>base64.URLEncoding.EncodeToString\<close>\<close>

fun base64_url :: "nat list \<Rightarrow> string" where
  "base64_url [] = []"
| "base64_url [a] = [b64 (a div 4), b64 (a mod 4 * 16), CHR ''='', CHR ''='']"
| "base64_url [a, b] = [b64 (a div 4), b64 (a mod 4 * 16 + b div 16), b64 (b mod 16 * 4), CHR ''='']"
| "base64_url (a # b # c # bs) =
     [b64 (a div 4), b64 (a mod 4 * 16 + b div 16), b64 (b mod 16 * 4 + c div 64), b64 (c mod 64)] @ base64_url bs"

text \<open>\<open>s[:n]\<close> of a string that is too short panics.\<close>

definition generatePassword :: "(nat \<Rightarrow> go_error + nat list) \<Rightarrow> nat \<Rightarrow> go_error + string" where
  "generatePassword rand n = (case rand ((n * 6 + 7) div 8 + 4) of
     Inl e \<Rightarrow> Inl e
   | Inr b \<Rightarrow> (let s = base64_url b in if n \<le> length s then Inr (take n s) else Inl (Panicked ''slice bounds out of range'')))"

definition adminSecretName :: string where "adminSecretName = ''kubechan-admin-credentials''"
definition adminUsername :: string where "adminUsername = ''admin''"

definition resolveAdminPassword ::
  "('w, secret_obj) kind_client \<Rightarrow> (nat \<Rightarrow> go_error + nat list) \<Rightarrow> string \<Rightarrow> 'w \<Rightarrow> (go_error + string) \<times> 'w" where
  "resolveAdminPassword c rand ns w = (case api_get c ns adminSecretName w of
     Inr sec \<Rightarrow>
       (case map_of (wse_data sec) ''password'' of
          Some raw \<Rightarrow> if raw \<noteq> [] then (Inr raw, w)
            else (Inl (Errorf (''secret '' @ ns @ ''/'' @ adminSecretName @ '' exists but has no 'password' key'')), w)
        | None \<Rightarrow> (Inl (Errorf (''secret '' @ ns @ ''/'' @ adminSecretName @ '' exists but has no 'password' key'')), w))
   | Inl err \<Rightarrow>
       if \<not> is_not_found err then (Inl (Wrapf (''getting secret '' @ adminSecretName) err), w)
       else (case generatePassword rand 24 of
           Inl e \<Rightarrow> (Inl (Wrapf ''generating random password'' e), w)
         | Inr password \<Rightarrow>
             (case api_create c \<lparr>wse_meta = empty_meta\<lparr>om_name := adminSecretName, om_namespace := ns\<rparr>, wse_type = ''Opaque'',
                 wse_data = [(''password'', password)]\<rparr> w of
                (Inl e, w') \<Rightarrow> (Inl (Wrapf ''creating admin credentials secret'' e), w')
              | (Inr _, w') \<Rightarrow> (Inr password, w'))))"

definition EnsureAdminUser ::
  "bcrypt \<Rightarrow> ('w, secret_obj) kind_client \<Rightarrow> (nat \<Rightarrow> go_error + nat list) \<Rightarrow> string \<Rightarrow> string \<Rightarrow> time \<Rightarrow> db_faults \<Rightarrow>
   database \<times> 'w \<Rightarrow> go_error option \<times> database \<times> 'w" where
  "EnsureAdminUser b c rand ns uuid now flt = (\<lambda>(d, w). case db_query flt ''count admins'' (length (admins d)) of
     Inl e \<Rightarrow> (Some (Wrapf ''checking admin user'' e), d, w)
   | Inr n \<Rightarrow>
       if n > 0 then (None, d, w)
       else (case resolveAdminPassword c rand ns w of
           (Inl e, w') \<Rightarrow> (Some (Wrapf ''resolving admin password'' e), d, w')
         | (Inr password, w') \<Rightarrow>
             (case bc_generate b password of
                Inl e \<Rightarrow> (Some (Wrapf ''hashing admin password'' e), d, w')
              | Inr h \<Rightarrow>
                  (case db_exec flt ''insert admin'' (insert_user \<lparr>u_id = uuid, u_username = adminUsername, u_hash = h,
                      u_role = ''admin'', u_createdAt = sqlite_datetime now\<rparr>) d of
                     (Inl e, d') \<Rightarrow> (Some (Wrapf ''inserting admin user'' e), d', w')
                   | (Inr _, d') \<Rightarrow> (None, d', w')))))"

end
