(* ===== verification/Auth_Properties.thy ===== *)
theory Auth_Properties
  imports Auth_Users Mem_Client
begin

text \<open>
  Properties of authentication and user management: the way from a created user over the login to an
  authenticated request, the guard of the administrative routes, the administrator that is always left, the
  life time of tokens and the generated password.
\<close>

section \<open>Characters of generated passwords\<close>

lemma b64_in: "b64 n \<in> set b64_alphabet"
  unfolding b64_def by (rule nth_mem) (simp add: b64_alphabet_def)

lemma length_base64_url: "length (base64_url bs) = 4 * ((length bs + 2) div 3)"
proof (induction bs rule: base64_url.induct)
  case (4 a b c bs)
  have "(length (a # b # c # bs) + 2) div 3 = Suc ((length bs + 2) div 3)" by simp
  with 4 show ?case by (simp only: base64_url.simps length_append) simp
qed simp_all

lemma set_take_app: "set (take n (w @ ys)) \<subseteq> set w \<union> set (take (n - length w) ys)"
  by (auto dest: in_set_takeD)

lemma base64_url_chars:
  "n * 6 \<le> length bs * 8 \<Longrightarrow> set (take n (base64_url bs)) \<subseteq> set b64_alphabet"
proof (induction bs arbitrary: n rule: base64_url.induct)
  case (2 a)
  then have "n \<le> 1" by simp
  then show ?case using b64_in by (cases n) auto
next
  case (3 a b)
  then have "n = 0 \<or> n = 1 \<or> n = 2" by auto
  then show ?case using b64_in by (auto simp: numeral_2_eq_2)
next
  case (4 a b c bs)
  let ?w = "[b64 (a div 4), b64 (a mod 4 * 16 + b div 16), b64 (b mod 16 * 4 + c div 64), b64 (c mod 64)]"
  have "set (take (n - length ?w) (base64_url bs)) \<subseteq> set b64_alphabet"
    using 4(2) by (intro 4(1)) simp
  moreover have "set ?w \<subseteq> set b64_alphabet" by (simp add: b64_in)
  ultimately show ?case unfolding base64_url.simps using set_take_app [of n ?w "base64_url bs"] by blast
qed simp

section \<open>Sample libraries\<close>

text \<open>
  A token that carries the key and the claims, a hash that is the password, and a namespace of secrets:
  they satisfy the laws and are used to apply the properties to concrete requests.
\<close>

type_synonym token_content = "string \<times> string option \<times> string option \<times> string option \<times> int \<times> int"

definition token_content :: "string \<Rightarrow> jwt_claims \<Rightarrow> token_content" where
  "token_content key c = (key, cl_sub c, cl_username c, cl_role c, cl_exp c, cl_iat c)"

definition sample_jwt :: jwt where
  "sample_jwt =
     \<lparr>jw_sign = (\<lambda>key c. Inr (replicate (Suc (to_nat (token_content key c))) (CHR ''x''))),
      jw_parse = (\<lambda>key now tok. case from_nat (length tok - 1) of (key', sub, username, role, ex, iat) \<Rightarrow>
        if key' = key \<and> unix now < ex
        then Inr \<lparr>cl_sub = sub, cl_username = username, cl_role = role, cl_exp = ex, cl_iat = iat\<rparr>
        else Inl (Errorf ''token is invalid''))\<rparr>"

lemma sample_jwt_laws: "jwt_laws sample_jwt"
proof -
  have "jw_parse sample_jwt key now tok = (if unix now < cl_exp c then Inr c else Inl (Errorf ''token is invalid''))"
    if "jw_sign sample_jwt key c = Inr tok" for key c tok now
  proof -
    have "length tok - 1 = to_nat (token_content key c)" using that by (auto simp: sample_jwt_def)
    then show ?thesis by (simp add: sample_jwt_def token_content_def)
  qed
  moreover have "tok \<noteq> []" if "jw_sign sample_jwt key c = Inr tok" for key c tok
    using that by (auto simp: sample_jwt_def)
  ultimately show ?thesis unfolding jwt_laws_def by simp
qed

definition sample_bcrypt :: bcrypt where
  "sample_bcrypt = \<lparr>bc_generate = Inr, bc_compare = (\<lambda>h p. if h = p then None else Some (Errorf ''mismatch''))\<rparr>"

lemma sample_bcrypt_laws: "bcrypt_laws sample_bcrypt"
  by (simp add: bcrypt_laws_def sample_bcrypt_def)

definition sample_secrets :: "(secret_obj list, secret_obj) kind_client" where
  "sample_secrets = mem_kind wse_meta (\<lambda>f x. x\<lparr>wse_meta := f (wse_meta x)\<rparr>) (\<lambda>x. x) (\<lambda>x y. x) (\<lambda>w. w) (\<lambda>f w. f w)"

definition sample_admin :: "string \<Rightarrow> user_row" where
  "sample_admin name = \<lparr>u_id = name, u_username = name, u_hash = ''h'', u_role = ''admin'', u_createdAt = ''2026-01-01 00:00:00''\<rparr>"

section \<open>From user creation to an authenticated request\<close>

lemma find_username_insert:
  "insert_user u d = (Inr n, d') \<Longrightarrow> find_username (u_username u) d' = Some u"
proof -
  assume ins: "insert_user u d = (Inr n, d')"
  then have "find (\<lambda>x. u_username x = u_username u) (db_users d) = None" and "db_users d' = db_users d @ [u]"
    by (auto simp: insert_user_def find_None image_iff split: if_splits)
  then show ?thesis by (simp add: find_username_def find_snoc)
qed

text \<open>
  C19. A user that was created can log in with the password, and the token of the login lets
  requests through as that user with that role until it expires.
\<close>

theorem created_user_is_authenticated:
  assumes "jwt_laws j" and "bcrypt_laws b"
    and "Users_Create b uuid t flt (Inr \<lparr>cu_username = name, cu_password = pw, cu_role = role\<rparr>) d = (Json 201 r, d')"
    and "jw_sign j key \<lparr>cl_sub = Some uuid, cl_username = Some name, cl_role = Some role,
           cl_exp = unix (t1 + jwtTTL env), cl_iat = unix t2\<rparr> = Inr tok"
    and "uuid \<noteq> []" and "unix now < unix (t1 + jwtTTL env)"
  shows "Login j b key env t1 t2 no_faults (Inr \<lparr>lr_username = name, lr_password = pw\<rparr>) d' =
      Json 200 \<lparr>lo_token = tok, lo_role = role, lo_username = name\<rparr> \<and>
    RequireAuth j key now (''Bearer '' @ tok) next' s = next' \<lparr>ca_userID = uuid, ca_username = name, ca_role = role\<rparr> s"
proof -
  obtain h n where h: "bc_generate b pw = Inr h" and valid: "name \<noteq> []" "\<not> length pw < 8"
    and ins: "insert_user \<lparr>u_id = uuid, u_username = name, u_hash = h, u_role = role, u_createdAt = sqlite_datetime t\<rparr> d = (Inr n, d')"
    using assms(3) by (auto simp: Users_Create_def db_exec_Inr split: if_splits sum.splits prod.splits)
  have "bc_compare b h pw = None" using assms(2) h by (simp add: bcrypt_laws_def)
  moreover have "pw \<noteq> []" using valid(2) by auto
  ultimately
  have "Login j b key env t1 t2 no_faults (Inr \<lparr>lr_username = name, lr_password = pw\<rparr>) d' =
      Json 200 \<lparr>lo_token = tok, lo_role = role, lo_username = name\<rparr>"
    using valid(1) find_username_insert [OF ins] assms(4) by (simp add: Login_def signToken_def)
  moreover have "tok \<noteq> []" "jw_parse j key now tok = Inr \<lparr>cl_sub = Some uuid, cl_username = Some name, cl_role = Some role,
      cl_exp = unix (t1 + jwtTTL env), cl_iat = unix t2\<rparr>"
    using assms(1,4,6) unfolding jwt_laws_def by (metis jwt_claims.select_convs(4))+
  then have "RequireAuth j key now (''Bearer '' @ tok) next' s = next' \<lparr>ca_userID = uuid, ca_username = name, ca_role = role\<rparr> s"
    using assms(5) unfolding RequireAuth_def Let_def trim_prefix_app by (simp add: parseToken_def claim_string_def)
  ultimately show ?thesis by blast
qed

theorem created_user_is_authenticated_witness:
  "\<exists>tok. signToken sample_jwt ''key'' ''8'' 0 0 ''u7'' ''mia'' ''viewer'' = Inr tok \<and>
    RequireAuth sample_jwt ''key'' (7 * hour) (''Bearer '' @ tok) (\<lambda>c s. (Json 200 (ca_username c), s)) () = (Json 200 ''mia'', ())"
proof -
  obtain tok where tok: "jw_sign sample_jwt ''key'' \<lparr>cl_sub = Some ''u7'', cl_username = Some ''mia'', cl_role = Some ''viewer'',
      cl_exp = unix (0 + jwtTTL ''8''), cl_iat = unix 0\<rparr> = Inr tok"
    by (simp add: sample_jwt_def)
  have ttl: "jwtTTL ''8'' = 8 * hour" by code_simp
  have made: "\<exists>r d'. Users_Create sample_bcrypt ''u7'' 0 no_faults
      (Inr \<lparr>cu_username = ''mia'', cu_password = ''long enough'', cu_role = ''viewer''\<rparr>) empty_db = (Json 201 r, d')"
    by (simp add: Users_Create_def sample_bcrypt_def insert_user_def empty_db_def role_check_def)
  then obtain r d' where "Users_Create sample_bcrypt ''u7'' 0 no_faults
      (Inr \<lparr>cu_username = ''mia'', cu_password = ''long enough'', cu_role = ''viewer''\<rparr>) empty_db = (Json 201 r, d')" by blast
  from created_user_is_authenticated [OF sample_jwt_laws sample_bcrypt_laws this tok, of "7 * hour" "\<lambda>c s. (Json 200 (ca_username c), s)" "()"]
  show ?thesis using tok by (simp add: signToken_def ttl unix_def)
qed

section \<open>The administrative routes\<close>

text \<open>
  Behind \<open>RequireAdmin\<close> a handler runs only for a request with a token that the key verifies, that has
  not expired, and that names a user with the role admin; every other request is answered with 401 or 403
  and changes nothing.
\<close>

theorem admin_routes_guarded:
  "(\<exists>c. jw_parse j key now (trim_prefix ''Bearer '' header) = Inr c \<and> cl_role c = Some ''admin'' \<and> claim_string (cl_sub c) \<noteq> [] \<and>
      RequireAdmin j key now header next' s =
        next' \<lparr>ca_userID = claim_string (cl_sub c), ca_username = claim_string (cl_username c), ca_role = ''admin''\<rparr> s) \<or>
   (\<exists>status msg. status \<in> {401, 403} \<and> RequireAdmin j key now header next' s = (Error status msg, s))"
  by (auto simp: RequireAdmin_def RequireAuth_def parseToken_def claim_string_def Let_def split: sum.splits option.splits)

section \<open>There is always an administrator\<close>

lemma admins_insert: "insert_user u d = (r, d') \<Longrightarrow> set (admins d) \<subseteq> set (admins d')"
  by (auto simp: insert_user_def admins_def split: if_splits)

lemma admins_exec_insert: "db_exec flt l (insert_user u) d = (r, d') \<Longrightarrow> set (admins d) \<subseteq> set (admins d')"
  by (auto simp: db_exec_def split: option.splits dest: admins_insert)

lemma admins_create: "set (admins d) \<subseteq> set (admins (snd (Users_Create b uuid t flt body d)))"
  by (auto simp: Users_Create_def Let_def split: sum.splits prod.splits dest!: admins_exec_insert)

lemma admins_delete_user: "admins (snd (delete_user fk i d)) = filter (\<lambda>u. u_id u \<noteq> i) (admins d) \<or> admins (snd (delete_user fk i d)) = admins d"
  by (simp add: delete_user_def admins_def conj_commute)

lemma at_most_one_deleted:
  assumes "distinct (map f xs)" and "length xs > 1"
  shows "filter (\<lambda>x. f x \<noteq> i) xs \<noteq> []"
proof
  assume "filter (\<lambda>x. f x \<noteq> i) xs = []"
  then have "set (map f xs) \<subseteq> {i}" by (auto simp: filter_empty_conv)
  then have "card (set (map f xs)) \<le> 1" by (metis card.empty card_insert_disjoint card_mono empty_iff finite.emptyI finite_insert One_nat_def)
  with distinct_card [OF assms(1)] assms(2) show False by simp
qed

lemma admin_left:
  assumes "schema_ok d" and "admins d \<noteq> []"
  shows "admins (snd (Users_Delete flt fk i d)) \<noteq> []"
proof (cases "delete_check flt i d")
  case None
  then obtain u where u: "find_user i d = Some u" "u_role u \<noteq> ''admin'' \<or> length (admins d) > 1"
    by (auto simp: delete_check_def db_query_def split: option.splits if_splits sum.splits)
  have dist: "distinct (map u_id (db_users d))" using assms(1) by (simp add: schema_ok_def)
  then have "distinct (map u_id (admins d))" by (simp add: admins_def distinct_map_filter)
  have "filter (\<lambda>u. u_id u \<noteq> i) (admins d) \<noteq> []"
  proof (cases "length (admins d) > 1")
    case True
    with \<open>distinct (map u_id (admins d))\<close> show ?thesis by (rule at_most_one_deleted)
  next
    case False
    with u have "u_role u \<noteq> ''admin''" by simp
    moreover have "u \<in> set (db_users d)" "u_id u = i" using u(1) by (auto simp: find_user_def find_Some_iff)
    ultimately have "x \<in> set (admins d) \<Longrightarrow> u_id x \<noteq> i" for x
      using dist by (auto simp: admins_def distinct_map inj_on_def)
    with assms(2) show ?thesis by (auto simp: filter_empty_conv)
  qed
  with None assms(2) admins_delete_user [of fk i d] show ?thesis
    by (auto simp: Users_Delete_def delete_exec_def db_exec_def split: option.splits prod.splits sum.splits)
qed (use assms in \<open>simp add: Users_Delete_def\<close>)

text \<open>The requests that change users, one after the other, from a database after a successful start.\<close>

inductive user_reach :: "bcrypt \<Rightarrow> ('w, secret_obj) kind_client \<Rightarrow> database \<Rightarrow> bool" for b c where
  reach_start: "schema_ok d \<Longrightarrow> EnsureAdminUser b c rand ns uuid t flt (d, w) = (None, d', w') \<Longrightarrow> user_reach b c d'"
| reach_create: "user_reach b c d \<Longrightarrow> user_reach b c (snd (Users_Create b uuid t flt body d))"
| reach_delete: "user_reach b c d \<Longrightarrow> user_reach b c (snd (Users_Delete flt fk i d))"

lemma schema_exec_user:
  "db_exec flt l (insert_user u) d = (r, d') \<Longrightarrow> schema_ok d \<Longrightarrow> schema_ok d'"
  "db_exec flt l (delete_user fk i) d = (r, d') \<Longrightarrow> schema_ok d \<Longrightarrow> schema_ok d'"
  by (metis schema_exec schema_inserts(1) schema_deletes snd_conv)+

lemma schema_Users_Create [schema_keeps]: "schema_ok d \<Longrightarrow> schema_ok (snd (Users_Create b uuid t flt body d))"
  by (auto simp: Users_Create_def Let_def split: sum.splits prod.splits dest: schema_exec_user)

lemma schema_Users_Delete [schema_keeps]: "schema_ok d \<Longrightarrow> schema_ok (snd (Users_Delete flt fk i d))"
  by (auto simp: Users_Delete_def delete_exec_def split: option.splits sum.splits prod.splits dest: schema_exec_user)

lemma ensure_admin:
  assumes "EnsureAdminUser b c rand ns uuid t flt (d, w) = (None, d', w')" and "schema_ok d"
  shows "schema_ok d' \<and> admins d' \<noteq> []"
proof (cases "admins d = []")
  case False
  with assms show ?thesis by (auto simp: EnsureAdminUser_def db_query_def split: option.splits if_splits sum.splits)
next
  case True
  then obtain h n where "insert_user \<lparr>u_id = uuid, u_username = adminUsername, u_hash = h, u_role = ''admin'', u_createdAt = sqlite_datetime t\<rparr> d = (Inr n, d')"
    using assms(1) by (auto simp: EnsureAdminUser_def db_query_def db_exec_Inr split: option.splits sum.splits prod.splits)
  moreover from this have "admins d' \<noteq> []" by (auto simp: insert_user_def admins_def split: if_splits)
  ultimately show ?thesis using schema_inserts(1) [OF assms(2)] by (metis snd_conv)
qed

text \<open>
  While requests are served one after the other there is always an administrator: the start makes sure
  that there is one, and no sequence of user creations and deletions removes the last.
\<close>

theorem always_an_admin: "user_reach b c d \<Longrightarrow> admins d \<noteq> []"
proof -
  assume "user_reach b c d"
  then have "schema_ok d \<and> admins d \<noteq> []"
  proof induction
    case (reach_start d rand ns uuid t flt w d' w')
    show ?case by (rule ensure_admin [OF reach_start(2,1)])
  next
    case (reach_create d uuid t flt body)
    then show ?case using admins_create [of d b uuid t flt body] schema_Users_Create by fastforce
  next
    case reach_delete
    then show ?case by (simp add: admin_left schema_Users_Delete)
  qed
  then show ?thesis ..
qed

theorem always_an_admin_witness:
  "\<exists>d w. EnsureAdminUser sample_bcrypt sample_secrets (\<lambda>n. Inr (replicate n 0)) ''kubechan'' ''u1'' 0 no_faults (empty_db, []) = (None, d, w) \<and>
     admins (snd (Users_Delete no_faults True ''u1'' d)) \<noteq> []"
proof -
  obtain d w where start: "EnsureAdminUser sample_bcrypt sample_secrets (\<lambda>n. Inr (replicate n 0)) ''kubechan'' ''u1'' 0 no_faults (empty_db, []) = (None, d, w)"
    by (simp add: EnsureAdminUser_def resolveAdminPassword_def sample_secrets_def sample_bcrypt_def mem_kind_def tab_find_def
      generatePassword_def length_base64_url insert_user_def empty_db_def admins_def role_check_def named_def
      adminSecretName_def Let_def)
  have "user_reach sample_bcrypt sample_secrets d"
    by (rule reach_start [OF _ start]) (simp add: schema_ok_def empty_db_def)
  from always_an_admin [OF reach_delete [OF this, of no_faults True "''u1''"]] start show ?thesis by blast
qed

text \<open>
  Two deletions that are served at the same time can remove all administrators: both read the number of
  administrators before either deletes, both find two, and each deletes one.
\<close>

theorem concurrent_deletes_remove_all_admins:
  assumes "schema_ok d" and "admins d = [x, y]" and "u_id x \<noteq> []" and "u_id y \<noteq> []"
    and "\<not> references_user (u_id x) d" and "\<not> references_user (u_id y) d"
  shows "delete_check no_faults (u_id x) d = None \<and> delete_check no_faults (u_id y) d = None \<and>
    (case delete_exec no_faults fk (u_id x) d of (r1, d1) \<Rightarrow> case delete_exec no_faults fk (u_id y) d1 of (r2, d2) \<Rightarrow>
       r1 = Json 204 () \<and> r2 = Json 204 () \<and> admins d2 = [])"
proof -
  have dist: "distinct (map u_id (db_users d))" using assms(1) by (simp add: schema_ok_def)
  have in_users: "u \<in> set (db_users d)" if "u = x \<or> u = y" for u
    using that assms(2) unfolding admins_def by (metis filter_is_subset list.set_intros(1,2) subsetD)
  have find: "find_user (u_id u) d = Some u" if "u = x \<or> u = y" for u
    unfolding find_user_def using dist in_users [OF that] by (rule find_unique)
  have checks: "delete_check no_faults (u_id x) d = None" "delete_check no_faults (u_id y) d = None"
    using assms(2-4) find by (simp_all add: delete_check_def)
  let ?d1 = "snd (delete_user fk (u_id x) d)"
  have d1: "delete_user fk (u_id x) d = (Inr (length (filter (\<lambda>u. u_id u = u_id x) (db_users d))), ?d1)"
    "admins ?d1 = filter (\<lambda>u. u_id u \<noteq> u_id x) (admins d)" "references_user (u_id y) ?d1 = references_user (u_id y) d"
    using assms(5) by (simp_all add: delete_user_def admins_def references_user_def conj_commute)
  let ?d2 = "snd (delete_user fk (u_id y) ?d1)"
  have d2: "delete_user fk (u_id y) ?d1 = (Inr (length (filter (\<lambda>u. u_id u = u_id y) (db_users ?d1))), ?d2)"
    "admins ?d2 = filter (\<lambda>u. u_id u \<noteq> u_id y) (admins ?d1)"
    using assms(6) d1(3) by (simp_all add: delete_user_def admins_def conj_commute)
  have "admins ?d2 = []" using d1(2) d2(2) assms(2) by simp
  with checks d1(1) d2(1) show ?thesis
    by (auto simp: delete_exec_def split: prod.split)
qed

theorem concurrent_deletes_remove_all_admins_witness:
  "delete_check no_faults ''ana'' (empty_db\<lparr>db_users := [sample_admin ''ana'', sample_admin ''bob'']\<rparr>) = None"
  using concurrent_deletes_remove_all_admins
    [of "empty_db\<lparr>db_users := [sample_admin ''ana'', sample_admin ''bob'']\<rparr>" "sample_admin ''ana''" "sample_admin ''bob''" True]
  by (simp add: schema_ok_def empty_db_def admins_def sample_admin_def references_user_def role_check_def)

section \<open>Life time of tokens\<close>

text \<open>
  The life time of tokens is the configured number of hours, or 24 when the setting is not a positive
  number; but the product with an hour has 64 bits, so that for 2562048 to 5124095 hours it wraps around
  to a negative duration, and every token of such a server has expired when it is issued.
\<close>

theorem token_life_time:
  "(parse_int64 env = None \<longrightarrow> jwtTTL env = 24 * hour) \<and>
   (\<forall>h. parse_int64 env = Some h \<longrightarrow>
      (h \<le> 0 \<longrightarrow> jwtTTL env = 24 * hour) \<and>
      (0 < h \<and> h \<le> 2562047 \<longrightarrow> jwtTTL env = h * hour) \<and>
      (2562048 \<le> h \<and> h \<le> 5124095 \<longrightarrow> jwtTTL env < 0 \<and>
        (\<forall>j key t1 t2 now uid name role tok. jwt_laws j \<and> signToken j key env t1 t2 uid name role = Inr tok \<and> t1 \<le> now \<longrightarrow>
           (\<exists>e. parseToken j key now tok = Inl e))))"
proof -
  have day: "wrap64 (24 * hour) = 24 * hour" by (rule wrap64_id) (simp add: in_int64_def min_int64_def max_int64_def)
  have small: "wrap64 (h * hour) = h * hour" if "0 < h" "h \<le> 2562047" for h
    using that by (intro wrap64_id) (simp add: in_int64_def min_int64_def max_int64_def)
  have large: "wrap64 (h * hour) < 0" if "2562048 \<le> h" "h \<le> 5124095" for h
    using that by (subst wrap64_over) (simp_all add: max_int64_def)
  have expired: "\<exists>e. parseToken j key now tok = Inl e"
    if "jwt_laws j" "signToken j key env t1 t2 uid name role = Inr tok" "t1 \<le> now" "jwtTTL env < 0" for j key t1 t2 now uid name role tok
  proof -
    have "unix (t1 + jwtTTL env) \<le> unix now" using that(3,4) by (simp add: unix_def zdiv_mono1)
    with that(1,2) have "\<exists>e. jw_parse j key now tok = Inl e"
      unfolding jwt_laws_def signToken_def by (metis jwt_claims.select_convs(4))
    then show ?thesis by (auto simp: parseToken_def)
  qed
  show ?thesis
    using day small large expired by (auto simp: jwtTTL_def)
qed

theorem token_life_time_witness: "jwtTTL ''2562047'' = 2562047 * hour \<and> jwtTTL ''2562048'' < 0"
proof -
  have "parse_int64 ''2562047'' = Some 2562047" "parse_int64 ''2562048'' = Some 2562048"
    by (simp_all add: parse_int64_def digits_value_def unradix_def digit_value_def is_digit_def in_int64_def min_int64_def max_int64_def)
  then show ?thesis using token_life_time [of "''2562047''"] token_life_time [of "''2562048''"] by simp
qed

section \<open>The generated password\<close>

text \<open>
  A generated password has exactly the wanted length and consists of letters, digits, dashes and
  underscores: the slice of the encoded random bytes is never out of range and never reaches the padding.
\<close>

theorem generated_password:
  assumes "rand ((n * 6 + 7) div 8 + 4) = Inr bs" and "length bs = (n * 6 + 7) div 8 + 4"
  shows "\<exists>p. generatePassword rand n = Inr p \<and> length p = n \<and> set p \<subseteq> set b64_alphabet"
proof -
  have enough: "n * 6 \<le> length bs * 8" using assms(2) by linarith
  have "n \<le> length (base64_url bs)" unfolding length_base64_url using enough by linarith
  moreover have "set (take n (base64_url bs)) \<subseteq> set b64_alphabet" using enough by (rule base64_url_chars)
  ultimately show ?thesis using assms(1) by (simp add: generatePassword_def)
qed

theorem generated_password_witness:
  "\<exists>p. generatePassword (\<lambda>n. Inr (replicate n 0)) 24 = Inr p \<and> length p = 24"
  using generated_password [of "\<lambda>n. Inr (replicate n 0)" 24 "replicate ((24 * 6 + 7) div 8 + 4) 0"] by (auto simp del: replicate.simps)

end
