(* ===== verification/Incident_Properties.thy ===== *)
theory Incident_Properties
  imports Incident_Handlers Auth_Properties
begin

text \<open>
  Properties of the incident handlers: the list and the single view show the same, a manual incident belongs to
  the user that reported it, what other users cannot do to it and what they can, and what an
  accepted analysis has recorded.
\<close>

text \<open>Writing runs does not touch the other custom resources.\<close>

definition runs_apart :: "'w backend_client \<Rightarrow> ('w \<Rightarrow> store) \<Rightarrow> bool" where
  "runs_apart b view \<longleftrightarrow> (\<forall>x w. view (snd (api_create (bk_runs b) x w)) = view w) \<and>
     (\<forall>x y w. view (snd (api_status_patch (bk_runs b) x y w)) = view w)"

section \<open>A backend in memory\<close>

definition mem_backend :: "mem backend_client" where
  "mem_backend = \<lparr>bk_client = mem_client, bk_runs = mem_runs,
     bk_updateStatus = (\<lambda>inc w. case tab_find inc_meta (m_incidents w) (meta_key (inc_meta inc)) of
         None \<Rightarrow> (Inl NotFound, w)
       | Some y \<Rightarrow> let x = y\<lparr>inc_status := inc_status inc\<rparr> in (Inr x, m_incidents_update (tab_put inc_meta x) w)),
     bk_deleteRule = (\<lambda>r w. (None, m_rules_update (filter (\<lambda>x. meta_key (rule_meta x) \<noteq> meta_key (rule_meta r))) w))\<rparr>"

definition sample_caller :: "string \<Rightarrow> string \<Rightarrow> caller" where
  "sample_caller uid role = \<lparr>ca_userID = uid, ca_username = uid, ca_role = role\<rparr>"

definition sample_db :: database where
  "sample_db = empty_db\<lparr>db_users := [\<lparr>u_id = ''u1'', u_username = ''mia'', u_hash = ''h'', u_role = ''viewer'', u_createdAt = ''2026-01-01 00:00:00''\<rparr>],
     db_owners := [\<lparr>o_incident = ''manual-0'', o_namespace = ''kubechan'', o_owner = ''u1''\<rparr>]\<rparr>"

definition sample_report :: manual_incident_request where
  "sample_report = \<lparr>mi_namespace = ''shop'', mi_resourceKind = ''Deployment'', mi_resourceName = ''cart'', mi_userMessage = ''cart is slow today'',
     mi_relatedResources = []\<rparr>"

definition sample_manual_incident :: incident where
  "sample_manual_incident = (manual_incident ''kubechan'' sample_report)\<lparr>inc_meta := empty_meta\<lparr>om_name := ''manual-0'', om_namespace := ''kubechan''\<rparr>\<rparr>"

definition sample_cluster :: mem where "sample_cluster = empty_mem\<lparr>m_incidents := [sample_manual_incident]\<rparr>"

lemma mem_backend_sel [simp]: "bk_client mem_backend = mem_client" "bk_runs mem_backend = mem_runs"
  by (simp_all add: mem_backend_def)

lemma sample_db_ok: "schema_ok sample_db" "schema_ok (sample_db\<lparr>db_owners := []\<rparr>)"
  by (simp_all add: schema_ok_def sample_db_def empty_db_def role_check_def)

lemma sample_incident_get: "api_get (c_incidents mem_client) ''kubechan'' ''manual-0'' sample_cluster = Inr sample_manual_incident"
  by (simp add: sample_cluster_def sample_manual_incident_def mem_eval)

lemma mem_get_missing: "api_get (c_incidents mem_client) ns name w = Inl e \<Longrightarrow> e = NotFound"
  by (simp add: mem_client_def mem_kind_def split: option.splits)

lemma mem_apart: "runs_apart mem_backend mem_view"
  by (simp add: runs_apart_def mem_runs_def mem_kind_def mem_view_def Let_def split: option.split)

section \<open>Owners\<close>

lemma set_map_filter: "set (List.map_filter f xs) = {y. \<exists>x \<in> set xs. f x = Some y}"
  by (induction xs) (auto simp: List.map_filter_simps split: option.splits)

lemma map_of_fold_put:
  "distinct (map fst rows) \<Longrightarrow> map_of (fold (\<lambda>(k, v). map_put k v) rows m) k =
     (case map_of rows k of Some v \<Rightarrow> Some v | None \<Rightarrow> map_of m k)"
proof (induction rows arbitrary: m)
  case (Cons row rows)
  obtain k' v where row: "row = (k', v)" by (cases row)
  then have "map_of rows k' = None" using Cons.prems by (auto simp: map_of_eq_None_iff)
  with Cons row show ?case by (auto split: option.split)
qed simp

lemma fst_owner_rows: "map fst (owner_rows d) = map o_incident (filter (\<lambda>r. find_user (o_owner r) d \<noteq> None) (db_owners d))"
proof -
  have "map fst (List.map_filter (\<lambda>r. map_option (\<lambda>u. (o_incident r, u_username u, o_owner r)) (find_user (o_owner r) d)) rs) =
      map o_incident (filter (\<lambda>r. find_user (o_owner r) d \<noteq> None) rs)" for rs
    by (induction rs) (auto simp: List.map_filter_simps split: option.split)
  then show ?thesis by (simp add: owner_rows_def)
qed

lemma map_of_owner_rows:
  assumes "distinct (map o_incident (db_owners d))"
  shows "map_of (owner_rows d) name = (case find_owner name d of None \<Rightarrow> None
    | Some r \<Rightarrow> map_option (\<lambda>u. (u_username u, o_owner r)) (find_user (o_owner r) d))"
proof -
  have absent: "map_of (List.map_filter (\<lambda>r. map_option (\<lambda>u. (o_incident r, u_username u, o_owner r)) (find_user (o_owner r) d)) rs) name = None"
    if "name \<notin> o_incident ` set rs" for rs
    using that by (induction rs) (auto simp: List.map_filter_simps split: option.split)
  have "map_of (List.map_filter (\<lambda>r. map_option (\<lambda>u. (o_incident r, u_username u, o_owner r)) (find_user (o_owner r) d)) rs) name =
      (case find (\<lambda>r. o_incident r = name) rs of None \<Rightarrow> None
       | Some r \<Rightarrow> map_option (\<lambda>u. (u_username u, o_owner r)) (find_user (o_owner r) d))" if "distinct (map o_incident rs)" for rs
    using that
  proof (induction rs)
    case (Cons r rs)
    then show ?case
      by (cases "o_incident r = name"; cases "find_user (o_owner r) d") (auto simp: List.map_filter_simps absent)
  qed (simp add: List.map_filter_simps)
  from this [OF assms] show ?thesis by (simp add: owner_rows_def find_owner_def)
qed

text \<open>Name and identity of the owner as both handlers read them.\<close>

definition owner_of :: "database \<Rightarrow> string \<Rightarrow> string \<times> string" where
  "owner_of d name = (case map_of (owner_rows d) name of Some ow \<Rightarrow> ow | None \<Rightarrow> ([], []))"

definition view_of :: "caller \<Rightarrow> database \<Rightarrow> incident \<Rightarrow> incident_view option" where
  "view_of c d inc =
     (if is_manual inc
      then if ca_role c \<noteq> ''admin'' \<and> snd (owner_of d (inc_name inc)) \<noteq> ca_userID c then None
        else Some \<lparr>iv_incident = inc, iv_ownerUsername = fst (owner_of d (inc_name inc))\<rparr>
      else Some \<lparr>iv_incident = inc, iv_ownerUsername = []\<rparr>)"

lemma list_view:
  assumes "schema_ok d"
  shows "incident_views c (owner_maps no_faults (Some d)) incs = List.map_filter (view_of c d) incs"
proof -
  have "distinct (map fst (owner_rows d))"
    using assms unfolding fst_owner_rows schema_ok_def by (simp add: distinct_map_filter)
  then have "map_of (owner_maps no_faults (Some d)) k = map_of (owner_rows d) k" for k
    by (simp add: owner_maps_def map_of_fold_put split: option.split)
  then show ?thesis
    unfolding incident_views_def by (intro arg_cong2 [of _ _ _ _ List.map_filter])
      (auto simp: view_of_def owner_of_def fun_eq_iff case_prod_beta Let_def)
qed

lemma get_view:
  assumes "CHR ''/'' \<notin> set ns" and "api_get (bk_incidents b) ns name w = Inr inc" and "inc_name inc = name"
  shows "Incidents_Get b defaultNS no_faults c (ns @ ''/'' @ name) (Some d) w =
    (case view_of c d inc of Some v \<Rightarrow> Json 200 v | None \<Rightarrow> Error 403 (Text ''incident not found''))"
  unfolding Incidents_Get_def namespacedName_simps(1) [OF assms(1)]
  using assms(2,3) by (auto simp: read_owner_def view_of_def owner_of_def split: option.split)

lemma view_of_incident: "view_of c d inc = Some v \<Longrightarrow> iv_incident v = inc"
  by (auto simp: view_of_def split: if_splits)

text \<open>
  C17. The list of incidents and the single view agree on what a caller may see: for a namespace, the single view
  shows an incident, with its owner, exactly if the list contains it.
\<close>

theorem list_and_get_agree:
  assumes "faithful_client (bk_client b) view" and "schema_ok d" and "CHR ''/'' \<notin> set ns" and "ns \<noteq> []"
    and "Incidents_List b defaultNS no_faults c ns [] (Some d) w = Json 200 views"
    and "\<And>e. Incidents_Get b defaultNS no_faults c (ns @ ''/'' @ name) (Some d) w \<noteq> Error 500 (With_error [] e)"
  shows "Incidents_Get b defaultNS no_faults c (ns @ ''/'' @ name) (Some d) w = Json 200 v \<longleftrightarrow>
    v \<in> set views \<and> inc_name (iv_incident v) = name"
proof -
  note laws = faithful_inc [OF assms(1)]
  obtain incs where incs: "api_list (bk_incidents b) ns [] w = Inr incs" "views = List.map_filter (view_of c d) incs"
    using assms(4,5) by (auto simp: Incidents_List_def list_view [OF assms(2)] split: sum.splits)
  have stored: "inc \<in> set incs \<longleftrightarrow> st_incidents (view w) (ns, inc_name inc) = Some inc" for inc
  proof
    assume "inc \<in> set incs"
    then show "st_incidents (view w) (ns, inc_name inc) = Some inc"
      using kind_laws_list [OF laws incs(1)] assms(4) by (auto simp: meta_key_def)
  next
    assume tab: "st_incidents (view w) (ns, inc_name inc) = Some inc"
    then have "meta_key (inc_meta inc) = (ns, inc_name inc)" by (rule kind_laws_keyed [OF laws])
    then show "inc \<in> set incs"
      using kind_laws_list [OF laws incs(1)] tab by (simp add: meta_key_def selector_matches_def)
  qed
  show ?thesis
  proof (cases "api_get (bk_incidents b) ns name w")
    case (Inl e)
    have missing: "is_not_found e"
      using Inl assms(6) [of e] unfolding Incidents_Get_def namespacedName_simps(1) [OF assms(3)] by (simp split: if_splits)
    then have "st_incidents (view w) (ns, name) = None" using kind_laws_get_missing [OF laws Inl] by simp
    then have "v \<in> set views \<Longrightarrow> inc_name (iv_incident v) \<noteq> name"
      using stored by (auto simp: incs(2) set_map_filter dest!: view_of_incident)
    moreover have "Incidents_Get b defaultNS no_faults c (ns @ ''/'' @ name) (Some d) w \<noteq> Json 200 v"
      unfolding Incidents_Get_def namespacedName_simps(1) [OF assms(3)] using Inl missing by simp
    ultimately show ?thesis by blast
  next
    case (Inr inc)
    then have tab: "st_incidents (view w) (ns, name) = Some inc" by (rule kind_laws_get [OF laws])
    then have name: "inc_name inc = name" using kind_laws_keyed [OF laws tab] by (simp add: meta_key_def)
    have "v \<in> set views \<and> inc_name (iv_incident v) = name \<longleftrightarrow> view_of c d inc = Some v"
    proof
      assume v: "v \<in> set views \<and> inc_name (iv_incident v) = name"
      then obtain x where x: "x \<in> set incs" "view_of c d x = Some v" by (auto simp: incs(2) set_map_filter)
      then have "inc_name x = name" using v view_of_incident by blast
      with stored x(1) tab have "x = inc" by simp
      with x(2) show "view_of c d inc = Some v" by simp
    next
      assume v: "view_of c d inc = Some v"
      then have "v \<in> set views" using stored tab name by (auto simp: incs(2) set_map_filter)
      with view_of_incident [OF v] name show "v \<in> set views \<and> inc_name (iv_incident v) = name" by simp
    qed
    with get_view [OF assms(3) Inr name, of defaultNS c d] show ?thesis by (auto split: option.splits)
  qed
qed

theorem list_and_get_agree_witness:
  "\<exists>views. Incidents_List mem_backend ''kubechan'' no_faults (sample_caller ''u1'' ''viewer'') ''kubechan'' [] (Some sample_db) sample_cluster = Json 200 views \<and>
     (\<forall>v. Incidents_Get mem_backend ''kubechan'' no_faults (sample_caller ''u1'' ''viewer'') ''kubechan/manual-0'' (Some sample_db) sample_cluster = Json 200 v
        \<longleftrightarrow> v \<in> set views \<and> inc_name (iv_incident v) = ''manual-0'')"
proof -
  obtain views where views: "Incidents_List mem_backend ''kubechan'' no_faults (sample_caller ''u1'' ''viewer'') ''kubechan'' [] (Some sample_db) sample_cluster = Json 200 views"
    by (simp add: Incidents_List_def mem_client_def mem_kind_def)
  have name: "inc_name sample_manual_incident = ''manual-0''" by (simp add: sample_manual_incident_def)
  have "Incidents_Get mem_backend ''kubechan'' no_faults (sample_caller ''u1'' ''viewer'') (''kubechan'' @ ''/'' @ ''manual-0'') (Some sample_db) sample_cluster
      \<noteq> Error 500 (With_error [] e)" for e
    by (subst get_view [OF _ _ name]) (simp_all add: sample_incident_get split: option.split)
  from list_and_get_agree [OF _ sample_db_ok(1) _ _ views this] mem_client_faithful views show ?thesis by simp
qed

section \<open>Other people's incidents\<close>

text \<open>A manual incident of somebody else, seen by a user that is not an administrator.\<close>

definition foreign_incident :: "'w backend_client \<Rightarrow> caller \<Rightarrow> string \<Rightarrow> string \<Rightarrow> database \<Rightarrow> 'w \<Rightarrow> bool" where
  "foreign_incident b c ns name d w \<longleftrightarrow> CHR ''/'' \<notin> set ns \<and> ca_role c \<noteq> ''admin'' \<and> ca_userID c \<noteq> [] \<and>
     (\<exists>inc r. api_get (bk_incidents b) ns name w = Inr inc \<and> is_manual inc \<and> find_owner name d = Some r \<and> o_owner r \<noteq> ca_userID c)"

lemma foreign_Get:
  assumes "foreign_incident b c ns name d w" and "schema_ok d"
  shows "Incidents_Get b defaultNS flt c (ns @ ''/'' @ name) (Some d) w = Error 403 (Text ''incident not found'')"
proof -
  have ns: "CHR ''/'' \<notin> set ns" using assms(1) by (simp add: foreign_incident_def)
  have "distinct (map o_incident (db_owners d))" using assms(2) by (simp add: schema_ok_def)
  then have "fst (read_owner flt name d) \<noteq> ca_userID c"
    using assms(1) by (auto simp: foreign_incident_def read_owner_def map_of_owner_rows db_query_def split: option.splits)
  then show ?thesis
    using assms(1) unfolding Incidents_Get_def namespacedName_simps(1) [OF ns] foreign_incident_def by (auto simp: case_prod_beta)
qed

lemma foreign_Analyze:
  assumes "foreign_incident b c ns name d w"
  shows "Analyze b defaultNS flt fk c reqID now t (ns @ ''/'' @ name) (d, w) = (Error 403 (Text ''incident not found''), d, w)"
proof -
  have ns: "CHR ''/'' \<notin> set ns" using assms by (simp add: foreign_incident_def)
  show ?thesis using assms unfolding Analyze_def namespacedName_simps(1) [OF ns] foreign_incident_def
    by (auto simp: db_query_def split: option.split)
qed

lemma foreign_access:
  "foreign_incident b c ns name d w \<Longrightarrow> \<not> checkManualIncidentAccess flt c name (Some d)"
  by (auto simp: foreign_incident_def checkManualIncidentAccess_def db_query_def split: option.splits)

lemma foreign_writes:
  assumes "foreign_incident b c ns name d w"
  shows "Incidents_Resolve b defaultNS flt c now (ns @ ''/'' @ name) (Some d) w = (Error 403 (Text ''incident not found''), w)"
    and "MarkFalsePositive b defaultNS flt c now (ns @ ''/'' @ name) (Some d) w = (Error 403 (Text ''incident not found''), w)"
proof -
  have ns: "CHR ''/'' \<notin> set ns" using assms by (simp add: foreign_incident_def)
  show "Incidents_Resolve b defaultNS flt c now (ns @ ''/'' @ name) (Some d) w = (Error 403 (Text ''incident not found''), w)"
    "MarkFalsePositive b defaultNS flt c now (ns @ ''/'' @ name) (Some d) w = (Error 403 (Text ''incident not found''), w)"
    using assms foreign_access [OF assms, of flt]
    unfolding Incidents_Resolve_def MarkFalsePositive_def namespacedName_simps(1) [OF ns] foreign_incident_def by auto
qed

text \<open>
  C18. A manual incident that belongs to somebody else is closed to a user that is not an administrator: viewing,
  analysing, resolving it and marking it as false positive are all refused, and nothing changes, also when
  the database fails.
\<close>

theorem foreign_manual_incident_protected:
  assumes "foreign_incident b c ns name d w" and "schema_ok d"
  shows "Incidents_Get b defaultNS flt c (ns @ ''/'' @ name) (Some d) w = Error 403 (Text ''incident not found'') \<and>
    Analyze b defaultNS flt fk c reqID now t (ns @ ''/'' @ name) (d, w) = (Error 403 (Text ''incident not found''), d, w) \<and>
    Incidents_Resolve b defaultNS flt c now (ns @ ''/'' @ name) (Some d) w = (Error 403 (Text ''incident not found''), w) \<and>
    MarkFalsePositive b defaultNS flt c now (ns @ ''/'' @ name) (Some d) w = (Error 403 (Text ''incident not found''), w)"
  using foreign_Get [OF assms] foreign_Analyze [OF assms(1)] foreign_writes [OF assms(1)] by blast

lemma sample_foreign: "foreign_incident mem_backend (sample_caller ''u2'' ''viewer'') ''kubechan'' ''manual-0'' sample_db sample_cluster"
  by (simp add: foreign_incident_def sample_caller_def sample_incident_get)
    (simp add: sample_manual_incident_def manual_incident_def find_owner_def sample_db_def Let_def)

theorem foreign_manual_incident_protected_witness:
  "Incidents_Resolve mem_backend ''kubechan'' no_faults (sample_caller ''u2'' ''viewer'') 0 ''kubechan/manual-0'' (Some sample_db) sample_cluster =
     (Error 403 (Text ''incident not found''), sample_cluster)"
  using foreign_manual_incident_protected [OF sample_foreign sample_db_ok(1)] by simp

text \<open>
  \<open>Augment\<close> has no such check: for an incident on which \<open>Analyze\<close> refuses the caller, it does exactly what it does
  for an administrator, so that a user can add resources to a manual incident of somebody else and start an
  analysis of it.
\<close>

theorem augment_ignores_ownership:
  assumes "foreign_incident b c ns name d w"
  shows "Analyze b defaultNS flt fk c reqID now t (ns @ ''/'' @ name) (d, w) = (Error 403 (Text ''incident not found''), d, w) \<and>
    Augment b defaultNS flt fk c reqID now t (ns @ ''/'' @ name) body (d, w) =
      Augment b defaultNS flt fk (c\<lparr>ca_role := ''admin''\<rparr>) reqID now t (ns @ ''/'' @ name) body (d, w)"
proof -
  have "ca_userID (c\<lparr>ca_role := ''admin''\<rparr>) = ca_userID c" by simp
  then have "start_run b flt fk (c\<lparr>ca_role := ''admin''\<rparr>) = start_run b flt fk c"
    unfolding start_run_def by (simp only:)
  then have "Augment b defaultNS flt fk (c\<lparr>ca_role := ''admin''\<rparr>) = Augment b defaultNS flt fk c"
    unfolding Augment_def by (simp only:)
  then show ?thesis using foreign_Analyze [OF assms] by simp
qed

theorem augment_ignores_ownership_witness:
  "Augment mem_backend ''kubechan'' no_faults False (sample_caller ''u2'' ''viewer'') ''r1'' 0 0 ''kubechan/manual-0'' (Inr [\<lparr>ri_kind = ''Pod'', ri_name = ''p'', ri_namespace = ''shop'',
       ri_apiGroup = [], ri_evidenceSlices = []\<rparr>]) (sample_db, sample_cluster) =
   Augment mem_backend ''kubechan'' no_faults False ((sample_caller ''u2'' ''viewer'')\<lparr>ca_role := ''admin''\<rparr>) ''r1'' 0 0 ''kubechan/manual-0''
     (Inr [\<lparr>ri_kind = ''Pod'', ri_name = ''p'', ri_namespace = ''shop'', ri_apiGroup = [], ri_evidenceSlices = []\<rparr>]) (sample_db, sample_cluster)"
  using augment_ignores_ownership [OF sample_foreign] by simp

text \<open>
  A manual incident without an owner row is hidden from a user that is not an administrator, but the user can resolve it:
  \<open>checkManualIncidentAccess\<close> takes the missing row for an incident that is not manual.
\<close>

lemma unowned_incident_can_be_resolved:
  assumes "CHR ''/'' \<notin> set ns" and "api_get (bk_incidents b) ns name w = Inr inc" and "is_manual inc" and "find_owner name d = None"
    and "schema_ok d" and "ca_role c \<noteq> ''admin''" and "ca_userID c \<noteq> []"
  shows "Incidents_Get b defaultNS no_faults c (ns @ ''/'' @ name) (Some d) w = Error 403 (Text ''incident not found'') \<and>
    Incidents_Resolve b defaultNS no_faults c now (ns @ ''/'' @ name) (Some d) w =
      Incidents_Resolve b defaultNS no_faults (c\<lparr>ca_role := ''admin''\<rparr>) now (ns @ ''/'' @ name) (Some d) w"
proof -
  have "distinct (map o_incident (db_owners d))" using assms(5) by (simp add: schema_ok_def)
  with assms show ?thesis
    unfolding Incidents_Get_def Incidents_Resolve_def namespacedName_simps(1) [OF assms(1)]
    by (simp add: read_owner_def map_of_owner_rows checkManualIncidentAccess_def)
qed

section \<open>Reporting an incident\<close>

lemma start_run_view:
  assumes "runs_apart b view" and "start_run b flt fk c ns name pcRef source what reqID now t (d, w) = (r, d', w')"
  shows "view w' = view w"
proof -
  have apart: "view (snd (api_create (bk_runs b) x w)) = view w" "view (snd (api_status_patch (bk_runs b) x y w)) = view w" for x y w
    using assms(1) by (simp_all add: runs_apart_def)
  obtain r1 w1 where create: "api_create (bk_runs b) (new_run ns name pcRef now) w = (r1, w1)" by fastforce
  then have v1: "view w1 = view w" using apart(1) by (metis snd_conv)
  show ?thesis
  proof (cases r1)
    case (Inl e)
    with assms(2) create v1 show ?thesis by (auto simp: start_run_def split: prod.splits)
  next
    case (Inr dr)
    obtain r2 w2 where patch: "api_status_patch (bk_runs b) dr (run_pending dr) w1 = (r2, w2)" by fastforce
    then have "view w2 = view w1" using apart(2) by (metis snd_conv)
    moreover have "w' = w2" using assms(2) create Inr patch by (auto simp: start_run_def split: prod.splits sum.splits)
    ultimately show ?thesis using v1 by simp
  qed
qed

lemma start_run_ok:
  assumes "start_run b flt fk c ns name pcRef source what reqID now t (d, w) = (Inr resp, d', w')"
  shows "\<exists>q n. insert_request fk q d = (Inr n, d') \<and> q_id q = reqID \<and> q_run q = an_diagnosticRunID resp"
  using assms by (auto simp: start_run_def db_exec_Inr pending_request_def split: prod.splits sum.splits)

lemma insert_request_others:
  "insert_request fk q d = (r, d') \<Longrightarrow> db_users d' = db_users d \<and> db_owners d' = db_owners d"
  by (auto simp: insert_request_def split: if_splits)

lemma opened_at_sel [simp]:
  "inc_meta (opened_at t inc) = inc_meta inc" "inc_spec (opened_at t inc) = inc_spec inc"
  by (simp_all add: opened_at_def)

text \<open>The incident that is stored after the creation and the attempt to open it.\<close>

lemma created_and_opened:
  assumes laws: "kind_laws (bk_incidents b) inc_meta inc_spec inc_status inc_sent inc_dflt view st_incidents st_incidents_update"
    and create: "api_create (bk_incidents b) (manual_incident ns req) w = (Inr inc0, w1)"
    and opened: "api_status_patch (bk_incidents b) inc0 (opened_at now inc0) w1 = (r, w2)"
  shows "\<exists>x. st_incidents (view w2) (ns, inc_name inc0) = Some x \<and> is_manual x \<and> inc_name x = inc_name inc0 \<and>
    ins_rootResource (inc_spec x) = ins_rootResource (inc_spec (manual_incident ns req)) \<and>
    inc_name (case r of Inr y \<Rightarrow> y | Inl _ \<Rightarrow> opened_at now inc0) = inc_name inc0"
proof -
  note c = kind_laws_create [OF laws create]
  have key: "meta_key (inc_meta inc0) = (ns, inc_name inc0)"
    using c(2) by (simp add: meta_key_def manual_incident_def Let_def)
  have sent: "is_manual inc0" "ins_rootResource (inc_spec inc0) = ins_rootResource (inc_spec (manual_incident ns req))"
    using c(5) by (simp_all add: inc_sent_def manual_incident_def Let_def)
  have tab: "st_incidents (view w1) (meta_key (inc_meta inc0)) = Some inc0" using c(6) by simp
  show ?thesis
  proof (cases r)
    case (Inl e)
    with opened have "view w2 = view w1" using kind_laws_fail(3) [OF laws] by blast
    with tab key sent Inl show ?thesis by simp
  next
    case (Inr y)
    with opened have "api_status_patch (bk_incidents b) inc0 (opened_at now inc0) w1 = (Inr y, w2)" by simp
    from kind_laws_status_patch_any [OF laws this tab] have "y = opened_at now inc0 \<or> y = inc_dflt (opened_at now inc0)"
      and "view w2 = st_incidents_update (\<lambda>m. m(meta_key (inc_meta inc0) \<mapsto> y)) (view w1)" by simp_all
    then show ?thesis using key sent Inr by auto
  qed
qed

lemma find_owner_insert:
  assumes "insert_owner fk row d = (Inr n, d')"
  shows "find_owner (o_incident row) d' = Some row \<and> db_users d' = db_users d \<and> (fk \<longrightarrow> find_user (o_owner row) d \<noteq> None)"
proof -
  have "find (\<lambda>r. o_incident r = o_incident row) (db_owners d) = None" "db_owners d' = db_owners d @ [row]"
    "db_users d' = db_users d" "fk \<longrightarrow> find_user (o_owner row) d \<noteq> None"
    using assms by (auto simp: insert_owner_def find_None image_iff split: if_splits)
  then show ?thesis by (simp add: find_owner_def find_snoc)
qed

text \<open>
  C16. A manual incident belongs to the user that reported it: under the identifier in the reply, the user and every
  administrator find the incident with the reported resource and the name of the user, and
  everybody else is refused.
\<close>

theorem manual_incident_belongs_to_creator:
  assumes client: "faithful_client (bk_client b) view" "runs_apart b view" and "schema_ok d" and "CHR ''/'' \<notin> set ns"
    and "ca_userID c \<noteq> []"
    and run: "ManualIncident_Create b ns no_faults True c reqID now t (Inr req) (d, w) = (Json 201 resp, d', w')"
    and reads: "\<forall>name e. api_get (bk_incidents b) ns name w' = Inl e \<longrightarrow> is_not_found e"
  shows "\<exists>inc u. find_user (ca_userID c) d = Some u \<and> is_manual inc \<and>
    ins_rootResource (inc_spec inc) =
      mk_ref (if mi_namespace req = [] then ns else mi_namespace req) (mi_resourceKind req) (mi_resourceName req) \<and>
    (\<forall>c'. Incidents_Get b defaultNS no_faults c' (mr_incidentID resp) (Some d') w' =
       (if ca_role c' = ''admin'' \<or> ca_userID c' = ca_userID c then Json 200 \<lparr>iv_incident = inc, iv_ownerUsername = u_username u\<rparr>
        else Error 403 (Text ''incident not found'')))"
proof -
  note laws = faithful_inc [OF client(1)]
  obtain inc0 w1 r w2 where create: "api_create (bk_incidents b) (manual_incident ns req) w = (Inr inc0, w1)"
    and opened: "api_status_patch (bk_incidents b) inc0 (opened_at now inc0) w1 = (r, w2)"
    using run by (auto simp: ManualIncident_Create_def split: prod.splits sum.splits option.splits)
  obtain x where x: "st_incidents (view w2) (ns, inc_name inc0) = Some x" "is_manual x" "inc_name x = inc_name inc0"
    "ins_rootResource (inc_spec x) = ins_rootResource (inc_spec (manual_incident ns req))"
    "inc_name (case r of Inr y \<Rightarrow> y | Inl _ \<Rightarrow> opened_at now inc0) = inc_name inc0"
    using created_and_opened [OF laws create opened] by blast
  obtain ar d1 where start: "start_run b no_faults True c ns (inc_name inc0) [] ''manual'' manual_messages reqID now t (d, w2) = (Inr ar, d1, w')"
    and own: "\<exists>n. insert_owner True \<lparr>o_incident = inc_name inc0, o_namespace = ns, o_owner = ca_userID c\<rparr> d1 = (Inr n, d')"
    and resp: "mr_incidentID resp = ns @ ''/'' @ inc_name inc0"
    using run create opened x(5) \<open>ca_userID c \<noteq> []\<close>
    by (auto simp: ManualIncident_Create_def Let_def split: prod.splits sum.splits option.splits)
  have "view w' = view w2" by (rule start_run_view [OF client(2) start])
  then have tab: "st_incidents (view w') (ns, inc_name inc0) = Some x" using x(1) by simp
  have get: "api_get (bk_incidents b) ns (inc_name inc0) w' = Inr x"
  proof (cases "api_get (bk_incidents b) ns (inc_name inc0) w'")
    case (Inl e)
    with reads kind_laws_get_missing [OF laws Inl] tab show ?thesis by auto
  next
    case (Inr y)
    with kind_laws_get [OF laws Inr] tab show ?thesis by simp
  qed
  obtain q n where q: "insert_request True q d = (Inr n, d1)" using start_run_ok [OF start] by blast
  have s1: "schema_ok d1" using schema_inserts(2) [OF assms(3), of True q] q by simp
  from own obtain n' where n': "insert_owner True \<lparr>o_incident = inc_name inc0, o_namespace = ns, o_owner = ca_userID c\<rparr> d1 = (Inr n', d')" ..
  have s2: "schema_ok d'" using schema_inserts(5) [OF s1] n' by (metis snd_conv)
  have owner: "find_owner (inc_name inc0) d' = Some \<lparr>o_incident = inc_name inc0, o_namespace = ns, o_owner = ca_userID c\<rparr>"
    and users: "db_users d' = db_users d" and "find_user (ca_userID c) d1 \<noteq> None"
    using find_owner_insert [OF n'] insert_request_others [OF q] by simp_all
  then obtain u where u: "find_user (ca_userID c) d = Some u"
    using insert_request_others [OF q] by (auto simp: find_user_def)
  have "distinct (map o_incident (db_owners d'))" using s2 by (simp add: schema_ok_def)
  then have who: "owner_of d' (inc_name x) = (u_username u, ca_userID c)"
    using owner users u x(3) by (simp add: owner_of_def map_of_owner_rows find_user_def)
  have "Incidents_Get b defaultNS no_faults c' (mr_incidentID resp) (Some d') w' =
       (if ca_role c' = ''admin'' \<or> ca_userID c' = ca_userID c then Json 200 \<lparr>iv_incident = x, iv_ownerUsername = u_username u\<rparr>
        else Error 403 (Text ''incident not found''))" for c'
    unfolding resp get_view [OF \<open>CHR ''/'' \<notin> set ns\<close> get x(3)] using x(2) who by (auto simp: view_of_def)
  with u x(2,4) show ?thesis by (auto simp: manual_incident_def Let_def)
qed

text \<open>The report of a sample user, run against the backend in memory.\<close>

definition sample_create_run :: "manual_incident_response reply \<times> database \<times> mem" where
  "sample_create_run = ManualIncident_Create mem_backend ''kubechan'' no_faults True (sample_caller ''u1'' ''viewer'') ''r1'' 0 0 (Inr sample_report)
     (sample_db\<lparr>db_owners := []\<rparr>, empty_mem)"

definition is_created :: "'b reply \<Rightarrow> bool" where
  "is_created r = (case r of Json s _ \<Rightarrow> s = 201 | Error _ _ \<Rightarrow> False)"

lemma sample_run_created: "is_created (fst sample_create_run)"
  by code_simp

theorem manual_incident_belongs_to_creator_witness:
  "\<exists>resp d' w' v. sample_create_run = (Json 201 resp, d', w') \<and>
     Incidents_Get mem_backend ''kubechan'' no_faults (sample_caller ''u1'' ''viewer'') (mr_incidentID resp) (Some d') w' = Json 200 v \<and>
     Incidents_Get mem_backend ''kubechan'' no_faults (sample_caller ''u2'' ''viewer'') (mr_incidentID resp) (Some d') w' =
       Error 403 (Text ''incident not found'')"
proof -
  obtain resp where "fst sample_create_run = Json 201 resp"
    using sample_run_created by (auto simp: is_created_def split: reply.splits)
  then obtain d' w' where run: "sample_create_run = (Json 201 resp, d', w')" by (metis prod.collapse)
  have client: "faithful_client (bk_client mem_backend) mem_view" by (simp add: mem_client_faithful)
  have args: "CHR ''/'' \<notin> set ''kubechan''" "ca_userID (sample_caller ''u1'' ''viewer'') \<noteq> []" by (simp_all add: sample_caller_def)
  have reads: "\<forall>name e. api_get (bk_incidents mem_backend) ''kubechan'' name w' = Inl e \<longrightarrow> is_not_found e"
    by (auto dest: mem_get_missing)
  obtain inc and u :: user_row where all: "\<forall>c'. Incidents_Get mem_backend ''kubechan'' no_faults c' (mr_incidentID resp) (Some d') w' =
       (if ca_role c' = ''admin'' \<or> ca_userID c' = ca_userID (sample_caller ''u1'' ''viewer'')
        then Json 200 \<lparr>iv_incident = inc, iv_ownerUsername = u_username u\<rparr> else Error 403 (Text ''incident not found''))"
    using manual_incident_belongs_to_creator [OF client mem_apart sample_db_ok(2) args run [unfolded sample_create_run_def] reads, where defaultNS = "''kubechan''"]
    by (elim exE conjE) (erule that)
  have "\<exists>v. Incidents_Get mem_backend ''kubechan'' no_faults (sample_caller ''u1'' ''viewer'') (mr_incidentID resp) (Some d') w' = Json 200 v"
    and "Incidents_Get mem_backend ''kubechan'' no_faults (sample_caller ''u2'' ''viewer'') (mr_incidentID resp) (Some d') w' = Error 403 (Text ''incident not found'')"
    using all by (simp_all add: sample_caller_def)
  with run show ?thesis by blast
qed

end
