(* ===== verification/Analysis_Properties.thy ===== *)
theory Analysis_Properties
  imports Analysis_Lifecycle Settings_Properties Incident_Properties
begin

text \<open>
  Properties of the life cycle of an analysis and of the database as a whole: every dispatched analysis settles its
  requests, deleting runs is all or nothing, what recovery does, and that every operation of the
  backend keeps the constraints of the schema.
\<close>

section \<open>Settling\<close>

definition settled :: "string \<Rightarrow> string \<Rightarrow> time \<Rightarrow> request_row list \<Rightarrow> request_row list" where
  "settled run state t qs = map (\<lambda>q. if q_run q = run then q\<lparr>q_status := state, q_completedAt := Some (rfc3339 t)\<rparr> else q) qs"

lemma patch_settles:
  assumes "flt ''settle requests'' = None" and "patchAnalysisState h flt run state ref t (d, w) = (msgs, d', w')"
  shows "d' = d\<lparr>db_requests := settled run state t (db_requests d)\<rparr>"
  using assms by (simp add: patchAnalysisState_def db_exec_def update_requests_def settled_def Let_def)

text \<open>
  C14. A dispatched analysis settles: whatever the gateway answers, all requests of the run end as completed
  or failed with the time of the end, completed exactly if the result was stored, and no other request and no other
  result changes. (The request to the gateway can be encoded, and the final update reaches the database.)
\<close>

theorem analysis_settles:
  assumes "flt ''settle requests'' = None" and "\<And>r. js_request js r = None"
    and "dispatchAnalysis h js gateway flt analysisID now evidenceID req (d, w) = (msgs, d', w')"
  shows "db_requests d' = settled (er_runID req) ''completed'' now (db_requests d) \<and>
      (\<exists>r. db_results d' = db_results d @ [r] \<and> r_id r = analysisID \<and> r_run r = er_runID req \<and> r_status r = ''completed'') \<or>
    db_requests d' = settled (er_runID req) ''failed'' now (db_requests d) \<and> db_results d' = db_results d"
proof -
  define fail where "fail = (\<lambda>d. patchAnalysisState h flt (er_runID req) DiagnosticRunAnalysisStateFailed [] now (d, w))"
  have failed: ?thesis if "fail d = (msgs, d', w')"
    using patch_settles [OF assms(1) that [unfolded fail_def]] by (simp add: analysis_state_consts)
  show ?thesis
  proof (cases "js_payload js (er_payload req)")
    case (Inl e)
    then show ?thesis using assms(3) failed by (simp add: dispatchAnalysis_def fail_def)
  next
    case (Inr payload)
    define body where "body = gateway_request h flt evidenceID req payload (d, w)"
    show ?thesis
    proof (cases "\<exists>result. gateway body = Gw_reply 200 (Inr result)")
      case False
      then have "fail d = (msgs, d', w')"
        using assms(2,3) Inr by (auto simp: dispatchAnalysis_def Let_def fail_def body_def split: gateway_reply.splits if_splits sum.splits)
      then show ?thesis by (rule failed)
    next
      case True
      then obtain result where result: "gateway body = Gw_reply 200 (Inr result)" by blast
      let ?row = "result_row_of js analysisID (lq_provider body) now req result"
      obtain ir d1 where ins: "db_exec flt ''insert result'' (insert_result ?row) d = (ir, d1)" by fastforce
      show ?thesis
      proof (cases ir)
        case (Inl e)
        with ins have d1: "d1 = d" by (auto simp: db_exec_def insert_result_def split: option.splits if_splits)
        have "fail d1 = (msgs, d', w')"
          using assms(2,3) Inr result ins Inl by (simp add: dispatchAnalysis_def fail_def body_def)
        with failed d1 show ?thesis by simp
      next
        case (Inr n)
        with ins have d1: "d1 = d\<lparr>db_results := db_results d @ [?row]\<rparr>"
          by (auto simp: db_exec_def insert_result_def split: option.splits if_splits)
        obtain m where "patchAnalysisState h flt (er_runID req) DiagnosticRunAnalysisStateCompleted analysisID now (d1, w) = (m, d', w')"
          using assms(2,3) \<open>js_payload js (er_payload req) = _\<close> result ins Inr
          by (auto simp: dispatchAnalysis_def body_def split: prod.splits)
        from patch_settles [OF assms(1) this] d1 show ?thesis by (simp add: analysis_state_consts result_row_of_def)
      qed
    qed
  qed
qed

definition sample_texts :: json_texts where
  "sample_texts = \<lparr>js_redaction = (\<lambda>_. ''null''), js_truncation = (\<lambda>_. ''null''), js_errors = (\<lambda>_. ''null''), js_suggested = (\<lambda>_. ''null''),
     js_payload = (\<lambda>_. Inr []), js_request = (\<lambda>_. None)\<rparr>"

definition sample_evidence_request :: evidence_request where
  "sample_evidence_request = \<lparr>er_runID = ''dr-1'', er_problemCaseID = [], er_incidentID = ''inc-1'', er_collectedAt = 0, er_collectorVersion = ''v1'',
     er_payload = ''{}'', er_payloadBytes = 2, er_logTruncated = False, er_redaction = None, er_truncation = None, er_errors = []\<rparr>"

definition sample_internal :: "mem internal" where
  "sample_internal = \<lparr>in_backend = mem_backend, in_namespace = ''kubechan'', in_gatewayURL = ''http://llm-gateway'', in_hub = True,
     in_mood = None, in_personaAllowed = False\<rparr>"

theorem analysis_settles_witness:
  "\<exists>msgs d' w'. dispatchAnalysis sample_internal sample_texts (\<lambda>_. Gw_reply 503 (Inl (Errorf ''busy''))) no_faults ''a1'' 0 ''e1'' sample_evidence_request
       (empty_db\<lparr>db_requests := [pending_request ''r1'' ''inc-1'' ''dr-1'' 0 ''auto'' ''u1'']\<rparr>, empty_mem) = (msgs, d', w') \<and>
     (map q_status (db_requests d') = [''completed''] \<or> map q_status (db_requests d') = [''failed''])"
proof -
  let ?d = "empty_db\<lparr>db_requests := [pending_request ''r1'' ''inc-1'' ''dr-1'' 0 ''auto'' ''u1'']\<rparr>"
  obtain msgs d' w' where run: "dispatchAnalysis sample_internal sample_texts (\<lambda>_. Gw_reply 503 (Inl (Errorf ''busy''))) no_faults ''a1'' 0 ''e1'' sample_evidence_request
      (?d, empty_mem) = (msgs, d', w')" by (metis prod.collapse)
  have "map q_status (settled ''dr-1'' st 0 (db_requests ?d)) = [st]" for st
    by (simp add: settled_def pending_request_def)
  moreover have "er_runID sample_evidence_request = ''dr-1''" by (simp add: sample_evidence_request_def)
  ultimately have "map q_status (db_requests d') = [''completed''] \<or> map q_status (db_requests d') = [''failed'']"
    using analysis_settles [OF _ _ run] by (auto simp: no_faults_def sample_texts_def)
  with run show ?thesis by (intro exI conjI)
qed

section \<open>Deleting\<close>

definition without_runs :: "string set \<Rightarrow> database \<Rightarrow> database" where
  "without_runs S d = d\<lparr>db_results := filter (\<lambda>r. r_run r \<notin> S) (db_results d), db_requests := filter (\<lambda>q. q_run q \<notin> S) (db_requests d),
     db_evidence := filter (\<lambda>e. e_run e \<notin> S) (db_evidence d)\<rparr>"

lemma deleteRun_result: "deleteRunFromDB flt run d = Inr d' \<Longrightarrow> d' = without_runs {run} d"
  by (auto simp: deleteRunFromDB_def run_deletions_def without_runs_def split: option.splits)

lemma without_runs_simps: "without_runs S (without_runs T d) = without_runs (S \<union> T) d" "without_runs {} d = d"
  by (simp_all add: without_runs_def conj_commute)

lemma delete_runs_result: "delete_runs flt runs d = Inr d' \<Longrightarrow> d' = without_runs (set runs) d"
proof (induction runs arbitrary: d)
  case (Cons run runs)
  then obtain d1 where "deleteRunFromDB flt run d = Inr d1" "delete_runs flt runs d1 = Inr d'" by (auto split: sum.splits)
  then have "d' = without_runs (set runs) d1" "d1 = without_runs {run} d" using Cons.IH deleteRun_result by blast+
  then show ?case by (simp add: without_runs_simps)
qed (simp add: without_runs_simps)

text \<open>
  C15. Deleting runs is all or nothing: the reply is an error and the database is as before, or the results, requests and
  evidence of exactly the named runs are gone.
\<close>

theorem deleting_runs_is_atomic:
  "(\<exists>status msg. BulkDelete flt (Inr runs) d = (Error status msg, d)) \<or>
   BulkDelete flt (Inr runs) d = (Json 200 (int (length runs)), without_runs (set runs) d)"
  by (auto simp: BulkDelete_def transaction_def split: option.splits sum.splits dest: delete_runs_result)

section \<open>Recovery\<close>

definition recovered :: "(string \<Rightarrow> time) \<Rightarrow> request_row \<Rightarrow> request_row" where
  "recovered clock q = (if q_status q = ''pending'' then q\<lparr>q_status := ''dispatched'', q_dispatchedAt := Some (rfc3339 (clock (q_id q)))\<rparr> else q)"

definition recover_one :: "(string \<Rightarrow> time) \<Rightarrow> string \<Rightarrow> database \<Rightarrow> database" where
  "recover_one clock i d = d\<lparr>db_requests := map (\<lambda>q. if q_id q = i then recovered clock q else q) (db_requests d)\<rparr>"

lemma recover_step:
  "snd (db_exec no_faults l (update_requests (\<lambda>q. q_id q = i \<and> q_status q = ''pending'')
     (\<lambda>q. q\<lparr>q_status := ''dispatched'', q_dispatchedAt := Some (rfc3339 (clock i))\<rparr>)) d) = recover_one clock i d"
  by (auto simp: update_requests_def recover_one_def recovered_def intro!: arg_cong [of _ _ "\<lambda>x. db_requests_update x d"])

lemma recover_ids:
  "fold (recover_one clock) ids d = d\<lparr>db_requests := map (\<lambda>q. if q_id q \<in> set ids then recovered clock q else q) (db_requests d)\<rparr>"
  by (induction ids arbitrary: d) (auto simp: recover_one_def recovered_def)

text \<open>
  Recovery marks every pending request as dispatched and touches no other, so that one that was left in progress
  by a crash stays in progress.
\<close>

lemma recovery_outcome:
  "RecoverPendingRequests no_faults clock d = (None, d\<lparr>db_requests := map (recovered clock) (db_requests d)\<rparr>)"
proof -
  let ?ids = "map q_id (filter (\<lambda>q. q_status q = ''pending'') (db_requests d))"
  have "(if q_id q \<in> set ?ids then recovered clock q else q) = recovered clock q" if "q \<in> set (db_requests d)" for q
    using that by (auto simp: recovered_def)
  then have "map (\<lambda>q. if q_id q \<in> set ?ids then recovered clock q else q) (db_requests d) = map (recovered clock) (db_requests d)"
    by (intro map_cong) simp_all
  then show ?thesis unfolding RecoverPendingRequests_def recover_step no_faults_simps(1) sum.case recover_ids by simp
qed

section \<open>The schema\<close>

text \<open>
  The contract between the operations of the backend and its database: an operation, given whatever it is given, keeps the
  constraints of the schema. It carries over to any number of them.
\<close>

locale db_operation =
  fixes run :: "'a \<Rightarrow> database \<Rightarrow> database"
  assumes keeps: "schema_ok d \<Longrightarrow> schema_ok (run a d)"
begin

lemma keeps_all: "schema_ok d \<Longrightarrow> schema_ok (fold run as d)"
  by (induction as arbitrary: d) (simp_all add: keeps)

end

lemma schema_requests [schema_keeps]: "schema_ok d \<Longrightarrow> map q_id qs = map q_id (db_requests d) \<Longrightarrow> schema_ok (d\<lparr>db_requests := qs\<rparr>)"
  by (simp add: schema_ok_def)

lemma schema_filter [schema_keeps]:
  "schema_ok d \<Longrightarrow> schema_ok (d\<lparr>db_results := filter p (db_results d)\<rparr>)" "schema_ok d \<Longrightarrow> schema_ok (d\<lparr>db_requests := filter q (db_requests d)\<rparr>)"
  "schema_ok d \<Longrightarrow> schema_ok (d\<lparr>db_evidence := filter e (db_evidence d)\<rparr>)"
  by (auto simp: schema_ok_def distinct_map_filter)

lemma schema_update_rating [schema_keeps]: "schema_ok d \<Longrightarrow> schema_ok (snd (update_rating i rating d))"
  by (auto simp: schema_ok_def update_rating_def map_update_key)

lemma schema_exec_eq:
  "db_exec flt l f d = (r, d') \<Longrightarrow> schema_ok d \<Longrightarrow> (\<And>d. schema_ok d \<Longrightarrow> schema_ok (snd (f d))) \<Longrightarrow> schema_ok d'"
  using schema_exec [of d f flt l] by simp

lemmas schema_execs = schema_exec_eq [where f = "insert_request fk q" for fk q, OF _ _ schema_inserts(2)]
  schema_exec_eq [where f = "insert_result r" for r, OF _ _ schema_inserts(3)]
  schema_exec_eq [where f = "insert_evidence e" for e, OF _ _ schema_inserts(4)]
  schema_exec_eq [where f = "insert_owner fk ow" for fk ow, OF _ _ schema_inserts(5)]
  schema_exec_eq [where f = "upsert_llm fk row" for fk row, OF _ _ schema_upsert]
  schema_exec_eq [where f = "update_rating i r" for i r, OF _ _ schema_update_rating]

lemma schema_start_run:
  "start_run b flt fk c ns name pcRef source what reqID now t (d, w) = (r, d', w') \<Longrightarrow> schema_ok d \<Longrightarrow> schema_ok d'"
  by (auto simp: start_run_def split: prod.splits sum.splits dest: schema_execs(1))

lemma schema_write_settings: "schema_ok d \<Longrightarrow> schema_ok (snd (write_settings marshal flt b ks d))"
proof (induction ks arbitrary: d)
  case (Cons k ks)
  show ?case
  proof (cases "marshal (any_idx b k)")
    case (Inr encoded)
    obtain r d' where e: "db_exec flt ''update setting'' (update_setting k encoded) d = (r, d')" by fastforce
    then have "schema_ok d'" using Cons.prems schema_update_setting by (rule schema_exec_eq)
    with Inr e Cons.IH show ?thesis by (cases r) simp_all
  qed (use Cons.prems in simp)
qed simp

interpretation create_user: db_operation "\<lambda>(b, uuid, t, flt, body) d. snd (Users_Create b uuid t flt body d)"
  by unfold_locales (auto intro: schema_Users_Create)

interpretation delete_user_op: db_operation "\<lambda>(flt, fk, i) d. snd (Users_Delete flt fk i d)"
  by unfold_locales (auto intro: schema_Users_Delete)

interpretation settings_update: db_operation "\<lambda>(ord, marshal, p, flt, body) d. snd (Settings_Update ord marshal p flt body d)"
  by unfold_locales (auto simp: Settings_Update_def intro: schema_write_settings split: sum.split option.split)

interpretation llm_put: db_operation "\<lambda>(ord, flt, fk, c, body) d. snd (LLM_Put ord flt fk c body d)"
  by unfold_locales (auto simp: LLM_Put_def Let_def split: sum.splits prod.splits dest: schema_execs(5))

interpretation rate: db_operation "\<lambda>(flt, i, body) d. snd (RateAnalysisResult flt i body d)"
  by unfold_locales (auto simp: RateAnalysisResult_def split: sum.splits prod.splits option.splits dest: schema_execs(6))

lemma schema_without_runs: "schema_ok d \<Longrightarrow> schema_ok (without_runs S d)"
  by (auto simp: schema_ok_def without_runs_def distinct_map_filter)

lemma schema_delete_runs:
  "delete_runs flt runs d = Inr d' \<Longrightarrow> schema_ok d \<Longrightarrow> schema_ok d'" "deleteRunFromDB flt run d = Inr d' \<Longrightarrow> schema_ok d \<Longrightarrow> schema_ok d'"
  using delete_runs_result deleteRun_result schema_without_runs by blast+

interpretation bulk_delete: db_operation "\<lambda>(flt, body) d. snd (BulkDelete flt body d)"
  by unfold_locales (auto simp: BulkDelete_def transaction_def split: sum.split option.split dest: schema_delete_runs(1))

interpretation delete_run: db_operation "\<lambda>(flt, run) d. snd (Runs_Delete flt run d)"
  by unfold_locales (auto simp: Runs_Delete_def transaction_def split: sum.split option.split dest: schema_delete_runs(2))

lemma schema_deleted: "schema_ok d \<Longrightarrow> (\<And>d. schema_ok d \<Longrightarrow> schema_ok (f d)) \<Longrightarrow> schema_ok (deleted flt l f d)"
  by (simp add: deleted_def split: option.split)

interpretation pruner: db_operation "\<lambda>(flt, t1, t2, t3) d. prune flt t1 t2 t3 d"
  by unfold_locales (auto simp: prune_def Let_def intro!: schema_deleted schema_filter)

interpretation recovery: db_operation "\<lambda>(flt, clock) d. snd (RecoverPendingRequests flt clock d)"
proof unfold_locales
  fix d and a :: "db_faults \<times> (string \<Rightarrow> time)"
  assume d: "schema_ok d"
  obtain flt clock where a: "a = (flt, clock)" by (cases a)
  have "schema_ok (fold (\<lambda>i d. snd (db_exec flt (''recover '' @ i) (update_requests (\<lambda>q. q_id q = i \<and> q_status q = ''pending'')
      (\<lambda>q. q\<lparr>q_status := ''dispatched'', q_dispatchedAt := Some (rfc3339 (clock i))\<rparr>)) d)) ids d)" for ids
    using d
  proof (induction ids arbitrary: d)
    case (Cons i ids)
    show ?case unfolding fold_simps by (rule Cons.IH, rule schema_exec [OF Cons.prems], rule schema_update_requests) simp_all
  qed simp
  with d show "schema_ok ((\<lambda>(flt, clock) d. snd (RecoverPendingRequests flt clock d)) a d)"
    by (simp add: a RecoverPendingRequests_def db_query_def split: option.split)
qed

text \<open>The operations that also change the cluster.\<close>

lemma schema_Analyze: "Analyze b ns flt fk c reqID now t i (d, w) = (r, d', w') \<Longrightarrow> schema_ok d \<Longrightarrow> schema_ok d'"
  by (auto simp: Analyze_def accepted_def split: prod.splits sum.splits if_splits dest: schema_start_run)

lemma schema_Augment: "Augment b ns flt fk c reqID now t i body (d, w) = (r, d', w') \<Longrightarrow> schema_ok d \<Longrightarrow> schema_ok d'"
  by (auto simp: Augment_def accepted_def split: prod.splits sum.splits if_splits dest: schema_start_run)

lemma schema_ManualIncident:
  "ManualIncident_Create b ns flt fk c reqID now t body (d, w) = (r, d', w') \<Longrightarrow> schema_ok d \<Longrightarrow> schema_ok d'"
  by (auto simp: ManualIncident_Create_def Let_def split: prod.splits sum.splits option.splits if_splits dest: schema_start_run schema_execs(4))

lemma schema_mark: "schema_ok d \<Longrightarrow> schema_ok (mark_in_progress flt run t d)"
  unfolding mark_in_progress_def by (intro schema_exec schema_update_requests) simp_all

lemma schema_ReceiveEvidence:
  "ReceiveEvidence h js flt i now body (d, w) = (r, msgs, go, d', w') \<Longrightarrow> schema_ok d \<Longrightarrow> schema_ok d'"
  by (auto simp: ReceiveEvidence_def Let_def split: prod.splits sum.splits if_splits dest: schema_execs(3) intro: schema_mark)

lemma schema_patchAnalysisState:
  "patchAnalysisState h flt run state ref t (d, w) = (msgs, d', w') \<Longrightarrow> schema_ok d \<Longrightarrow> schema_ok d'"
  by (auto simp: patchAnalysisState_def Let_def intro!: schema_exec schema_update_requests)

lemma schema_dispatch:
  "dispatchAnalysis h js gateway flt aid now eid req (d, w) = (msgs, d', w') \<Longrightarrow> schema_ok d \<Longrightarrow> schema_ok d'"
  by (auto simp: dispatchAnalysis_def Let_def split: prod.splits sum.splits option.splits gateway_reply.splits if_splits
    dest: schema_patchAnalysisState schema_execs(2))

lemma schema_EnsureAdminUser:
  "EnsureAdminUser b c rand ns uuid t flt (d, w) = (r, d', w') \<Longrightarrow> schema_ok d \<Longrightarrow> schema_ok d'"
  by (auto simp: EnsureAdminUser_def split: prod.splits sum.splits if_splits dest: schema_exec_user(1))

text \<open>One operation of the backend on the database and the cluster, whatever arrives and whatever fails.\<close>

inductive backend_step :: "'w internal \<Rightarrow> database \<times> 'w \<Rightarrow> database \<times> 'w \<Rightarrow> bool" for h where
  bs_bootstrap: "EnsureAdminUser b sc rand ns uuid t flt (d, w) = (r, d', w') \<Longrightarrow> backend_step h (d, w) (d', w')"
| bs_recover: "backend_step h (d, w) (snd (RecoverPendingRequests flt clock d), w)"
| bs_prune: "backend_step h (d, w) (prune flt t1 t2 t3 d, w)"
| bs_create_user: "backend_step h (d, w) (snd (Users_Create b uuid t flt ubody d), w)"
| bs_delete_user: "backend_step h (d, w) (snd (Users_Delete flt fk i d), w)"
| bs_settings: "backend_step h (d, w) (snd (Settings_Update ord marshal p flt sbody d), w)"
| bs_llm: "backend_step h (d, w) (snd (LLM_Put ord flt fk c lbody d), w)"
| bs_rate: "backend_step h (d, w) (snd (RateAnalysisResult flt i rbody d), w)"
| bs_delete_run: "backend_step h (d, w) (snd (Runs_Delete flt i d), w)"
| bs_bulk_delete: "backend_step h (d, w) (snd (BulkDelete flt dbody d), w)"
| bs_analyze: "Analyze (in_backend h) ns flt fk c reqID t1 t2 i (d, w) = (ar, d', w') \<Longrightarrow> backend_step h (d, w) (d', w')"
| bs_augment: "Augment (in_backend h) ns flt fk c reqID t1 t2 i abody (d, w) = (ar, d', w') \<Longrightarrow> backend_step h (d, w) (d', w')"
| bs_manual: "ManualIncident_Create (in_backend h) ns flt fk c reqID t1 t2 mbody (d, w) = (mr, d', w') \<Longrightarrow> backend_step h (d, w) (d', w')"
| bs_evidence: "ReceiveEvidence h js flt i t1 ebody (d, w) = (er, msgs, go, d', w') \<Longrightarrow> backend_step h (d, w) (d', w')"
| bs_dispatch: "dispatchAnalysis h js gateway flt i t1 j req (d, w) = (msgs, d', w') \<Longrightarrow> backend_step h (d, w) (d', w')"

lemma step_keeps_schema: "backend_step h s s' \<Longrightarrow> schema_ok (fst s) \<Longrightarrow> schema_ok (fst s')"
proof (induction rule: backend_step.induct)
  case (bs_recover d w flt clock)
  then show ?case using recovery.keeps [of d "(flt, clock)"] by simp
next
  case (bs_prune d w flt t1 t2 t3)
  then show ?case using pruner.keeps [of d "(flt, t1, t2, t3)"] by simp
next
  case (bs_settings d w ord marshal p flt sbody)
  then show ?case using settings_update.keeps [of d "(ord, marshal, p, flt, sbody)"] by simp
next
  case (bs_llm d w ord flt fk c lbody)
  then show ?case using llm_put.keeps [of d "(ord, flt, fk, c, lbody)"] by simp
next
  case (bs_rate d w flt i rbody)
  then show ?case using rate.keeps [of d "(flt, i, rbody)"] by simp
next
  case (bs_delete_run d w flt i)
  then show ?case using delete_run.keeps [of d "(flt, i)"] by simp
next
  case (bs_bulk_delete d w flt dbody)
  then show ?case using bulk_delete.keeps [of d "(flt, dbody)"] by simp
qed (auto intro: schema_Users_Create schema_Users_Delete dest: schema_EnsureAdminUser schema_Analyze schema_Augment
  schema_ManualIncident schema_ReceiveEvidence schema_dispatch)



end
