(* ===== verification/Evidence_Delivery.thy ===== *)
theory Evidence_Delivery
  imports Diagnostic_Properties Analysis_Properties
begin

text \<open>
  The way of the evidence from the diagnostics worker (\<open>postEvidence\<close>) to the backend (\<open>ReceiveEvidence\<close>), the two
  ends of \<open>POST /internal/evidence\<close>. The state is the database of the backend beside the cluster both services work on.
  Reading a time stamp back from its text is the parameter \<open>parse\<close>.
\<close>

section \<open>The settings of the worker\<close>

text \<open>\<open>diagnostics-worker/main.go\<close>: what the environment decides about the reconciler.\<close>

definition worker_envOr :: "string \<Rightarrow> string \<Rightarrow> string" where
  "worker_envOr v def = (if v \<noteq> [] then v else def)"

definition envInt :: "string \<Rightarrow> int \<Rightarrow> int" where
  "envInt v def = (if v = [] then def else (case parse_int64 v of None \<Rightarrow> def | Some n \<Rightarrow> n))"

record worker_env =
  wv_backendURL :: string
  wv_logTailLines :: string
  wv_prevLogTailLines :: string

definition worker_main :: "worker_env \<Rightarrow> 'w worker \<Rightarrow> 'w worker" where
  "worker_main env r = r\<lparr>wk_backendURL := worker_envOr (wv_backendURL env) ''http://kubechan-backend-api:8080'',
     wk_logTailLines := envInt (wv_logTailLines env) 200, wk_prevLogLines := envInt (wv_prevLogTailLines env) 100,
     wk_collectorVersion := ''0.1.0''\<rparr>"

section \<open>The request\<close>

text \<open>Decoding the body into \<open>evidenceRequest\<close>: the worker sends neither a case nor notes about redaction and truncation.\<close>

definition decode_post :: "(string \<Rightarrow> go_error + time) \<Rightarrow> evidence_post \<Rightarrow> go_error + evidence_request" where
  "decode_post parse b = (case parse (ep_collectedAt b) of
     Inl e \<Rightarrow> Inl e
   | Inr t \<Rightarrow> Inr \<lparr>er_runID = ep_diagnosticRunId b, er_problemCaseID = [], er_incidentID = ep_incidentId b, er_collectedAt = t,
       er_collectorVersion = ep_collectorVersion b, er_payload = ep_payload b, er_payloadBytes = ep_payloadBytes b, er_logTruncated = False,
       er_redaction = None, er_truncation = None, er_errors = ep_collectionErrors b\<rparr>)"

definition backend_http :: "'w internal \<Rightarrow> json_texts \<Rightarrow> db_faults \<Rightarrow> string \<Rightarrow> time \<Rightarrow> (string \<Rightarrow> go_error + time) \<Rightarrow>
    string \<Rightarrow> evidence_post \<Rightarrow> database \<times> 'w \<Rightarrow> (go_error + int) \<times> database \<times> 'w" where
  "backend_http h js flt evidenceID now parse url body s =
     (case ReceiveEvidence h js flt evidenceID now (decode_post parse body) s of (reply, msgs, go, s') \<Rightarrow> (Inr (rp_status reply), s'))"

section \<open>A successful post\<close>

lemma received:
  assumes "ReceiveEvidence h js flt evidenceID now (Inr req) (d, w) = (reply, msgs, go, d', w')" and "rp_status reply < 300"
  shows "er_runID req \<noteq> [] \<and> db_evidence d' = db_evidence d @ [evidence_row_of js evidenceID now req] \<and>
    db_requests d' = db_requests (if in_gatewayURL h = [] then d else mark_in_progress flt (er_runID req) now d)"
proof -
  let ?row = "evidence_row_of js evidenceID now req"
  have run: "er_runID req \<noteq> []" using assms by (auto simp: ReceiveEvidence_def)
  have free: "e_id ?row \<notin> set (map e_id (db_evidence d))" "flt ''insert evidence'' = None"
    using assms run by (auto simp: ReceiveEvidence_def db_exec_def insert_evidence_def split: option.splits if_splits)
  then have "db_exec flt ''insert evidence'' (insert_evidence ?row) d = (Inr 1, d\<lparr>db_evidence := db_evidence d @ [?row]\<rparr>)"
    by (simp add: db_exec_def insert_evidence_def)
  with assms(1) run have "d' = (if in_gatewayURL h = [] then d\<lparr>db_evidence := db_evidence d @ [?row]\<rparr>
      else mark_in_progress flt (er_runID req) now (d\<lparr>db_evidence := db_evidence d @ [?row]\<rparr>))"
    by (cases "in_gatewayURL h = []") (simp_all add: ReceiveEvidence_def Let_def)
  with run show ?thesis by (simp add: mark_in_progress_def db_exec_def update_requests_def split: option.split)
qed

lemma marked:
  assumes "flt ''requests in progress'' = None" and "q \<in> set (db_requests (mark_in_progress flt run t d))" and "q_run q = run"
  shows "q_status q \<notin> {''pending'', ''dispatched''}"
proof -
  let ?waits = "\<lambda>p. q_run p = run \<and> (q_status p = ''pending'' \<or> q_status p = ''dispatched'')"
  let ?mark = "\<lambda>p. if ?waits p then p\<lparr>q_status := ''in_progress'', q_dispatchedAt := Some (rfc3339 t)\<rparr> else p"
  have "db_requests (mark_in_progress flt run t d) = map ?mark (db_requests d)"
    using assms(1) by (simp add: mark_in_progress_def db_exec_def update_requests_def)
  with assms(2) have "q \<in> ?mark ` set (db_requests d)" by (simp only: set_map)
  then obtain p where "q = ?mark p" by (rule imageE)
  with assms(3) show ?thesis by (cases "?waits p") simp_all
qed

text \<open>
  C9. When the worker sees its post succeed, the backend has stored exactly one new row of evidence: the run, the incident, the
  collector version, the time of the collection and the JSON text are those of the worker. With a gateway, no request for the run is still waiting.
\<close>

theorem posted_evidence_is_stored:
  assumes http: "wk_http r = backend_http h js flt evidenceID now parse"
    and post: "postEvidence r dr ev errs (d, w) = (None, d', w')"
    and time: "parse (rfc3339 (ev_collectedAt ev)) = Inr t" "rfc3339 t = rfc3339 (ev_collectedAt ev)"
  shows "\<exists>payload row. wk_marshal r ev = Inr payload \<and> db_evidence d' = db_evidence d @ [row] \<and> e_id row = evidenceID \<and>
    e_run row = om_name (dr_meta dr) \<and> e_run row \<noteq> [] \<and> e_incident row = nullStr (drs_incidentRef (dr_spec dr)) \<and>
    e_payload row = payload \<and> e_payloadBytes row = int (length payload) \<and> e_collectedAt row = rfc3339 (ev_collectedAt ev) \<and>
    e_collectorVersion row = wk_collectorVersion r \<and>
    (in_gatewayURL h \<noteq> [] \<and> flt ''requests in progress'' = None \<longrightarrow>
       (\<forall>q \<in> set (db_requests d'). q_run q = om_name (dr_meta dr) \<longrightarrow> q_status q \<notin> {''pending'', ''dispatched''}))"
proof -
  obtain payload where payload: "wk_marshal r ev = Inr payload" using post by (auto simp: postEvidence_def split: sum.splits)
  define req where "req = \<lparr>er_runID = om_name (dr_meta dr), er_problemCaseID = [], er_incidentID = drs_incidentRef (dr_spec dr),
    er_collectedAt = t, er_collectorVersion = wk_collectorVersion r, er_payload = payload, er_payloadBytes = int (length payload),
    er_logTruncated = False, er_redaction = None, er_truncation = None, er_errors = errs\<rparr>"
  obtain reply msgs go where rcv: "ReceiveEvidence h js flt evidenceID now (Inr req) (d, w) = (reply, msgs, go, d', w')" "rp_status reply < 300"
    using post payload time(1)
    by (auto simp: postEvidence_def http backend_http_def decode_post_def req_def Let_def split: option.splits prod.splits if_splits)
  from received [OF rcv] marked [of flt _ "om_name (dr_meta dr)" now d]
  show ?thesis using payload time(2) by (auto simp: req_def evidence_row_of_def)
qed

section \<open>A failed post\<close>


section \<open>Samples\<close>

text \<open>A worker that finds nothing in its cluster and posts to the backend beside it.\<close>

definition nowhere :: "('w, 'o) kind_client" where
  "nowhere = \<lparr>api_get = (\<lambda>_ _ _. Inl NotFound), api_list = (\<lambda>_ _ _. Inr []), api_create = (\<lambda>_ w. (Inl NotFound, w)),
     api_patch = (\<lambda>_ _ w. (Inl NotFound, w)), api_status_patch = (\<lambda>_ _ w. (Inl NotFound, w))\<rparr>"

definition posting_worker :: "(database \<times> mem) worker" where
  "posting_worker = \<lparr>wk_client = \<lparr>c_problemCases = nowhere, c_incidents = nowhere, c_rules = nowhere, c_states = nowhere, c_pods = nowhere,
       c_deployments = nowhere, c_services = nowhere, c_nodes = nowhere, c_statefulSets = nowhere, c_daemonSets = nowhere,
       c_endpointSlices = nowhere, c_unstructured = (\<lambda>_ _ _ _. Inl NotFound)\<rparr>,
     wk_runs = nowhere, wk_events = (\<lambda>_ _. Inr []), wk_pods = (\<lambda>_ _. Inr []), wk_deployments = (\<lambda>_ _. Inr []),
     wk_statefulSets = (\<lambda>_ _. Inr []), wk_daemonSets = (\<lambda>_ _. Inr []), wk_services = (\<lambda>_ _. Inr []), wk_ingresses = (\<lambda>_ _. Inr []),
     wk_hpas = (\<lambda>_ _. Inr []), wk_slices = (\<lambda>_ _. Inr []), wk_deployment = (\<lambda>_ _ _. Inl NotFound), wk_statefulSet = (\<lambda>_ _ _. Inl NotFound),
     wk_daemonSet = (\<lambda>_ _ _. Inl NotFound), wk_service = (\<lambda>_ _ _. Inl NotFound), wk_ingress = (\<lambda>_ _ _. Inl NotFound),
     wk_hpa = (\<lambda>_ _ _. Inl NotFound), wk_slice = (\<lambda>_ _ _. Inl NotFound), wk_configMap = (\<lambda>_ _ _. Inl NotFound),
     wk_secret = (\<lambda>_ _ _. Inl NotFound), wk_pvc = (\<lambda>_ _ _. Inl NotFound), wk_storageClass = (\<lambda>_ _. Inl NotFound),
     wk_cronJob = (\<lambda>_ _ _. Inl NotFound), wk_job = (\<lambda>_ _ _. Inl NotFound), wk_config = None,
     wk_discovery = \<lparr>di_lists = Inr [], di_parse = (\<lambda>_. Inl NotFound)\<rparr>, wk_dynNew = None, wk_dynGet = (\<lambda>_ _ _ _. Inl NotFound),
     wk_clientset = (\<lambda>_. None), wk_logs = (\<lambda>_ _ _ _ _. Inl NotFound), wk_marshal = (\<lambda>_. Inr ''{}''), wk_encode = (\<lambda>_. None),
     wk_http = backend_http sample_internal sample_texts no_faults ''ev-1'' 0 (\<lambda>_. Inr 0), wk_postCtx = None,
     wk_backendURL = ''http://backend'', wk_error = (\<lambda>_. ''error''), wk_addr = (\<lambda>_. ''0xc000''), wk_timeString = (\<lambda>_. ''now''),
     wk_logTailLines = 100, wk_prevLogLines = 50, wk_collectorVersion = ''v1''\<rparr>"

theorem posted_evidence_is_stored_witness:
  "\<exists>d' w' row. postEvidence posting_worker sample_run empty_evidence [] (empty_db, empty_mem) = (None, d', w') \<and>
     db_evidence d' = [row] \<and> e_run row = ''run'' \<and> e_payload row = ''{}''"
proof -
  have http: "wk_http posting_worker = backend_http sample_internal sample_texts no_faults ''ev-1'' 0 (\<lambda>_. Inr 0)"
    by (simp add: posting_worker_def)
  obtain d' w' where post: "postEvidence posting_worker sample_run empty_evidence [] (empty_db, empty_mem) = (None, d', w')"
    by (simp add: postEvidence_def posting_worker_def backend_http_def decode_post_def ReceiveEvidence_def insert_evidence_def
      sample_run_def sample_internal_def empty_db_def Let_def)
  from posted_evidence_is_stored [OF http post, of 0] post show ?thesis
    by (auto simp: empty_evidence_def posting_worker_def sample_run_def empty_db_def)
qed


end
