(* ===== verification/Resource_Handlers.thy ===== *)
theory Resource_Handlers
  imports Backend_Http Api_Client
begin

text \<open>
  The handlers that list what is in the cluster: \<open>backend-api/handler/resources.go\<close>. The discovery client
  (the lists of resources by group and version, or the error of its construction), \<open>schema.ParseGroupVersion\<close>, the
  typed clients (the names of the objects of a kind in a namespace) and the dynamic client are parameters.
\<close>

section \<open>Namespaces\<close>

definition controlPlaneNamespaces :: "string list" where
  "controlPlaneNamespaces = [''kube-system'', ''kube-public'', ''kube-node-lease'', ''local-path-storage'']"

definition ListNamespaces :: "go_error + string list \<Rightarrow> string list reply" where
  "ListNamespaces nsList = (case nsList of
     Inl e \<Rightarrow> writeError 500 (With_error [] e)
   | Inr names \<Rightarrow> writeJSON 200 (filter (\<lambda>n. n \<notin> set controlPlaneNamespaces) names))"

section \<open>Kinds\<close>

record kind_item =
  ki_kind :: string
  ki_apiGroup :: string

definition hasVerbs :: "string list \<Rightarrow> string list \<Rightarrow> bool" where
  "hasVerbs verbs required = list_all (\<lambda>v. v \<in> set verbs) required"

definition has_prefix :: "string \<Rightarrow> string \<Rightarrow> bool" where
  "has_prefix p s \<longleftrightarrow> take (length p) s = p"

text \<open>One resource of a group: the items so far and the keys already seen.\<close>

definition add_kind :: "string \<Rightarrow> string \<Rightarrow> api_resource \<Rightarrow> kind_item list \<times> string list \<Rightarrow> kind_item list \<times> string list" where
  "add_kind q grp res = (\<lambda>(kinds, seen).
     let key = ap_kind res @ ''/'' @ grp
     in if ap_namespaced res \<and> hasVerbs (ap_verbs res) [''get'', ''list''] \<and>
           \<not> (q \<noteq> [] \<and> \<not> has_prefix q (to_lower (ap_kind res))) \<and> key \<notin> set seen
        then (kinds @ [\<lparr>ki_kind = ap_kind res, ki_apiGroup = grp\<rparr>], key # seen) else (kinds, seen))"

definition add_list :: "discovery \<Rightarrow> string \<Rightarrow> string \<times> api_resource list \<Rightarrow> kind_item list \<times> string list \<Rightarrow> kind_item list \<times> string list" where
  "add_list dc q = (\<lambda>(gv, ress) st. case di_parse dc gv of Inl e \<Rightarrow> st | Inr (grp, version) \<Rightarrow> fold (add_kind q grp) ress st)"

definition kind_less :: "kind_item \<Rightarrow> kind_item \<Rightarrow> bool" where
  "kind_less a b = (if ki_kind a \<noteq> ki_kind b then ki_kind a < ki_kind b else ki_apiGroup a < ki_apiGroup b)"

definition ListKinds :: "discovery \<Rightarrow> string \<Rightarrow> kind_item list reply" where
  "ListKinds dc qParam = (case di_lists dc of
     Inl e \<Rightarrow> writeError 500 (With_error ''creating discovery client: '' e)
   | Inr rls \<Rightarrow>
       (let q = to_lower (trim_space qParam)
        in writeJSON 200 (sort_slice kind_less (fst (fold (add_list dc q) rls ([], []))))))"

section \<open>Resources\<close>

record resource_item =
  it_name :: string
  it_namespace :: string

definition toItems :: "string \<Rightarrow> string list \<Rightarrow> resource_item list" where
  "toItems ns names = map (\<lambda>n. \<lparr>it_name = n, it_namespace = ns\<rparr>) names"

definition typed_kinds :: "string list" where
  "typed_kinds = [''Deployment'', ''StatefulSet'', ''DaemonSet'', ''Job'', ''CronJob'', ''Pod'', ''Service'', ''PersistentVolumeClaim'',
     ''ConfigMap'', ''Ingress'']"

definition listByKindTyped :: "(string \<Rightarrow> string \<Rightarrow> go_error + string list) \<Rightarrow> string \<Rightarrow> string \<Rightarrow> go_error + resource_item list" where
  "listByKindTyped names ns kind =
     (if kind \<in> set typed_kinds then (case names kind ns of Inl e \<Rightarrow> Inl e | Inr xs \<Rightarrow> Inr (toItems ns xs))
      else Inl (Errorf (''unsupported kind: '' @ kind)))"

text \<open>The first resource, in the order of discovery, of the kind and with the verbs.\<close>

fun find_gvr :: "discovery \<Rightarrow> string \<Rightarrow> string \<Rightarrow> resource_lists \<Rightarrow> gvr option" where
  "find_gvr dc kind apiGroup [] = None"
| "find_gvr dc kind apiGroup ((gv, ress) # rls) = (case di_parse dc gv of
     Inl e \<Rightarrow> find_gvr dc kind apiGroup rls
   | Inr (grp, version) \<Rightarrow>
       if apiGroup \<noteq> [] \<and> grp \<noteq> apiGroup then find_gvr dc kind apiGroup rls
       else (case find (\<lambda>res. to_lower (ap_kind res) = to_lower kind \<and> hasVerbs (ap_verbs res) [''get'', ''list'']) ress of
           Some res \<Rightarrow> Some \<lparr>gv_group = grp, gv_version = version, gv_resource = ap_name res\<rparr>
         | None \<Rightarrow> find_gvr dc kind apiGroup rls))"

text \<open>The dynamic client: the error of its construction, and the names and namespaces of the listed objects.\<close>

record dynamic_client =
  dy_new :: "go_error option"
  dy_list :: "gvr \<Rightarrow> string \<Rightarrow> go_error + (string \<times> string) list"

definition listByKindDynamic :: "discovery \<Rightarrow> dynamic_client \<Rightarrow> string \<Rightarrow> string \<Rightarrow> string \<Rightarrow> go_error + resource_item list" where
  "listByKindDynamic dc dyn ns kind apiGroup = (case di_lists dc of
     Inl e \<Rightarrow> Inl (Wrapf ''creating discovery client'' e)
   | Inr rls \<Rightarrow> (case find_gvr dc kind apiGroup rls of
       None \<Rightarrow> Inl (Errorf (''kind '' @ quote kind @ '' (apiGroup '' @ quote apiGroup @ '') not found in cluster''))
     | Some g \<Rightarrow> (case dy_new dyn of
         Some e \<Rightarrow> Inl (Wrapf ''creating dynamic client'' e)
       | None \<Rightarrow> (case dy_list dyn g ns of
           Inl e \<Rightarrow> Inl (Wrapf (''listing '' @ ns @ ''/'' @ kind) e)
         | Inr objs \<Rightarrow> Inr (map (\<lambda>(n, m). \<lparr>it_name = n, it_namespace = m\<rparr>) objs)))))"

text \<open>Whether the text of an error starts with a word.\<close>

fun err_prefix :: "string \<Rightarrow> go_error \<Rightarrow> bool" where
  "err_prefix p (Errorf s) = has_prefix p s"
| "err_prefix p (ApiFailure s) = has_prefix p s"
| "err_prefix p (Wrapf m e) = has_prefix p m"
| "err_prefix p _ = False"

definition ListResources :: "(string \<Rightarrow> string \<Rightarrow> go_error + string list) \<Rightarrow> discovery \<Rightarrow> dynamic_client \<Rightarrow> string \<Rightarrow> string \<Rightarrow> string \<Rightarrow>
    resource_item list reply" where
  "ListResources names dc dyn ns kindParam groupParam =
     (let kind = trim_space kindParam; apiGroup = trim_space groupParam;
          dynamic = (case listByKindDynamic dc dyn ns kind apiGroup of Inl e \<Rightarrow> writeError 500 (With_error [] e) | Inr xs \<Rightarrow> writeJSON 200 xs)
      in if kind = [] then writeError 400 (Text ''kind query parameter is required'')
         else if apiGroup = []
         then (case listByKindTyped names ns kind of
             Inr xs \<Rightarrow> writeJSON 200 xs
           | Inl e \<Rightarrow> if \<not> err_prefix ''unsupported kind'' e then writeError 500 (With_error [] e) else dynamic)
         else dynamic)"

section \<open>Properties\<close>

text \<open>The kinds a caller may choose from: namespaced, readable, and matching the query.\<close>

definition listed :: "discovery \<Rightarrow> string \<Rightarrow> resource_lists \<Rightarrow> string \<Rightarrow> string \<Rightarrow> bool" where
  "listed dc q rls kind grp \<longleftrightarrow> (\<exists>gv ress res version. (gv, ress) \<in> set rls \<and> di_parse dc gv = Inr (grp, version) \<and> res \<in> set ress \<and>
     ap_kind res = kind \<and> ap_namespaced res \<and> {''get'', ''list''} \<subseteq> set (ap_verbs res) \<and> has_prefix q (to_lower kind))"

abbreviation item_of :: "string \<Rightarrow> string \<Rightarrow> kind_item" where "item_of kind grp \<equiv> \<lparr>ki_kind = kind, ki_apiGroup = grp\<rparr>"

definition kind_key :: "kind_item \<Rightarrow> string" where "kind_key x = ki_kind x @ ''/'' @ ki_apiGroup x"

definition offered :: "string \<Rightarrow> api_resource \<Rightarrow> bool" where
  "offered q res \<longleftrightarrow> ap_namespaced res \<and> {''get'', ''list''} \<subseteq> set (ap_verbs res) \<and> has_prefix q (to_lower (ap_kind res))"

lemma add_kind_alt:
  "add_kind q grp res (kinds, seen) = (if offered q res \<and> kind_key (item_of (ap_kind res) grp) \<notin> set seen
     then (kinds @ [item_of (ap_kind res) grp], kind_key (item_of (ap_kind res) grp) # seen) else (kinds, seen))"
  by (auto simp: add_kind_def offered_def hasVerbs_def kind_key_def has_prefix_def Let_def)

text \<open>No key twice, and the keys seen are those of the items.\<close>

definition kinds_ok :: "kind_item list \<times> string list \<Rightarrow> bool" where
  "kinds_ok st \<longleftrightarrow> distinct (map kind_key (fst st)) \<and> set (snd st) = kind_key ` set (fst st)"

lemma add_kind_ok: "kinds_ok st \<Longrightarrow> kinds_ok (add_kind q grp res st)"
  by (cases st) (auto simp: kinds_ok_def add_kind_alt)

lemma fold_keeps: "P s \<Longrightarrow> (\<And>x s. P s \<Longrightarrow> P (f x s)) \<Longrightarrow> P (fold f xs s)"
  by (induction xs arbitrary: s) simp_all

lemma add_list_ok: "kinds_ok st \<Longrightarrow> kinds_ok (add_list dc q l st)"
  by (auto simp: add_list_def split: prod.split sum.split intro: fold_keeps [where P = kinds_ok] add_kind_ok)

text \<open>Kinds are identifiers: they contain no slash, so that the key tells kind and group apart.\<close>

definition plain_kinds :: "resource_lists \<Rightarrow> bool" where
  "plain_kinds rls \<longleftrightarrow> (\<forall>gv ress res. (gv, ress) \<in> set rls \<longrightarrow> res \<in> set ress \<longrightarrow> CHR ''/'' \<notin> set (ap_kind res))"

lemma kind_key_inj:
  assumes "CHR ''/'' \<notin> set k" and "CHR ''/'' \<notin> set (ki_kind x)" and "kind_key (item_of k g) = kind_key x"
  shows "x = item_of k g"
proof -
  have "namespacedName (k @ ''/'' @ g) [] = namespacedName (ki_kind x @ ''/'' @ ki_apiGroup x) []"
    using assms(3) by (simp add: kind_key_def)
  then show ?thesis unfolding namespacedName_simps(1) [OF assms(1)] namespacedName_simps(1) [OF assms(2)] by simp
qed

lemma add_kind_set:
  assumes "kinds_ok st" and "CHR ''/'' \<notin> set (ap_kind res)" and "\<And>x. x \<in> set (fst st) \<Longrightarrow> CHR ''/'' \<notin> set (ki_kind x)"
  shows "set (fst (add_kind q grp res st)) = set (fst st) \<union> (if offered q res then {item_of (ap_kind res) grp} else {})"
proof -
  obtain kinds seen where st: "st = (kinds, seen)" by (cases st)
  have "item_of (ap_kind res) grp \<in> set kinds" if "kind_key (item_of (ap_kind res) grp) \<in> set seen"
    using that assms kind_key_inj [OF assms(2)] by (auto simp: st kinds_ok_def)
  then show ?thesis by (auto simp: st add_kind_alt)
qed

definition slashless :: "kind_item list \<times> string list \<Rightarrow> bool" where
  "slashless st \<longleftrightarrow> (\<forall>x \<in> set (fst st). CHR ''/'' \<notin> set (ki_kind x))"

lemma add_kinds_set:
  assumes "kinds_ok st" and "slashless st" and "\<And>res. res \<in> set ress \<Longrightarrow> CHR ''/'' \<notin> set (ap_kind res)"
  shows "set (fst (fold (add_kind q grp) ress st)) = set (fst st) \<union> {item_of (ap_kind res) grp | res. res \<in> set ress \<and> offered q res} \<and>
    slashless (fold (add_kind q grp) ress st) \<and> kinds_ok (fold (add_kind q grp) ress st)"
  using assms
proof (induction ress arbitrary: st)
  case (Cons res ress)
  let ?st = "add_kind q grp res st"
  have step: "set (fst ?st) = set (fst st) \<union> (if offered q res then {item_of (ap_kind res) grp} else {})"
    using Cons.prems by (intro add_kind_set) (auto simp: slashless_def)
  have "slashless ?st" using Cons.prems(2,3) by (auto simp: slashless_def step)
  with Cons.IH [of ?st] Cons.prems add_kind_ok step show ?case by auto
qed auto

lemma add_lists_set:
  assumes "kinds_ok st" and "slashless st" and "plain_kinds rls"
  shows "set (fst (fold (add_list dc q) rls st)) = set (fst st) \<union> {item_of k g | k g. listed dc q rls k g}"
  using assms
proof (induction rls arbitrary: st)
  case Nil
  then show ?case by (auto simp: listed_def)
next
  case (Cons l rls)
  obtain gv ress where l: "l = (gv, ress)" by (cases l)
  have plain: "plain_kinds rls" "\<And>res. res \<in> set ress \<Longrightarrow> CHR ''/'' \<notin> set (ap_kind res)"
    using Cons.prems(3) by (auto simp: plain_kinds_def l)
  show ?case
  proof (cases "di_parse dc gv")
    case (Inl e)
    then have "listed dc q (l # rls) k g \<longleftrightarrow> listed dc q rls k g" for k g by (auto simp: listed_def l)
    moreover have "add_list dc q l st = st" using Inl by (simp add: add_list_def l)
    ultimately show ?thesis using Cons.IH [OF Cons.prems(1,2) plain(1)] by simp
  next
    case (Inr p)
    obtain grp version where p: "p = (grp, version)" by (cases p)
    let ?st = "fold (add_kind q grp) ress st"
    have fst: "set (fst ?st) = set (fst st) \<union> {item_of (ap_kind res) grp | res. res \<in> set ress \<and> offered q res}"
      and ok: "slashless ?st" "kinds_ok ?st"
      using add_kinds_set [OF Cons.prems(1,2) plain(2)] by blast+
    have "listed dc q (l # rls) k g \<longleftrightarrow> listed dc q rls k g \<or> (g = grp \<and> (\<exists>res \<in> set ress. ap_kind res = k \<and> offered q res))" for k g
      using Inr by (auto simp: listed_def l p offered_def)
    then show ?thesis using Cons.IH [OF ok(2,1) plain(1)] fst Inr by (auto simp: add_list_def l p)
  qed
qed

lemma kind_less_weak: "strict_weak kind_less"
  unfolding strict_weak_def kind_less_def by (auto split: if_splits)

lemma kind_less_total: "a \<noteq> b \<Longrightarrow> kind_less a b \<or> kind_less b a" for a b :: kind_item
  by (cases a; cases b) (auto simp: kind_less_def)

lemma sorted_kinds: "distinct xs \<Longrightarrow> sorted_wrt kind_less (sort_slice kind_less xs)"
proof -
  assume "distinct xs"
  then have "distinct (sort_slice kind_less xs)" by simp
  moreover note sorted_sort_slice [OF kind_less_weak, of xs]
  moreover have "sorted_wrt kind_less ys" if "distinct ys" "sorted_wrt (\<lambda>a b. \<not> kind_less b a) ys" for ys
    using that
  proof (induction ys)
    case (Cons a ys)
    have "kind_less a x" if "x \<in> set ys" for x
      using that Cons.prems kind_less_total [of a x] by auto
    with Cons show ?case by simp
  qed simp
  ultimately show ?thesis by blast
qed

text \<open>
  The list of kinds contains exactly the namespaced kinds that can be read and whose name starts with the query,
  every kind of every group once, in ascending order of kind and group.
\<close>

theorem kinds_listed:
  assumes "di_lists dc = Inr rls" and "plain_kinds rls"
  shows "\<exists>ks. ListKinds dc query = Json 200 ks \<and> distinct ks \<and> sorted_wrt kind_less ks \<and>
    set ks = {item_of k g | k g. listed dc (to_lower (trim_space query)) rls k g}"
proof -
  define st where "st = fold (add_list dc (to_lower (trim_space query))) rls ([], [])"
  have "kinds_ok st" unfolding st_def by (intro fold_keeps [where P = kinds_ok] add_list_ok) (simp add: kinds_ok_def)
  then have "distinct (fst st)" by (auto simp: kinds_ok_def distinct_map)
  moreover have "set (fst st) = {item_of k g | k g. listed dc (to_lower (trim_space query)) rls k g}"
    unfolding st_def using add_lists_set [OF _ _ assms(2), of "([], [])"] by (simp add: kinds_ok_def slashless_def)
  moreover have "ListKinds dc query = Json 200 (sort_slice kind_less (fst st))" using assms(1) by (simp add: ListKinds_def st_def)
  ultimately show ?thesis using sorted_kinds by simp
qed

theorem kinds_listed_witness:
  "\<exists>ks. ListKinds \<lparr>di_lists = Inr [(''apps/v1'', [\<lparr>ap_name = ''deployments'', ap_kind = ''Deployment'', ap_namespaced = True,
       ap_verbs = [''get'', ''list'', ''watch'']\<rparr>])], di_parse = (\<lambda>_. Inr (''apps'', ''v1''))\<rparr> '' dep'' = Json 200 ks \<and> item_of ''Deployment'' ''apps'' \<in> set ks"
proof -
  let ?rls = "[(''apps/v1'', [\<lparr>ap_name = ''deployments'', ap_kind = ''Deployment'', ap_namespaced = True, ap_verbs = [''get'', ''list'', ''watch'']\<rparr>])]"
  let ?dc = "\<lparr>di_lists = Inr ?rls, di_parse = (\<lambda>_. Inr (''apps'', ''v1''))\<rparr>"
  have "plain_kinds ?rls" by (auto simp: plain_kinds_def)
  moreover have "has_prefix (to_lower (trim_space '' dep'')) (to_lower ''Deployment'')" by code_simp
  then have "listed ?dc (to_lower (trim_space '' dep'')) ?rls ''Deployment'' ''apps''"
    by (auto simp: listed_def)
  ultimately show ?thesis using kinds_listed [of ?dc ?rls "'' dep''"] by auto
qed

end
