(* ===== verification/Backend_Main.thy ===== *)
theory Backend_Main
  imports Analysis_Properties Resource_Handlers Mood Ws_Hub
begin

text \<open>
  \<open>backend-api/main.go\<close>: the routes with the middleware in front of each handler, the dispatch of a request to its
  handler, and the start of the process up to the point where requests are served, with the pruner beside it. The router
  library (chi) is the parameter \<open>chi\<close>, with \<open>chi_laws\<close> as its documented behaviour; the handlers are an
  argument of the dispatch, which holds for all of them. The global middleware (request identifiers, the real address,
  recovering from a panic, logging) is not modelled: it neither refuses a request nor changes the handler.
\<close>

section \<open>Routes\<close>

datatype http_method = M_GET | M_POST | M_PUT | M_PATCH | M_DELETE

datatype segment = Lit string | Param string

datatype middleware = Use_RequireAuth | Use_RequireAdmin

datatype endpoint =
    H_healthz | H_readyz | H_ServeWS
  | H_Login | H_GetLLMModels | H_Me | H_LLMSettings_Get | H_LLMSettings_Put
  | H_Incidents_List | H_Incidents_Get | H_ManualIncident_Create | H_Analyze | H_Augment
  | H_Resolve | H_MarkFalsePositive | H_Analysis_GetEvidence
  | H_ProblemCases_List | H_ProblemCases_Get
  | H_Runs_List | H_BulkDelete | H_Runs_Get | H_Runs_Delete | H_Runs_GetEvidence | H_Runs_GetAnalysisResult
  | H_GetAnalysisResult | H_RateAnalysisResult | H_IdleMessage
  | H_ListNamespaces | H_ListResources | H_ListKinds
  | H_Rules_List | H_Rules_Create | H_Rules_SetEnabled | H_Rules_Delete
  | H_GetState | H_Poke
  | H_Users_Create | H_Users_List | H_Users_Delete | H_Settings_Get | H_Settings_Update
  | H_ReceiveEvidence | H_GetDetectorConfig

record route =
  rt_method :: http_method
  rt_pattern :: "segment list"
  rt_use :: "middleware list"
  rt_handler :: endpoint

definition handle :: "http_method \<Rightarrow> segment list \<Rightarrow> endpoint \<Rightarrow> route" where
  "handle m p h = \<lparr>rt_method = m, rt_pattern = p, rt_use = [], rt_handler = h\<rparr>"

text \<open>\<open>r.Route\<close> puts a prefix before the patterns, \<open>r.Use\<close> in a \<open>r.Group\<close> a middleware before the handlers.\<close>

definition mounted :: "segment list \<Rightarrow> route list \<Rightarrow> route list" where
  "mounted p rs = map (\<lambda>r. r\<lparr>rt_pattern := p @ rt_pattern r\<rparr>) rs"

definition grouped :: "middleware \<Rightarrow> route list \<Rightarrow> route list" where
  "grouped m rs = map (\<lambda>r. r\<lparr>rt_use := m # rt_use r\<rparr>) rs"

definition admin_routes :: "route list" where
  "admin_routes =
     [handle M_POST [Lit ''users''] H_Users_Create,
      handle M_GET [Lit ''users''] H_Users_List,
      handle M_DELETE [Lit ''users'', Param ''id''] H_Users_Delete,
      handle M_GET [Lit ''settings''] H_Settings_Get,
      handle M_PUT [Lit ''settings''] H_Settings_Update]"

definition user_routes :: "route list" where
  "user_routes =
     [handle M_GET [Lit ''auth'', Lit ''me''] H_Me,
      handle M_GET [Lit ''me'', Lit ''llm-settings''] H_LLMSettings_Get,
      handle M_PUT [Lit ''me'', Lit ''llm-settings''] H_LLMSettings_Put,
      handle M_GET [Lit ''incidents''] H_Incidents_List,
      handle M_GET [Lit ''incidents'', Param ''id''] H_Incidents_Get,
      handle M_POST [Lit ''incidents'', Lit ''manual''] H_ManualIncident_Create,
      handle M_POST [Lit ''incidents'', Param ''id'', Lit ''analyze''] H_Analyze,
      handle M_POST [Lit ''incidents'', Param ''id'', Lit ''augment''] H_Augment,
      handle M_POST [Lit ''incidents'', Param ''id'', Lit ''resolve''] H_Resolve,
      handle M_POST [Lit ''incidents'', Param ''id'', Lit ''false-positive''] H_MarkFalsePositive,
      handle M_GET [Lit ''incidents'', Param ''id'', Lit ''evidence''] H_Analysis_GetEvidence,
      handle M_GET [Lit ''problemcases''] H_ProblemCases_List,
      handle M_GET [Lit ''problemcases'', Param ''id''] H_ProblemCases_Get,
      handle M_GET [Lit ''diagnosticruns''] H_Runs_List,
      handle M_DELETE [Lit ''diagnosticruns''] H_BulkDelete,
      handle M_GET [Lit ''diagnosticruns'', Param ''id''] H_Runs_Get,
      handle M_DELETE [Lit ''diagnosticruns'', Param ''id''] H_Runs_Delete,
      handle M_GET [Lit ''diagnosticruns'', Param ''id'', Lit ''evidence''] H_Runs_GetEvidence,
      handle M_GET [Lit ''diagnosticruns'', Param ''id'', Lit ''analysisresult''] H_Runs_GetAnalysisResult,
      handle M_GET [Lit ''analysisresults'', Param ''id''] H_GetAnalysisResult,
      handle M_POST [Lit ''analysisresults'', Param ''id'', Lit ''rate''] H_RateAnalysisResult,
      handle M_GET [Lit ''persona'', Lit ''idle-message''] H_IdleMessage,
      handle M_GET [Lit ''namespaces''] H_ListNamespaces,
      handle M_GET [Lit ''namespaces'', Param ''ns'', Lit ''resources''] H_ListResources,
      handle M_GET [Lit ''namespaces'', Param ''ns'', Lit ''kinds''] H_ListKinds,
      handle M_GET [Lit ''exclusion-rules''] H_Rules_List,
      handle M_POST [Lit ''exclusion-rules''] H_Rules_Create,
      handle M_PATCH [Lit ''exclusion-rules'', Param ''name''] H_Rules_SetEnabled,
      handle M_DELETE [Lit ''exclusion-rules'', Param ''name''] H_Rules_Delete,
      handle M_GET [Lit ''kubechan'', Lit ''state''] H_GetState,
      handle M_POST [Lit ''kubechan'', Lit ''poke''] H_Poke]"

definition routes :: "route list" where
  "routes =
     [handle M_GET [Lit ''healthz''] H_healthz,
      handle M_GET [Lit ''readyz''] H_readyz,
      handle M_GET [Lit ''ws''] H_ServeWS] @
     mounted [Lit ''api'', Lit ''v1'']
       ([handle M_POST [Lit ''auth'', Lit ''login''] H_Login,
         handle M_GET [Lit ''llm-models''] H_GetLLMModels] @
        grouped Use_RequireAuth (user_routes @ grouped Use_RequireAdmin admin_routes)) @
     mounted [Lit ''internal'']
       [handle M_POST [Lit ''evidence''] H_ReceiveEvidence,
        handle M_GET [Lit ''settings''] H_GetDetectorConfig]"

section \<open>Dispatch\<close>

fun seg_matches :: "segment \<Rightarrow> string \<Rightarrow> bool" where
  "seg_matches (Lit s) x = (x = s)"
| "seg_matches (Param _) x = True"

definition path_matches :: "segment list \<Rightarrow> string list \<Rightarrow> bool" where
  "path_matches p xs = list_all2 seg_matches p xs"

definition accepts :: "route \<Rightarrow> http_method \<Rightarrow> string list \<Rightarrow> bool" where
  "accepts r m path \<longleftrightarrow> rt_method r = m \<and> path_matches (rt_pattern r) path"

datatype route_result = Routed route | Not_found | Method_not_allowed

type_synonym router = "route list \<Rightarrow> http_method \<Rightarrow> string list \<Rightarrow> route_result"

text \<open>
  What chi promises: the route it finds is registered and matches, and it finds one when one matches and no segment of the path is
  empty.
\<close>

definition chi_laws :: "router \<Rightarrow> bool" where
  "chi_laws chi \<longleftrightarrow> (\<forall>rs m path. case chi rs m path of
     Routed r \<Rightarrow> r \<in> set rs \<and> accepts r m path
   | _ \<Rightarrow> [] \<in> set path \<or> (\<forall>r\<in>set rs. \<not> accepts r m path))"

record http_request =
  hr_method :: http_method
  hr_path :: "string list"
  hr_authorization :: string

text \<open>The middleware of a route around its handler; each reads the clock when it checks the token.\<close>

fun with_middleware :: "jwt \<Rightarrow> string \<Rightarrow> (nat \<Rightarrow> time) \<Rightarrow> string \<Rightarrow> middleware list \<Rightarrow> ('s, 'b) handler \<Rightarrow> ('s, 'b) handler" where
  "with_middleware j key clock header [] h = h"
| "with_middleware j key clock header (Use_RequireAuth # ms) h =
     (\<lambda>c. RequireAuth j key (clock (length ms)) header (with_middleware j key clock header ms h))"
| "with_middleware j key clock header (Use_RequireAdmin # ms) h =
     (\<lambda>c. RequireAdmin j key (clock (length ms)) header (with_middleware j key clock header ms h))"

definition serve :: "router \<Rightarrow> jwt \<Rightarrow> string \<Rightarrow> (nat \<Rightarrow> time) \<Rightarrow> (endpoint \<Rightarrow> http_request \<Rightarrow> ('s, 'b) handler) \<Rightarrow>
    http_request \<Rightarrow> 's \<Rightarrow> 'b reply \<times> 's" where
  "serve chi j key clock handlers req s = (case chi routes (hr_method req) (hr_path req) of
     Routed r \<Rightarrow> with_middleware j key clock (hr_authorization req) (rt_use r) (handlers (rt_handler r) req) no_caller s
   | Not_found \<Rightarrow> (Error 404 (Text ''404 page not found''), s)
   | Method_not_allowed \<Rightarrow> (Error 405 (Text []), s))"

text \<open>\<open>healthz\<close> and \<open>readyz\<close>: the value of \<open>status\<close> in the reply.\<close>

definition healthz :: "string reply" where "healthz = Json 200 ''ok''"

definition readyz :: "go_error option \<Rightarrow> string reply" where
  "readyz ping = (case ping of Some e \<Rightarrow> Json 503 ''db unavailable'' | None \<Rightarrow> Json 200 ''ok'')"

definition envOr :: "string \<Rightarrow> string \<Rightarrow> string" where
  "envOr v fallback = (if v \<noteq> [] then v else fallback)"

section \<open>Which handlers need which token\<close>

definition public_endpoints :: "endpoint list" where
  "public_endpoints = [H_healthz, H_readyz, H_ServeWS, H_Login, H_GetLLMModels, H_ReceiveEvidence, H_GetDetectorConfig]"

definition admin_endpoints :: "endpoint list" where
  "admin_endpoints = [H_Users_Create, H_Users_List, H_Users_Delete, H_Settings_Get, H_Settings_Update]"

definition expected_use :: "endpoint \<Rightarrow> middleware list" where
  "expected_use h = (if h \<in> set public_endpoints then [] else if h \<in> set admin_endpoints then [Use_RequireAuth, Use_RequireAdmin]
     else [Use_RequireAuth])"

lemmas route_tables = routes_def user_routes_def admin_routes_def mounted_def grouped_def handle_def

lemma routes_use: "list_all (\<lambda>r. rt_use r = expected_use (rt_handler r)) routes"
  by (simp add: route_tables expected_use_def public_endpoints_def admin_endpoints_def)

lemma route_use: "r \<in> set routes \<Longrightarrow> rt_use r = expected_use (rt_handler r)"
  using routes_use by (simp add: list_all_iff)

text \<open>The caller a token stands for, and the claims of a token that is valid at one of the given times.\<close>

definition caller_of :: "jwt_claims \<Rightarrow> caller" where
  "caller_of c = \<lparr>ca_userID = claim_string (cl_sub c), ca_username = claim_string (cl_username c), ca_role = claim_string (cl_role c)\<rparr>"

definition token_of :: "jwt \<Rightarrow> string \<Rightarrow> time set \<Rightarrow> string \<Rightarrow> jwt_claims \<Rightarrow> bool" where
  "token_of j key ts header c \<longleftrightarrow> (\<exists>t \<in> ts. jw_parse j key t (trim_prefix ''Bearer '' header) = Inr c) \<and> claim_string (cl_sub c) \<noteq> []"

lemma RequireAuth_cases:
  "t \<in> ts \<Longrightarrow> (\<exists>msg. RequireAuth j key t header next' s = (Error 401 msg, s)) \<or>
   (\<exists>c. token_of j key ts header c \<and> RequireAuth j key t header next' s = next' (caller_of c) s)"
  by (auto simp: RequireAuth_def parseToken_def token_of_def caller_of_def Let_def split: sum.splits)

lemma RequireAdmin_cases:
  assumes "t \<in> ts"
  shows "(\<exists>msg. RequireAdmin j key t header next' s = (Error 401 msg, s) \<or> RequireAdmin j key t header next' s = (Error 403 msg, s)) \<or>
   (\<exists>c. token_of j key ts header c \<and> ca_role (caller_of c) = ''admin'' \<and> RequireAdmin j key t header next' s = next' (caller_of c) s)"
proof -
  let ?checked = "\<lambda>c s. if ca_role c \<noteq> ''admin'' then (writeError 403 (Text ''admin role required''), s) else next' c s"
  consider msg where "RequireAuth j key t header ?checked s = (Error 401 msg, s)"
    | c where "token_of j key ts header c" "RequireAuth j key t header ?checked s = ?checked (caller_of c) s"
    using RequireAuth_cases [OF assms, of j key header ?checked s] by auto
  then show ?thesis
  proof cases
    case (2 c)
    then show ?thesis
    proof (cases "ca_role (caller_of c) = ''admin''")
      case True
      with 2 have "RequireAdmin j key t header next' s = next' (caller_of c) s" by (simp add: RequireAdmin_def)
      with 2 True show ?thesis by blast
    qed (simp add: RequireAdmin_def)
  qed (auto simp: RequireAdmin_def)
qed

lemma claim_admin: "ca_role (caller_of c) = ''admin'' \<longleftrightarrow> cl_role c = Some ''admin''"
  by (auto simp: caller_of_def claim_string_def split: option.splits)

lemma with_expected_use:
  fixes h :: "('s, 'b) handler" and s :: 's
  shows "(e \<in> set public_endpoints \<and> with_middleware j key clock header (expected_use e) h no_caller s = h no_caller s) \<or>
   (\<exists>c. token_of j key (range clock) header c \<and> (e \<in> set admin_endpoints \<longrightarrow> cl_role c = Some ''admin'') \<and>
      with_middleware j key clock header (expected_use e) h no_caller s = h (caller_of c) s) \<or>
   (\<exists>status msg. status \<in> {401, 403} \<and> with_middleware j key clock header (expected_use e) h no_caller s = (Error status msg, s))"
proof (cases "e \<in> set admin_endpoints \<and> e \<notin> set public_endpoints")
  case True
  let ?inner = "RequireAdmin j key (clock 0) header h"
  from True have eq: "with_middleware j key clock header (expected_use e) h no_caller = RequireAuth j key (clock 1) header (\<lambda>_. ?inner)"
    by (simp add: expected_use_def)
  from RequireAuth_cases [OF rangeI [of clock 1], of j key header "\<lambda>_. ?inner" s] RequireAdmin_cases [OF rangeI [of clock 0], of j key header h s]
  show ?thesis unfolding eq claim_admin by (elim disjE exE conjE) auto
next
  case False
  show ?thesis
  proof (cases "e \<in> set public_endpoints")
    case e: False
    with False have "with_middleware j key clock header (expected_use e) h no_caller = RequireAuth j key (clock 0) header h" "e \<notin> set admin_endpoints"
      by (auto simp: expected_use_def)
    with RequireAuth_cases [OF rangeI [of clock 0], of j key header h s] show ?thesis by auto
  qed (simp add: expected_use_def)
qed

text \<open>
  C7. Whatever the handlers do: a request reaches a handler other than the public ones (health, login, the model list, the web
  socket with its own check, and the two internal ones) only with a valid token and then acts as the user of the token, and the users and settings handlers only
  when the token is an administrator's. Every other request is answered 401, 403, 404 or 405 and changes nothing.
\<close>

theorem requests_are_guarded:
  assumes "chi_laws chi" and "serve chi j key clock handlers req s = (r, s')"
  shows "(\<exists>rt\<in>set routes. accepts rt (hr_method req) (hr_path req) \<and>
      (rt_handler rt \<in> set public_endpoints \<and> (r, s') = handlers (rt_handler rt) req no_caller s \<or>
       (\<exists>c. token_of j key (range clock) (hr_authorization req) c \<and> (rt_handler rt \<in> set admin_endpoints \<longrightarrow> cl_role c = Some ''admin'') \<and>
          (r, s') = handlers (rt_handler rt) req (caller_of c) s))) \<or>
    (s' = s \<and> (\<exists>status msg. status \<in> {401, 403, 404, 405} \<and> r = Error status msg))"
proof (cases "chi routes (hr_method req) (hr_path req)")
  case (Routed rt)
  with assms(1) [unfolded chi_laws_def, rule_format, of routes "hr_method req" "hr_path req"]
  have rt: "rt \<in> set routes" "accepts rt (hr_method req) (hr_path req)" by simp_all
  with Routed assms(2) have "(r, s') = with_middleware j key clock (hr_authorization req) (expected_use (rt_handler rt)) (handlers (rt_handler rt) req) no_caller s"
    by (simp add: serve_def route_use)
  with rt with_expected_use [of "rt_handler rt" j key clock "hr_authorization req" "handlers (rt_handler rt) req" s]
  show ?thesis by (elim disjE exE conjE) auto
qed (use assms(2) in \<open>auto simp: serve_def\<close>)

text \<open>A router that tries the routes in turn.\<close>

definition first_route :: router where
  "first_route rs m path = (case find (\<lambda>r. accepts r m path) rs of
     Some r \<Rightarrow> Routed r
   | None \<Rightarrow> if list_ex (\<lambda>r. path_matches (rt_pattern r) path) rs then Method_not_allowed else Not_found)"

lemma first_route_laws: "chi_laws first_route"
  by (auto simp: chi_laws_def first_route_def find_Some_iff find_None_iff split: option.splits)

definition sample_handlers :: "endpoint \<Rightarrow> http_request \<Rightarrow> (nat, string) handler" where
  "sample_handlers h req c n = (Json 200 (ca_username c), n + 1)"

definition users_request :: http_request where
  "users_request = \<lparr>hr_method = M_GET, hr_path = [''api'', ''v1'', ''users''], hr_authorization = []\<rparr>"

lemma first_route_users: "first_route routes (hr_method users_request) (hr_path users_request) = Routed
   \<lparr>rt_method = M_GET, rt_pattern = [Lit ''api'', Lit ''v1'', Lit ''users''], rt_use = [Use_RequireAuth, Use_RequireAdmin], rt_handler = H_Users_List\<rparr>"
  by (simp add: first_route_def users_request_def route_tables accepts_def path_matches_def)

theorem requests_are_guarded_witness:
  "\<exists>r s'. serve first_route sample_jwt ''k'' (\<lambda>_. 0) sample_handlers users_request 0 = (r, s') \<and>
     s' = 0 \<and> (\<exists>status msg. status \<in> {401, 403, 404, 405} \<and> r = Error status msg)"
proof -
  obtain r s' where e: "serve first_route sample_jwt ''k'' (\<lambda>_. 0) sample_handlers users_request 0 = (r, s')"
    by (metis surj_pair)
  have "s' = 0" using e unfolding serve_def first_route_users by (simp add: users_request_def RequireAuth_def trim_prefix_def)
  with requests_are_guarded [OF first_route_laws e] e show ?thesis
    by (auto simp: sample_handlers_def)
qed

section \<open>The routes do not overlap\<close>

fun seg_overlap :: "segment \<Rightarrow> segment \<Rightarrow> bool" where
  "seg_overlap (Lit s) (Lit t) = (s = t)"
| "seg_overlap _ _ = True"

definition overlap :: "route \<Rightarrow> route \<Rightarrow> bool" where
  "overlap r q \<longleftrightarrow> rt_method r = rt_method q \<and> list_all2 seg_overlap (rt_pattern r) (rt_pattern q)"

fun disjoint_routes :: "route list \<Rightarrow> bool" where
  "disjoint_routes [] = True"
| "disjoint_routes (r # rs) = (list_all (\<lambda>q. \<not> overlap r q) rs \<and> disjoint_routes rs)"

lemma seg_overlapI: "seg_matches p x \<Longrightarrow> seg_matches q x \<Longrightarrow> seg_overlap p q"
  by (cases p; cases q) auto

lemma overlapI: "accepts r m path \<Longrightarrow> accepts q m path \<Longrightarrow> overlap r q"
  unfolding accepts_def overlap_def path_matches_def by (auto simp: list_all2_conv_all_nth) (blast intro: seg_overlapI)

lemma disjoint_unique:
  "disjoint_routes rs \<Longrightarrow> r \<in> set rs \<Longrightarrow> q \<in> set rs \<Longrightarrow> accepts r m path \<Longrightarrow> accepts q m path \<Longrightarrow> r = q"
proof (induction rs)
  case (Cons a rs)
  have "overlap r q" "overlap q r" using Cons.prems overlapI by blast+
  with Cons show ?case by (auto simp: list_all_iff)
qed simp

lemma routes_disjoint: "disjoint_routes routes"
  by code_simp

text \<open>
  No request matches two routes, so the handler it gets does not depend on how the router orders them: a request that
  matches a route is served by this route's middleware and handler. In particular an incident that is called
  \<open>manual\<close> can be read, although \<open>incidents/manual\<close> is a route of its own.
\<close>

theorem matching_route_serves:
  assumes "chi_laws chi" and "rt \<in> set routes" and "accepts rt (hr_method req) (hr_path req)" and "[] \<notin> set (hr_path req)"
  shows "serve chi j key clock handlers req s =
    with_middleware j key clock (hr_authorization req) (rt_use rt) (handlers (rt_handler rt) req) no_caller s"
proof -
  note law = assms(1) [unfolded chi_laws_def, rule_format, of routes "hr_method req" "hr_path req"]
  obtain q where q: "chi routes (hr_method req) (hr_path req) = Routed q"
    using law assms(2-4) by (auto split: route_result.splits)
  with law have "q \<in> set routes" "accepts q (hr_method req) (hr_path req)" by simp_all
  with disjoint_unique [OF routes_disjoint] assms(2,3) have "q = rt" by blast
  with q show ?thesis by (simp add: serve_def)
qed

definition manual_request :: http_request where
  "manual_request = \<lparr>hr_method = M_GET, hr_path = [''api'', ''v1'', ''incidents'', ''manual''], hr_authorization = ''x''\<rparr>"

theorem matching_route_serves_witness:
  "serve first_route sample_jwt ''k'' (\<lambda>_. 0) sample_handlers manual_request 0 =
   RequireAuth sample_jwt ''k'' 0 ''x'' (sample_handlers H_Incidents_Get manual_request) 0"
proof -
  let ?rt = "\<lparr>rt_method = M_GET, rt_pattern = [Lit ''api'', Lit ''v1'', Lit ''incidents'', Param ''id''], rt_use = [Use_RequireAuth], rt_handler = H_Incidents_Get\<rparr>"
  have "?rt \<in> set routes" by (simp add: route_tables)
  moreover have "accepts ?rt (hr_method manual_request) (hr_path manual_request)" "[] \<notin> set (hr_path manual_request)"
    by (simp_all add: manual_request_def accepts_def path_matches_def)
  ultimately show ?thesis
    using matching_route_serves [OF first_route_laws, of ?rt manual_request sample_jwt "''k''" "\<lambda>_. 0" sample_handlers 0]
    by (simp add: manual_request_def)
qed

section \<open>The web socket\<close>

text \<open>\<open>validateWSToken\<close> parses with the same key and options as \<open>parseToken\<close> and looks at no claim.\<close>

definition validateWSToken :: "jwt \<Rightarrow> string \<Rightarrow> time \<Rightarrow> string \<Rightarrow> go_error option" where
  "validateWSToken j key now raw = (case jw_parse j key now raw of Inl e \<Rightarrow> Some e | Inr c \<Rightarrow> None)"

lemma api_token_opens_web_socket:
  assumes "fst (RequireAuth j key now (''Bearer '' @ token) (\<lambda>c s. (Json 200 c, s)) s) = Json 200 c" and "token \<noteq> []"
  shows "ServeWSWithAuth upgraded (\<lambda>tok. validateWSToken j key now tok = None) token h = Some (ServeWS upgraded h)"
  using assms unfolding RequireAuth_def trim_prefix_app Let_def
  by (auto simp: ServeWSWithAuth_def validateWSToken_def parseToken_def split: sum.splits if_splits)

section \<open>The informers\<close>

text \<open>
  \<open>Watcher.Start\<close>: the kinds whose handler is registered, and the error. \<open>get\<close> and \<open>add\<close> are the errors of \<open>GetInformer\<close> and
  \<open>AddEventHandler\<close>.
\<close>

definition watch :: "(string \<Rightarrow> go_error option) \<Rightarrow> (string \<Rightarrow> go_error option) \<Rightarrow> string \<Rightarrow> go_error option" where
  "watch get add kind = (case get kind of Some e \<Rightarrow> Some e | None \<Rightarrow> add kind)"

fun watch_all :: "(string \<Rightarrow> go_error option) \<Rightarrow> (string \<Rightarrow> go_error option) \<Rightarrow> string list \<Rightarrow> go_error option \<times> string list" where
  "watch_all get add [] = (None, [])"
| "watch_all get add (k # ks) = (case watch get add k of Some e \<Rightarrow> (Some e, [])
     | None \<Rightarrow> (case watch_all get add ks of (r, watched) \<Rightarrow> (r, k # watched)))"

definition Watcher_Start :: "(string \<Rightarrow> go_error option) \<Rightarrow> (string \<Rightarrow> go_error option) \<Rightarrow> go_error option \<times> string list" where
  "Watcher_Start get add = watch_all get add [''ProblemCase'', ''Incident'', ''DiagnosticRun'']"

text \<open>An error leaves the kinds before it watched and the others not; nothing registers them later.\<close>

lemma watch_all_outcome:
  "watch_all get add ks = (r, watched) \<Longrightarrow>
   (\<exists>rest. ks = watched @ rest \<and> (\<forall>k \<in> set watched. watch get add k = None) \<and>
     (case r of None \<Rightarrow> rest = [] | Some e \<Rightarrow> rest \<noteq> [] \<and> watch get add (hd rest) = Some e))"
  by (induction ks arbitrary: r watched) (auto split: option.splits prod.splits)

section \<open>Operations that do not touch the users\<close>

lemma users_statements:
  "db_users (snd (insert_request fk q d)) = db_users d" "db_users (snd (insert_result r d)) = db_users d"
  "db_users (snd (insert_evidence e d)) = db_users d" "db_users (snd (insert_owner fk ow d)) = db_users d"
  "db_users (snd (upsert_llm fk row d)) = db_users d" "db_users (snd (update_rating i rating d)) = db_users d"
  "db_users (snd (update_requests p f d)) = db_users d" "db_users (snd (update_setting k v d)) = db_users d"
  by (simp_all add: insert_request_def insert_result_def insert_evidence_def insert_owner_def upsert_llm_def update_rating_def
    update_requests_def update_setting_def)

lemma users_exec: "(\<And>d. db_users (snd (f d)) = db_users d) \<Longrightarrow> db_users (snd (db_exec flt l f d)) = db_users d"
  by (simp add: db_exec_def split: option.split)

lemma users_exec_eq: "db_exec flt l f d = (r, d') \<Longrightarrow> (\<And>d. db_users (snd (f d)) = db_users d) \<Longrightarrow> db_users d' = db_users d"
  using users_exec [of f flt l d] by simp

lemmas users_execs = users_statements [THEN users_exec_eq [rotated]]

lemma users_start_run:
  "start_run b flt fk c ns name pcRef source what reqID now t (d, w) = (r, d', w') \<Longrightarrow> db_users d' = db_users d"
  by (auto simp: start_run_def split: prod.splits sum.splits dest: users_execs(1))

lemma users_write_settings: "db_users (snd (write_settings marshal flt b ks d)) = db_users d"
proof (induction ks arbitrary: d)
  case (Cons k ks)
  show ?case
  proof (cases "marshal (any_idx b k)")
    case (Inr encoded)
    obtain r d' where e: "db_exec flt ''update setting'' (update_setting k encoded) d = (r, d')" by fastforce
    then have "db_users d' = db_users d" by (rule users_execs(8))
    with Inr e Cons.IH show ?thesis by (cases r) simp_all
  qed simp
qed simp

lemma users_deleted: "(\<And>d. db_users (f d) = db_users d) \<Longrightarrow> db_users (deleted flt l f d) = db_users d"
  by (simp add: deleted_def split: option.split)

lemma users_prune: "db_users (prune flt t1 t2 t3 d) = db_users d"
  by (simp add: prune_def Let_def users_deleted)

lemma users_exec_case:
  assumes "\<And>d. db_users (snd (f d)) = db_users d"
  shows "db_users (snd (case db_exec flt l f d of (Inl e, d') \<Rightarrow> (g e, d') | (Inr n, d') \<Rightarrow> (k n, d'))) = db_users d"
  using users_exec [OF assms, of flt l d] by (auto split: prod.split sum.split)

lemma users_llm: "db_users (snd (LLM_Put ord flt fk c lbody d)) = db_users d"
  by (cases lbody) (simp_all add: LLM_Put_def Let_def users_exec_case users_statements)

lemma users_rating: "db_users (snd (RateAnalysisResult flt i rbody d)) = db_users d"
proof (cases rbody)
  case (Inr rating)
  obtain x d' where e: "db_exec flt ''rate result'' (update_rating i rating) d = (x, d')" by fastforce
  then have "db_users d' = db_users d" by (rule users_execs(6))
  with Inr e show ?thesis by (simp add: RateAnalysisResult_def split: sum.split option.split)
qed (simp add: RateAnalysisResult_def)

lemma users_settings: "db_users (snd (Settings_Update ord marshal p flt sbody d)) = db_users d"
  by (simp add: Settings_Update_def users_write_settings split: sum.split option.split)

lemmas users_requests = users_settings users_llm users_rating users_prune

lemma users_deletions:
  "db_users (snd (Runs_Delete flt i d)) = db_users d" "db_users (snd (BulkDelete flt dbody d)) = db_users d"
  by (auto simp: Runs_Delete_def BulkDelete_def transaction_def without_runs_def split: sum.split option.split
    dest!: delete_runs_result deleteRun_result)

lemma users_recovery: "db_users (snd (RecoverPendingRequests flt clock d)) = db_users d"
proof -
  have "db_users (fold (\<lambda>i d. snd (db_exec flt (''recover '' @ i) (update_requests (p i) (f i)) d)) ids d) = db_users d" for p f ids
    by (induction ids arbitrary: d) (simp_all add: users_exec users_statements)
  then show ?thesis by (simp add: RecoverPendingRequests_def db_query_def split: option.split)
qed

lemma users_cluster_requests:
  "Analyze b ns flt fk c reqID t1 t2 i (d, w) = (ar, d', w') \<Longrightarrow> db_users d' = db_users d"
  "Augment b ns flt fk c reqID t1 t2 i abody (d, w) = (ar, d', w') \<Longrightarrow> db_users d' = db_users d"
  "ManualIncident_Create b ns flt fk c reqID t1 t2 mbody (d, w) = (mr, d', w') \<Longrightarrow> db_users d' = db_users d"
  by (auto simp: Analyze_def Augment_def ManualIncident_Create_def accepted_def Let_def
    split: prod.splits sum.splits option.splits if_splits dest!: users_start_run users_execs(4))

lemma users_patchAnalysisState:
  "patchAnalysisState h flt run state ref t (d, w) = (msgs, d', w') \<Longrightarrow> db_users d' = db_users d"
  by (auto simp: patchAnalysisState_def Let_def users_exec users_statements)

lemma users_analysis:
  "ReceiveEvidence h js flt i now body (d, w) = (r, msgs, go, d', w') \<Longrightarrow> db_users d' = db_users d"
  "dispatchAnalysis h js gateway flt aid now eid req (d, w) = (msgs', d', w') \<Longrightarrow> db_users d' = db_users d"
  by (auto simp: ReceiveEvidence_def mark_in_progress_def dispatchAnalysis_def Let_def users_exec users_statements
    split: prod.splits sum.splits option.splits gateway_reply.splits if_splits
    dest!: users_execs(2,3) users_patchAnalysisState)

lemma admins_EnsureAdminUser:
  "EnsureAdminUser b c rand ns uuid t flt (d, w) = (r, d', w') \<Longrightarrow> set (admins d) \<subseteq> set (admins d')"
  by (auto simp: EnsureAdminUser_def split: prod.splits sum.splits if_splits dest!: admins_exec_insert)

lemma step_keeps_admin: "backend_step h s s' \<Longrightarrow> schema_ok (fst s) \<Longrightarrow> admins (fst s) \<noteq> [] \<Longrightarrow> admins (fst s') \<noteq> []"
proof (induction rule: backend_step.induct)
  case bs_bootstrap
  then show ?case using admins_EnsureAdminUser by fastforce
next
  case (bs_create_user d w b uuid t flt ubody)
  then show ?case using admins_create [of d b uuid t flt ubody] by fastforce
next
  case bs_delete_user
  then show ?case by (simp add: admin_left)
qed (auto simp: admins_def users_requests users_deletions users_recovery dest!: users_cluster_requests users_analysis)

section \<open>The start of the process\<close>

text \<open>
  What the main function reads and calls: the environment, the outcomes of the constructors of the Kubernetes clients, the
  scripts of the migrations and what they do to the tables, the faults of the database and the clock.
\<close>

record 'w start_env =
  se_dbPath :: string
  se_flt :: db_faults
  se_entries :: "go_error + (string \<times> bool) list"
  se_readFile :: "string \<Rightarrow> go_error + string"
  se_exec :: "string \<Rightarrow> database \<Rightarrow> go_error option \<times> database"
  se_recoverClock :: "string \<Rightarrow> time"
  se_jwtSecret :: string
  se_newClient :: "go_error option"
  se_getConfig :: "go_error option"
  se_newCache :: "go_error option"
  se_defaultNamespace :: string
  se_bcrypt :: bcrypt
  se_secrets :: "('w, secret_obj) kind_client"
  se_rand :: "nat \<Rightarrow> go_error + nat list"
  se_uuid :: string
  se_now :: time
  se_client :: "'w client"

definition Open :: "'w start_env \<Rightarrow> database migration_state \<Rightarrow> go_error option \<times> database migration_state" where
  "Open env st = (case se_flt env ''open'' of
     Some e \<Rightarrow> (Some (Wrapf (''opening sqlite db at '' @ envOr (se_dbPath env) ''/data/kubechan.db'') e), st)
   | None \<Rightarrow> (case se_flt env ''pragmas'' of
       Some e \<Rightarrow> (Some (Wrapf ''setting pragmas'' e), st)
     | None \<Rightarrow> (case runMigrations (se_flt env) (se_entries env) (se_readFile env) (se_exec env) st of
           (Some e, st') \<Rightarrow> (Some (Wrapf ''running migrations'' e), st')
         | (None, st') \<Rightarrow> (None, st'))))"

text \<open>
  The main thread by the call it is about to make. \<open>Exited\<close> carries the message and the error that are logged before
  \<open>os.Exit(1)\<close>.
\<close>

datatype phase = Opening | Recovering | Validating | Connecting | Bootstrapping | Serving | Exited string go_error

type_synonym 'w process = "phase \<times> database migration_state \<times> 'w"

definition connect :: "'w start_env \<Rightarrow> phase" where
  "connect env = (case se_newClient env of Some e \<Rightarrow> Exited ''creating k8s client'' e
   | None \<Rightarrow> (case se_getConfig env of Some e \<Rightarrow> Exited ''getting kubeconfig'' e
     | None \<Rightarrow> (case se_newCache env of Some e \<Rightarrow> Exited ''creating informer cache'' e | None \<Rightarrow> Bootstrapping)))"

definition main_next :: "'w start_env \<Rightarrow> 'w process \<Rightarrow> 'w process" where
  "main_next env = (\<lambda>(p, st, w). case p of
     Opening \<Rightarrow> (case Open env st of (Some e, st') \<Rightarrow> (Exited ''opening database'' e, st', w) | (None, st') \<Rightarrow> (Recovering, st', w))
   | Recovering \<Rightarrow> (case RecoverPendingRequests (se_flt env) (se_recoverClock env) (mg_data st) of
         (Some e, d) \<Rightarrow> (Exited ''startup recovery failed'' e, st\<lparr>mg_data := d\<rparr>, w)
       | (None, d) \<Rightarrow> (Validating, st\<lparr>mg_data := d\<rparr>, w))
   | Validating \<Rightarrow> (case ValidateJWTSecret (se_jwtSecret env) of
         Some e \<Rightarrow> (Exited ''JWT secret validation failed'' e, st, w) | None \<Rightarrow> (Connecting, st, w))
   | Connecting \<Rightarrow> (connect env, st, w)
   | Bootstrapping \<Rightarrow>
       (let ns = envOr (se_defaultNamespace env) ''kubechan''
        in case EnsureAdminUser (se_bcrypt env) (se_secrets env) (se_rand env) ns (se_uuid env) (se_now env) (se_flt env) (mg_data st, w) of
             (Some e, d, w') \<Rightarrow> (Exited ''admin bootstrap failed'' e, st\<lparr>mg_data := d\<rparr>, w')
           | (None, d, w') \<Rightarrow> (Serving, st\<lparr>mg_data := d\<rparr>,
               snd (EnsureState \<lparr>ms_client = se_client env, ms_hub = True, ms_namespace = ns\<rparr> w')))
   | Serving \<Rightarrow> (Serving, st, w)
   | Exited msg e \<Rightarrow> (Exited msg e, st, w))"

text \<open>
  The process: the main thread, the pruner that runs beside it once the secret is validated, and, once the routes are served, the
  requests and the analyses they start.
\<close>

inductive backend_process :: "'w start_env \<Rightarrow> 'w internal \<Rightarrow> 'w process \<Rightarrow> bool" for env h where
  bp_init: "schema_ok (mg_data st) \<Longrightarrow> backend_process env h (Opening, st, w)"
| bp_main: "backend_process env h s \<Longrightarrow> backend_process env h (main_next env s)"
| bp_prune: "backend_process env h (p, st, w) \<Longrightarrow> p \<in> {Connecting, Bootstrapping, Serving} \<Longrightarrow>
    backend_process env h (p, st\<lparr>mg_data := prune flt t1 t2 t3 (mg_data st)\<rparr>, w)"
| bp_serve: "backend_process env h (Serving, st, w) \<Longrightarrow> backend_step h (mg_data st, w) (d, w') \<Longrightarrow>
    backend_process env h (Serving, st\<lparr>mg_data := d\<rparr>, w')"

section \<open>What holds while the backend serves\<close>

lemma run_files_records:
  "run_files flt readFile exec fs st = (None, st') \<Longrightarrow> set (mg_applied st) \<union> set fs \<subseteq> set (mg_applied st')"
proof (induction fs arbitrary: st)
  case (Cons f fs)
  show ?case
  proof (cases "f \<in> set (mg_applied st)")
    case True
    then have "filter (\<lambda>x. x = f) (mg_applied st) \<noteq> []" by (auto simp: filter_empty_conv)
    with Cons True show ?thesis by (fastforce simp: db_query_def split: option.splits)
  next
    case False
    then have "filter (\<lambda>x. x = f) (mg_applied st) = []" by (auto simp: filter_empty_conv)
    with Cons.prems obtain s where "run_files flt readFile exec fs \<lparr>mg_applied = mg_applied st @ [f], mg_data = s\<rparr> = (None, st')"
      by (auto simp: db_query_def split: option.splits sum.splits prod.splits)
    from Cons.IH [OF this] show ?thesis by auto
  qed
qed simp

lemma run_files_keeps:
  assumes keeps: "\<And>c d. P d \<Longrightarrow> P (snd (exec c d))"
  shows "run_files flt readFile exec fs st = (r, st') \<Longrightarrow> P (mg_data st) \<Longrightarrow> P (mg_data st')"
proof (induction fs arbitrary: st)
  case (Cons f fs)
  have "P s" if "exec c (mg_data st) = (e, s)" for c e s using keeps [OF Cons.prems(2), of c] that by simp
  with Cons show ?case
    by (auto simp: db_query_def split: option.splits sum.splits prod.splits if_splits dest!: Cons.IH)
qed simp

lemma Open_keeps:
  assumes "\<And>c d. schema_ok d \<Longrightarrow> schema_ok (snd (se_exec env c d))" and "schema_ok (mg_data st)" and "Open env st = (r, st')"
  shows "schema_ok (mg_data st')"
proof -
  have "schema_ok (mg_data st')" if "run_files (se_flt env) (se_readFile env) (se_exec env) fs st = (r, st')" for fs r st'
    using run_files_keeps [of schema_ok "se_exec env", OF assms(1) that assms(2)] .
  with assms(2,3) show ?thesis
    by (auto simp: Open_def runMigrations_def split: option.splits sum.splits prod.splits)
qed

lemma Open_records:
  "Open env st = (None, st') \<Longrightarrow> \<exists>es. se_entries env = Inr es \<and> set (migration_files es) \<subseteq> set (mg_applied st')"
  by (auto simp: Open_def runMigrations_def split: option.splits sum.splits prod.splits dest: run_files_records)

definition migrated :: "'w start_env \<Rightarrow> database migration_state \<Rightarrow> bool" where
  "migrated env st \<longleftrightarrow> (\<exists>es. se_entries env = Inr es \<and> set (migration_files es) \<subseteq> set (mg_applied st))"

lemma migrated_data [simp]: "migrated env (st\<lparr>mg_data := d\<rparr>) = migrated env st"
  by (simp add: migrated_def)

text \<open>The invariant of the start: each phase knows what the calls before it have established.\<close>

fun phase_inv :: "'w start_env \<Rightarrow> 'w process \<Rightarrow> bool" where
  "phase_inv env (p, st, w) \<longleftrightarrow> schema_ok (mg_data st) \<and>
     (p \<in> {Recovering, Validating, Connecting, Bootstrapping, Serving} \<longrightarrow> migrated env st) \<and>
     (p \<in> {Connecting, Bootstrapping, Serving} \<longrightarrow> 32 \<le> length (se_jwtSecret env)) \<and>
     (p \<in> {Bootstrapping, Serving} \<longrightarrow> se_newClient env = None \<and> se_getConfig env = None \<and> se_newCache env = None) \<and>
     (p = Serving \<longrightarrow> admins (mg_data st) \<noteq> [])"

lemma connect_cases: "connect env = Bootstrapping \<and> se_newClient env = None \<and> se_getConfig env = None \<and> se_newCache env = None \<or>
   (\<exists>msg e. connect env = Exited msg e)"
  by (auto simp: connect_def split: option.splits)

lemma main_next_inv:
  assumes "\<And>c d. schema_ok d \<Longrightarrow> schema_ok (snd (se_exec env c d))" and "phase_inv env (p, st, w)"
  shows "phase_inv env (main_next env (p, st, w))"
proof (cases p)
  case Opening
  obtain r st' where e: "Open env st = (r, st')" by (metis surj_pair)
  then have "schema_ok (mg_data st')" using Open_keeps assms by (metis phase_inv.simps)
  then show ?thesis using Opening e Open_records [of env st]
    by (auto simp: main_next_def migrated_def split: option.split)
next
  case Recovering
  have "schema_ok (snd (RecoverPendingRequests (se_flt env) (se_recoverClock env) (mg_data st)))"
    using assms(2) recovery.keeps [of "mg_data st" "(se_flt env, se_recoverClock env)"] by simp
  then show ?thesis using Recovering assms(2) by (auto simp: main_next_def split: prod.split option.split)
next
  case Validating
  then show ?thesis using assms(2) by (auto simp: main_next_def ValidateJWTSecret_def)
next
  case Connecting
  then show ?thesis using assms(2) connect_cases [of env] by (auto simp: main_next_def)
next
  case Bootstrapping
  let ?ns = "envOr (se_defaultNamespace env) ''kubechan''"
  obtain r d w' where e: "EnsureAdminUser (se_bcrypt env) (se_secrets env) (se_rand env) ?ns (se_uuid env) (se_now env) (se_flt env) (mg_data st, w) = (r, d, w')"
    by (metis surj_pair)
  then have "schema_ok d" using schema_EnsureAdminUser assms(2) by (metis phase_inv.simps)
  moreover have "r = None \<Longrightarrow> admins d \<noteq> []" using e ensure_admin assms(2) by (metis phase_inv.simps)
  ultimately show ?thesis using Bootstrapping assms(2) e by (auto simp: main_next_def Let_def split: option.split)
qed (use assms(2) in \<open>auto simp: main_next_def\<close>)

lemma process_inv:
  assumes "\<And>c d. schema_ok d \<Longrightarrow> schema_ok (snd (se_exec env c d))" and "backend_process env h s"
  shows "phase_inv env s"
  using assms(2)
proof induction
  case (bp_main s)
  then show ?case using main_next_inv [OF assms(1)] by (cases s) blast
next
  case (bp_prune p st w flt t1 t2 t3)
  moreover from this have "schema_ok (prune flt t1 t2 t3 (mg_data st))"
    using pruner.keeps [of "mg_data st" "(flt, t1, t2, t3)"] by simp
  moreover have "admins (prune flt t1 t2 t3 (mg_data st)) = admins (mg_data st)" by (simp add: admins_def users_requests)
  ultimately show ?case by (auto simp del: insert_iff)
next
  case (bp_serve st w d w')
  from step_keeps_schema [OF bp_serve(2)] step_keeps_admin [OF bp_serve(2)] bp_serve(3) show ?case by auto
qed auto


definition stored_secret :: "(mem, secret_obj) kind_client" where
  "stored_secret = \<lparr>api_get = (\<lambda>ns n w. Inr \<lparr>wse_meta = empty_meta, wse_type = ''Opaque'', wse_data = [(''password'', ''pw'')]\<rparr>),
     api_list = (\<lambda>ns m w. Inr []), api_create = (\<lambda>x w. (Inr x, w)), api_patch = (\<lambda>b x w. (Inr x, w)), api_status_patch = (\<lambda>b x w. (Inr x, w))\<rparr>"

definition sample_env :: "mem start_env" where
  "sample_env = \<lparr>se_dbPath = [], se_flt = no_faults, se_entries = Inr [(''001_init.sql'', False)], se_readFile = Inr,
     se_exec = (\<lambda>c d. (None, d)), se_recoverClock = (\<lambda>_. 0), se_jwtSecret = replicate 32 (CHR ''k''), se_newClient = None,
     se_getConfig = None, se_newCache = None, se_defaultNamespace = [], se_bcrypt = sample_bcrypt, se_secrets = stored_secret,
     se_rand = (\<lambda>n. Inr []), se_uuid = ''u1'', se_now = 0, se_client = mem_client\<rparr>"

definition fresh_db :: "database migration_state" where "fresh_db = \<lparr>mg_applied = [], mg_data = empty_db\<rparr>"

lemma sample_process:
  "\<exists>d w. backend_process sample_env sample_internal (Serving, \<lparr>mg_applied = [''001_init.sql''], mg_data = d\<rparr>, w) \<and> map u_username (db_users d) = [''admin'']"
proof -
  let ?st = "\<lparr>mg_applied = [''001_init.sql''], mg_data = empty_db\<rparr>"
  let ?n = "main_next sample_env"
  have files: "migration_files [(''001_init.sql'', False)] = [''001_init.sql'']" by code_simp
  have open_next: "?n (Opening, fresh_db, empty_mem) = (Recovering, ?st, empty_mem)"
    by (simp add: main_next_def Open_def runMigrations_def sample_env_def fresh_db_def no_faults_def files db_query_def)
  have recover_next: "?n (Recovering, ?st, empty_mem) = (Validating, ?st, empty_mem)"
    by (simp add: main_next_def sample_env_def RecoverPendingRequests_def empty_db_def)
  have later: "?n (Validating, ?st, empty_mem) = (Connecting, ?st, empty_mem)" "?n (Connecting, ?st, empty_mem) = (Bootstrapping, ?st, empty_mem)"
    by (simp_all add: main_next_def sample_env_def ValidateJWTSecret_def connect_def)
  obtain w where boot: "?n (Bootstrapping, ?st, empty_mem) = (Serving, ?st\<lparr>mg_data := empty_db\<lparr>db_users :=
      [\<lparr>u_id = ''u1'', u_username = ''admin'', u_hash = ''pw'', u_role = ''admin'', u_createdAt = sqlite_datetime 0\<rparr>]\<rparr>\<rparr>, w)"
    by (simp add: main_next_def sample_env_def EnsureAdminUser_def resolveAdminPassword_def stored_secret_def sample_bcrypt_def
      insert_user_def admins_def role_check_def adminUsername_def empty_db_def Let_def)
  have "backend_process sample_env sample_internal (?n (?n (?n (?n (?n (Opening, fresh_db, empty_mem))))))"
    by (intro bp_main bp_init) (simp add: fresh_db_def schema_ok_def empty_db_def)
  then show ?thesis unfolding open_next recover_next later boot by auto
qed


end
