(* ===== verification/Spec2Isabelle.thy ===== *)
theory Spec2Isabelle
  imports Watcher_Main Evidence_Delivery Backend_Main
begin

text \<open>
  A verification library for KubeChan, an assistant that watches a Kubernetes cluster, groups what is wrong into
  incidents, collects evidence and has it analysed by a language model. Three Go services work on five custom
  resources (\<open>src/api/v1alpha1\<close>) and one SQLite database:

  \<^item> the cluster watcher (\<open>src/services/cluster-watcher\<close>) runs detectors on workloads, debounces what they
    report, records it as ProblemCases unless an exclusion rule suppresses it, and correlates the cases into
    Incidents;
  \<^item> the diagnostics worker (\<open>src/services/diagnostics-worker\<close>) takes pending DiagnosticRuns, collects evidence
    about the resource of an incident and what is related to it, builds the investigation graph and posts the result
    to the backend;
  \<^item> the backend (\<open>src/services/backend-api\<close>) serves the user interface over HTTP and WebSockets, keeps users, settings,
    evidence and analyses in the database, and asks the LLM gateway for an analysis.

  \<^bold>\<open>Shared theories.\<close> \<open>Prelude\<close>: time, 64-bit wrap-around, strings, numbers, Go maps as association lists, the order of
  range loops, \<open>sort.Slice\<close>, errors. \<open>Api_Types\<close>: the custom resources and the Kubernetes objects, field by field. \<open>Api_Client\<close>: the
  Kubernetes client as a parameter, with \<open>faithful_client\<close>, the documented behaviour the code relies on, as the hypothesis of
  the properties that need it. \<open>Mem_Client\<close>: a client in memory that satisfies it and on which the witnesses run.

  \<^bold>\<open>Cluster watcher.\<close> \<open>Debounce\<close> (\<open>debounce/debouncer.go\<close>): the timers as a heap, every critical section and expiry as a
  step; the locale \<open>debounce_contract\<close> is what the reconcilers rely on. \<open>Detectors\<close> (\<open>detector/*.go\<close>): the five
  detectors, each an interpretation of \<open>detector_contract\<close>. \<open>Watcher_Config\<close> (\<open>watcherconfig/config.go\<close>). \<open>Exclusion\<close>
  (\<open>exclusion/matcher.go\<close>). \<open>Problem_Case\<close> (\<open>problemcase/*.go\<close>). \<open>Workload_Reconcilers\<close>, \<open>Problem_Case_Reconciler\<close>,
  \<open>Correlation\<close>, \<open>Exclusion_Rule_Reconciler\<close> (\<open>controllers/*.go\<close>), with \<open>Sha256\<close> for the fingerprints of incidents. \<open>Watcher_Main\<close> (\<open>main.go\<close>): the settings from the environment and the
  reconcilers built on shared lists of detectors. Shown: at most one
  open case for a resource and a detector; what is pending after a reconciliation, and that the debouncer
  refines a map of pending calls while callbacks are prompt; thresholds are positive at every moment; a case and an open
  incident of its root are linked, which incident is reused, and that an incident is resolved exactly when no member is
  active; a rule ends only what it covers; where the two implementations of time windows agree; a case is looked at again with the
  detector that raised it; which recurrence window the environment gives, and where it wraps.

  \<^bold>\<open>Diagnostics worker.\<close> \<open>Evidence\<close> (\<open>collector/*.go\<close>): the payload and the catalog of citable sources. \<open>Graph_Engine\<close>
  and \<open>Graph_Properties\<close> (\<open>graphengine/engine.go\<close>): the passes over the evidence (locale \<open>graph_pass\<close>, one interpretation
  each) and the bounded traversal. \<open>Worker_Cluster\<close>, \<open>Discovery\<close>, \<open>Diagnostic_Run\<close>, \<open>Diagnostic_Properties\<close>
  (\<open>controllers/diagnosticrun_reconciler.go\<close>), custom resources through discovery and the dynamic client, and the post of the evidence,
  included. \<open>Evidence_Delivery\<close> (\<open>main.go\<close>, and the two ends of \<open>POST /internal/evidence\<close>): the settings of the worker, and
  worker and backend put together. Shown: the outcomes of a run; a post that succeeds has stored exactly the evidence, one that fails loses it; the data of Secrets does not reach the evidence; every
  resource is collected once; discovery and the graph respect their limits and do not depend on the order of maps; identifiers of
  sources are unique and their pointers lead to their values.

  \<^bold>\<open>Backend.\<close> \<open>Ws_Hub\<close> (\<open>ws/*.go\<close>): hub, channels and pumps as interleaved steps. \<open>Mood\<close> (\<open>k8s/moodsyncer.go\<close>,
  \<open>k8s/handlers.go\<close>). \<open>Backend_Http\<close> (\<open>handler/helpers.go\<close>): replies and callers. \<open>Database\<close>: the tables of
  \<open>db/migrations\<close> as lists of rows, the constraints of the schema (\<open>schema_ok\<close>) and the statements the handlers send.
  \<open>Auth_Users\<close>, \<open>Auth_Properties\<close> (\<open>handler/auth.go\<close>, \<open>startup/admin_bootstrap.go\<close>). \<open>Backend_Settings\<close>,
  \<open>Settings_Properties\<close> (\<open>db/db.go\<close>, \<open>db/pruner.go\<close>, \<open>handler/settings.go\<close>, \<open>llm_settings.go\<close>, \<open>llm_models.go\<close>).
  \<open>Incident_Handlers\<close>, \<open>Incident_Properties\<close> (\<open>handler/incidents.go\<close>, \<open>manual_incident.go\<close>, \<open>augment.go\<close>, \<open>analysis.go\<close>,
  \<open>problemcases.go\<close>, \<open>exclusion_rules.go\<close>, \<open>kubechan.go\<close>). \<open>Analysis_Lifecycle\<close>, \<open>Analysis_Properties\<close> (\<open>handler/internal.go\<close>,
  \<open>analysis.go\<close>, \<open>diagnosticruns.go\<close>, \<open>startup/recovery.go\<close>); every operation on the database is an interpretation of the locale
  \<open>db_operation\<close>. \<open>Resource_Handlers\<close> (\<open>handler/resources.go\<close>). \<open>Backend_Main\<close> (\<open>main.go\<close>, \<open>k8s/informer.go\<close>): the table of routes
  with the middleware of each, the dispatch of a request (\<open>serve\<close>), and the process as a step relation (\<open>backend_process\<close>): the
  main thread by the call it is about to make, the pruner beside it, and the requests once it serves. A handler takes the caller, the decoded body or the decoding
  error, and the database and the cluster, and returns the reply and the new state. Shown: no sequence of requests and
  failures breaks the schema; an analysis settles its requests; deletions are atomic; a reported incident belongs to the
  reporter, the list and the single view agree, and what others can do to it; from the creation of a user to an
  authenticated request; which requests reach which handlers, whatever these do, and that no request matches two routes; while the backend
  serves, requests one after the other, there is an administrator, the schema holds and the migrations are recorded, and how two
  concurrent deletions remove all administrators; migrations run once; thresholds set by an administrator
  reach the watcher; secrets do not leave through the settings page; the hub neither panics nor reorders.

  \<^bold>\<open>Conventions.\<close> Every reading of the clock, every fresh UUID and every environment variable is an argument. Errors are values of
  \<open>go_error\<close>; a panic is the error \<open>Panicked\<close>. The order in which Go ranges over a map is a parameter (\<open>range_order\<close>,
  restricted by \<open>permuting\<close>). Failures of SQL statements are chosen by a function from the name of the statement (\<open>db_faults\<close>); whether a
  connection enforces references is an argument too. Integers wrap at 64 bits where the code multiplies durations.

  \<^bold>\<open>Bounds.\<close> The walk along owner references has the five steps of the code as its fuel; the traversal of the graph terminates by a
  measure on the nodes that are not yet seen; discovery makes the three passes of the code. All other loops are structural
  recursions on the lists they range over.

  \<^bold>\<open>Parameters.\<close> The HTTP router (\<open>chi_laws\<close>), the Kubernetes clients (typed, status, discovery, dynamic), the JWT library and bcrypt (\<open>jwt_laws\<close>, \<open>bcrypt_laws\<close>), random
  bytes, the time zone database, HTTP exchanges (settings, evidence, gateway), JSON texts that are only stored, and \<open>json_extract\<close>
  of SQLite. Each hypothesis about one of them has an instance that a witness uses.

  \<^bold>\<open>Not modelled.\<close> Generated deep copies, scheme registration and the construction of clients; the manager of controller-runtime
  and the registration of reconcilers with it, the global middleware, time-outs and shutdown of the server, which only call
  libraries; frames, deadlines and pings of WebSockets; the text of the SQL migrations (a script is a function on the tables) and the
  locking of SQLite; the Python gateway and the TypeScript user interface; logging.
\<close>

end
